(* ===== verification/GoBase.thy ===== *)
theory GoBase
  imports Main "HOL-Library.AList" "HOL-Library.List_Lexorder" "HOL-Library.Char_ord"
    "HOL-Library.Word" "HOL-Library.Multiset"
begin

text \<open>
  Shared base of the development: how Go values are represented, and the generic
  lemmas every component uses.

  \<^item> A Go \<open>map[K]V\<close> is an association list with pairwise distinct keys
    (\<open>gomap\<close>); the list order stands for the order in which one \<open>range\<close> loop
    visits the entries, so a theorem about every list is a theorem about every iteration
    order. A nil map and an empty map read alike and are both the empty list.
    Assignment \<open>m[k] = v\<close> is \<open>AList.update\<close>, \<open>delete(m, k)\<close> is
    \<open>AList.delete\<close>, \<open>v, ok := m[k]\<close> is \<open>map_of\<close>.
  \<^item> \<open>string\<close> is a list of bytes, ordered bytewise and lexicographically, as Go
    compares strings.
  \<^item> \<open>time.Time\<close> is a count of nanoseconds since the Unix epoch, \<open>time.Duration\<close>
    a count of nanoseconds, both as \<open>int\<close>; the zero time is the first of January
    of year 1.
  \<^item> \<open>uint64\<close> counters and \<open>int64\<close> token counts are \<open>64 word\<close>, the latter read by \<open>sint\<close>; where a signed
    64-bit computation on other integers can overflow it is wrapped by \<open>wrap64\<close>.
  \<^item> A pointer to an immutable value is an \<open>option\<close>.
\<close>

named_theorems go_defs "definitions of operations, unfolded by component proofs"
named_theorems inv_simps "facts about invariants used by preservation proofs"

type_synonym time = int
type_synonym duration = int
type_synonym uint64 = "64 word"
type_synonym uint16 = "16 word"
type_synonym int64 = "64 word"
type_synonym ('k, 'v) gomap = "('k \<times> 'v) list"

section \<open>Signed 64-bit arithmetic, time and durations\<close>

definition wrap64 :: "int \<Rightarrow> int" where
  "wrap64 x = (x + 2 ^ 63) mod 2 ^ 64 - 2 ^ 63"

lemma wrap64_id: "- (2 ^ 63) \<le> x \<Longrightarrow> x < 2 ^ 63 \<Longrightarrow> wrap64 x = x"
  by (simp add: wrap64_def)

lemma wrap64_range: "- (2 ^ 63) \<le> wrap64 x \<and> wrap64 x < 2 ^ 63"
proof -
  have "0 \<le> (x + 2 ^ 63) mod 2 ^ 64" and "(x + 2 ^ 63) mod 2 ^ 64 < 2 ^ 64"
    by simp_all
  then show ?thesis by (simp add: wrap64_def)
qed

lemma wrap64_add [simp]: "wrap64 (wrap64 x + y) = wrap64 (x + y)"
proof -
  have "((x + 2 ^ 63) mod 2 ^ 64 + y) mod 2 ^ 64 = (x + 2 ^ 63 + y) mod 2 ^ 64" by (rule mod_add_left_eq)
  then show ?thesis by (simp add: wrap64_def algebra_simps)
qed

definition millisecond :: duration where
  "millisecond = 1000000"

definition second :: duration where
  "second = 1000000000"

definition zero_time :: time where
  "zero_time = - 62135596800 * 1000000000"

definition is_zero :: "time \<Rightarrow> bool" where
  "is_zero t \<longleftrightarrow> t = zero_time"

definition unix_milli :: "time \<Rightarrow> int" where
  "unix_milli t = t div 1000000"

text \<open>\<open>t.Sub(u)\<close> saturates at the largest and smallest duration.\<close>

definition time_sub :: "time \<Rightarrow> time \<Rightarrow> duration" where
  "time_sub t u = max (- (2 ^ 63)) (min (2 ^ 63 - 1) (t - u))"

section \<open>Strings\<close>

text \<open>\<open>strings.ToLower\<close> on bytes below 128; other bytes are left as they are.\<close>

definition lower_char :: "char \<Rightarrow> char" where
  "lower_char c =
     (let n = of_char c :: nat
      in if 65 \<le> n \<and> n \<le> 90 then char_of (n + 32) else c)"

definition to_lower :: "string \<Rightarrow> string" where
  "to_lower s = map lower_char s"

lemma lower_char_idem: "lower_char (lower_char c) = lower_char c"
  by (auto simp: lower_char_def Let_def)

lemma to_lower_idem [simp]: "to_lower (to_lower s) = to_lower s"
  by (simp add: to_lower_def lower_char_idem)

section \<open>Maps\<close>

abbreviation mkeys :: "('k, 'v) gomap \<Rightarrow> 'k list" where
  "mkeys m \<equiv> map fst m"

abbreviation wf_map :: "('k, 'v) gomap \<Rightarrow> bool" where
  "wf_map m \<equiv> distinct (map fst m)"

definition in_map :: "'k \<Rightarrow> ('k, 'v) gomap \<Rightarrow> bool" where
  "in_map k m \<longleftrightarrow> k \<in> set (map fst m)"

lemma singleton_of_length: "length xs = 1 \<Longrightarrow> x \<in> set xs \<Longrightarrow> xs = [x]"
  by (cases xs) auto

lemma in_map_Nil [simp]: "\<not> in_map k []"
  by (simp add: in_map_def)

lemma in_map_update [simp]: "in_map k (AList.update k' v m) \<longleftrightarrow> k = k' \<or> in_map k m"
  by (auto simp: in_map_def update_keys)

lemma in_map_delete [simp]: "in_map k (AList.delete k' m) \<longleftrightarrow> k \<noteq> k' \<and> in_map k m"
  by (auto simp: in_map_def delete_keys)

lemma map_of_update [simp]: "map_of (AList.update k v m) k' = (if k' = k then Some v else map_of m k')"
  by (simp add: update_conv')

lemma map_of_delete [simp]: "map_of (AList.delete k m) k' = (if k' = k then None else map_of m k')"
  by (simp add: delete_conv')

lemma map_of_None_iff: "map_of m k = None \<longleftrightarrow> \<not> in_map k m"
  by (simp add: in_map_def map_of_eq_None_iff image_image)

declare map_of_eq_Some_iff [simp del]

lemma in_map_iff: "in_map k m \<longleftrightarrow> map_of m k \<noteq> None"
  by (simp add: map_of_None_iff)

lemma delete_absent: "\<not> in_map k m \<Longrightarrow> AList.delete k m = m"
  by (auto simp: AList.delete_eq filter_id_conv in_map_iff map_of_eq_None_iff rev_image_eqI)

lemma map_of_Some_in_map: "map_of m k = Some v \<Longrightarrow> in_map k m"
  by (metis map_of_None_iff option.distinct(1))

lemma in_map_Some: "in_map k m \<Longrightarrow> \<exists>v. map_of m k = Some v"
  by (metis map_of_None_iff not_Some_eq)

lemma wf_map_update [simp]: "wf_map m \<Longrightarrow> wf_map (AList.update k v m)"
  by (rule distinct_update)

lemma wf_map_delete [simp]: "wf_map m \<Longrightarrow> wf_map (AList.delete k m)"
  by (rule distinct_delete)

text \<open>The number of entries, as \<open>len(m)\<close> reads it.\<close>

lemma length_update_in: "in_map k m \<Longrightarrow> length (AList.update k v m) = length m"
proof -
  assume "in_map k m"
  then have "map fst (AList.update k v m) = map fst m"
    by (simp add: update_keys in_map_def)
  then show ?thesis by (metis length_map)
qed

lemma length_update_notin: "\<not> in_map k m \<Longrightarrow> length (AList.update k v m) = Suc (length m)"
proof -
  assume "\<not> in_map k m"
  then have "map fst (AList.update k v m) = map fst m @ [k]"
    by (simp add: update_keys in_map_def)
  then have "length (map fst (AList.update k v m)) = Suc (length (map fst m))" by simp
  then show ?thesis by simp
qed

lemma length_delete_notin: "\<not> in_map k m \<Longrightarrow> length (AList.delete k m) = length m"
proof -
  assume "\<not> in_map k m"
  then have "map fst (AList.delete k m) = map fst m"
    by (simp add: delete_keys in_map_def removeAll_id)
  then show ?thesis by (metis length_map)
qed

lemma length_delete_in: "wf_map m \<Longrightarrow> in_map k m \<Longrightarrow> Suc (length (AList.delete k m)) = length m"
proof -
  assume d: "wf_map m" and i: "in_map k m"
  have "length (map fst (AList.delete k m)) = length (remove1 k (map fst m))"
    using d by (simp add: delete_keys distinct_remove1_removeAll)
  also have "Suc \<dots> = length (map fst m)"
    using i by (simp add: in_map_def length_remove1) (metis One_nat_def Suc_pred length_pos_if_in_set list.set_map length_map)
  finally show ?thesis by simp
qed

lemma length_delete_le: "length (AList.delete k m) \<le> length m"
  by (rule AList.length_delete_le)

text \<open>
  What every map-valued store promises: looking a key up after a store or a removal, and
  that both keep the keys distinct. Lemmas that hold for any such store are proved here.
\<close>

locale go_map =
  fixes get :: "'m \<Rightarrow> 'k \<Rightarrow> 'v option"
    and put :: "'k \<Rightarrow> 'v \<Rightarrow> 'm \<Rightarrow> 'm"
    and del :: "'k \<Rightarrow> 'm \<Rightarrow> 'm"
    and entries :: "'m \<Rightarrow> nat"
    and ok :: "'m \<Rightarrow> bool"
  assumes get_put: "get (put k v m) k' = (if k' = k then Some v else get m k')"
    and get_del: "get (del k m) k' = (if k' = k then None else get m k')"
    and ok_put: "ok m \<Longrightarrow> ok (put k v m)"
    and ok_del: "ok m \<Longrightarrow> ok (del k m)"
    and entries_put: "entries (put k v m) = (if get m k = None then Suc (entries m) else entries m)"
    and entries_del: "ok m \<Longrightarrow> entries (del k m) = (if get m k = None then entries m else entries m - 1)"
begin

lemma put_twice: "get (put k v (put k w m)) k' = get (put k v m) k'"
  by (simp add: get_put)

lemma del_put_absent: "get m k = None \<Longrightarrow> get (del k (put k v m)) k' = get m k'"
  by (simp add: get_put get_del)

lemma put_del_entries: "ok m \<Longrightarrow> get m k = None \<Longrightarrow> entries (del k (put k v m)) = entries m"
  by (simp add: entries_del ok_put get_put entries_put)

lemma entries_put_le: "entries (put k v m) \<le> Suc (entries m)"
  by (simp add: entries_put)

lemma entries_move:
  assumes "ok m" and "ok n" and "get m k \<noteq> None" and "0 < entries m"
  shows "entries (del k m) + entries (put k v n) \<le> entries m + entries n"
  using assms by (auto simp: entries_del entries_put)

end

interpretation am: go_map map_of AList.update AList.delete length "\<lambda>m. distinct (map fst m)"
proof unfold_locales
  fix k and m :: "('k \<times> 'v) list"
  assume "distinct (map fst m)"
  then show "length (AList.delete k m) = (if map_of m k = None then length m else length m - 1)"
    by (metis diff_Suc_1 length_delete_in length_delete_notin map_of_None_iff)
qed (auto simp: length_update_in length_update_notin map_of_None_iff)

section \<open>Stable sorting by a comparison\<close>

text \<open>
  \<open>sort.SliceStable\<close> returns the permutation that is sorted by the comparison and
  keeps the order of equivalent elements; for a strict weak order it is unique, and
  insertion from the right computes it.
\<close>

fun insert_by :: "('a \<Rightarrow> 'a \<Rightarrow> bool) \<Rightarrow> 'a \<Rightarrow> 'a list \<Rightarrow> 'a list" where
  "insert_by lt x [] = [x]"
| "insert_by lt x (y # ys) = (if lt y x then y # insert_by lt x ys else x # y # ys)"

definition sort_by :: "('a \<Rightarrow> 'a \<Rightarrow> bool) \<Rightarrow> 'a list \<Rightarrow> 'a list" where
  "sort_by lt xs = foldr (insert_by lt) xs []"

lemma mset_insert_by [simp]: "mset (insert_by lt x xs) = add_mset x (mset xs)"
  by (induction xs) auto

lemma set_insert_by [simp]: "set (insert_by lt x xs) = insert x (set xs)"
  by (induction xs) auto

lemma mset_sort_by [simp]: "mset (sort_by lt xs) = mset xs"
  by (induction xs) (auto simp: sort_by_def)

lemma set_sort_by [simp]: "set (sort_by lt xs) = set xs"
  by (metis mset_sort_by set_mset_mset)

lemma length_sort_by [simp]: "length (sort_by lt xs) = length xs"
  by (metis mset_sort_by size_mset)

definition tied :: "('a \<Rightarrow> 'a \<Rightarrow> bool) \<Rightarrow> 'a \<Rightarrow> 'a \<Rightarrow> bool" where
  "tied lt a b \<longleftrightarrow> \<not> lt a b \<and> \<not> lt b a"

locale weak_order =
  fixes lt :: "'a \<Rightarrow> 'a \<Rightarrow> bool"
  assumes irrefl: "\<not> lt a a"
    and cotrans: "lt a c \<Longrightarrow> lt a b \<or> lt b c"
    and trans: "lt a b \<Longrightarrow> lt b c \<Longrightarrow> lt a c"
begin

lemma insert_by_sorted:
  "sorted_wrt (\<lambda>a b. \<not> lt b a) xs \<Longrightarrow> sorted_wrt (\<lambda>a b. \<not> lt b a) (insert_by lt x xs)"
proof (induction xs)
  case Nil
  then show ?case by simp
next
  case (Cons y ys)
  show ?case
  proof (cases "lt y x")
    case True
    then have "\<not> lt x y" using trans irrefl by blast
    with True Cons show ?thesis by auto
  next
    case False
    with Cons.prems show ?thesis by (auto dest: cotrans)
  qed
qed

lemma sort_by_sorted: "sorted_wrt (\<lambda>a b. \<not> lt b a) (sort_by lt xs)"
  by (induction xs) (auto simp: sort_by_def intro: insert_by_sorted)

lemma insert_by_filter:
  "filter (tied lt a) (insert_by lt x xs) = (if tied lt a x then x # filter (tied lt a) xs else filter (tied lt a) xs)"
proof (induction xs)
  case Nil
  then show ?case by simp
next
  case (Cons y ys)
  show ?case
  proof (cases "lt y x")
    case True
    then have "tied lt a x \<Longrightarrow> \<not> tied lt a y" using cotrans by (auto simp: tied_def)
    with True Cons show ?thesis by auto
  next
    case False
    then show ?thesis by simp
  qed
qed

lemma sort_by_stable: "filter (tied lt a) (sort_by lt xs) = filter (tied lt a) xs"
proof (induction xs)
  case Nil
  then show ?case by (simp add: sort_by_def)
next
  case (Cons x xs)
  have "filter (tied lt a) (sort_by lt (x # xs)) = filter (tied lt a) (insert_by lt x (sort_by lt xs))"
    by (simp add: sort_by_def)
  with Cons show ?case by (simp add: insert_by_filter)
qed

end

section \<open>Pure reducers\<close>

text \<open>
  The decision cores are functions that fold one event into the next state and return
  effects. \<open>reducer\<close> is the contract a component meets when each step on an event that
  is admissible in the current state keeps an invariant; what follows for whole runs is
  proved once.
\<close>

fun fold_events :: "('s \<Rightarrow> 'e \<Rightarrow> 's) \<Rightarrow> 's \<Rightarrow> 'e list \<Rightarrow> 's" where
  "fold_events f s [] = s"
| "fold_events f s (e # es) = fold_events f (f s e) es"

fun adm_run :: "('s \<Rightarrow> 'e \<Rightarrow> 's) \<Rightarrow> ('s \<Rightarrow> 'e \<Rightarrow> bool) \<Rightarrow> 's \<Rightarrow> 'e list \<Rightarrow> bool" where
  "adm_run f adm s [] = True"
| "adm_run f adm s (e # es) = (adm s e \<and> adm_run f adm (f s e) es)"

lemma fold_events_append: "fold_events f s (xs @ ys) = fold_events f (fold_events f s xs) ys"
  by (induction xs arbitrary: s) auto

lemma adm_run_True [simp]: "adm_run f (\<lambda>_ _. True) s es"
  by (induction es arbitrary: s) auto

lemma adm_run_append:
  "adm_run f adm s (xs @ ys) \<longleftrightarrow> adm_run f adm s xs \<and> adm_run f adm (fold_events f s xs) ys"
  by (induction xs arbitrary: s) auto

locale reducer =
  fixes step :: "'s \<Rightarrow> 'e \<Rightarrow> 's"
    and adm :: "'s \<Rightarrow> 'e \<Rightarrow> bool"
    and inv :: "'s \<Rightarrow> bool"
  assumes step_inv: "inv s \<Longrightarrow> adm s e \<Longrightarrow> inv (step s e)"
begin

lemma run_inv: "inv s \<Longrightarrow> adm_run step adm s es \<Longrightarrow> inv (fold_events step s es)"
  by (induction es arbitrary: s) (auto intro: step_inv)

lemma run_prefix_inv:
  "inv s \<Longrightarrow> adm_run step adm s (xs @ ys) \<Longrightarrow> inv (fold_events step s xs)"
  by (rule run_inv) (simp_all add: adm_run_append)

end

text \<open>A relation between successive states that is kept over a run.\<close>

locale monotone_reducer =
  fixes step :: "'s \<Rightarrow> 'e \<Rightarrow> 's"
    and adm :: "'s \<Rightarrow> 'e \<Rightarrow> bool"
    and inv :: "'s \<Rightarrow> bool"
    and le :: "'s \<Rightarrow> 's \<Rightarrow> bool"
  assumes inv_step: "inv s \<Longrightarrow> adm s e \<Longrightarrow> inv (step s e)"
    and le_refl: "le s s"
    and le_trans: "le s t \<Longrightarrow> le t u \<Longrightarrow> le s u"
    and le_step: "inv s \<Longrightarrow> adm s e \<Longrightarrow> le s (step s e)"

sublocale monotone_reducer \<subseteq> reducer step adm inv
  by unfold_locales (rule inv_step)

context monotone_reducer
begin

lemma run_le: "inv s \<Longrightarrow> adm_run step adm s es \<Longrightarrow> le s (fold_events step s es)"
proof (induction es arbitrary: s)
  case Nil
  then show ?case by (simp add: le_refl)
next
  case (Cons e es)
  then have "le s (step s e)" and "le (step s e) (fold_events step (step s e) es)"
    by (auto intro: le_step inv_step)
  then show ?case by (auto intro: le_trans)
qed

end

end
