(* ===== verification/Metrics.thy ===== *)
theory Metrics
  imports GoBase
begin

text \<open>
  Token and runtime accounting (\<open>services/platform/metrics/metrics.go\<close>): an
  accumulator that turns absolute per-thread token reports into totals without counting
  a report twice. Token counts are \<open>int64\<close>, so sums and differences wrap around and
  comparisons are signed.
\<close>

section \<open>Data\<close>

record Totals =
  Input :: int64
  Output :: int64
  Total :: int64

record Usage =
  ThreadID :: string
  UInput :: int64
  UOutput :: int64
  UTotal :: int64

record Accumulator =
  lastSeen :: "(string, Usage) gomap"
  totals :: Totals

record RateLimitSnapshot =
  PrimaryUsedPercent :: int
  PrimaryResetsAt :: int
  SecondaryUsedPercent :: int
  SecondaryResetsAt :: int

definition zero_totals :: Totals where
  "zero_totals = \<lparr>Input = 0, Output = 0, Total = 0\<rparr>"

definition zero_usage :: Usage where
  "zero_usage = \<lparr>ThreadID = '''', UInput = 0, UOutput = 0, UTotal = 0\<rparr>"

definition NewAccumulator :: Accumulator where
  "NewAccumulator = \<lparr>lastSeen = [], totals = zero_totals\<rparr>"

section \<open>Operations\<close>

definition clampPos :: "int64 \<Rightarrow> int64" where
  "clampPos v = (if v <s 0 then 0 else v)"

text \<open>Reading a key that is absent from a Go map gives the zero value.\<close>

definition prev_usage :: "Accumulator \<Rightarrow> string \<Rightarrow> Usage" where
  "prev_usage a t = (case map_of (lastSeen a) t of None \<Rightarrow> zero_usage | Some u \<Rightarrow> u)"

definition Observe :: "Accumulator \<Rightarrow> Usage \<Rightarrow> Accumulator" where
  "Observe a u =
     (let prev = prev_usage a (ThreadID u)
      in \<lparr>lastSeen = AList.update (ThreadID u) u (lastSeen a),
          totals = \<lparr>Input = Input (totals a) + clampPos (UInput u - UInput prev),
                    Output = Output (totals a) + clampPos (UOutput u - UOutput prev),
                    Total = Total (totals a) + clampPos (UTotal u - UTotal prev)\<rparr>\<rparr>)"

definition AccTotals :: "Accumulator \<Rightarrow> Totals" where
  "AccTotals a = totals a"

definition AddTurn :: "duration \<Rightarrow> duration \<Rightarrow> duration" where
  "AddTurn acc d = (if 0 < d then wrap64 (acc + d) else acc)"

section \<open>Properties\<close>

text \<open>The sum of one count over the last report of every thread.\<close>

definition last_sum :: "(Usage \<Rightarrow> int64) \<Rightarrow> Accumulator \<Rightarrow> int" where
  "last_sum f a = sum_list (map (\<lambda>(t, u). sint (f u)) (lastSeen a))"

text \<open>A report is monotone when no count is below the thread's last report, or below zero for a new thread.\<close>

definition monotone_report :: "Accumulator \<Rightarrow> Usage \<Rightarrow> bool" where
  "monotone_report a u \<longleftrightarrow>
     sint (UInput (prev_usage a (ThreadID u))) \<le> sint (UInput u) \<and>
     sint (UOutput (prev_usage a (ThreadID u))) \<le> sint (UOutput u) \<and>
     sint (UTotal (prev_usage a (ThreadID u))) \<le> sint (UTotal u)"

abbreviation monotone_reports :: "Accumulator \<Rightarrow> Usage list \<Rightarrow> bool" where
  "monotone_reports \<equiv> adm_run Observe monotone_report"

text \<open>A count that agrees with the sum of the last reports, as far as 64 bits can.\<close>

definition counts :: "int64 \<Rightarrow> (Usage \<Rightarrow> int64) \<Rightarrow> Accumulator \<Rightarrow> bool" where
  "counts t f a \<longleftrightarrow> t = word_of_int (last_sum f a) \<and> (last_sum f a < 2 ^ 63 \<longrightarrow> sint t = last_sum f a)"

definition acc_exact :: "Accumulator \<Rightarrow> bool" where
  "acc_exact a \<longleftrightarrow> counts (Input (totals a)) UInput a \<and> counts (Output (totals a)) UOutput a \<and>
     counts (Total (totals a)) UTotal a"

lemma sum_update:
  fixes f :: "'v \<Rightarrow> int"
  assumes "wf_map m"
  shows "sum_list (map (\<lambda>(k, v). f v) (AList.update k v m)) =
    sum_list (map (\<lambda>(k, v). f v) m) + f v - (case map_of m k of None \<Rightarrow> 0 | Some w \<Rightarrow> f w)"
  using assms
proof (induction m)
  case Nil
  then show ?case by simp
next
  case (Cons p m)
  obtain k' w where p: "p = (k', w)" by (cases p)
  show ?case
  proof (cases "k = k'")
    case True
    with p show ?thesis by simp
  next
    case False
    with p Cons show ?thesis by (auto split: option.splits)
  qed
qed

lemma last_sum_Observe:
  assumes "wf_map (lastSeen a)" and "f zero_usage = 0"
  shows "last_sum f (Observe a u) = last_sum f a + sint (f u) - sint (f (prev_usage a (ThreadID u)))"
  using assms sum_update[of "lastSeen a" "\<lambda>u. sint (f u)" "ThreadID u" u]
  by (auto simp: last_sum_def Observe_def Let_def prev_usage_def split: option.splits)

text \<open>The difference of two counts that are not negative does not wrap around.\<close>

lemma clampPos_diff:
  assumes "0 \<le> sint p" and "sint p \<le> sint u"
  shows "clampPos (u - p) = u - p"
proof -
  have "sint u < 2 ^ 63" using sint_lt[of u] by simp
  then have "sint (u - p) = sint u - sint p"
    using assms by (simp add: sint_word_ariths signed_take_bit_int_eq_self)
  then show ?thesis using assms by (simp add: clampPos_def word_sless_alt)
qed

text \<open>What the accumulator keeps: counts are never negative, and each total is the sum modulo \<open>2 ^ 64\<close>.\<close>

definition keeps_count :: "int64 \<Rightarrow> (Usage \<Rightarrow> int64) \<Rightarrow> Accumulator \<Rightarrow> bool" where
  "keeps_count t f a \<longleftrightarrow> t = word_of_int (last_sum f a) \<and> (\<forall>th u. map_of (lastSeen a) th = Some u \<longrightarrow> 0 \<le> sint (f u))"

definition acc_inv :: "Accumulator \<Rightarrow> bool" where
  "acc_inv a \<longleftrightarrow> wf_map (lastSeen a) \<and> keeps_count (Input (totals a)) UInput a \<and>
     keeps_count (Output (totals a)) UOutput a \<and> keeps_count (Total (totals a)) UTotal a"

lemma keeps_count_Observe:
  assumes k: "keeps_count t f a" and w: "wf_map (lastSeen a)" and z: "f zero_usage = 0"
    and m: "sint (f (prev_usage a (ThreadID u))) \<le> sint (f u)"
  shows "keeps_count (t + clampPos (f u - f (prev_usage a (ThreadID u)))) f (Observe a u)"
proof -
  have p: "0 \<le> sint (f (prev_usage a (ThreadID u)))"
    using k z by (auto simp: keeps_count_def prev_usage_def split: option.split)
  have "t + (f u - f (prev_usage a (ThreadID u))) = word_of_int (last_sum f (Observe a u))"
    using k by (simp add: keeps_count_def last_sum_Observe[where f = f, OF w z])
  then show ?thesis
    using clampPos_diff[OF p m] k p m by (auto simp: keeps_count_def Observe_def Let_def)
qed

lemma Observe_inv:
  assumes "acc_inv a" and "monotone_report a u"
  shows "acc_inv (Observe a u)"
proof -
  have w: "wf_map (lastSeen a)" using assms(1) by (simp add: acc_inv_def)
  have z: "UInput zero_usage = 0" "UOutput zero_usage = 0" "UTotal zero_usage = 0"
    by (simp_all add: zero_usage_def)
  have "wf_map (lastSeen (Observe a u))" using w by (simp add: Observe_def Let_def)
  moreover have t: "totals (Observe a u) = \<lparr>Input = Input (totals a) + clampPos (UInput u - UInput (prev_usage a (ThreadID u))),
      Output = Output (totals a) + clampPos (UOutput u - UOutput (prev_usage a (ThreadID u))),
      Total = Total (totals a) + clampPos (UTotal u - UTotal (prev_usage a (ThreadID u)))\<rparr>"
    by (simp add: Observe_def Let_def)
  ultimately show ?thesis
    using assms keeps_count_Observe[where f = UInput, OF _ w z(1)] keeps_count_Observe[where f = UOutput, OF _ w z(2)]
      keeps_count_Observe[where f = UTotal, OF _ w z(3)]
    unfolding acc_inv_def monotone_report_def by simp
qed

lemma NewAccumulator_inv: "acc_inv NewAccumulator"
  by (simp add: acc_inv_def keeps_count_def NewAccumulator_def last_sum_def zero_totals_def)

text \<open>An accumulator fed with monotone reports keeps its invariant.\<close>

interpretation acc: reducer Observe monotone_report acc_inv
  by unfold_locales (rule Observe_inv)

lemma last_sum_nonneg:
  assumes "wf_map (lastSeen a)" and "keeps_count t f a"
  shows "0 \<le> last_sum f a"
proof -
  have "\<forall>p \<in> set (lastSeen a). 0 \<le> sint (f (snd p))"
    using assms by (auto simp: keeps_count_def dest: map_of_is_SomeI)
  then show ?thesis unfolding last_sum_def by (intro sum_list_nonneg) auto
qed

lemma keeps_count_counts:
  assumes "wf_map (lastSeen a)" and "keeps_count t f a"
  shows "counts t f a"
  using last_sum_nonneg[OF assms] assms(2) signed_take_bit_int_eq_self[of 63 "last_sum f a"]
  by (auto simp: counts_def keeps_count_def signed_of_int)

text \<open>C38: Token totals are exact. When every thread reports counts that start at zero or above and never decrease,
  each total after any sequence of reports is the sum over the threads of the last report of each thread,
  modulo \<open>2 ^ 64\<close>, and the very sum as long as that is below \<open>2 ^ 63\<close>: no report is counted twice and none is lost.\<close>

theorem token_totals_exact:
  assumes "monotone_reports NewAccumulator us"
  shows "acc_exact (fold_events Observe NewAccumulator us)"
proof -
  have "acc_inv (fold_events Observe NewAccumulator us)" using NewAccumulator_inv assms by (rule acc.run_inv)
  then show ?thesis by (simp add: acc_inv_def acc_exact_def keeps_count_counts)
qed

theorem token_totals_exact_witness:
  "acc_exact (fold_events Observe NewAccumulator
     [\<lparr>ThreadID = ''a'', UInput = 5, UOutput = 1, UTotal = 6\<rparr>,
      \<lparr>ThreadID = ''b'', UInput = 2, UOutput = 0, UTotal = 2\<rparr>,
      \<lparr>ThreadID = ''a'', UInput = 9, UOutput = 1, UTotal = 10\<rparr>])"
proof (rule token_totals_exact)
  show "monotone_reports NewAccumulator
     [\<lparr>ThreadID = ''a'', UInput = 5, UOutput = 1, UTotal = 6\<rparr>,
      \<lparr>ThreadID = ''b'', UInput = 2, UOutput = 0, UTotal = 2\<rparr>,
      \<lparr>ThreadID = ''a'', UInput = 9, UOutput = 1, UTotal = 10\<rparr>]"
    by (simp add: monotone_report_def prev_usage_def NewAccumulator_def zero_usage_def Observe_def Let_def)
qed

end
