(* ===== verification/WfConfig.thy ===== *)
theory WfConfig
  imports GoBase
begin

text \<open>
  The typed service configuration of the orchestrator
  (\<open>services/orchestrator/wfconfig\<close>) and the scheduler's preflight check on it
  (\<open>services/orchestrator/scheduler/preflight.go\<close>).
\<close>

record TrackerConfig =
  tc_Kind :: string
  tc_Endpoint :: string
  tc_APIKey :: string
  tc_ProjectSlugs :: "string list"
  tc_ActiveStates :: "string list"
  tc_TerminalStates :: "string list"

record PollingConfig =
  pc_IntervalMS :: int

record WorkspaceConfig =
  wc_Root :: string

record HooksConfig =
  hc_TimeoutMS :: int
  hc_AfterCreate :: string
  hc_BeforeRun :: string
  hc_AfterRun :: string
  hc_BeforeRemove :: string

record AgentConfig =
  ac_MaxConcurrentAgents :: int
  ac_MaxConcurrentAgentsByState :: "(string, int) gomap"
  ac_MaxTurns :: int
  ac_MaxRetryBackoffMS :: int

record CodexConfig =
  cc_Command :: string
  cc_TurnTimeoutMS :: int
  cc_ReadTimeoutMS :: int
  cc_StallTimeoutMS :: int
  cc_ApprovalPolicy :: string
  cc_ThreadSandbox :: string
  cc_TurnSandboxPolicy :: string

record ServerConfig =
  sc_Port :: int
  sc_Bind :: string

record Config =
  cfg_Tracker :: TrackerConfig
  cfg_Polling :: PollingConfig
  cfg_Workspace :: WorkspaceConfig
  cfg_Hooks :: HooksConfig
  cfg_Agent :: AgentConfig
  cfg_Codex :: CodexConfig
  cfg_Server :: ServerConfig

text \<open>The zero value of the Go struct, which \<open>Resolve\<close> starts from.\<close>

definition zero_config :: Config where
  "zero_config = \<lparr>
     cfg_Tracker = \<lparr>tc_Kind = '''', tc_Endpoint = '''', tc_APIKey = '''', tc_ProjectSlugs = [],
       tc_ActiveStates = [], tc_TerminalStates = []\<rparr>,
     cfg_Polling = \<lparr>pc_IntervalMS = 0\<rparr>,
     cfg_Workspace = \<lparr>wc_Root = ''''\<rparr>,
     cfg_Hooks = \<lparr>hc_TimeoutMS = 0, hc_AfterCreate = '''', hc_BeforeRun = '''', hc_AfterRun = '''',
       hc_BeforeRemove = ''''\<rparr>,
     cfg_Agent = \<lparr>ac_MaxConcurrentAgents = 0, ac_MaxConcurrentAgentsByState = [], ac_MaxTurns = 0,
       ac_MaxRetryBackoffMS = 0\<rparr>,
     cfg_Codex = \<lparr>cc_Command = '''', cc_TurnTimeoutMS = 0, cc_ReadTimeoutMS = 0,
       cc_StallTimeoutMS = 0, cc_ApprovalPolicy = '''', cc_ThreadSandbox = '''',
       cc_TurnSandboxPolicy = ''''\<rparr>,
     cfg_Server = \<lparr>sc_Port = 0, sc_Bind = ''''\<rparr>\<rparr>"

section \<open>Preflight\<close>

datatype preflight_error =
    KindRequired
  | KindUnsupported string
  | APIKeyRequired
  | ProjectSlugsRequired
  | CommandRequired

definition supportedTrackerKinds :: "string list" where
  "supportedTrackerKinds = [''linear'']"

definition Preflight :: "Config \<Rightarrow> preflight_error option" where
  "Preflight c =
     (let t = cfg_Tracker c
      in if tc_Kind t = '''' then Some KindRequired
         else if tc_Kind t \<notin> set supportedTrackerKinds then Some (KindUnsupported (tc_Kind t))
         else if tc_APIKey t = '''' then Some APIKeyRequired
         else if tc_Kind t = ''linear'' \<and> tc_ProjectSlugs t = [] then Some ProjectSlugsRequired
         else if cc_Command (cfg_Codex c) = '''' then Some CommandRequired
         else None)"

end
