(* ===== verification/SchedState.thy ===== *)
theory SchedState
  imports Metrics WfConfig
begin

text \<open>
  The runtime state of the orchestrator and its pure transitions
  (\<open>services/orchestrator/scheduler/state.go\<close>, \<open>transitions.go\<close>,
  \<open>slots.go\<close>, \<open>retry.go\<close>, \<open>util.go\<close>), with the issue model of
  \<open>services/platform/tracker/tracker.go\<close>.
\<close>

section \<open>Issues\<close>

record Blocker =
  bl_ID :: string
  bl_Identifier :: string
  bl_State :: string

record Project =
  pr_Name :: string
  pr_Content :: string

record Issue =
  iss_ID :: string
  iss_Identifier :: string
  iss_Title :: string
  iss_Description :: string
  iss_Priority :: "int option"
  iss_State :: string
  iss_BranchName :: string
  iss_URL :: string
  iss_Labels :: "string list"
  iss_BlockedBy :: "Blocker list"
  iss_Project :: Project
  iss_CreatedAt :: time
  iss_UpdatedAt :: time

section \<open>State\<close>

datatype RunPhase =
    PhasePreparingWorkspace
  | PhaseBuildingPrompt
  | PhaseLaunchingAgentProcess
  | PhaseInitializingSession
  | PhaseStreamingTurn
  | PhaseFinishing
  | PhaseSucceeded
  | PhaseFailed
  | PhaseTimedOut
  | PhaseStalled
  | PhaseCanceledByReconciliation

datatype RetryKind = RetryContinuation | RetryBackoff

datatype sched_error =
    ErrDuplicateDispatch
  | ErrStall
  | ErrNotInRefresh
  | ErrLeftActiveStates
  | errNoSlots
  | ErrExternal string

record LiveSession =
  ls_SessionID :: string
  ls_ThreadID :: string
  ls_TurnID :: string
  ls_StartedAt :: time

record RunAttempt =
  ra_Issue :: Issue
  ra_Session :: LiveSession
  ra_Attempt :: int
  ra_Phase :: RunPhase
  ra_TurnCount :: int
  ra_StartedAt :: time
  ra_LastCodexMessage :: string
  ra_LastCodexEvent :: string
  ra_LastCodexTimestamp :: time
  ra_CodexAppServerPID :: int
  ra_TotalInputTokens :: int64
  ra_TotalOutputTokens :: int64
  ra_TotalTokens :: int64
  ra_TotalRuntime :: duration
  ra_RateLimit :: "RateLimitSnapshot option"

record RetryEntry =
  re_IssueID :: string
  re_Identifier :: string
  re_Attempt :: int
  re_Kind :: RetryKind
  re_Err :: "sched_error option"
  re_DueAtMS :: int

record State =
  st_Running :: "(string, RunAttempt) gomap"
  st_Claimed :: "(string, unit) gomap"
  st_RetryAttempts :: "(string, RetryEntry) gomap"
  st_Usage :: "(string, Accumulator) gomap"
  st_Runtime :: "(string, duration) gomap"
  st_CodexTotals :: Totals
  st_CodexRuntime :: duration

definition NewState :: State where
  "NewState = \<lparr>st_Running = [], st_Claimed = [], st_RetryAttempts = [], st_Usage = [],
     st_Runtime = [], st_CodexTotals = zero_totals, st_CodexRuntime = 0\<rparr>"

section \<open>Transitions\<close>

definition withKey :: "('k, 'v) gomap \<Rightarrow> 'k \<Rightarrow> 'v \<Rightarrow> ('k, 'v) gomap" where
  "withKey m k v = AList.update k v m"

definition withoutKey :: "('k, 'v) gomap \<Rightarrow> 'k \<Rightarrow> ('k, 'v) gomap" where
  "withoutKey m k = (if in_map k m then AList.delete k m else m)"

definition claim :: "State \<Rightarrow> Issue \<Rightarrow> sched_error + State" where
  "claim s issue =
     (if in_map (iss_ID issue) (st_Claimed s) then Inl ErrDuplicateDispatch
      else if in_map (iss_ID issue) (st_Running s) then Inl ErrDuplicateDispatch
      else Inr (s\<lparr>st_RetryAttempts := withoutKey (st_RetryAttempts s) (iss_ID issue),
                  st_Claimed := withKey (st_Claimed s) (iss_ID issue) ()\<rparr>))"

definition claimFromRetry :: "State \<Rightarrow> string \<Rightarrow> sched_error + State" where
  "claimFromRetry s issueID =
     (if \<not> in_map issueID (st_RetryAttempts s) then Inl ErrDuplicateDispatch
      else if in_map issueID (st_Running s) then Inl ErrDuplicateDispatch
      else if \<not> in_map issueID (st_Claimed s) then Inl ErrDuplicateDispatch
      else Inr (s\<lparr>st_RetryAttempts := withoutKey (st_RetryAttempts s) issueID\<rparr>))"

definition markRunning :: "State \<Rightarrow> Issue \<Rightarrow> int \<Rightarrow> LiveSession \<Rightarrow> State" where
  "markRunning s issue attempt session =
     s\<lparr>st_Running := withKey (st_Running s) (iss_ID issue)
         \<lparr>ra_Issue = issue, ra_Session = session, ra_Attempt = attempt,
          ra_Phase = PhasePreparingWorkspace, ra_TurnCount = 0,
          ra_StartedAt = ls_StartedAt session,
          ra_LastCodexMessage = '''', ra_LastCodexEvent = '''',
          ra_LastCodexTimestamp = zero_time, ra_CodexAppServerPID = 0,
          ra_TotalInputTokens = 0, ra_TotalOutputTokens = 0, ra_TotalTokens = 0,
          ra_TotalRuntime = 0, ra_RateLimit = None\<rparr>\<rparr>"

definition updateIssueSnapshot :: "State \<Rightarrow> string \<Rightarrow> Issue \<Rightarrow> State" where
  "updateIssueSnapshot s issueID issue =
     (case map_of (st_Running s) issueID of
        None \<Rightarrow> s
      | Some run \<Rightarrow> s\<lparr>st_Running := withKey (st_Running s) issueID (run\<lparr>ra_Issue := issue\<rparr>)\<rparr>)"

definition workerExitNormal :: "State \<Rightarrow> string \<Rightarrow> (State \<times> RetryEntry) option" where
  "workerExitNormal s issueID =
     (case map_of (st_Running s) issueID of
        None \<Rightarrow> None
      | Some run \<Rightarrow>
          Some (s\<lparr>st_Running := withoutKey (st_Running s) issueID\<rparr>,
                \<lparr>re_IssueID = issueID, re_Identifier = iss_Identifier (ra_Issue run),
                 re_Attempt = ra_Attempt run + 1, re_Kind = RetryContinuation,
                 re_Err = None, re_DueAtMS = 0\<rparr>))"

definition workerExitAbnormal ::
    "State \<Rightarrow> string \<Rightarrow> sched_error \<Rightarrow> int \<Rightarrow> (State \<times> RetryEntry) option" where
  "workerExitAbnormal s issueID err attempt =
     (case map_of (st_Running s) issueID of
        None \<Rightarrow> None
      | Some run \<Rightarrow>
          Some (s\<lparr>st_Running := withoutKey (st_Running s) issueID\<rparr>,
                \<lparr>re_IssueID = issueID, re_Identifier = iss_Identifier (ra_Issue run),
                 re_Attempt = attempt + 1, re_Kind = RetryBackoff,
                 re_Err = Some err, re_DueAtMS = 0\<rparr>))"

definition add_totals :: "Totals \<Rightarrow> Totals \<Rightarrow> Totals" where
  "add_totals t u = \<lparr>Input = Input t + Input u, Output = Output t + Output u,
     Total = Total t + Total u\<rparr>"

definition releaseClaim :: "State \<Rightarrow> string \<Rightarrow> State" where
  "releaseClaim s issueID =
     (let s = (case map_of (st_Usage s) issueID of
                 None \<Rightarrow> s
               | Some acc \<Rightarrow> s\<lparr>st_CodexTotals := add_totals (st_CodexTotals s) (AccTotals acc),
                               st_Usage := withoutKey (st_Usage s) issueID\<rparr>);
          s = (case map_of (st_Runtime s) issueID of
                 None \<Rightarrow> s
               | Some rt \<Rightarrow> s\<lparr>st_CodexRuntime := wrap64 (st_CodexRuntime s + rt),
                              st_Runtime := withoutKey (st_Runtime s) issueID\<rparr>)
      in s\<lparr>st_Running := withoutKey (st_Running s) issueID,
           st_Claimed := withoutKey (st_Claimed s) issueID,
           st_RetryAttempts := withoutKey (st_RetryAttempts s) issueID\<rparr>)"

definition enqueueRetry :: "State \<Rightarrow> RetryEntry \<Rightarrow> State" where
  "enqueueRetry s entry =
     s\<lparr>st_RetryAttempts := withKey (st_RetryAttempts s) (re_IssueID entry) entry\<rparr>"

definition incrementTurnCount :: "State \<Rightarrow> string \<Rightarrow> State" where
  "incrementTurnCount s issueID =
     (case map_of (st_Running s) issueID of
        None \<Rightarrow> s
      | Some run \<Rightarrow>
          s\<lparr>st_Running := withKey (st_Running s) issueID
              (run\<lparr>ra_TurnCount := ra_TurnCount run + 1\<rparr>)\<rparr>)"

definition updateCodexActivity ::
    "State \<Rightarrow> string \<Rightarrow> string \<Rightarrow> string \<Rightarrow> time \<Rightarrow> State" where
  "updateCodexActivity s issueID event message ts =
     (case map_of (st_Running s) issueID of
        None \<Rightarrow> s
      | Some run \<Rightarrow>
          (let run = run\<lparr>ra_LastCodexEvent := event, ra_LastCodexTimestamp := ts\<rparr>;
               run = (if message \<noteq> '''' then run\<lparr>ra_LastCodexMessage := message\<rparr> else run)
           in s\<lparr>st_Running := withKey (st_Running s) issueID run\<rparr>))"

text \<open>The zero value of a missing accumulator is the empty accumulator.\<close>

definition recordUsage :: "State \<Rightarrow> string \<Rightarrow> Usage \<Rightarrow> State" where
  "recordUsage s issueID u =
     (case map_of (st_Running s) issueID of
        None \<Rightarrow> s
      | Some run \<Rightarrow>
          (let old = (case map_of (st_Usage s) issueID of None \<Rightarrow> NewAccumulator | Some a \<Rightarrow> a);
               acc = Observe old u;
               t = AccTotals acc
           in s\<lparr>st_Usage := withKey (st_Usage s) issueID acc,
                st_Running := withKey (st_Running s) issueID
                  (run\<lparr>ra_TotalInputTokens := Input t, ra_TotalOutputTokens := Output t,
                       ra_TotalTokens := Total t\<rparr>)\<rparr>))"

definition recordRateLimit :: "State \<Rightarrow> string \<Rightarrow> RateLimitSnapshot \<Rightarrow> State" where
  "recordRateLimit s issueID rl =
     (case map_of (st_Running s) issueID of
        None \<Rightarrow> s
      | Some run \<Rightarrow>
          s\<lparr>st_Running := withKey (st_Running s) issueID (run\<lparr>ra_RateLimit := Some rl\<rparr>)\<rparr>)"

definition addRuntime :: "State \<Rightarrow> string \<Rightarrow> duration \<Rightarrow> State" where
  "addRuntime s issueID d =
     (case map_of (st_Running s) issueID of
        None \<Rightarrow> s
      | Some run \<Rightarrow>
          if d \<le> 0 then s
          else
            (let old = (case map_of (st_Runtime s) issueID of None \<Rightarrow> 0 | Some r \<Rightarrow> r)
             in s\<lparr>st_Running := withKey (st_Running s) issueID
                    (run\<lparr>ra_TotalRuntime := wrap64 (ra_TotalRuntime run + d)\<rparr>),
                  st_Runtime := withKey (st_Runtime s) issueID (wrap64 (old + d))\<rparr>))"

section \<open>Slots, delays and orders\<close>

definition retryQueuedCount :: "State \<Rightarrow> int" where
  "retryQueuedCount s =
     int (length (filter (\<lambda>(id, e). \<not> in_map id (st_Running s)) (st_RetryAttempts s)))"

definition runningInState :: "State \<Rightarrow> string \<Rightarrow> int" where
  "runningInState s norm =
     int (length (filter (\<lambda>(id, run). to_lower (iss_State (ra_Issue run)) = norm) (st_Running s)))"

definition stateCapacity :: "Config \<Rightarrow> string \<Rightarrow> int" where
  "stateCapacity cfg norm =
     (case map_of (ac_MaxConcurrentAgentsByState (cfg_Agent cfg)) norm of
        None \<Rightarrow> ac_MaxConcurrentAgents (cfg_Agent cfg)
      | Some c \<Rightarrow> c)"

definition availablePerStateSlots :: "string \<Rightarrow> State \<Rightarrow> Config \<Rightarrow> int" where
  "availablePerStateSlots state s cfg =
     (let norm = to_lower state;
          avail = stateCapacity cfg norm - runningInState s norm
      in if avail < 0 then 0 else avail)"

definition availableGlobalSlots :: "State \<Rightarrow> Config \<Rightarrow> int" where
  "availableGlobalSlots s cfg =
     (let used = int (length (st_Running s)) + retryQueuedCount s;
          avail = ac_MaxConcurrentAgents (cfg_Agent cfg) - used
      in if avail < 0 then 0 else avail)"

definition retryReclaimHasSlot :: "State \<Rightarrow> Config \<Rightarrow> string \<Rightarrow> string \<Rightarrow> bool" where
  "retryReclaimHasSlot s cfg issueID state =
     (let globalUsed = int (length (st_Running s)) + retryQueuedCount s;
          globalUsed = (if in_map issueID (st_RetryAttempts s) then globalUsed - 1 else globalUsed)
      in if globalUsed \<ge> ac_MaxConcurrentAgents (cfg_Agent cfg) then False
         else availablePerStateSlots state s cfg > 0)"

definition continuationDelay :: duration where
  "continuationDelay = 1000 * millisecond"

text \<open>
  The delay is computed in 64-bit \<open>int\<close> arithmetic, so the shift, the two products and
  the comparison all see wrapped values.
\<close>

definition backoffDelay :: "int \<Rightarrow> Config \<Rightarrow> duration" where
  "backoffDelay attempt cfg =
     (let attempt = (if attempt < 1 then 1 else attempt);
          shift = attempt - 1;
          shift = (if shift > 62 then 62 else shift);
          ms = wrap64 (10000 * wrap64 (2 ^ nat shift));
          maxMS = ac_MaxRetryBackoffMS (cfg_Agent cfg);
          ms = (if maxMS > 0 \<and> ms > maxMS then maxMS else ms)
      in wrap64 (ms * millisecond))"

definition sortedRunningIDs :: "State \<Rightarrow> string list" where
  "sortedRunningIDs s = sort (map fst (st_Running s))"

definition sortedIDs :: "string list \<Rightarrow> string list" where
  "sortedIDs ids = sort ids"

section \<open>Observability projection\<close>

record StateSnapshot =
  ss_Running :: "(string, RunAttempt) gomap"
  ss_Claimed :: "(string, unit) gomap"
  ss_RetryAttempts :: "(string, RetryEntry) gomap"
  ss_CodexTotals :: Totals
  ss_CodexRuntime :: duration

text \<open>\<open>ss_CodexRuntime\<close> is the duration whose \<open>Seconds()\<close> the code reports.\<close>

definition Snapshot :: "State \<Rightarrow> StateSnapshot" where
  "Snapshot s =
     \<lparr>ss_Running = st_Running s, ss_Claimed = st_Claimed s, ss_RetryAttempts = st_RetryAttempts s,
      ss_CodexTotals = fold (\<lambda>(id, acc) t. add_totals t (AccTotals acc)) (st_Usage s) (st_CodexTotals s),
      ss_CodexRuntime = fold (\<lambda>(id, d) r. wrap64 (r + d)) (st_Runtime s) (st_CodexRuntime s)\<rparr>"

end
