(* ===== verification/SchedReduce.thy ===== *)
theory SchedReduce
  imports SchedState
begin

text \<open>
  The pure reducer of the scheduler: candidate selection
  (\<open>services/orchestrator/scheduler/eligibility.go\<close>), events and effects
  (\<open>event.go\<close>, \<open>effect.go\<close>) and the reducer with its handlers
  (\<open>reduce.go\<close>, \<open>reduce_dispatch.go\<close>, \<open>reduce_retry.go\<close>,
  \<open>reduce_reconcile.go\<close>).
\<close>

section \<open>Events and effects\<close>

datatype Event =
    EvTick bool
  | EvCandidatesFetched "Issue list"
  | EvTrackerRefreshed "string list" "Issue list"
  | EvRevalidated Issue int "Issue option"
  | EvRetryResolved string string int "Issue list" "sched_error option"
  | EvSpawned Issue int LiveSession
  | EvSpawnFailed Issue int sched_error
  | EvWorkerExit string "sched_error option" int
  | EvRetryDue string string int
  | EvCodexActivity string string string time "Usage option" "RateLimitSnapshot option"
      "duration option" bool

datatype Effect =
    EffFetchCandidates
  | EffRefreshTracker "string list"
  | EffRevalidate Issue int
  | EffRetryFetch string string int
  | EffSpawn Issue int
  | EffKillWorker string string
  | EffRemoveWorkspace string
  | EffArmRetryTimer string string int duration
  | EffCancelRetryTimer string

section \<open>Eligibility and candidate order\<close>

definition normSet :: "string list \<Rightarrow> (string, bool) gomap" where
  "normSet states = fold (\<lambda>s m. AList.update (to_lower s) True m) states []"

definition set_has :: "(string, bool) gomap \<Rightarrow> string \<Rightarrow> bool" where
  "set_has m k = (map_of m k = Some True)"

definition hasActiveBlocker :: "Blocker list \<Rightarrow> (string, bool) gomap \<Rightarrow> bool" where
  "hasActiveBlocker blockers terminal =
     list_ex (\<lambda>b. \<not> set_has terminal (to_lower (bl_State b))) blockers"

definition eligible :: "Issue \<Rightarrow> State \<Rightarrow> (string, bool) gomap \<Rightarrow> (string, bool) gomap \<Rightarrow> bool" where
  "eligible iss s active terminal =
     (if iss_ID iss = '''' \<or> iss_Identifier iss = '''' \<or> iss_Title iss = '''' \<or> iss_State iss = ''''
      then False
      else
        (let norm = to_lower (iss_State iss)
         in if \<not> set_has active norm \<or> set_has terminal norm then False
            else if in_map (iss_ID iss) (st_Running s) then False
            else if in_map (iss_ID iss) (st_Claimed s) then False
            else if in_map (iss_ID iss) (st_RetryAttempts s) then False
            else if to_lower (iss_State iss) = ''todo'' \<and> hasActiveBlocker (iss_BlockedBy iss) terminal
            then False
            else True))"

definition filterEligible :: "Issue list \<Rightarrow> State \<Rightarrow> Config \<Rightarrow> Issue list" where
  "filterEligible cands s cfg =
     (let active = normSet (tc_ActiveStates (cfg_Tracker cfg));
          terminal = normSet (tc_TerminalStates (cfg_Tracker cfg))
      in filter (\<lambda>iss. eligible iss s active terminal) cands)"

definition candTail :: "Issue \<Rightarrow> Issue \<Rightarrow> bool" where
  "candTail a b =
     (if iss_CreatedAt a \<noteq> iss_CreatedAt b then iss_CreatedAt a < iss_CreatedAt b
      else iss_Identifier a < iss_Identifier b)"

definition candLess :: "Issue \<Rightarrow> Issue \<Rightarrow> bool" where
  "candLess a b =
     (case (iss_Priority a, iss_Priority b) of
        (None, Some q) \<Rightarrow> False
      | (Some p, None) \<Rightarrow> True
      | (Some p, Some q) \<Rightarrow> if p \<noteq> q then p < q else candTail a b
      | (None, None) \<Rightarrow> candTail a b)"

definition sortCandidates :: "Issue list \<Rightarrow> Issue list" where
  "sortCandidates cands = sort_by candLess cands"

section \<open>Handlers\<close>

definition armRetry :: "State \<Rightarrow> RetryEntry \<Rightarrow> duration \<Rightarrow> time \<Rightarrow> State \<times> Effect list" where
  "armRetry s entry delay now =
     (let entry = entry\<lparr>re_DueAtMS := unix_milli (now + delay)\<rparr>
      in (enqueueRetry s entry,
          [EffArmRetryTimer (re_IssueID entry) (re_Identifier entry) (re_Attempt entry) delay]))"

fun dispatchLoop ::
    "Config \<Rightarrow> Issue list \<Rightarrow> State \<Rightarrow> int \<Rightarrow> (string \<Rightarrow> int) \<Rightarrow> State \<times> Effect list" where
  "dispatchLoop cfg [] s globalAvail perStateUsed = (s, [])"
| "dispatchLoop cfg (iss # rest) s globalAvail perStateUsed =
     (if globalAvail \<le> 0 then (s, [])
      else
        (let norm = to_lower (iss_State iss)
         in if perStateUsed norm \<ge> stateCapacity cfg norm
            then dispatchLoop cfg rest s globalAvail perStateUsed
            else
              (case claim s iss of
                 Inl err \<Rightarrow> dispatchLoop cfg rest s globalAvail perStateUsed
               | Inr ns \<Rightarrow>
                   (let (s', effs) = dispatchLoop cfg rest ns (globalAvail - 1)
                          (perStateUsed(norm := perStateUsed norm + 1))
                    in (s', EffRevalidate iss 0 # effs)))))"

definition perStateRunning :: "State \<Rightarrow> string \<Rightarrow> int" where
  "perStateRunning s =
     fold (\<lambda>(id, run) used.
             (let norm = to_lower (iss_State (ra_Issue run)) in used(norm := used norm + 1)))
       (st_Running s) (\<lambda>_. 0)"

definition reduceCandidates :: "State \<Rightarrow> Issue list \<Rightarrow> Config \<Rightarrow> State \<times> Effect list" where
  "reduceCandidates s cands cfg =
     dispatchLoop cfg (sortCandidates (filterEligible cands s cfg)) s
       (availableGlobalSlots s cfg) (perStateRunning s)"

definition reduceRevalidated ::
    "State \<Rightarrow> Issue \<Rightarrow> int \<Rightarrow> Issue option \<Rightarrow> Config \<Rightarrow> State \<times> Effect list" where
  "reduceRevalidated s issue attempt fresh cfg =
     (case fresh of
        None \<Rightarrow> (releaseClaim s (iss_ID issue), [])
      | Some f \<Rightarrow>
          (let active = normSet (tc_ActiveStates (cfg_Tracker cfg));
               terminal = normSet (tc_TerminalStates (cfg_Tracker cfg));
               norm = to_lower (iss_State f)
           in if \<not> set_has active norm \<or> set_has terminal norm
              then (releaseClaim s (iss_ID issue), [])
              else (s, [EffSpawn issue attempt])))"

definition findIssue :: "Issue list \<Rightarrow> string \<Rightarrow> Issue option" where
  "findIssue issues issueID = find (\<lambda>i. iss_ID i = issueID) issues"

definition retryEntry :: "string \<Rightarrow> string \<Rightarrow> int \<Rightarrow> sched_error \<Rightarrow> RetryEntry" where
  "retryEntry issueID identifier attempt cause =
     \<lparr>re_IssueID = issueID, re_Identifier = identifier, re_Attempt = attempt,
      re_Kind = RetryBackoff, re_Err = Some cause, re_DueAtMS = 0\<rparr>"

definition reduceRetryResolved ::
    "State \<Rightarrow> string \<Rightarrow> string \<Rightarrow> int \<Rightarrow> Issue list \<Rightarrow> sched_error option \<Rightarrow> Config \<Rightarrow> time \<Rightarrow>
     State \<times> Effect list" where
  "reduceRetryResolved s issueID identifier attempt issues fetchErr cfg now =
     (case fetchErr of
        Some err \<Rightarrow>
          armRetry s (retryEntry issueID identifier (attempt + 1) err)
            (backoffDelay (attempt + 1) cfg) now
      | None \<Rightarrow>
          (case findIssue issues issueID of
             None \<Rightarrow> (releaseClaim s issueID, [])
           | Some found \<Rightarrow>
               (let terminal = normSet (tc_TerminalStates (cfg_Tracker cfg));
                    active = normSet (tc_ActiveStates (cfg_Tracker cfg));
                    norm = to_lower (iss_State found)
                in if set_has terminal norm \<or> \<not> set_has active norm
                   then (releaseClaim s issueID, [])
                   else if \<not> retryReclaimHasSlot s cfg issueID (iss_State found)
                   then armRetry s (retryEntry issueID identifier (attempt + 1) errNoSlots)
                          (backoffDelay (attempt + 1) cfg) now
                   else
                     (case claimFromRetry s issueID of
                        Inl err \<Rightarrow> (s, [])
                      | Inr ns \<Rightarrow> (ns, [EffSpawn found attempt])))))"

fun stallLoop :: "Config \<Rightarrow> time \<Rightarrow> duration \<Rightarrow> string list \<Rightarrow> State \<Rightarrow> State \<times> Effect list" where
  "stallLoop cfg now threshold [] s = (s, [])"
| "stallLoop cfg now threshold (issueID # ids) s =
     (case map_of (st_Running s) issueID of
        None \<Rightarrow> stallLoop cfg now threshold ids s
      | Some run \<Rightarrow>
          (let base = ra_LastCodexTimestamp run;
               base = (if is_zero base then ra_StartedAt run else base)
           in if is_zero base \<or> time_sub now base \<le> threshold
              then stallLoop cfg now threshold ids s
              else
                (case workerExitAbnormal s issueID ErrStall (ra_Attempt run) of
                   None \<Rightarrow> stallLoop cfg now threshold ids s
                 | Some (ns, entry) \<Rightarrow>
                     (let (s1, armEffs) = armRetry ns entry (backoffDelay (re_Attempt entry) cfg) now;
                          (s2, effs) = stallLoop cfg now threshold ids s1
                      in (s2, EffKillWorker issueID ''stall'' # armEffs @ effs)))))"

definition reduceStall :: "State \<Rightarrow> Config \<Rightarrow> time \<Rightarrow> State \<times> Effect list" where
  "reduceStall s cfg now =
     (if cc_StallTimeoutMS (cfg_Codex cfg) \<le> 0 then (s, [])
      else stallLoop cfg now (wrap64 (cc_StallTimeoutMS (cfg_Codex cfg) * millisecond))
             (sortedRunningIDs s) s)"

definition reconcileKillRetry ::
    "State \<Rightarrow> string \<Rightarrow> int \<Rightarrow> sched_error \<Rightarrow> string \<Rightarrow> Config \<Rightarrow> time \<Rightarrow> State \<times> Effect list" where
  "reconcileKillRetry s issueID attempt cause reason cfg now =
     (case workerExitAbnormal s issueID cause attempt of
        None \<Rightarrow> (s, [])
      | Some (ns, entry) \<Rightarrow>
          (let (s', armEffs) = armRetry ns entry (backoffDelay (re_Attempt entry) cfg) now
           in (s', EffKillWorker issueID reason # armEffs)))"

definition reconcileOne ::
    "(string, Issue) gomap \<Rightarrow> Config \<Rightarrow> time \<Rightarrow> string \<Rightarrow> State \<Rightarrow> State \<times> Effect list" where
  "reconcileOne byID cfg now issueID s =
     (let terminal = normSet (tc_TerminalStates (cfg_Tracker cfg));
          active = normSet (tc_ActiveStates (cfg_Tracker cfg))
      in case map_of (st_Running s) issueID of
           None \<Rightarrow> (s, [])
         | Some run \<Rightarrow>
             (case map_of byID issueID of
                None \<Rightarrow>
                  reconcileKillRetry s issueID (ra_Attempt run) ErrNotInRefresh ''not-found'' cfg now
              | Some iss \<Rightarrow>
                  (let norm = to_lower (iss_State iss)
                   in if set_has terminal norm
                      then (releaseClaim s issueID,
                            [EffKillWorker issueID ''terminal'',
                             EffRemoveWorkspace (iss_Identifier (ra_Issue run))])
                      else if set_has active norm then (updateIssueSnapshot s issueID iss, [])
                      else reconcileKillRetry s issueID (ra_Attempt run) ErrLeftActiveStates
                             ''non-active'' cfg now)))"

fun reconcileLoop ::
    "(string, Issue) gomap \<Rightarrow> Config \<Rightarrow> time \<Rightarrow> string list \<Rightarrow> State \<Rightarrow> State \<times> Effect list" where
  "reconcileLoop byID cfg now [] s = (s, [])"
| "reconcileLoop byID cfg now (issueID # ids) s =
     (let (s1, effs1) = reconcileOne byID cfg now issueID s;
          (s2, effs2) = reconcileLoop byID cfg now ids s1
      in (s2, effs1 @ effs2))"

definition byID_of :: "Issue list \<Rightarrow> (string, Issue) gomap" where
  "byID_of issues = fold (\<lambda>iss m. AList.update (iss_ID iss) iss m) issues []"

definition reduceTrackerRefreshed ::
    "State \<Rightarrow> string list \<Rightarrow> Issue list \<Rightarrow> Config \<Rightarrow> time \<Rightarrow> State \<times> Effect list" where
  "reduceTrackerRefreshed s requestedIDs issues cfg now =
     reconcileLoop (byID_of issues) cfg now (sortedIDs requestedIDs) s"

definition reduceTick :: "State \<Rightarrow> bool \<Rightarrow> Config \<Rightarrow> time \<Rightarrow> State \<times> Effect list" where
  "reduceTick s configValid cfg now =
     (let (s, effs) = reduceStall s cfg now
      in (s, effs @ (if 0 < length (st_Running s) then [EffRefreshTracker (sortedRunningIDs s)] else [])
                  @ (if configValid then [EffFetchCandidates] else [])))"

definition reduceWorkerExit ::
    "State \<Rightarrow> string \<Rightarrow> sched_error option \<Rightarrow> int \<Rightarrow> Config \<Rightarrow> time \<Rightarrow> State \<times> Effect list" where
  "reduceWorkerExit s issueID err attempt cfg now =
     (case err of
        None \<Rightarrow>
          (case workerExitNormal s issueID of
             None \<Rightarrow> (s, [])
           | Some (ns, entry) \<Rightarrow> armRetry ns entry continuationDelay now)
      | Some e \<Rightarrow>
          (case workerExitAbnormal s issueID e attempt of
             None \<Rightarrow> (s, [])
           | Some (ns, entry) \<Rightarrow> armRetry ns entry (backoffDelay (re_Attempt entry) cfg) now))"

definition reduceSpawnFailed ::
    "State \<Rightarrow> Issue \<Rightarrow> int \<Rightarrow> sched_error \<Rightarrow> Config \<Rightarrow> time \<Rightarrow> State \<times> Effect list" where
  "reduceSpawnFailed s issue attempt err cfg now =
     (let s = releaseClaim s (iss_ID issue);
          entry = \<lparr>re_IssueID = iss_ID issue, re_Identifier = iss_Identifier issue,
                   re_Attempt = attempt + 1, re_Kind = RetryBackoff, re_Err = Some err,
                   re_DueAtMS = 0\<rparr>
      in armRetry s entry (backoffDelay (re_Attempt entry) cfg) now)"

definition reduceCodexActivity ::
    "State \<Rightarrow> string \<Rightarrow> string \<Rightarrow> string \<Rightarrow> time \<Rightarrow> Usage option \<Rightarrow> RateLimitSnapshot option \<Rightarrow>
     duration option \<Rightarrow> bool \<Rightarrow> State" where
  "reduceCodexActivity s issueID event message ts usage rateLimit turnDuration turnCompleted =
     (let s = updateCodexActivity s issueID event message ts;
          s = (case usage of None \<Rightarrow> s | Some u \<Rightarrow> recordUsage s issueID u);
          s = (case rateLimit of None \<Rightarrow> s | Some rl \<Rightarrow> recordRateLimit s issueID rl);
          s = (case turnDuration of None \<Rightarrow> s | Some d \<Rightarrow> addRuntime s issueID d)
      in if turnCompleted then incrementTurnCount s issueID else s)"

fun Reduce :: "State \<Rightarrow> Event \<Rightarrow> Config \<Rightarrow> time \<Rightarrow> State \<times> Effect list" where
  "Reduce s (EvTick valid) cfg now = reduceTick s valid cfg now"
| "Reduce s (EvTrackerRefreshed ids issues) cfg now = reduceTrackerRefreshed s ids issues cfg now"
| "Reduce s (EvCandidatesFetched issues) cfg now = reduceCandidates s issues cfg"
| "Reduce s (EvRevalidated issue attempt fresh) cfg now = reduceRevalidated s issue attempt fresh cfg"
| "Reduce s (EvRetryDue issueID identifier attempt) cfg now =
     (s, [EffRetryFetch issueID identifier attempt])"
| "Reduce s (EvRetryResolved issueID identifier attempt issues fetchErr) cfg now =
     reduceRetryResolved s issueID identifier attempt issues fetchErr cfg now"
| "Reduce s (EvSpawned issue attempt session) cfg now = (markRunning s issue attempt session, [])"
| "Reduce s (EvSpawnFailed issue attempt err) cfg now = reduceSpawnFailed s issue attempt err cfg now"
| "Reduce s (EvWorkerExit issueID err attempt) cfg now =
     reduceWorkerExit s issueID err attempt cfg now"
| "Reduce s (EvCodexActivity issueID event message ts usage rateLimit turnDuration turnCompleted) cfg now =
     (reduceCodexActivity s issueID event message ts usage rateLimit turnDuration turnCompleted, [])"

section \<open>The candidate order\<close>

text \<open>The comparison of \<open>sortCandidates\<close> is a strict weak order, so the stable sort sorts.\<close>

lemma candTail_laws:
  "\<not> candTail a a" "candTail a c \<Longrightarrow> candTail a b \<or> candTail b c"
  "candTail a b \<Longrightarrow> candTail b c \<Longrightarrow> candTail a c"
  by (auto simp: candTail_def split: if_splits)

interpretation cand: weak_order candLess
proof
  show "\<not> candLess a a" for a
    by (simp add: candLess_def candTail_laws split: option.splits)
  show "candLess a b \<or> candLess b c" if "candLess a c" for a b c
    using that by (auto simp: candLess_def candTail_laws split: option.splits if_splits dest: candTail_laws(2))
  show "candLess a c" if "candLess a b" "candLess b c" for a b c
    using that by (auto simp: candLess_def split: option.splits if_splits dest: candTail_laws(3))
qed

lemma sortCandidates_sorted: "sorted_wrt (\<lambda>a b. \<not> candLess b a) (sortCandidates cands)"
  unfolding sortCandidates_def by (rule cand.sort_by_sorted)

lemma sortCandidates_stable: "filter (tied candLess a) (sortCandidates cands) = filter (tied candLess a) cands"
  unfolding sortCandidates_def by (rule cand.sort_by_stable)

lemma sortCandidates_mset [simp]: "mset (sortCandidates cands) = mset cands"
  by (simp add: sortCandidates_def)

end
