(* ===== verification/SchedInv.thy ===== *)
theory SchedInv
  imports SchedReduce
begin

text \<open>
  The invariant of the scheduler state and what each transition and handler does to the
  claim of one issue.

  \<open>sched_inv\<close> says how the maps of the state agree: a running issue holds a claim and
  is not queued for retry, accounting entries belong to claimed issues, and every entry is
  filed under its own issue id. \<open>view_at\<close> is what the state says about one issue;
  most handlers change the view of one issue only.
\<close>

section \<open>The invariant\<close>

definition sched_wf :: "State \<Rightarrow> bool" where
  "sched_wf s \<longleftrightarrow> wf_map (st_Running s) \<and> wf_map (st_Claimed s) \<and> wf_map (st_RetryAttempts s) \<and>
     wf_map (st_Usage s) \<and> wf_map (st_Runtime s)"

definition sched_keyed :: "State \<Rightarrow> bool" where
  "sched_keyed s \<longleftrightarrow>
     (\<forall>k r. map_of (st_Running s) k = Some r \<longrightarrow> iss_ID (ra_Issue r) = k) \<and>
     (\<forall>k e. map_of (st_RetryAttempts s) k = Some e \<longrightarrow> re_IssueID e = k)"

definition sched_inv :: "State \<Rightarrow> bool" where
  "sched_inv s \<longleftrightarrow> sched_wf s \<and> sched_keyed s \<and>
     (\<forall>k. in_map k (st_Running s) \<longrightarrow> in_map k (st_Claimed s) \<and> \<not> in_map k (st_RetryAttempts s)) \<and>
     (\<forall>k. in_map k (st_Usage s) \<longrightarrow> in_map k (st_Claimed s)) \<and>
     (\<forall>k. in_map k (st_Runtime s) \<longrightarrow> in_map k (st_Claimed s))"

text \<open>The issues that hold a slot: running or queued for retry.\<close>

definition occupied :: "State \<Rightarrow> string set" where
  "occupied s = set (mkeys (st_Running s)) \<union> set (mkeys (st_RetryAttempts s))"

definition slots_used :: "State \<Rightarrow> nat" where
  "slots_used s = length (st_Running s) + length (st_RetryAttempts s)"

definition view_at :: "State \<Rightarrow> string \<Rightarrow> RunAttempt option \<times> bool \<times> RetryEntry option" where
  "view_at s k = (map_of (st_Running s) k, in_map k (st_Claimed s), map_of (st_RetryAttempts s) k)"

definition frame_except :: "string \<Rightarrow> State \<Rightarrow> State \<Rightarrow> bool" where
  "frame_except i s t \<longleftrightarrow> (\<forall>k. k \<noteq> i \<longrightarrow> view_at t k = view_at s k)"

lemma withKey_eq [simp]: "withKey m k v = AList.update k v m"
  by (simp add: withKey_def)

lemma withoutKey_eq [simp]: "withoutKey m k = AList.delete k m"
  by (simp add: withoutKey_def delete_absent)

lemma NewState_inv: "sched_inv NewState"
  by (simp add: sched_inv_def sched_wf_def sched_keyed_def NewState_def)

lemma occupied_iff: "k \<in> occupied s \<longleftrightarrow> in_map k (st_Running s) \<or> in_map k (st_RetryAttempts s)"
  by (simp add: occupied_def in_map_def)

lemma slots_used_card:
  assumes "sched_inv s"
  shows "slots_used s = card (occupied s)"
proof -
  let ?R = "set (mkeys (st_Running s))" and ?Q = "set (mkeys (st_RetryAttempts s))"
  have "card (?R \<union> ?Q) = card ?R + card ?Q"
    using assms by (intro card_Un_disjoint) (auto simp: sched_inv_def in_map_def)
  also have "\<dots> = length (mkeys (st_Running s)) + length (mkeys (st_RetryAttempts s))"
    using assms distinct_card[of "mkeys (st_Running s)"] distinct_card[of "mkeys (st_RetryAttempts s)"]
    by (simp only: sched_inv_def sched_wf_def)
  finally show ?thesis by (simp add: slots_used_def occupied_def)
qed

lemma finite_occupied [simp]: "finite (occupied s)"
  by (simp add: occupied_def)

lemma slots_used_mono:
  assumes "sched_inv s" and "sched_inv t" and "occupied t \<subseteq> occupied s"
  shows "slots_used t \<le> slots_used s"
  using assms by (simp add: slots_used_card card_mono)

lemma retryQueuedCount_inv:
  assumes "sched_inv s"
  shows "retryQueuedCount s = int (length (st_RetryAttempts s))"
proof -
  have "\<And>p. p \<in> set (st_RetryAttempts s) \<Longrightarrow> \<not> in_map (fst p) (st_Running s)"
    using assms by (auto simp: sched_inv_def in_map_def)
  then have "filter (\<lambda>(issueID, e). \<not> in_map issueID (st_Running s)) (st_RetryAttempts s) = st_RetryAttempts s"
    by (auto simp: filter_id_conv)
  then show ?thesis by (simp add: retryQueuedCount_def)
qed

lemma used_slots_int:
  assumes "sched_inv s"
  shows "int (length (st_Running s)) + retryQueuedCount s = int (slots_used s)"
  using assms by (simp add: retryQueuedCount_inv slots_used_def)

section \<open>Effect of the transitions on one issue\<close>

lemma frame_refl [simp]: "frame_except i s s"
  by (simp add: frame_except_def)

lemma frame_trans: "frame_except i s t \<Longrightarrow> frame_except i t u \<Longrightarrow> frame_except i s u"
  by (simp add: frame_except_def)

lemma view_occupied:
  "view_at s k = (r, c, q) \<Longrightarrow> k \<in> occupied s \<longleftrightarrow> r \<noteq> None \<or> q \<noteq> None"
  by (auto simp: view_at_def occupied_iff in_map_iff)

lemma view_in_map:
  "view_at t k = view_at s k \<Longrightarrow>
     in_map k (st_Running t) = in_map k (st_Running s) \<and>
     in_map k (st_Claimed t) = in_map k (st_Claimed s) \<and>
     in_map k (st_RetryAttempts t) = in_map k (st_RetryAttempts s)"
  by (simp add: view_at_def in_map_iff)

lemma frame_occupied: "frame_except i s t \<Longrightarrow> k \<noteq> i \<Longrightarrow> k \<in> occupied t \<longleftrightarrow> k \<in> occupied s"
  using view_in_map[of t k s] by (simp add: frame_except_def occupied_iff)

lemma releaseClaim_fields:
  "st_Running (releaseClaim s i) = AList.delete i (st_Running s)"
  "st_Claimed (releaseClaim s i) = AList.delete i (st_Claimed s)"
  "st_RetryAttempts (releaseClaim s i) = AList.delete i (st_RetryAttempts s)"
  "st_Usage (releaseClaim s i) = AList.delete i (st_Usage s)"
  "st_Runtime (releaseClaim s i) = AList.delete i (st_Runtime s)"
  by (simp_all add: releaseClaim_def Let_def delete_absent map_of_None_iff split: option.splits)

lemma releaseClaim_inv: "sched_inv s \<Longrightarrow> sched_inv (releaseClaim s i)"
  by (simp add: sched_inv_def sched_wf_def sched_keyed_def releaseClaim_fields)

lemma releaseClaim_view: "view_at (releaseClaim s i) k = (if k = i then (None, False, None) else view_at s k)"
  by (simp add: view_at_def releaseClaim_fields)

lemma releaseClaim_frame: "frame_except i s (releaseClaim s i)"
  by (simp add: frame_except_def releaseClaim_view)

lemma enqueueRetry_fields:
  "st_Running (enqueueRetry s e) = st_Running s"
  "st_Claimed (enqueueRetry s e) = st_Claimed s"
  "st_RetryAttempts (enqueueRetry s e) = AList.update (re_IssueID e) e (st_RetryAttempts s)"
  "st_Usage (enqueueRetry s e) = st_Usage s"
  "st_Runtime (enqueueRetry s e) = st_Runtime s"
  by (simp_all add: enqueueRetry_def)

lemma armRetry_effects:
  "snd (armRetry s e d now) = [EffArmRetryTimer (re_IssueID e) (re_Identifier e) (re_Attempt e) d]"
  by (simp add: armRetry_def Let_def)

lemma armRetry_fields:
  "st_Running (fst (armRetry s e d now)) = st_Running s"
  "st_Claimed (fst (armRetry s e d now)) = st_Claimed s"
  "st_RetryAttempts (fst (armRetry s e d now)) =
     AList.update (re_IssueID e) (e\<lparr>re_DueAtMS := unix_milli (now + d)\<rparr>) (st_RetryAttempts s)"
  "st_Usage (fst (armRetry s e d now)) = st_Usage s"
  "st_Runtime (fst (armRetry s e d now)) = st_Runtime s"
  by (simp_all add: armRetry_def Let_def enqueueRetry_fields)

lemma armRetry_inv:
  assumes "sched_inv s" and "\<not> in_map (re_IssueID e) (st_Running s)"
  shows "sched_inv (fst (armRetry s e d now))"
  using assms by (auto simp: sched_inv_def sched_wf_def sched_keyed_def armRetry_fields)

lemma armRetry_frame: "frame_except (re_IssueID e) s (fst (armRetry s e d now))"
  by (simp add: frame_except_def view_at_def armRetry_fields)

section \<open>Moving a running issue to the retry queue\<close>

text \<open>
  The four places that end a run (clean exit, abnormal exit, stall, reconcile) all remove
  the issue from the running map and arm a retry for it.
\<close>

definition requeue :: "State \<Rightarrow> string \<Rightarrow> RetryEntry \<Rightarrow> duration \<Rightarrow> time \<Rightarrow> State" where
  "requeue s i e d now = fst (armRetry (s\<lparr>st_Running := withoutKey (st_Running s) i\<rparr>) e d now)"

lemma requeue_fields:
  "st_Running (requeue s i e d now) = AList.delete i (st_Running s)"
  "st_Claimed (requeue s i e d now) = st_Claimed s"
  "st_RetryAttempts (requeue s i e d now) =
     AList.update (re_IssueID e) (e\<lparr>re_DueAtMS := unix_milli (now + d)\<rparr>) (st_RetryAttempts s)"
  "st_Usage (requeue s i e d now) = st_Usage s"
  "st_Runtime (requeue s i e d now) = st_Runtime s"
  by (simp_all add: requeue_def armRetry_fields)

lemma requeue_inv:
  assumes "sched_inv s" and "re_IssueID e = i" and "in_map i (st_Running s)"
  shows "sched_inv (requeue s i e d now)"
  using assms by (auto simp: sched_inv_def sched_wf_def sched_keyed_def requeue_fields)

lemma requeue_view:
  assumes "re_IssueID e = i"
  shows "view_at (requeue s i e d now) k =
    (if k = i then (None, in_map i (st_Claimed s), Some (e\<lparr>re_DueAtMS := unix_milli (now + d)\<rparr>))
     else view_at s k)"
  using assms by (simp add: view_at_def requeue_fields)

lemma requeue_occupied:
  assumes "re_IssueID e = i" and "in_map i (st_Running s)"
  shows "occupied (requeue s i e d now) = occupied s"
  using assms by (auto simp: occupied_iff requeue_fields)

lemma workerExitAbnormal_requeue:
  "workerExitAbnormal s i err a = Some (ns, e) \<Longrightarrow>
     in_map i (st_Running s) \<and> re_IssueID e = i \<and> fst (armRetry ns e d now) = requeue s i e d now"
  by (auto simp: workerExitAbnormal_def requeue_def split: option.splits dest: map_of_Some_in_map)

lemma workerExitNormal_requeue:
  "workerExitNormal s i = Some (ns, e) \<Longrightarrow>
     in_map i (st_Running s) \<and> re_IssueID e = i \<and> fst (armRetry ns e d now) = requeue s i e d now"
  by (auto simp: workerExitNormal_def requeue_def split: option.splits dest: map_of_Some_in_map)

section \<open>Updating a running attempt in place\<close>

definition upd_run :: "State \<Rightarrow> string \<Rightarrow> RunAttempt \<Rightarrow> State" where
  "upd_run s i r = s\<lparr>st_Running := AList.update i r (st_Running s)\<rparr>"

definition same_slots :: "State \<Rightarrow> State \<Rightarrow> bool" where
  "same_slots s t \<longleftrightarrow>
     (\<forall>k. in_map k (st_Running t) = in_map k (st_Running s)) \<and>
     st_Claimed t = st_Claimed s \<and> st_RetryAttempts t = st_RetryAttempts s"

lemma same_slots_refl [simp]: "same_slots s s"
  by (simp add: same_slots_def)

lemma same_slots_trans: "same_slots s t \<Longrightarrow> same_slots t u \<Longrightarrow> same_slots s u"
  by (simp add: same_slots_def)

lemma same_slots_occupied: "same_slots s t \<Longrightarrow> occupied t = occupied s"
  by (auto simp: same_slots_def occupied_iff)

definition keeps :: "State \<Rightarrow> State \<Rightarrow> bool" where
  "keeps s t \<longleftrightarrow> (sched_inv s \<longrightarrow> sched_inv t) \<and> same_slots s t"

lemma keeps_refl [simp]: "keeps s s"
  by (simp add: keeps_def)

lemma keeps_trans: "keeps s t \<Longrightarrow> keeps t u \<Longrightarrow> keeps s u"
  by (auto simp: keeps_def intro: same_slots_trans)

lemma upd_run_keeps:
  assumes "map_of (st_Running s) i = Some r" and "iss_ID (ra_Issue r') = iss_ID (ra_Issue r)"
  shows "keeps s (upd_run s i r')"
proof -
  have i: "in_map i (st_Running s)" using assms(1) by (rule map_of_Some_in_map)
  then show ?thesis
    using assms by (auto simp: keeps_def same_slots_def upd_run_def sched_inv_def sched_wf_def sched_keyed_def)
qed

lemma updateIssueSnapshot_keeps:
  "(\<And>r. map_of (st_Running s) i = Some r \<Longrightarrow> iss_ID (ra_Issue r) = i) \<Longrightarrow> iss_ID iss = i \<Longrightarrow>
     keeps s (updateIssueSnapshot s i iss)"
  using upd_run_keeps[of s i] by (auto simp: updateIssueSnapshot_def upd_run_def split: option.splits)

lemma incrementTurnCount_keeps: "keeps s (incrementTurnCount s i)"
  using upd_run_keeps[of s i] by (auto simp: incrementTurnCount_def upd_run_def split: option.splits)

lemma updateCodexActivity_keeps: "keeps s (updateCodexActivity s i ev msg ts)"
  using upd_run_keeps[of s i] by (auto simp: updateCodexActivity_def upd_run_def Let_def split: option.splits)

lemma recordRateLimit_keeps: "keeps s (recordRateLimit s i rl)"
  using upd_run_keeps[of s i] by (auto simp: recordRateLimit_def upd_run_def split: option.splits)

lemma recordUsage_keeps: "keeps s (recordUsage s i u)"
  by (auto simp: recordUsage_def keeps_def same_slots_def sched_inv_def sched_wf_def sched_keyed_def Let_def
      split: option.splits dest: map_of_Some_in_map)

lemma addRuntime_keeps: "keeps s (addRuntime s i d)"
  by (auto simp: addRuntime_def keeps_def same_slots_def sched_inv_def sched_wf_def sched_keyed_def Let_def
      split: option.splits if_splits dest: map_of_Some_in_map)

lemma reduceCodexActivity_keeps: "keeps s (reduceCodexActivity s i ev msg ts u rl d tc)"
proof -
  let ?a = "updateCodexActivity s i ev msg ts"
  let ?b = "case u of None \<Rightarrow> ?a | Some u \<Rightarrow> recordUsage ?a i u"
  let ?c = "case rl of None \<Rightarrow> ?b | Some rl \<Rightarrow> recordRateLimit ?b i rl"
  let ?d = "case d of None \<Rightarrow> ?c | Some d \<Rightarrow> addRuntime ?c i d"
  have "keeps s ?a" by (rule updateCodexActivity_keeps)
  moreover have "keeps ?a ?b" by (cases u) (simp_all add: recordUsage_keeps)
  moreover have "keeps ?b ?c" by (cases rl) (simp_all add: recordRateLimit_keeps)
  moreover have "keeps ?c ?d" by (cases d) (simp_all add: addRuntime_keeps)
  ultimately have "keeps s ?d" by (blast intro: keeps_trans)
  then show ?thesis
    unfolding reduceCodexActivity_def Let_def
    by (cases tc) (simp_all add: keeps_trans[OF _ incrementTurnCount_keeps])
qed

end
