(* ===== verification/SchedDrain.thy ===== *)
theory SchedDrain
  imports SchedInv
begin

text \<open>
  The contract between the reducer and the loop that interprets its effects.

  Between two external events the loop works off a stack of effects, and each effect may feed
  a follow-up event back. \<open>drain_inv M T E s\<close> relates the state \<open>s\<close> to the effects
  \<open>E\<close> still to be interpreted and to the issues \<open>T\<close> with an armed retry timer: the
  issues a pending revalidation or spawn is about are claimed and hold no slot yet, the slots in
  use and the pending dispatches stay within \<open>M\<close>, no claim is orphaned, and a claimed issue
  in the retry queue has its timer armed, about to be armed or just fired. Each handler of
  \<open>Reduce\<close> keeps it, with the effect that caused the event replaced by the effects the
  handler emits.
\<close>

section \<open>Pending effects\<close>

fun pend_of :: "Effect \<Rightarrow> string list" where
  "pend_of (EffRevalidate i a) = [iss_ID i]"
| "pend_of (EffSpawn i a) = [iss_ID i]"
| "pend_of _ = []"

fun arm_of :: "Effect \<Rightarrow> string list" where
  "arm_of (EffArmRetryTimer i ident a d) = [i]"
| "arm_of _ = []"

fun rfetch_of :: "Effect \<Rightarrow> string list" where
  "rfetch_of (EffRetryFetch i ident a) = [i]"
| "rfetch_of _ = []"

definition pend :: "Effect list \<Rightarrow> string list" where "pend E = concat (map pend_of E)"
definition arms :: "Effect list \<Rightarrow> string list" where "arms E = concat (map arm_of E)"
definition rfetches :: "Effect list \<Rightarrow> string list" where "rfetches E = concat (map rfetch_of E)"

lemma pend_simps [simp]: "pend [] = []" "pend (e # E) = pend_of e @ pend E" "pend (E @ F) = pend E @ pend F"
  by (simp_all add: pend_def)

lemma arms_simps [simp]: "arms [] = []" "arms (e # E) = arm_of e @ arms E" "arms (E @ F) = arms E @ arms F"
  by (simp_all add: arms_def)

lemma rfetches_simps [simp]:
  "rfetches [] = []" "rfetches (e # E) = rfetch_of e @ rfetches E" "rfetches (E @ F) = rfetches E @ rfetches F"
  by (simp_all add: rfetches_def)

text \<open>Candidates are fetched only when nothing is left to dispatch after the fetch.\<close>

fun fetch_ok :: "Effect list \<Rightarrow> bool" where
  "fetch_ok [] = True"
| "fetch_ok (e # E) = ((e = EffFetchCandidates \<longrightarrow> pend E = []) \<and> fetch_ok E)"

definition no_fetch :: "Effect list \<Rightarrow> bool" where
  "no_fetch E \<longleftrightarrow> EffFetchCandidates \<notin> set E"

lemma fetch_ok_append: "no_fetch E \<Longrightarrow> fetch_ok (E @ F) = fetch_ok F"
  by (induction E) (auto simp: no_fetch_def)

text \<open>The effect an internal event answers; external events answer none.\<close>

fun cause :: "Event \<Rightarrow> Effect list" where
  "cause (EvTrackerRefreshed ids issues) = [EffRefreshTracker ids]"
| "cause (EvCandidatesFetched issues) = [EffFetchCandidates]"
| "cause (EvRevalidated i a fresh) = [EffRevalidate i a]"
| "cause (EvRetryDue i ident a) = [EffRetryFetch i ident a]"
| "cause (EvRetryResolved i ident a issues err) = [EffRetryFetch i ident a]"
| "cause (EvSpawned i a sess) = [EffSpawn i a]"
| "cause (EvSpawnFailed i a err) = [EffSpawn i a]"
| "cause _ = []"

section \<open>The drain invariant\<close>

definition drain_inv :: "nat \<Rightarrow> string set \<Rightarrow> Effect list \<Rightarrow> State \<Rightarrow> bool" where
  "drain_inv M T E s \<longleftrightarrow>
     sched_inv s \<and>
     distinct (pend E) \<and>
     (\<forall>k\<in>set (pend E). in_map k (st_Claimed s) \<and> k \<notin> occupied s) \<and>
     slots_used s + length (pend E) \<le> M \<and>
     (\<forall>k. in_map k (st_Claimed s) \<longrightarrow> k \<in> occupied s \<or> k \<in> set (pend E)) \<and>
     fetch_ok E \<and>
     distinct (arms E @ rfetches E) \<and>
     (\<forall>k\<in>set (arms E @ rfetches E). in_map k (st_RetryAttempts s) \<and> k \<notin> T) \<and>
     (\<forall>k\<in>T. in_map k (st_RetryAttempts s)) \<and>
     (\<forall>k. in_map k (st_RetryAttempts s) \<and> in_map k (st_Claimed s) \<longrightarrow>
        k \<in> T \<or> k \<in> set (arms E @ rfetches E))"

lemmas drain_invD = drain_inv_def[THEN iffD1]

lemma drain_inv_sched: "drain_inv M T E s \<Longrightarrow> sched_inv s"
  by (simp add: drain_inv_def)

lemma drain_inv_bound: "drain_inv M T E s \<Longrightarrow> slots_used s + length (pend E) \<le> M"
  by (simp add: drain_inv_def)

text \<open>Effects that are neither a dispatch nor a timer operation do not matter.\<close>

definition silent :: "Effect \<Rightarrow> bool" where
  "silent e \<longleftrightarrow> pend_of e = [] \<and> arm_of e = [] \<and> rfetch_of e = []"

lemma silent_simps [simp]:
  "silent EffFetchCandidates" "silent (EffRefreshTracker ids)" "silent (EffKillWorker i r)"
  "silent (EffRemoveWorkspace i)"
  by (simp_all add: silent_def)

lemma drain_inv_silent: "silent e \<Longrightarrow> drain_inv M T (e # E) s \<Longrightarrow> drain_inv M T E s"
  by (simp add: silent_def drain_inv_def)

lemma drain_inv_silent_add:
  "silent e \<Longrightarrow> e \<noteq> EffFetchCandidates \<Longrightarrow> drain_inv M T E s \<Longrightarrow> drain_inv M T (e # E) s"
  by (simp add: silent_def drain_inv_def)

text \<open>The order of the pending effects does not matter.\<close>

lemma mset_concat_cong:
  assumes "mset E = mset F"
  shows "mset (concat (map f E)) = mset (concat (map f F))"
proof -
  have *: "mset (concat (map f G)) = sum_mset (image_mset (mset \<circ> f) (mset G))" for G
    by (induction G) simp_all
  show ?thesis unfolding * assms ..
qed

lemma drain_inv_perm:
  assumes "drain_inv M T E s" and "mset E = mset F" and "fetch_ok F"
  shows "drain_inv M T F s"
proof -
  have "mset (pend E) = mset (pend F)" "mset (arms E @ rfetches E) = mset (arms F @ rfetches F)"
    using mset_concat_cong[OF assms(2), of pend_of] mset_concat_cong[OF assms(2), of arm_of]
      mset_concat_cong[OF assms(2), of rfetch_of]
    by (simp_all only: pend_def arms_def rfetches_def mset_append)
  note m = this
  note p = m(1)[THEN mset_eq_setD] m(1)[THEN mset_eq_length] m(1)[THEN mset_eq_imp_distinct_iff]
  note a = m(2)[THEN mset_eq_setD] m(2)[THEN mset_eq_imp_distinct_iff]
  show ?thesis using assms(1,3) unfolding drain_inv_def p a
    by (elim conjE) (intro conjI; assumption)
qed

lemma drain_inv_swap:
  assumes "drain_inv M T (A @ B @ E) s" and "no_fetch A" and "no_fetch B"
  shows "drain_inv M T (B @ A @ E) s"
proof (rule drain_inv_perm[OF assms(1)])
  show "fetch_ok (B @ A @ E)" using assms by (simp add: fetch_ok_append drain_inv_def)
qed simp

lemma slots_le_Suc:
  assumes "sched_inv s" and "sched_inv t" and "occupied t \<subseteq> insert i (occupied s)"
  shows "slots_used t \<le> Suc (slots_used s)"
proof -
  have "card (occupied t) \<le> card (insert i (occupied s))" using assms(3) by (intro card_mono) auto
  also have "\<dots> \<le> Suc (card (occupied s))" by (rule card_insert_le_m1 [where n = "Suc _", simplified]) simp
  finally show ?thesis using assms by (simp add: slots_used_card)
qed

lemma drain_inv_same:
  assumes "drain_inv M T E s" and "keeps s t"
  shows "drain_inv M T E t"
proof -
  have o: "occupied t = occupied s" using assms(2) by (simp add: keeps_def same_slots_occupied)
  have i: "sched_inv t" "sched_inv s" using assms by (auto simp: keeps_def drain_inv_def)
  have "slots_used t = slots_used s" using o i by (simp add: slots_used_card)
  then show ?thesis using assms o i by (simp add: drain_inv_def keeps_def same_slots_def)
qed

section \<open>Each handler keeps it\<close>

text \<open>A run that ends keeps its slot and has a timer about to be armed.\<close>

lemma requeue_drain:
  assumes "drain_inv M T E s" and "re_IssueID e = i" and "in_map i (st_Running s)"
  shows "drain_inv M T (EffArmRetryTimer i ident a d' # E) (requeue s i e d now)"
proof -
  have inv: "sched_inv s" "sched_inv (requeue s i e d now)"
    using assms requeue_inv by (auto simp: drain_inv_def)
  have o: "occupied (requeue s i e d now) = occupied s" using assms by (simp add: requeue_occupied)
  then have "slots_used (requeue s i e d now) = slots_used s" using inv by (simp add: slots_used_card)
  moreover have "\<not> in_map i (st_RetryAttempts s)" "in_map i (st_Claimed s)"
    using assms inv by (auto simp: sched_inv_def)
  ultimately show ?thesis using assms o inv by (auto simp: drain_inv_def requeue_fields)
qed

lemma armRetry_pair: "armRetry s e d now = (t, effs) \<Longrightarrow>
   t = fst (armRetry s e d now) \<and> effs = [EffArmRetryTimer (re_IssueID e) (re_Identifier e) (re_Attempt e) d]"
  by (metis armRetry_effects fst_conv snd_conv)

lemma releaseClaim_slots: "sched_inv s \<Longrightarrow> slots_used (releaseClaim s i) \<le> slots_used s"
  by (intro slots_used_mono releaseClaim_inv) (auto simp: occupied_iff releaseClaim_fields)

lemma releaseClaim_slots_less:
  assumes "sched_inv s" and "i \<notin> occupied s"
  shows "slots_used (releaseClaim s i) = slots_used s"
proof -
  have "occupied (releaseClaim s i) = occupied s"
    using assms(2) by (auto simp: occupied_iff releaseClaim_fields)
  then show ?thesis using assms(1) by (simp add: slots_used_card releaseClaim_inv)
qed

text \<open>Releasing a running issue, and dropping a dispatch or a fired retry.\<close>

lemma release_running_drain:
  assumes "drain_inv M T E s" and "in_map i (st_Running s)"
  shows "drain_inv M T E (releaseClaim s i)"
proof -
  have inv: "sched_inv s" "sched_inv (releaseClaim s i)"
    using assms releaseClaim_inv by (auto simp: drain_inv_def)
  then have "slots_used (releaseClaim s i) \<le> slots_used s" by (simp add: releaseClaim_slots)
  moreover have "\<not> in_map i (st_RetryAttempts s)" using assms inv by (auto simp: sched_inv_def)
  ultimately show ?thesis using assms inv
    by (auto simp: drain_inv_def releaseClaim_fields occupied_iff)
qed

lemma release_pend_drain:
  assumes "drain_inv M T (e # E) s" and "pend_of e = [i]"
  shows "drain_inv M T E (releaseClaim s i)"
proof -
  have inv: "sched_inv s" "sched_inv (releaseClaim s i)"
    using assms releaseClaim_inv by (auto simp: drain_inv_def)
  then have "slots_used (releaseClaim s i) \<le> slots_used s" by (simp add: releaseClaim_slots)
  moreover have "arm_of e = []" "rfetch_of e = []" using assms(2) by (cases e; simp)+
  ultimately show ?thesis using assms inv
    by (auto simp: drain_inv_def releaseClaim_fields occupied_iff)
qed

lemma release_rfetch_drain:
  assumes "drain_inv M T (EffRetryFetch i ident a # E) s"
  shows "drain_inv M T E (releaseClaim s i)"
proof -
  have inv: "sched_inv s" "sched_inv (releaseClaim s i)"
    using assms releaseClaim_inv by (auto simp: drain_inv_def)
  then have "slots_used (releaseClaim s i) \<le> slots_used s" by (simp add: releaseClaim_slots)
  then show ?thesis using assms inv
    by (auto simp: drain_inv_def releaseClaim_fields occupied_iff)
qed

text \<open>Re-arming a fired retry keeps its slot.\<close>

lemma rearm_drain:
  assumes "drain_inv M T (EffRetryFetch i ident a # E) s" and "re_IssueID e = i"
  shows "drain_inv M T (EffArmRetryTimer i ident' a' d' # E) (fst (armRetry s e d now))"
proof -
  let ?t = "fst (armRetry s e d now)"
  have i: "in_map i (st_RetryAttempts s)" using assms(1) by (simp add: drain_inv_def)
  then have "\<not> in_map i (st_Running s)" using assms by (auto simp: drain_inv_def sched_inv_def)
  then have inv: "sched_inv s" "sched_inv ?t" using assms armRetry_inv by (auto simp: drain_inv_def)
  have o: "occupied ?t = occupied s" using i assms(2) by (auto simp: occupied_iff armRetry_fields)
  then have "slots_used ?t = slots_used s" using inv by (simp add: slots_used_card)
  then show ?thesis using assms inv o i by (auto simp: drain_inv_def armRetry_fields)
qed

text \<open>A spawned agent takes the slot its dispatch reserved; a failed one leaves a retry in it.\<close>

lemma markRunning_fields:
  "in_map k (st_Running (markRunning s i a sess)) \<longleftrightarrow> k = iss_ID i \<or> in_map k (st_Running s)"
  "st_Claimed (markRunning s i a sess) = st_Claimed s"
  "st_RetryAttempts (markRunning s i a sess) = st_RetryAttempts s"
  by (simp_all add: markRunning_def)

lemma markRunning_inv:
  assumes "sched_inv s" and "in_map (iss_ID i) (st_Claimed s)" and "\<not> in_map (iss_ID i) (st_RetryAttempts s)"
  shows "sched_inv (markRunning s i a sess)"
  using assms by (auto simp: sched_inv_def sched_wf_def sched_keyed_def markRunning_def)

lemma spawned_drain:
  assumes "drain_inv M T (EffSpawn i a # E) s"
  shows "drain_inv M T E (markRunning s i a sess)"
proof -
  let ?t = "markRunning s i a sess"
  have o: "occupied ?t = insert (iss_ID i) (occupied s)" by (auto simp: occupied_iff markRunning_fields)
  have inv: "sched_inv s" "sched_inv ?t"
    using assms by (auto simp: drain_inv_def occupied_iff intro: markRunning_inv)
  then have "slots_used ?t \<le> Suc (slots_used s)" using o by (intro slots_le_Suc) auto
  then show ?thesis using assms inv o by (auto simp: drain_inv_def markRunning_fields)
qed

lemma reduceSpawnFailed_eq:
  "\<exists>e. re_IssueID e = iss_ID i \<and>
     reduceSpawnFailed s i a err cfg now =
       (fst (armRetry (releaseClaim s (iss_ID i)) e (backoffDelay (a + 1) cfg) now),
        [EffArmRetryTimer (iss_ID i) (iss_Identifier i) (a + 1) (backoffDelay (a + 1) cfg)])"
  by (rule exI[of _ "retryEntry (iss_ID i) (iss_Identifier i) (a + 1) err"])
    (simp add: reduceSpawnFailed_def armRetry_def retryEntry_def Let_def)

lemma spawn_failed_drain:
  assumes "drain_inv M T (EffSpawn i a # E) s" and "re_IssueID e = iss_ID i"
  shows "drain_inv M T (EffArmRetryTimer (iss_ID i) ident a' d' # E)
           (fst (armRetry (releaseClaim s (iss_ID i)) e d now))"
proof -
  let ?u = "releaseClaim s (iss_ID i)" and ?t = "fst (armRetry (releaseClaim s (iss_ID i)) e d now)"
  have n: "iss_ID i \<notin> occupied s" using assms by (simp add: drain_inv_def)
  have o: "occupied ?t = insert (iss_ID i) (occupied s)"
    using n assms(2) by (auto simp: occupied_iff armRetry_fields releaseClaim_fields)
  have "sched_inv s" using assms by (simp add: drain_inv_def)
  moreover have "sched_inv ?t" using assms(2) \<open>sched_inv s\<close>
    by (auto intro!: armRetry_inv releaseClaim_inv simp: releaseClaim_fields)
  moreover from calculation have "slots_used ?t \<le> Suc (slots_used s)" using o by (intro slots_le_Suc) auto
  ultimately show ?thesis using assms o n
    by (auto simp: drain_inv_def armRetry_fields releaseClaim_fields occupied_iff)
qed

text \<open>A retry that is claimed again gives its slot to the pending spawn.\<close>

lemma claimFromRetry_drain:
  assumes "drain_inv M T (EffRetryFetch i ident a # E) s" and "claimFromRetry s i = Inr t" and "iss_ID f = i"
  shows "drain_inv M T (EffSpawn f a' # E) t"
proof -
  have t: "t = s\<lparr>st_RetryAttempts := AList.delete i (st_RetryAttempts s)\<rparr>"
    and c: "in_map i (st_RetryAttempts s)" "in_map i (st_Claimed s)" "\<not> in_map i (st_Running s)"
    using assms(2) by (auto simp: claimFromRetry_def split: if_splits)
  have inv: "sched_inv s" "sched_inv t"
    using assms(1) by (auto simp: drain_inv_def t sched_inv_def sched_wf_def sched_keyed_def)
  have "Suc (slots_used t) = slots_used s"
    using c inv length_delete_in[of "st_RetryAttempts s" i]
    by (simp add: slots_used_def t sched_inv_def sched_wf_def)
  then show ?thesis using assms(1,3) inv c by (auto simp: drain_inv_def t occupied_iff)
qed

text \<open>A claim reserves one of the free slots.\<close>

lemma claim_drain:
  assumes "drain_inv M T E s" and "claim s i = Inr t" and "iss_ID i \<notin> occupied s"
    and "slots_used s + length (pend E) < M"
  shows "drain_inv M T (EffRevalidate i a # E) t \<and> occupied t = occupied s \<and> slots_used t = slots_used s"
proof -
  have t: "t = s\<lparr>st_RetryAttempts := st_RetryAttempts s, st_Claimed := AList.update (iss_ID i) () (st_Claimed s)\<rparr>"
    and c: "\<not> in_map (iss_ID i) (st_Claimed s)"
    using assms(2,3) by (auto simp: claim_def occupied_iff delete_absent split: if_splits)
  have "sched_inv t" using assms(1) c by (auto simp: drain_inv_def t sched_inv_def sched_wf_def sched_keyed_def)
  then show ?thesis using assms(1,3,4) c by (auto simp: drain_inv_def t occupied_iff slots_used_def)
qed

section \<open>The handlers of the reducer\<close>

lemma workerExit_drain:
  assumes "drain_inv M T E s"
    and "workerExitAbnormal s i err a = Some (ns, e) \<or> workerExitNormal s i = Some (ns, e)"
  shows "drain_inv M T (snd (armRetry ns e d now) @ E) (fst (armRetry ns e d now))"
proof -
  have "in_map i (st_Running s)" "re_IssueID e = i" "fst (armRetry ns e d now) = requeue s i e d now"
    using assms(2) workerExitAbnormal_requeue workerExitNormal_requeue by blast+
  then show ?thesis using requeue_drain[OF assms(1)] by (simp add: armRetry_effects)
qed

lemma no_fetch_simps [simp]:
  "no_fetch []" "no_fetch (e # E) \<longleftrightarrow> e \<noteq> EffFetchCandidates \<and> no_fetch E"
  "no_fetch (E @ F) \<longleftrightarrow> no_fetch E \<and> no_fetch F"
  by (auto simp: no_fetch_def)

definition keyed_by_id :: "(string, Issue) gomap \<Rightarrow> bool" where
  "keyed_by_id m \<longleftrightarrow> (\<forall>k v. map_of m k = Some v \<longrightarrow> iss_ID v = k)"

lemma keyed_by_id_update: "keyed_by_id m \<Longrightarrow> keyed_by_id (AList.update (iss_ID iss) iss m)"
  unfolding keyed_by_id_def by (metis map_of_update option.inject)

lemma keyed_by_id_fold: "keyed_by_id (byID_of issues)"
proof -
  have "keyed_by_id m \<Longrightarrow> keyed_by_id (fold (\<lambda>iss m. AList.update (iss_ID iss) iss m) issues m)" for m
    by (induction issues arbitrary: m) (simp_all add: keyed_by_id_update)
  moreover have "keyed_by_id []" by (simp add: keyed_by_id_def)
  ultimately show ?thesis unfolding byID_of_def .
qed

lemma reconcileKillRetry_drain:
  assumes "drain_inv M T E s" and "reconcileKillRetry s i a c r cfg now = (t, effs)"
  shows "drain_inv M T (effs @ E) t \<and> no_fetch effs \<and> pend effs = []"
proof (cases "workerExitAbnormal s i c a")
  case (Some p)
  then obtain ns e where p: "workerExitAbnormal s i c a = Some (ns, e)" by (cases p) auto
  show ?thesis
    using assms(2) workerExit_drain[OF assms(1) disjI1[OF p], of "backoffDelay (re_Attempt e) cfg" now] p
    by (auto simp: reconcileKillRetry_def armRetry_effects split: prod.splits
        dest!: armRetry_pair intro!: drain_inv_silent_add)
qed (use assms in \<open>simp add: reconcileKillRetry_def\<close>)

lemma sched_inv_keyed: "sched_inv s \<Longrightarrow> map_of (st_Running s) i = Some r \<Longrightarrow> iss_ID (ra_Issue r) = i"
  by (simp add: sched_inv_def sched_keyed_def)

lemma reconcileOne_drain:
  assumes d: "drain_inv M T E s" and k: "keyed_by_id byID"
    and r: "reconcileOne byID cfg now i s = (t, effs)"
  shows "drain_inv M T (effs @ E) t \<and> no_fetch effs \<and> pend effs = []"
proof (cases "map_of (st_Running s) i")
  case (Some run)
  note run = map_of_Some_in_map[OF Some]
  have u: "drain_inv M T E (updateIssueSnapshot s i iss)" if "map_of byID i = Some iss" for iss
    using d k that sched_inv_keyed[OF drain_inv_sched[OF d]]
    by (intro drain_inv_same[OF d] updateIssueSnapshot_keeps) (auto simp: keyed_by_id_def)
  note kill = reconcileKillRetry_drain[OF d, of i "ra_Attempt run"]
  show ?thesis
  proof (cases "map_of byID i")
    case None
    then have "reconcileKillRetry s i (ra_Attempt run) ErrNotInRefresh ''not-found'' cfg now = (t, effs)"
      using r Some by (simp add: reconcileOne_def)
    then show ?thesis by (rule kill)
  next
    case iss: (Some iss)
    let ?norm = "to_lower (iss_State iss)"
    consider (terminal) "set_has (normSet (tc_TerminalStates (cfg_Tracker cfg))) ?norm"
      | (active) "\<not> set_has (normSet (tc_TerminalStates (cfg_Tracker cfg))) ?norm"
          "set_has (normSet (tc_ActiveStates (cfg_Tracker cfg))) ?norm"
      | (other) "\<not> set_has (normSet (tc_TerminalStates (cfg_Tracker cfg))) ?norm"
          "\<not> set_has (normSet (tc_ActiveStates (cfg_Tracker cfg))) ?norm" by blast
    then show ?thesis
    proof cases
      case terminal
      then show ?thesis using r Some iss release_running_drain[OF d run]
        by (auto simp: reconcileOne_def Let_def intro!: drain_inv_silent_add)
    next
      case active
      then show ?thesis using r Some iss u[OF iss] by (auto simp: reconcileOne_def Let_def)
    next
      case other
      then have "reconcileKillRetry s i (ra_Attempt run) ErrLeftActiveStates ''non-active'' cfg now = (t, effs)"
        using r Some iss by (simp add: reconcileOne_def Let_def)
      then show ?thesis by (rule kill)
    qed
  qed
qed (use assms in \<open>simp add: reconcileOne_def\<close>)

lemma reconcileLoop_drain:
  "drain_inv M T E s \<Longrightarrow> keyed_by_id byID \<Longrightarrow> reconcileLoop byID cfg now ids s = (t, effs) \<Longrightarrow>
     drain_inv M T (effs @ E) t \<and> no_fetch effs \<and> pend effs = []"
proof (induction ids arbitrary: s E t effs)
  case (Cons i ids)
  obtain s1 effs1 where 1: "reconcileOne byID cfg now i s = (s1, effs1)" by fastforce
  obtain s2 effs2 where 2: "reconcileLoop byID cfg now ids s1 = (s2, effs2)" by fastforce
  have "drain_inv M T (effs1 @ E) s1" "no_fetch effs1" "pend effs1 = []"
    using reconcileOne_drain[OF Cons.prems(1,2) 1] by auto
  moreover from Cons.IH[OF this(1) Cons.prems(2) 2]
  have "drain_inv M T (effs2 @ effs1 @ E) s2" "no_fetch effs2" "pend effs2 = []" by auto
  ultimately show ?case using Cons.prems(3) 1 2 drain_inv_swap[of M T effs2 effs1 E s2] by auto
qed simp

lemma stallLoop_drain:
  "drain_inv M T E s \<Longrightarrow> stallLoop cfg now th ids s = (t, effs) \<Longrightarrow>
     drain_inv M T (effs @ E) t \<and> no_fetch effs \<and> pend effs = []"
proof (induction ids arbitrary: s E t effs)
  case (Cons i ids)
  show ?case
  proof (cases "stallLoop cfg now th (i # ids) s = stallLoop cfg now th ids s")
    case True
    then show ?thesis using Cons.IH[OF Cons.prems(1)] Cons.prems(2) by simp
  next
    case False
    then obtain run ns e where w: "workerExitAbnormal s i ErrStall (ra_Attempt run) = Some (ns, e)"
      and run: "map_of (st_Running s) i = Some run"
      and b: "\<not> (let base = ra_LastCodexTimestamp run; base = (if is_zero base then ra_StartedAt run else base)
                in is_zero base \<or> time_sub now base \<le> th)"
      by (auto simp: Let_def split: option.splits if_splits)
    let ?d = "backoffDelay (re_Attempt e) cfg"
    define s1 armEffs where s1: "s1 = fst (armRetry ns e ?d now)" "armEffs = snd (armRetry ns e ?d now)"
    obtain s2 effs2 where 2: "stallLoop cfg now th ids s1 = (s2, effs2)" by fastforce
    have 1: "drain_inv M T (armEffs @ E) s1" "no_fetch armEffs" "pend armEffs = []"
      using workerExit_drain[OF Cons.prems(1) disjI1[OF w], of ?d now] by (auto simp: s1 armRetry_effects)
    have "t = s2" "effs = EffKillWorker i ''stall'' # armEffs @ effs2"
      using Cons.prems(2) run b w 2 by (auto simp: Let_def s1 split: prod.splits if_splits)
    moreover have "drain_inv M T (armEffs @ effs2 @ E) s2" "no_fetch effs2" "pend effs2 = []"
      using Cons.IH[OF 1(1) 2] 1 drain_inv_swap[of M T effs2 armEffs E s2] by auto
    ultimately show ?thesis using 1 by (auto intro!: drain_inv_silent_add)
  qed
qed simp

lemma reduceTick_drain:
  assumes "drain_inv M T [] s" and "reduceTick s valid cfg now = (t, effs)"
  shows "drain_inv M T effs t"
proof -
  obtain effs1 where r: "reduceStall s cfg now = (t, effs1)"
    and e: "effs = effs1 @ (if 0 < length (st_Running t) then [EffRefreshTracker (sortedRunningIDs t)] else [])
                 @ (if valid then [EffFetchCandidates] else [])"
    using assms(2) by (auto simp: reduceTick_def split: prod.splits)
  have "drain_inv M T effs1 t" "no_fetch effs1" "pend effs1 = []"
    using r stallLoop_drain[OF assms(1)] assms(1) by (auto simp: reduceStall_def split: if_splits)
  then show ?thesis by (auto simp: e drain_inv_def fetch_ok_append)
qed

lemma filterEligible_free:
  "c \<in> set (filterEligible cs s cfg) \<Longrightarrow>
     c \<in> set cs \<and> iss_ID c \<notin> occupied s \<and> \<not> in_map (iss_ID c) (st_Claimed s)"
  by (auto simp: filterEligible_def eligible_def Let_def occupied_iff split: if_splits)

lemma dispatchLoop_drain:
  "drain_inv M T E s \<Longrightarrow> \<forall>c\<in>set cs. iss_ID c \<notin> occupied s \<Longrightarrow>
     int (slots_used s) + int (length (pend E)) + max 0 g \<le> int M \<Longrightarrow>
     dispatchLoop cfg cs s g u = (t, effs) \<Longrightarrow> drain_inv M T (effs @ E) t \<and> no_fetch effs"
proof (induction cs arbitrary: s E g u t effs)
  case (Cons c cs)
  show ?case
  proof (cases "dispatchLoop cfg (c # cs) s g u = (s, []) \<or>
                dispatchLoop cfg (c # cs) s g u = dispatchLoop cfg cs s g u")
    case True
    then consider "t = s" "effs = []" | "dispatchLoop cfg cs s g u = (t, effs)"
      using Cons.prems(4) by auto
    then show ?thesis using Cons.IH[OF Cons.prems(1) _ Cons.prems(3)] Cons.prems(1,2) by cases auto
  next
    case False
    let ?n = "to_lower (iss_State c)"
    obtain ns where ns: "claim s c = Inr ns" and g: "0 < g" and u: "u ?n < stateCapacity cfg ?n"
      using False by (auto simp: Let_def split: if_splits sum.splits)
    obtain t' effs' where
      2: "dispatchLoop cfg cs ns (g - 1) (u(?n := u ?n + 1)) = (t', effs')" by fastforce
    have e: "t = t'" "effs = EffRevalidate c 0 # effs'"
      using Cons.prems(4) ns g u 2 by (auto simp: Let_def)
    have "slots_used s + length (pend E) < M" using Cons.prems(3) g by linarith
    then have 1: "drain_inv M T (EffRevalidate c 0 # E) ns" "occupied ns = occupied s"
      "slots_used ns = slots_used s"
      using claim_drain[OF Cons.prems(1) ns, of 0] Cons.prems(2) by auto
    then have "drain_inv M T (effs' @ EffRevalidate c 0 # E) t'" "no_fetch effs'"
      using Cons.IH[OF 1(1) _ _ 2] Cons.prems(2,3) g by auto
    then show ?thesis using e drain_inv_swap[of M T effs' "[EffRevalidate c 0]" E t'] by auto
  qed
qed auto

lemma candidates_drain:
  assumes d: "drain_inv M T (EffFetchCandidates # E) s" and m: "ac_MaxConcurrentAgents (cfg_Agent cfg) \<le> int M"
    and r: "reduceCandidates s cs cfg = (t, effs)"
  shows "drain_inv M T (effs @ E) t"
proof -
  have d': "drain_inv M T E s" and p: "pend E = []" using d by (auto simp: drain_inv_def)
  have "int (slots_used s) \<le> int M" using d by (simp add: drain_inv_def)
  then have "int (slots_used s) + int (length (pend E)) + max 0 (availableGlobalSlots s cfg) \<le> int M"
    using m used_slots_int[OF drain_inv_sched[OF d]] p by (auto simp: availableGlobalSlots_def Let_def)
  then show ?thesis
    using dispatchLoop_drain[OF d' _ _ r[unfolded reduceCandidates_def]] filterEligible_free
    by (auto simp: sortCandidates_def)
qed

lemma revalidated_drain:
  assumes "drain_inv M T (EffRevalidate i a # E) s" and "reduceRevalidated s i a fresh cfg = (t, effs)"
  shows "drain_inv M T (effs @ E) t"
proof -
  have "drain_inv M T (EffSpawn i a # E) s" using assms(1) by (simp add: drain_inv_def)
  then show ?thesis using assms(2) release_pend_drain[OF assms(1), of "iss_ID i"]
    by (auto simp: reduceRevalidated_def Let_def split: option.splits if_splits)
qed

lemma findIssue_id: "findIssue issues i = Some f \<Longrightarrow> iss_ID f = i"
  by (auto simp: findIssue_def find_Some_iff)

lemma reduceRetryResolved_cases:
  obtains (rearm) e where "re_IssueID e = i"
      "reduceRetryResolved s i ident a issues err cfg now = armRetry s e (backoffDelay (a + 1) cfg) now"
  | (release) "reduceRetryResolved s i ident a issues err cfg now = (releaseClaim s i, [])"
  | (stuck) x where "claimFromRetry s i = Inl x" "reduceRetryResolved s i ident a issues err cfg now = (s, [])"
  | (spawn) f ns where "iss_ID f = i" "claimFromRetry s i = Inr ns" "retryReclaimHasSlot s cfg i (iss_State f)"
      "reduceRetryResolved s i ident a issues err cfg now = (ns, [EffSpawn f a])"
proof (cases err)
  case (Some x)
  then show ?thesis using that(1)[of "retryEntry i ident (a + 1) x"]
    by (simp add: reduceRetryResolved_def retryEntry_def)
next
  case err: None
  show ?thesis
  proof (cases "findIssue issues i")
    case None
    then show ?thesis using that(2) err by (simp add: reduceRetryResolved_def)
  next
    case (Some f)
    define gone where "gone \<longleftrightarrow>
        set_has (normSet (tc_TerminalStates (cfg_Tracker cfg))) (to_lower (iss_State f)) \<or>
        \<not> set_has (normSet (tc_ActiveStates (cfg_Tracker cfg))) (to_lower (iss_State f))"
    have eq: "reduceRetryResolved s i ident a issues err cfg now =
        (if gone then (releaseClaim s i, [])
         else if \<not> retryReclaimHasSlot s cfg i (iss_State f)
         then armRetry s (retryEntry i ident (a + 1) errNoSlots) (backoffDelay (a + 1) cfg) now
         else case claimFromRetry s i of Inl err \<Rightarrow> (s, []) | Inr ns \<Rightarrow> (ns, [EffSpawn f a]))"
      using err Some by (simp add: reduceRetryResolved_def Let_def gone_def)
    have re: "re_IssueID (retryEntry i ident (a + 1) errNoSlots) = i" by (simp add: retryEntry_def)
    show ?thesis
    proof (cases "claimFromRetry s i")
      case (Inl x)
      then show ?thesis using that(1)[OF re] that(2) that(3)[OF Inl] eq
        by (simp split: if_splits)
    next
      case (Inr ns)
      then show ?thesis using that(1)[OF re] that(2) that(4)[OF findIssue_id[OF Some] Inr] eq
        by (simp split: if_splits)
    qed
  qed
qed

text \<open>A fired retry that cannot be claimed is dropped, and its timer with it.\<close>

lemma stuck_drain:
  assumes "drain_inv M T (EffRetryFetch i ident a # E) s" and "claimFromRetry s i = Inl x"
  shows "drain_inv M T E s"
proof -
  have "\<not> in_map i (st_Claimed s)"
    using assms by (auto simp: claimFromRetry_def drain_inv_def sched_inv_def split: if_splits)
  then show ?thesis using assms(1) by (auto simp: drain_inv_def)
qed

lemma retry_resolved_drain:
  assumes d: "drain_inv M T (EffRetryFetch i ident a # E) s"
    and r: "reduceRetryResolved s i ident a issues err cfg now = (t, effs)"
  shows "drain_inv M T (effs @ E) t"
proof (cases rule: reduceRetryResolved_cases[of i s ident a issues err cfg now])
  case (rearm e)
  then have "armRetry s e (backoffDelay (a + 1) cfg) now = (t, effs)" using r by simp
  from armRetry_pair[OF this] show ?thesis using rearm_drain[OF d rearm(1)] rearm(1) by simp
next
  case release
  then show ?thesis using r release_rfetch_drain[OF d] by simp
next
  case (stuck x)
  then show ?thesis using r stuck_drain[OF d] by simp
next
  case (spawn f ns)
  then show ?thesis using r claimFromRetry_drain[OF d spawn(2,1)] by simp
qed

lemma reduceWorkerExit_cases:
  obtains (noop) "reduceWorkerExit s i err a cfg now = (s, [])"
  | (exit) ns e x d where
      "workerExitAbnormal s i x a = Some (ns, e) \<or> workerExitNormal s i = Some (ns, e)"
      "reduceWorkerExit s i err a cfg now = armRetry ns e d now"
proof (cases err)
  case None
  then show ?thesis using that(1) that(2)[of _ _ _ continuationDelay]
    by (cases "workerExitNormal s i") (auto simp: reduceWorkerExit_def)
next
  case (Some x)
  then show ?thesis using that(1) that(2)[of x]
    by (cases "workerExitAbnormal s i x a") (auto simp: reduceWorkerExit_def)
qed

lemma worker_exit_drain:
  assumes "drain_inv M T E s" and "reduceWorkerExit s i err a cfg now = (t, effs)"
  shows "drain_inv M T (effs @ E) t"
proof (cases rule: reduceWorkerExit_cases[of s i err a cfg now])
  case (exit ns e x d)
  then have "armRetry ns e d now = (t, effs)" using assms(2) by simp
  then show ?thesis using workerExit_drain[OF assms(1) exit(1), of d now] by simp
qed (use assms in simp)

text \<open>The contract: every event keeps the invariant, its cause replaced by its effects.\<close>

lemma Reduce_drain:
  assumes d: "drain_inv M T (cause ev @ E) s" and x: "cause ev = [] \<Longrightarrow> E = []"
    and m: "ac_MaxConcurrentAgents (cfg_Agent cfg) \<le> int M"
    and r: "Reduce s ev cfg now = (t, effs)"
  shows "drain_inv M T (effs @ E) t"
proof (cases ev)
  case (EvTick valid)
  then show ?thesis using d r x reduceTick_drain by auto
next
  case (EvTrackerRefreshed ids issues)
  then have "drain_inv M T E s" using d drain_inv_silent[of "EffRefreshTracker ids"] by simp
  then show ?thesis using r EvTrackerRefreshed reconcileLoop_drain[OF _ keyed_by_id_fold]
    by (auto simp: reduceTrackerRefreshed_def)
next
  case (EvCandidatesFetched issues)
  then show ?thesis using d r m candidates_drain by auto
next
  case (EvRevalidated i a fresh)
  then show ?thesis using d r revalidated_drain by auto
next
  case (EvRetryDue i ident a)
  then show ?thesis using d r by auto
next
  case (EvRetryResolved i ident a issues err)
  then show ?thesis using d r retry_resolved_drain by auto
next
  case (EvSpawned i a sess)
  then show ?thesis using d r spawned_drain by auto
next
  case (EvSpawnFailed i a err)
  then show ?thesis using d r reduceSpawnFailed_eq[of i s a err cfg now] spawn_failed_drain[of M T i a E s]
    by auto
next
  case (EvWorkerExit i err a)
  then show ?thesis using d r worker_exit_drain by auto
next
  case (EvCodexActivity i e msg ts u rl td tc)
  then show ?thesis using d r drain_inv_same[OF _ reduceCodexActivity_keeps] by auto
qed

end
