(* ===== verification/SchedShell.thy ===== *)
theory SchedShell
  imports SchedDrain
begin

text \<open>
  The loop that owns the scheduler state (\<open>scheduler.go\<close>, \<open>effects_exec.go\<close>,
  \<open>startup.go\<close>): it folds an event through \<open>Reduce\<close>, publishes the new state and
  interprets the effects in order, depth first.

  The outside world is the record \<open>Deps\<close>: each call out of the loop (tracker, agent
  launcher, workflow file, clock) is answered by a function of the number of calls made so far, so
  that two calls may be answered differently. A missing dependency is \<open>None\<close>. What the loop
  does to the world is recorded in \<open>sc_trace\<close>. A retry timer is the request it will deliver;
  it fires when the environment picks it, which ends its life in \<open>sc_timers\<close>.
\<close>

section \<open>Dependencies and state of the loop\<close>

record 'w SpawnResult =
  sr_Session :: LiveSession
  sr_Worker :: "'w option"

record 'w Deps =
  dp_Candidates :: "(nat \<Rightarrow> sched_error + Issue list) option"
  dp_Spawn :: "(nat \<Rightarrow> Issue \<Rightarrow> int \<Rightarrow> sched_error + 'w SpawnResult) option"
  dp_Now :: "nat \<Rightarrow> time"
  dp_RefreshStates :: "(nat \<Rightarrow> string list \<Rightarrow> sched_error + Issue list) option"
  dp_TerminalIssues :: "nat \<Rightarrow> sched_error + Issue list"
  dp_Workspace :: "(nat \<Rightarrow> string \<Rightarrow> sched_error option) option"
  dp_Workflow :: "nat \<Rightarrow> sched_error + (Config \<times> string)"

record retryFireReq =
  rf_IssueID :: string
  rf_Identifier :: string
  rf_Attempt :: int

datatype 'w call =
    CallSpawn Issue int "string list"
  | CallKill string 'w string
  | CallRemove string
  | CallArm string int duration

record 'w Scheduler =
  sc_interval :: duration
  sc_lastGood :: Config
  sc_lastGoodTemplate :: string
  sc_degraded :: bool
  sc_cur :: State
  sc_cfg :: Config
  sc_published :: State
  sc_workers :: "(string, 'w) gomap"
  sc_timers :: "(string, retryFireReq \<times> duration) gomap"
  sc_io :: nat
  sc_trace :: "'w call list"

definition publish :: "'w Scheduler \<Rightarrow> 'w Scheduler" where
  "publish s = s\<lparr>sc_published := sc_cur s\<rparr>"

definition New :: "Config \<Rightarrow> string \<Rightarrow> 'w Scheduler" where
  "New cfg tmpl = publish
     \<lparr>sc_interval = wrap64 (pc_IntervalMS (cfg_Polling cfg) * millisecond), sc_lastGood = cfg,
      sc_lastGoodTemplate = tmpl, sc_degraded = False, sc_cur = NewState, sc_cfg = cfg,
      sc_published = NewState, sc_workers = [], sc_timers = [], sc_io = 0, sc_trace = []\<rparr>"

definition bump :: "'w Scheduler \<Rightarrow> 'w Scheduler" where
  "bump s = s\<lparr>sc_io := Suc (sc_io s)\<rparr>"

definition log_call :: "'w call \<Rightarrow> 'w Scheduler \<Rightarrow> 'w Scheduler" where
  "log_call c s = s\<lparr>sc_trace := sc_trace s @ [c]\<rparr>"

section \<open>Interpreting one effect\<close>

text \<open>
  Every \<open>exec\<close> function does its I/O and then at most one \<open>step\<close>, as its last action;
  it is modelled as the I/O, with the event to step on as its result.
\<close>

definition execFetchCandidates :: "'w Deps \<Rightarrow> 'w Scheduler \<Rightarrow> 'w Scheduler \<times> Event option" where
  "execFetchCandidates d s =
     (case dp_Candidates d of
        None \<Rightarrow> (s, None)
      | Some Candidates \<Rightarrow>
          if dp_Spawn d = None then (s, None)
          else (case Candidates (sc_io s) of
                  Inl err \<Rightarrow> (bump s, None)
                | Inr cands \<Rightarrow> (bump s, Some (EvCandidatesFetched cands))))"

definition execRefreshTracker :: "'w Deps \<Rightarrow> 'w Scheduler \<Rightarrow> string list \<Rightarrow> 'w Scheduler \<times> Event option" where
  "execRefreshTracker d s ids =
     (case dp_RefreshStates d of
        None \<Rightarrow> (s, None)
      | Some RefreshStates \<Rightarrow>
          if dp_Workspace d = None then (s, None)
          else (case RefreshStates (sc_io s) ids of
                  Inl err \<Rightarrow> (bump s, None)
                | Inr issues \<Rightarrow> (bump s, Some (EvTrackerRefreshed ids issues))))"

definition revalidateIssue ::
    "(nat \<Rightarrow> string list \<Rightarrow> sched_error + Issue list) \<Rightarrow> nat \<Rightarrow> string \<Rightarrow> sched_error + Issue option" where
  "revalidateIssue RefreshStates n issueID =
     (case RefreshStates n [issueID] of
        Inl err \<Rightarrow> Inl err
      | Inr issues \<Rightarrow> Inr (find (\<lambda>i. iss_ID i = issueID) issues))"

definition execRevalidate :: "'w Deps \<Rightarrow> 'w Scheduler \<Rightarrow> Issue \<Rightarrow> int \<Rightarrow> 'w Scheduler \<times> Event option" where
  "execRevalidate d s issue attempt =
     (case dp_RefreshStates d of
        None \<Rightarrow> (s, Some (EvRevalidated issue attempt (Some issue)))
      | Some RefreshStates \<Rightarrow>
          (let fresh = (case revalidateIssue RefreshStates (sc_io s) (iss_ID issue) of
                          Inl err \<Rightarrow> None
                        | Inr fresh \<Rightarrow> fresh)
           in (bump s, Some (EvRevalidated issue attempt fresh))))"

definition execRetryFetch ::
    "'w Deps \<Rightarrow> 'w Scheduler \<Rightarrow> string \<Rightarrow> string \<Rightarrow> int \<Rightarrow> 'w Scheduler \<times> Event option" where
  "execRetryFetch d s issueID identifier attempt =
     (case dp_Candidates d of
        None \<Rightarrow> (s, None)
      | Some Candidates \<Rightarrow>
          if dp_Spawn d = None then (s, None)
          else (bump s, Some
                 (case Candidates (sc_io s) of
                    Inl err \<Rightarrow> EvRetryResolved issueID identifier attempt [] (Some err)
                  | Inr cands \<Rightarrow> EvRetryResolved issueID identifier attempt cands None)))"

definition execSpawn :: "'w Deps \<Rightarrow> 'w Scheduler \<Rightarrow> Issue \<Rightarrow> int \<Rightarrow> 'w Scheduler \<times> Event option" where
  "execSpawn d s issue attempt =
     (case dp_Spawn d of
        None \<Rightarrow> (s, None)
      | Some Spawn \<Rightarrow>
          (let s' = log_call (CallSpawn issue attempt (mkeys (st_Running (sc_cur s)))) (bump s)
           in case Spawn (sc_io s) issue attempt of
                Inl err \<Rightarrow> (s', Some (EvSpawnFailed issue attempt err))
              | Inr res \<Rightarrow>
                  (let s' = (case sr_Worker res of
                               None \<Rightarrow> s'
                             | Some w \<Rightarrow> s'\<lparr>sc_workers := AList.update (iss_ID issue) w (sc_workers s')\<rparr>)
                   in (s', Some (EvSpawned issue attempt (sr_Session res))))))"

definition execKillWorker :: "'w Scheduler \<Rightarrow> string \<Rightarrow> string \<Rightarrow> 'w Scheduler" where
  "execKillWorker s issueID reason =
     (case map_of (sc_workers s) issueID of
        None \<Rightarrow> s
      | Some w \<Rightarrow> log_call (CallKill issueID w reason)
                    (s\<lparr>sc_workers := AList.delete issueID (sc_workers s)\<rparr>))"

definition execRemoveWorkspace :: "'w Deps \<Rightarrow> 'w Scheduler \<Rightarrow> string \<Rightarrow> 'w Scheduler" where
  "execRemoveWorkspace d s identifier =
     (if dp_Workspace d = None then s else log_call (CallRemove identifier) (bump s))"

definition armTimer :: "'w Scheduler \<Rightarrow> string \<Rightarrow> string \<Rightarrow> int \<Rightarrow> duration \<Rightarrow> 'w Scheduler" where
  "armTimer s issueID identifier attempt delay =
     log_call (CallArm issueID attempt delay)
       (s\<lparr>sc_timers := AList.update issueID
            (\<lparr>rf_IssueID = issueID, rf_Identifier = identifier, rf_Attempt = attempt\<rparr>, delay)
            (sc_timers s)\<rparr>)"

definition cancelTimer :: "'w Scheduler \<Rightarrow> string \<Rightarrow> 'w Scheduler" where
  "cancelTimer s issueID =
     (if in_map issueID (sc_timers s) then s\<lparr>sc_timers := AList.delete issueID (sc_timers s)\<rparr> else s)"

fun exec_io :: "'w Deps \<Rightarrow> 'w Scheduler \<Rightarrow> Effect \<Rightarrow> 'w Scheduler \<times> Event option" where
  "exec_io d s EffFetchCandidates = execFetchCandidates d s"
| "exec_io d s (EffRefreshTracker ids) = execRefreshTracker d s ids"
| "exec_io d s (EffRevalidate issue attempt) = execRevalidate d s issue attempt"
| "exec_io d s (EffRetryFetch issueID identifier attempt) = execRetryFetch d s issueID identifier attempt"
| "exec_io d s (EffSpawn issue attempt) = execSpawn d s issue attempt"
| "exec_io d s (EffKillWorker issueID reason) = (execKillWorker s issueID reason, None)"
| "exec_io d s (EffRemoveWorkspace identifier) = (execRemoveWorkspace d s identifier, None)"
| "exec_io d s (EffArmRetryTimer issueID identifier attempt delay) =
     (armTimer s issueID identifier attempt delay, None)"
| "exec_io d s (EffCancelRetryTimer issueID) = (cancelTimer s issueID, None)"

section \<open>The drain\<close>

text \<open>
  \<open>step\<close> and \<open>exec\<close> call each other. The recursion ends because the effects and the
  events they feed back form a hierarchy: a tick may fetch, a fetch may revalidate, a revalidation
  may spawn, a failed spawn may arm a timer, and nothing goes back up. No handler cancels a timer,
  which the rank of that effect, above every event, records.
\<close>

fun ev_rank :: "Event \<Rightarrow> nat" where
  "ev_rank (EvTick _) = 7"
| "ev_rank (EvTrackerRefreshed _ _) = 1"
| "ev_rank (EvCandidatesFetched _) = 5"
| "ev_rank (EvRevalidated _ _ _) = 3"
| "ev_rank (EvRetryDue _ _ _) = 5"
| "ev_rank (EvRetryResolved _ _ _ _ _) = 3"
| "ev_rank _ = 1"

fun eff_rank :: "Effect \<Rightarrow> nat" where
  "eff_rank EffFetchCandidates = 6"
| "eff_rank (EffRefreshTracker _) = 2"
| "eff_rank (EffRevalidate _ _) = 4"
| "eff_rank (EffRetryFetch _ _ _) = 4"
| "eff_rank (EffSpawn _ _) = 2"
| "eff_rank (EffCancelRetryTimer _) = 8"
| "eff_rank _ = 0"

definition ranked :: "nat \<Rightarrow> Effect list \<Rightarrow> bool" where
  "ranked n effs \<longleftrightarrow> (\<forall>e\<in>set effs. eff_rank e < n)"

lemma ranked_simps [simp]:
  "ranked n []" "ranked n (e # E) \<longleftrightarrow> eff_rank e < n \<and> ranked n E" "ranked n (E @ F) \<longleftrightarrow> ranked n E \<and> ranked n F"
  by (auto simp: ranked_def)

lemma armRetry_ranked [simp]: "0 < n \<Longrightarrow> ranked n (snd (armRetry s e d now))"
  by (simp add: armRetry_effects)

lemma stallLoop_ranked: "ranked 1 (snd (stallLoop cfg now th ids s))"
  by (induction ids arbitrary: s)
    (auto simp: Let_def armRetry_def case_prod_unfold split: option.splits)

lemma reconcileOne_ranked: "ranked 1 (snd (reconcileOne byID cfg now i s))"
  by (auto simp: reconcileOne_def reconcileKillRetry_def Let_def armRetry_def split: option.splits prod.splits)

lemma reconcileLoop_ranked: "ranked 1 (snd (reconcileLoop byID cfg now ids s))"
proof (induction ids arbitrary: s)
  case (Cons i ids)
  then show ?case using reconcileOne_ranked[of byID cfg now i s]
    by (auto split: prod.splits) (metis snd_conv)
qed simp

lemma dispatchLoop_ranked: "ranked 5 (snd (dispatchLoop cfg cs s g u))"
  by (induction cs arbitrary: s g u) (auto simp: Let_def split: sum.splits prod.splits, metis snd_conv)

lemma ranked_mono: "ranked m E \<Longrightarrow> m \<le> n \<Longrightarrow> ranked n E"
  by (auto simp: ranked_def)

lemma reduceRetryResolved_ranked: "ranked 3 (snd (reduceRetryResolved s i ident a issues err cfg now))"
  by (cases rule: reduceRetryResolved_cases[of i s ident a issues err cfg now]) auto

lemma Reduce_ranked: "ranked (ev_rank ev) (snd (Reduce s ev cfg now))"
proof (cases ev)
  case (EvTick valid)
  have "ranked 7 (snd (reduceStall s cfg now))"
    using ranked_mono[OF stallLoop_ranked, of 7] by (simp add: reduceStall_def)
  then show ?thesis using EvTick by (auto simp: reduceTick_def split: prod.splits)
next
  case (EvWorkerExit i err a)
  then show ?thesis by (auto simp: reduceWorkerExit_def split: option.splits)
qed (auto simp: reduceTrackerRefreshed_def reconcileLoop_ranked[simplified] reduceCandidates_def
    dispatchLoop_ranked reduceRevalidated_def reduceRetryResolved_ranked reduceSpawnFailed_def Let_def
    split: option.splits)

lemma exec_io_rank: "exec_io d s eff = (s', Some ev) \<Longrightarrow> ev_rank ev < eff_rank eff"
  by (cases eff) (auto simp: execFetchCandidates_def execRefreshTracker_def execRevalidate_def
      execRetryFetch_def execSpawn_def Let_def split: option.splits sum.splits if_splits)

definition max_rank :: "Effect list \<Rightarrow> nat" where
  "max_rank effs = foldr (\<lambda>e n. max (eff_rank e) n) effs 0"

lemma max_rank_simps [simp]: "max_rank [] = 0" "max_rank (e # E) = max (eff_rank e) (max_rank E)"
  by (simp_all add: max_rank_def)

lemma max_rank_less: "ranked n effs \<Longrightarrow> 0 < n \<Longrightarrow> max_rank effs < n"
  by (induction effs) auto

lemma ev_rank_pos: "0 < ev_rank ev"
  by (cases ev) auto

function step :: "'w Deps \<Rightarrow> 'w Scheduler \<Rightarrow> Event \<Rightarrow> 'w Scheduler"
  and exec :: "'w Deps \<Rightarrow> 'w Scheduler \<Rightarrow> Effect \<Rightarrow> 'w Scheduler"
  and exec_all :: "'w Deps \<Rightarrow> 'w Scheduler \<Rightarrow> Effect list \<Rightarrow> 'w Scheduler" where
  "step d s ev =
     (case Reduce (sc_cur s) ev (sc_cfg s) (dp_Now d (sc_io s)) of
        (next, effs) \<Rightarrow> exec_all d (publish ((bump s)\<lparr>sc_cur := next\<rparr>)) effs)"
| "exec d s eff =
     (case exec_io d s eff of
        (s', None) \<Rightarrow> s'
      | (s', Some ev) \<Rightarrow> step d s' ev)"
| "exec_all d s [] = s"
| "exec_all d s (eff # effs) = exec_all d (exec d s eff) effs"
  by pat_completeness auto
termination
proof (relation "inv_image (less_than <*lex*> less_than)
    (case_sum (\<lambda>(d, s, ev). (ev_rank ev, 0))
       (case_sum (\<lambda>(d, s, eff). (eff_rank eff, 0)) (\<lambda>(d, s, effs). (max_rank effs, Suc (length effs)))))",
    goal_cases)
  case (2 d s ev x1 x2)
  then have "ranked (ev_rank ev) x2" using Reduce_ranked[of ev] by (metis snd_conv)
  then show ?case using max_rank_less ev_rank_pos by simp
next
  case (3 d s eff x1 x2 x)
  then show ?case using exec_io_rank[of d s eff x1 x] by simp
qed (auto simp: less_max_iff_disj)

declare step.simps [simp del] exec.simps [simp del]

section \<open>The loop\<close>

definition markDegraded :: "'w Scheduler \<Rightarrow> 'w Scheduler" where
  "markDegraded s = (if \<not> sc_degraded s then s\<lparr>sc_degraded := True\<rparr> else s)"

definition reloadConfig :: "'w Deps \<Rightarrow> 'w Scheduler \<Rightarrow> 'w Scheduler \<times> Config \<times> bool" where
  "reloadConfig d s =
     (case dp_Workflow d (sc_io s) of
        Inl err \<Rightarrow> (markDegraded (bump s), sc_lastGood s, False)
      | Inr (cfg, tmpl) \<Rightarrow>
          (case Preflight cfg of
             Some err \<Rightarrow> (markDegraded (bump s), sc_lastGood s, False)
           | None \<Rightarrow>
               ((bump s)\<lparr>sc_degraded := False, sc_lastGood := cfg, sc_lastGoodTemplate := tmpl\<rparr>, cfg, True)))"

definition tick :: "'w Deps \<Rightarrow> 'w Scheduler \<Rightarrow> 'w Scheduler" where
  "tick d s =
     (let (s, cfg, valid) = reloadConfig d s
      in step d (s\<lparr>sc_cfg := cfg\<rparr>) (EvTick valid))"

definition intervalOrFallback :: "'w Scheduler \<Rightarrow> duration" where
  "intervalOrFallback s = (if sc_interval s > 0 then sc_interval s else second)"

definition applyInterval :: "'w Scheduler \<Rightarrow> 'w Scheduler" where
  "applyInterval s =
     (let want = wrap64 (pc_IntervalMS (cfg_Polling (sc_lastGood s)) * millisecond)
      in if want > 0 \<and> want \<noteq> sc_interval s then s\<lparr>sc_interval := want\<rparr> else s)"

definition handleRetryFire :: "'w Deps \<Rightarrow> 'w Scheduler \<Rightarrow> retryFireReq \<Rightarrow> 'w Scheduler" where
  "handleRetryFire d s req =
     (let s = s\<lparr>sc_timers := AList.delete (rf_IssueID req) (sc_timers s)\<rparr>;
          (s, cfg, valid) = reloadConfig d s
      in if \<not> valid
         then
           (let s = (case map_of (st_RetryAttempts (sc_cur s)) (rf_IssueID req) of
                       None \<Rightarrow> s
                     | Some entry \<Rightarrow>
                         (let entry = entry\<lparr>re_DueAtMS := unix_milli (dp_Now d (sc_io s) + continuationDelay)\<rparr>
                          in publish ((bump s)\<lparr>sc_cur := enqueueRetry (sc_cur s) entry\<rparr>)))
            in armTimer s (rf_IssueID req) (rf_Identifier req) (rf_Attempt req) continuationDelay)
         else step d (s\<lparr>sc_cfg := cfg\<rparr>)
                (EvRetryDue (rf_IssueID req) (rf_Identifier req) (rf_Attempt req)))"

definition StartupCleanup :: "'w Deps \<Rightarrow> 'w Scheduler \<Rightarrow> 'w Scheduler" where
  "StartupCleanup d s =
     (if dp_RefreshStates d = None \<or> dp_Workspace d = None then s
      else (case dp_TerminalIssues d (sc_io s) of
              Inl err \<Rightarrow> bump s
            | Inr issues \<Rightarrow>
                fold (\<lambda>iss s. log_call (CallRemove (iss_Identifier iss)) (bump s)) issues (bump s)))"

text \<open>One turn of the select loop of \<open>Run\<close>, by the case that is ready.\<close>

datatype LoopEvent =
    TickerC
  | RetryFire retryFireReq
  | WorkerDone string "sched_error option" int
  | CodexActivity string string string time "Usage option" "RateLimitSnapshot option" "duration option" bool
  | ReloadCh

fun loop_turn :: "'w Deps \<Rightarrow> 'w Scheduler \<Rightarrow> LoopEvent \<Rightarrow> 'w Scheduler" where
  "loop_turn d s TickerC = applyInterval (tick d s)"
| "loop_turn d s (RetryFire req) = handleRetryFire d s req"
| "loop_turn d s (WorkerDone issueID err attempt) =
     (let s = s\<lparr>sc_workers := AList.delete issueID (sc_workers s)\<rparr>;
          (s, cfg, _) = reloadConfig d s
      in step d (s\<lparr>sc_cfg := cfg\<rparr>) (EvWorkerExit issueID err attempt))"
| "loop_turn d s (CodexActivity issueID event message ts usage rateLimit turnDuration turnCompleted) =
     step d s (EvCodexActivity issueID event message ts usage rateLimit turnDuration turnCompleted)"
| "loop_turn d s ReloadCh = applyInterval (tick d s)"

definition Run :: "'w Deps \<Rightarrow> 'w Scheduler \<Rightarrow> LoopEvent list \<Rightarrow> 'w Scheduler" where
  "Run d s events = fold_events (loop_turn d) (tick d (StartupCleanup d s)) events"

text \<open>A retry request is delivered only by its timer.\<close>

fun timely :: "'w Scheduler \<Rightarrow> LoopEvent \<Rightarrow> bool" where
  "timely s (RetryFire req) \<longleftrightarrow> (case map_of (sc_timers s) (rf_IssueID req) of
     None \<Rightarrow> False | Some (r, delay) \<Rightarrow> r = req)"
| "timely s _ \<longleftrightarrow> True"

section \<open>The invariant of the loop\<close>

definition wired :: "'w Deps \<Rightarrow> bool" where
  "wired d \<longleftrightarrow> dp_Candidates d \<noteq> None \<and> dp_Spawn d \<noteq> None"

definition agents_le :: "nat \<Rightarrow> Config \<Rightarrow> bool" where
  "agents_le M cfg \<longleftrightarrow> ac_MaxConcurrentAgents (cfg_Agent cfg) \<le> int M"

definition deps_ok :: "nat \<Rightarrow> 'w Deps \<Rightarrow> bool" where
  "deps_ok M d \<longleftrightarrow> wired d \<and> (\<forall>n cfg tmpl. dp_Workflow d n = Inr (cfg, tmpl) \<longrightarrow> agents_le M cfg)"

lemma deps_okD: "deps_ok M d \<Longrightarrow> dp_Workflow d n = Inr (cfg, tmpl) \<Longrightarrow> agents_le M cfg"
  by (auto simp: deps_ok_def)

fun call_ok :: "'w call \<Rightarrow> bool" where
  "call_ok (CallSpawn i a running) \<longleftrightarrow> iss_ID i \<notin> set running"
| "call_ok _ \<longleftrightarrow> True"

definition shell_inv :: "nat \<Rightarrow> 'w Deps \<Rightarrow> Effect list \<Rightarrow> 'w Scheduler \<Rightarrow> bool" where
  "shell_inv M d E s \<longleftrightarrow> deps_ok M d \<and> agents_le M (sc_cfg s) \<and> agents_le M (sc_lastGood s) \<and>
     drain_inv M ({k. in_map k (sc_timers s)}) E (sc_cur s) \<and> ranked 8 E \<and>
     list_all call_ok (sc_trace s) \<and> sc_published s = sc_cur s"

lemma New_inv: "deps_ok M d \<Longrightarrow> agents_le M cfg \<Longrightarrow> shell_inv M d [] (New cfg tmpl)"
  by (simp add: shell_inv_def New_def publish_def drain_inv_def NewState_inv slots_used_def occupied_def)
    (simp add: NewState_def)

lemma shell_silent:
  assumes "shell_inv M d (e # E) s" and "silent e" and "sc_cur s' = sc_cur s" "sc_cfg s' = sc_cfg s"
    "sc_lastGood s' = sc_lastGood s" "sc_timers s' = sc_timers s" "list_all call_ok (sc_trace s')"
    "sc_published s' = sc_published s"
  shows "shell_inv M d E s'"
  using assms drain_inv_silent[OF assms(2)] by (auto simp: shell_inv_def)

lemma shell_same:
  assumes "shell_inv M d E s" and "sc_cur s' = sc_cur s" "sc_cfg s' = sc_cfg s"
    "sc_lastGood s' = sc_lastGood s" "sc_timers s' = sc_timers s" "list_all call_ok (sc_trace s')"
    "sc_published s' = sc_published s"
  shows "shell_inv M d E s'"
  using assms by (simp add: shell_inv_def)

lemmas shell_trace_simps = bump_def log_call_def publish_def

lemma armTimer_inv:
  assumes "shell_inv M d (EffArmRetryTimer i ident a dl # E) s"
  shows "shell_inv M d E (armTimer s i ident a dl)"
  using assms by (auto simp: shell_inv_def armTimer_def log_call_def drain_inv_def)

lemma exec_io_None:
  assumes i: "shell_inv M d (eff # E) s" and x: "exec_io d s eff = (s', None)"
  shows "shell_inv M d E s'"
proof -
  have w: "dp_Candidates d \<noteq> None" "dp_Spawn d \<noteq> None" "list_all call_ok (sc_trace s)"
    using i by (auto simp: shell_inv_def deps_ok_def wired_def)
  show ?thesis
  proof (cases eff)
    case (EffArmRetryTimer k ident a dl)
    then show ?thesis using i x armTimer_inv by auto
  next
    case (EffCancelRetryTimer k)
    then show ?thesis using i by (simp add: shell_inv_def)
  qed (use i x w in \<open>auto intro!: shell_silent[OF i] simp: execFetchCandidates_def execRefreshTracker_def
        execRevalidate_def execRetryFetch_def execSpawn_def execKillWorker_def execRemoveWorkspace_def
        shell_trace_simps Let_def split: option.splits sum.splits if_splits\<close>)
qed

lemma exec_io_Some:
  assumes i: "shell_inv M d (eff # E) s" and x: "exec_io d s eff = (s', Some ev)"
  shows "shell_inv M d (cause ev @ E) s' \<and> cause ev = [eff]"
proof -
  have c: "list_all call_ok (sc_trace s)" using i by (simp add: shell_inv_def)
  have "iss_ID is \<notin> set (mkeys (st_Running (sc_cur s)))" if "eff = EffSpawn is a" for "is" a
    using i that by (auto simp: shell_inv_def drain_inv_def occupied_def)
  then have "cause ev = [eff] \<and> sc_cur s' = sc_cur s \<and> sc_cfg s' = sc_cfg s \<and> sc_lastGood s' = sc_lastGood s \<and>
      sc_timers s' = sc_timers s \<and> list_all call_ok (sc_trace s') \<and> sc_published s' = sc_published s"
    using x c by (cases eff)
      (auto simp: execFetchCandidates_def execRefreshTracker_def execRevalidate_def execRetryFetch_def
        execSpawn_def shell_trace_simps Let_def split: option.splits sum.splits if_splits)
  then show ?thesis using shell_same[OF i] by simp
qed

lemma step_state_inv:
  assumes "shell_inv M d (cause ev @ E) s" and "cause ev = [] \<Longrightarrow> E = []"
    and "Reduce (sc_cur s) ev (sc_cfg s) now = (t, effs)"
  shows "shell_inv M d (effs @ E) (publish ((bump s)\<lparr>sc_cur := t\<rparr>))"
proof -
  have "drain_inv M ({k. in_map k (sc_timers s)}) (effs @ E) t"
    using Reduce_drain[OF _ assms(2) _ assms(3)] assms(1) by (simp add: shell_inv_def agents_le_def)
  moreover have "ranked 8 effs"
    using ranked_mono[OF Reduce_ranked[of ev "sc_cur s" "sc_cfg s" now], of 8] assms(3)
    by (cases ev) auto
  ultimately show ?thesis using assms(1) by (simp add: shell_inv_def shell_trace_simps)
qed

lemma drain_steps:
  fixes d :: "'w Deps"
  shows "shell_inv M d (cause ev @ E) s \<Longrightarrow> (cause ev = [] \<Longrightarrow> E = []) \<Longrightarrow> shell_inv M d E (step d s ev)"
    and "shell_inv M d (eff # E) s \<Longrightarrow> shell_inv M d E (exec d s eff)"
    and "shell_inv M d (effs @ E) s \<Longrightarrow> shell_inv M d E (exec_all d s effs)"
proof (induction d s ev and d s eff and d s effs arbitrary: E and E and E
    rule: step_exec_exec_all.induct)
  case (1 d s ev)
  obtain t effs where r: "Reduce (sc_cur s) ev (sc_cfg s) (dp_Now d (sc_io s)) = (t, effs)" by fastforce
  show ?case using 1(1)[OF r[symmetric] step_state_inv[OF 1(2,3) r]] r by (simp add: step.simps)
next
  case (2 d s eff)
  obtain s' r where x: "exec_io d s eff = (s', r)" by fastforce
  show ?case
  proof (cases r)
    case None
    then show ?thesis using x exec_io_None[OF 2(2)] by (simp add: exec.simps)
  next
    case (Some ev)
    have "shell_inv M d (cause ev @ E) s'" "cause ev = [eff]"
      using exec_io_Some[OF 2(2), of s' ev] x Some by auto
    then show ?thesis using x Some 2(1)[of s' r ev E] by (simp add: exec.simps)
  qed
qed auto

lemma agents_le_reload:
  assumes "shell_inv M d E s" and "reloadConfig d s = (s', cfg, valid)"
  shows "shell_inv M d E s' \<and> agents_le M cfg \<and> sc_cur s' = sc_cur s \<and> sc_timers s' = sc_timers s \<and>
    sc_trace s' = sc_trace s \<and> sc_cfg s' = sc_cfg s"
proof -
  have "agents_le M cfg'" if "dp_Workflow d (sc_io s) = Inr (cfg', tmpl)" for cfg' tmpl
    using that assms(1) deps_okD by (auto simp: shell_inv_def)
  then show ?thesis
    using assms by (auto simp: reloadConfig_def shell_inv_def bump_def markDegraded_def
        split: sum.splits option.splits if_splits)
qed

lemma shell_inv_cfg: "shell_inv M d E s \<Longrightarrow> agents_le M cfg \<Longrightarrow> shell_inv M d E (s\<lparr>sc_cfg := cfg\<rparr>)"
  by (simp add: shell_inv_def)

lemma shell_inv_workers: "shell_inv M d E (s\<lparr>sc_workers := w\<rparr>) = shell_inv M d E s"
  by (simp add: shell_inv_def)

lemma step_external: "shell_inv M d [] s \<Longrightarrow> cause ev = [] \<Longrightarrow> shell_inv M d [] (step d s ev)"
  using drain_steps(1)[of M d ev "[]" s] by simp

lemma tick_inv: "shell_inv M d [] s \<Longrightarrow> shell_inv M d [] (tick d s)"
  using agents_le_reload[of M d "[]" s]
  by (auto simp: tick_def split: prod.splits intro!: step_external shell_inv_cfg)

lemma applyInterval_inv: "shell_inv M d E s \<Longrightarrow> shell_inv M d E (applyInterval s)"
  by (simp add: applyInterval_def Let_def shell_inv_def)

text \<open>A timer that fires leaves its issue to be resolved.\<close>

lemma fired_inv:
  assumes "shell_inv M d [] s" and "in_map (rf_IssueID req) (sc_timers s)"
  shows "shell_inv M d [EffRetryFetch (rf_IssueID req) ident a]
    (s\<lparr>sc_timers := AList.delete (rf_IssueID req) (sc_timers s)\<rparr>)"
  using assms by (auto simp: shell_inv_def drain_inv_def)

lemma handleRetryFire_inv:
  assumes i: "shell_inv M d [] s" and t: "in_map (rf_IssueID req) (sc_timers s)"
  shows "shell_inv M d [] (handleRetryFire d s req)"
proof -
  let ?k = "rf_IssueID req"
  let ?s0 = "s\<lparr>sc_timers := AList.delete ?k (sc_timers s)\<rparr>"
  obtain s1 cfg valid where r: "reloadConfig d ?s0 = (s1, cfg, valid)" by (metis prod_cases3)
  have f: "shell_inv M d [EffRetryFetch ?k (rf_Identifier req) (rf_Attempt req)] s1" and c: "agents_le M cfg"
    using agents_le_reload[OF fired_inv[OF i t] r] by auto
  show ?thesis
  proof (cases valid)
    case True
    then show ?thesis
      using drain_steps(1)[of M d "EvRetryDue ?k (rf_Identifier req) (rf_Attempt req)" "[]"] shell_inv_cfg[OF f c] r
      by (simp add: handleRetryFire_def Let_def)
  next
    case False
    obtain entry where e: "map_of (st_RetryAttempts (sc_cur s1)) ?k = Some entry"
      using f by (auto simp: shell_inv_def drain_inv_def in_map_iff)
    let ?due = "unix_milli (dp_Now d (sc_io s1) + continuationDelay)"
    let ?t = "enqueueRetry (sc_cur s1) (entry\<lparr>re_DueAtMS := ?due\<rparr>)"
    have "re_IssueID entry = ?k" using f e by (auto simp: shell_inv_def drain_inv_def sched_inv_def sched_keyed_def)
    then have "drain_inv M ({k. in_map k (sc_timers s1)})
        [EffArmRetryTimer ?k (rf_Identifier req) (rf_Attempt req) continuationDelay] ?t"
      using rearm_drain[of M _ ?k "rf_Identifier req" "rf_Attempt req" "[]" "sc_cur s1"
          "entry\<lparr>re_DueAtMS := ?due\<rparr>" _ _ _ continuationDelay "dp_Now d (sc_io s1)"] f
      by (simp add: shell_inv_def armRetry_def Let_def)
    then have "shell_inv M d [EffArmRetryTimer ?k (rf_Identifier req) (rf_Attempt req) continuationDelay]
        (publish ((bump s1)\<lparr>sc_cur := ?t\<rparr>))"
      using f by (simp add: shell_inv_def shell_trace_simps)
    from armTimer_inv[OF this] show ?thesis using r e False by (simp add: handleRetryFire_def Let_def)
  qed
qed

lemma loop_turn_inv:
  assumes "shell_inv M d [] s" and "timely s ev"
  shows "shell_inv M d [] (loop_turn d s ev)"
proof (cases ev)
  case (RetryFire req)
  then show ?thesis using assms handleRetryFire_inv[of M d s req]
    by (auto split: option.splits dest: map_of_Some_in_map)
next
  case (WorkerDone i err a)
  then show ?thesis using assms agents_le_reload[of M d "[]" "s\<lparr>sc_workers := AList.delete i (sc_workers s)\<rparr>"]
    by (auto simp: shell_inv_workers split: prod.splits intro!: step_external shell_inv_cfg)
qed (use assms in \<open>auto intro: applyInterval_inv tick_inv step_external\<close>)

lemma StartupCleanup_inv: "shell_inv M d [] s \<Longrightarrow> shell_inv M d [] (StartupCleanup d s)"
proof -
  have "shell_inv M d [] s \<Longrightarrow>
      shell_inv M d [] (fold (\<lambda>iss s. log_call (CallRemove (iss_Identifier iss)) (bump s)) issues s)"
    for issues :: "Issue list" and s :: "'a Scheduler"
    by (induction issues arbitrary: s) (auto simp: shell_inv_def shell_trace_simps)
  moreover have "shell_inv M d [] s \<Longrightarrow> shell_inv M d [] (bump s)" for s :: "'a Scheduler"
    by (simp add: shell_inv_def bump_def)
  ultimately show "shell_inv M d [] s \<Longrightarrow> shell_inv M d [] (StartupCleanup d s)"
    by (auto simp: StartupCleanup_def split: sum.splits)
qed

interpretation sched_loop: reducer "loop_turn d" timely "shell_inv M d []"
  for d :: "'w Deps" and M :: nat
  by unfold_locales (rule loop_turn_inv)

text \<open>Every state the loop rests in between two events.\<close>

definition loop_start :: "'w Deps \<Rightarrow> Config \<Rightarrow> string \<Rightarrow> 'w Scheduler" where
  "loop_start d cfg tmpl = tick d (StartupCleanup d (New cfg tmpl))"

lemma Run_inv:
  assumes "deps_ok M d" and "agents_le M cfg" and "adm_run (loop_turn d) timely (loop_start d cfg tmpl) evs"
  shows "shell_inv M d [] (Run d (New cfg tmpl) evs)"
proof -
  have "shell_inv M d [] (loop_start d cfg tmpl)"
    using assms by (simp add: loop_start_def tick_inv StartupCleanup_inv New_inv)
  from sched_loop.run_inv[OF this assms(3)] show ?thesis by (simp add: Run_def loop_start_def)
qed

end
