(* ===== verification/SchedStarve.thy ===== *)
theory SchedStarve
  imports SchedShell
begin

text \<open>
  What becomes of an issue that is queued for retry without holding a claim. A failed spawn
  releases the claim before it queues the retry, so that the issue is in this position when its
  timer fires; the fired retry cannot be claimed again and is dropped together with its timer.
  \<open>lost\<close> describes the issue from then on, and the lemmas show that no event brings it back.
\<close>

definition lost :: "string \<Rightarrow> State \<Rightarrow> bool" where
  "lost i s \<longleftrightarrow> in_map i (st_RetryAttempts s) \<and> \<not> in_map i (st_Claimed s) \<and> \<not> in_map i (st_Running s)"

definition touched :: "Effect list \<Rightarrow> string set" where
  "touched E = set (pend E @ arms E @ rfetches E)"

lemma touched_simps [simp]:
  "touched [] = {}" "touched (e # E) = set (pend_of e @ arm_of e @ rfetch_of e) \<union> touched E"
  "touched (E @ F) = touched E \<union> touched F"
  by (auto simp: touched_def)

lemma lost_frame: "lost i s \<Longrightarrow> frame_except k s t \<Longrightarrow> k \<noteq> i \<Longrightarrow> lost i t"
  using view_in_map[of t i s] by (simp add: lost_def frame_except_def)

lemma lost_same: "lost i s \<Longrightarrow> same_slots s t \<Longrightarrow> lost i t"
  by (simp add: lost_def same_slots_def)

lemma requeue_frame: "re_IssueID e = k \<Longrightarrow> frame_except k s (requeue s k e d now)"
  by (simp add: frame_except_def requeue_view)

lemma lost_not_running: "lost i s \<Longrightarrow> in_map k (st_Running s) \<Longrightarrow> k \<noteq> i"
  by (auto simp: lost_def)

lemma workerExit_lost:
  assumes "lost i s"
    and "workerExitAbnormal s k err a = Some (ns, e) \<or> workerExitNormal s k = Some (ns, e)"
  shows "lost i (fst (armRetry ns e d now)) \<and> i \<notin> touched (snd (armRetry ns e d now))"
proof -
  have k: "in_map k (st_Running s)" "re_IssueID e = k" "fst (armRetry ns e d now) = requeue s k e d now"
    using assms(2) workerExitAbnormal_requeue workerExitNormal_requeue by blast+
  then have "k \<noteq> i" using assms(1) lost_not_running by blast
  then show ?thesis using k lost_frame[OF assms(1) requeue_frame[OF k(2)]] by (simp add: armRetry_effects)
qed

lemma reconcileKillRetry_lost:
  assumes "lost i s" and "reconcileKillRetry s k a c r cfg now = (t, effs)"
  shows "lost i t \<and> i \<notin> touched effs"
proof (cases "workerExitAbnormal s k c a")
  case (Some p)
  then obtain ns e where p: "workerExitAbnormal s k c a = Some (ns, e)" by (cases p) auto
  show ?thesis
    using assms(2) workerExit_lost[OF assms(1) disjI1[OF p], of "backoffDelay (re_Attempt e) cfg" now] p
    by (auto simp: reconcileKillRetry_def case_prod_unfold Let_def)
qed (use assms in \<open>simp add: reconcileKillRetry_def\<close>)

lemma reconcileOne_lost:
  assumes l: "lost i s" and r: "reconcileOne byID cfg now k s = (t, effs)"
  shows "lost i t \<and> i \<notin> touched effs"
proof (cases "map_of (st_Running s) k")
  case (Some run)
  have k: "k \<noteq> i" using lost_not_running[OF l map_of_Some_in_map[OF Some]] .
  have u: "same_slots s (updateIssueSnapshot s k iss)" for iss
    using Some map_of_Some_in_map[OF Some] by (auto simp: updateIssueSnapshot_def same_slots_def)
  show ?thesis
    using r Some reconcileKillRetry_lost[OF l, of k "ra_Attempt run"] lost_same[OF l u]
      lost_frame[OF l releaseClaim_frame k]
    by (auto simp: reconcileOne_def Let_def split: option.splits if_splits)
qed (use assms in \<open>simp add: reconcileOne_def\<close>)

lemma reconcileLoop_lost:
  "lost i s \<Longrightarrow> reconcileLoop byID cfg now ids s = (t, effs) \<Longrightarrow> lost i t \<and> i \<notin> touched effs"
proof (induction ids arbitrary: s t effs)
  case (Cons k ids)
  obtain s1 effs1 where 1: "reconcileOne byID cfg now k s = (s1, effs1)" by fastforce
  obtain s2 effs2 where 2: "reconcileLoop byID cfg now ids s1 = (s2, effs2)" by fastforce
  show ?case using Cons.prems(2) reconcileOne_lost[OF Cons.prems(1) 1] Cons.IH[OF _ 2] 1 2 by auto
qed simp

lemma stallLoop_lost:
  "lost i s \<Longrightarrow> lost i (fst (stallLoop cfg now th ids s)) \<and> i \<notin> touched (snd (stallLoop cfg now th ids s))"
proof (induction ids arbitrary: s)
  case (Cons k ids)
  have "lost i (fst (armRetry ns e d now)) \<and> i \<notin> touched (snd (armRetry ns e d now))"
    if "workerExitAbnormal s k ErrStall a = Some (ns, e)" for ns e a d
    using workerExit_lost[OF Cons.prems disjI1[OF that]] .
  then show ?case using Cons by (auto simp: Let_def case_prod_unfold split: option.splits)
qed simp

lemma dispatchLoop_lost:
  "lost i s \<Longrightarrow> \<forall>c\<in>set cs. iss_ID c \<noteq> i \<Longrightarrow>
     lost i (fst (dispatchLoop cfg cs s g u)) \<and> i \<notin> touched (snd (dispatchLoop cfg cs s g u))"
proof (induction cs arbitrary: s g u)
  case (Cons c cs)
  have "lost i ns" if "claim s c = Inr ns" for ns
    using that Cons.prems by (auto simp: claim_def lost_def split: if_splits)
  then show ?case using Cons by (auto simp: Let_def case_prod_unfold split: sum.splits)
qed simp

lemma reduceRetryResolved_lost:
  assumes "lost i s" and "k \<noteq> i" and "reduceRetryResolved s k ident a issues err cfg now = (t, effs)"
  shows "lost i t \<and> i \<notin> touched effs"
proof (cases rule: reduceRetryResolved_cases[of k s ident a issues err cfg now])
  case (rearm e)
  then have "armRetry s e (backoffDelay (a + 1) cfg) now = (t, effs)" using assms(3) by simp
  from armRetry_pair[OF this] show ?thesis
    using rearm(1) assms(2) lost_frame[OF assms(1) armRetry_frame[of e s]] by auto
next
  case release
  then show ?thesis using assms lost_frame[OF assms(1) releaseClaim_frame] by simp
next
  case (stuck x)
  then show ?thesis using assms by simp
next
  case (spawn f ns)
  then show ?thesis using assms by (auto simp: claimFromRetry_def lost_def split: if_splits)
qed

lemma Reduce_lost:
  assumes l: "lost i s" and c: "i \<notin> touched (cause ev)" and r: "Reduce s ev cfg now = (t, effs)"
  shows "lost i t \<and> i \<notin> touched effs"
proof (cases ev)
  case (EvTick valid)
  have "lost i (fst (reduceStall s cfg now)) \<and> i \<notin> touched (snd (reduceStall s cfg now))"
    using stallLoop_lost[OF l] l by (simp add: reduceStall_def)
  then show ?thesis using r EvTick by (auto simp: reduceTick_def case_prod_unfold Let_def split: if_splits)
next
  case (EvTrackerRefreshed ids issues)
  then show ?thesis using r reconcileLoop_lost[OF l] by (auto simp: reduceTrackerRefreshed_def)
next
  case (EvCandidatesFetched issues)
  have "\<forall>x\<in>set (sortCandidates (filterEligible issues s cfg)). iss_ID x \<noteq> i"
    using l filterEligible_free by (auto simp: sortCandidates_def lost_def occupied_iff)
  from dispatchLoop_lost[OF l this] show ?thesis
    using r EvCandidatesFetched by (simp add: reduceCandidates_def) (metis fst_conv snd_conv)
next
  case (EvRevalidated issue a fresh)
  then show ?thesis using r c lost_frame[OF l releaseClaim_frame[of "iss_ID issue" s]] l
    by (auto simp: reduceRevalidated_def Let_def split: option.splits if_splits)
next
  case (EvRetryResolved k ident a issues err)
  then show ?thesis using r c reduceRetryResolved_lost[OF l, of k ident a issues err cfg now t effs] by auto
next
  case (EvSpawned issue a sess)
  then show ?thesis using r c l by (auto simp: markRunning_def lost_def)
next
  case (EvSpawnFailed issue a err)
  then show ?thesis
    using r c l reduceSpawnFailed_eq[of issue s a err cfg now]
    by (auto simp: lost_def armRetry_fields releaseClaim_fields)
next
  case (EvWorkerExit k err a)
  then show ?thesis using r l
  proof (cases rule: reduceWorkerExit_cases[of s k err a cfg now])
    case (exit ns e x d)
    then have "armRetry ns e d now = (t, effs)" using r EvWorkerExit by simp
    then show ?thesis using workerExit_lost[OF l exit(1), of d now] by simp
  qed simp
next
  case (EvCodexActivity k e msg ts u rl td tc)
  then show ?thesis using r lost_same[OF l] reduceCodexActivity_keeps by (auto simp: keeps_def)
qed (use r c l in auto)

section \<open>The issue in the loop\<close>

definition shell_lost :: "string \<Rightarrow> 'w Scheduler \<Rightarrow> bool" where
  "shell_lost i s \<longleftrightarrow> lost i (sc_cur s) \<and> \<not> in_map i (sc_timers s)"

fun spawns :: "string \<Rightarrow> 'w call \<Rightarrow> bool" where
  "spawns i (CallSpawn issue a running) \<longleftrightarrow> iss_ID issue = i"
| "spawns i _ \<longleftrightarrow> False"

definition spawn_count :: "string \<Rightarrow> 'w Scheduler \<Rightarrow> nat" where
  "spawn_count i s = length (filter (spawns i) (sc_trace s))"

definition stays_lost :: "string \<Rightarrow> 'w Scheduler \<Rightarrow> 'w Scheduler \<Rightarrow> bool" where
  "stays_lost i s s' \<longleftrightarrow> (shell_lost i s \<longrightarrow> shell_lost i s' \<and> spawn_count i s' = spawn_count i s)"

lemma stays_lost_trans: "stays_lost i s t \<Longrightarrow> stays_lost i t u \<Longrightarrow> stays_lost i s u"
  by (simp add: stays_lost_def)

lemma exec_io_lost:
  assumes "exec_io d s eff = (s', r)" and "i \<notin> touched [eff]"
  shows "stays_lost i s s' \<and> (\<forall>ev. r = Some ev \<longrightarrow> i \<notin> touched (cause ev))"
  using assms by (cases eff)
    (auto simp: execFetchCandidates_def execRefreshTracker_def execRevalidate_def execRetryFetch_def
      execSpawn_def execKillWorker_def execRemoveWorkspace_def armTimer_def cancelTimer_def
      stays_lost_def shell_lost_def spawn_count_def shell_trace_simps Let_def
      split: option.splits sum.splits if_splits)

lemma drain_lost:
  fixes d :: "'w Deps"
  shows "i \<notin> touched (cause ev) \<Longrightarrow> stays_lost i s (step d s ev)"
    and "i \<notin> touched [eff] \<Longrightarrow> stays_lost i s (exec d s eff)"
    and "i \<notin> touched effs \<Longrightarrow> stays_lost i s (exec_all d s effs)"
proof (induction d s ev and d s eff and d s effs rule: step_exec_exec_all.induct)
  case (1 d s ev)
  obtain t effs where r: "Reduce (sc_cur s) ev (sc_cfg s) (dp_Now d (sc_io s)) = (t, effs)" by fastforce
  let ?s' = "publish ((bump s)\<lparr>sc_cur := t\<rparr>)"
  show ?case
  proof (cases "shell_lost i s")
    case True
    then have l: "lost i t" "i \<notin> touched effs" using Reduce_lost[OF _ 1(2) r] by (auto simp: shell_lost_def)
    then have "stays_lost i s ?s'" by (simp add: stays_lost_def shell_lost_def spawn_count_def shell_trace_simps)
    then show ?thesis using 1(1)[OF r[symmetric] l(2)] r stays_lost_trans by (auto simp: step.simps)
  qed (simp add: stays_lost_def)
next
  case (2 d s eff)
  obtain s' r where x: "exec_io d s eff = (s', r)" by fastforce
  show ?case
  proof (cases r)
    case None
    then show ?thesis using x exec_io_lost[OF x 2(2)] by (simp add: exec.simps)
  next
    case (Some ev)
    then show ?thesis using x exec_io_lost[OF x 2(2)] 2(1)[of s' r ev] stays_lost_trans[of i s s']
      by (simp add: exec.simps)
  qed
next
  case (4 d s eff effs)
  then show ?case using stays_lost_trans[of i s "exec d s eff"] by simp
qed (simp add: stays_lost_def)

lemma reload_lost: "reloadConfig d s = (s', cfg, valid) \<Longrightarrow> stays_lost i s (s'\<lparr>sc_cfg := cfg'\<rparr>)"
  by (auto simp: reloadConfig_def stays_lost_def shell_lost_def spawn_count_def markDegraded_def bump_def
      split: sum.splits option.splits if_splits)

lemma tick_lost: "stays_lost i s (tick d s)"
  using stays_lost_trans[OF reload_lost drain_lost(1)[of i "EvTick _"]]
  by (auto simp: tick_def split: prod.splits)

lemma handleRetryFire_lost:
  assumes "rf_IssueID req \<noteq> i"
  shows "stays_lost i s (handleRetryFire d s req)"
proof -
  let ?s0 = "s\<lparr>sc_timers := AList.delete (rf_IssueID req) (sc_timers s)\<rparr>"
  obtain s1 cfg valid where r: "reloadConfig d ?s0 = (s1, cfg, valid)" by (metis prod_cases3)
  have 0: "stays_lost i s ?s0" by (simp add: stays_lost_def shell_lost_def spawn_count_def)
  note 1 = stays_lost_trans[OF 0 reload_lost[OF r]]
  show ?thesis
  proof (cases valid)
    case True
    then show ?thesis
      using stays_lost_trans[OF 1 drain_lost(1)[of i "EvRetryDue (rf_IssueID req) (rf_Identifier req) (rf_Attempt req)" _ d], of cfg]
        r assms by (simp add: handleRetryFire_def Let_def)
  next
    case False
    have "stays_lost i s s1" using 1[of "sc_cfg s1"] by simp
    then show ?thesis using False r assms
      by (auto simp: handleRetryFire_def Let_def stays_lost_def shell_lost_def lost_def spawn_count_def
          armTimer_def shell_trace_simps enqueueRetry_fields split: option.splits)
  qed
qed

lemma loop_turn_lost:
  assumes "timely s ev"
  shows "stays_lost i s (loop_turn d s ev)"
proof (cases ev)
  case TickerC
  then show ?thesis using tick_lost[of i s d]
    by (auto simp: applyInterval_def Let_def stays_lost_def shell_lost_def spawn_count_def)
next
  case ReloadCh
  then show ?thesis using tick_lost[of i s d]
    by (auto simp: applyInterval_def Let_def stays_lost_def shell_lost_def spawn_count_def)
next
  case (RetryFire req)
  then show ?thesis
    using assms handleRetryFire_lost[of req i s d]
    by (cases "rf_IssueID req = i") (auto simp: stays_lost_def shell_lost_def split: option.splits dest: map_of_Some_in_map)
next
  case (WorkerDone k err a)
  let ?s0 = "s\<lparr>sc_workers := AList.delete k (sc_workers s)\<rparr>"
  have "stays_lost i s ?s0" by (simp add: stays_lost_def shell_lost_def spawn_count_def)
  then show ?thesis
    using WorkerDone stays_lost_trans[OF stays_lost_trans[OF _ reload_lost] drain_lost(1)[of i "EvWorkerExit k err a"]]
    by (auto split: prod.splits)
next
  case (CodexActivity k e msg ts u rl td tc)
  then show ?thesis using drain_lost(1)[of i "EvCodexActivity k e msg ts u rl td tc"] by simp
qed

interpretation lost_loop: monotone_reducer "loop_turn d" timely "\<lambda>_. True" "stays_lost i"
  for d :: "'w Deps" and i :: string
  by unfold_locales (auto simp: loop_turn_lost intro: stays_lost_trans simp: stays_lost_def[of _ s s for s])

end
