(* ===== verification/SchedDecide.thy ===== *)
theory SchedDecide
  imports SchedInv "HOL-Library.Sublist"
begin

text \<open>
  What single handlers decide: which candidates a dispatch pass claims, what releasing a claim does
  to the accounts, which runs a stall check or a reconcile pass ends.
\<close>

section \<open>One dispatch pass\<close>

text \<open>The issues a pass revalidates, by normalised state.\<close>

fun eff_state :: "Effect \<Rightarrow> string list" where
  "eff_state (EffRevalidate i a) = [to_lower (iss_State i)]"
| "eff_state _ = []"

definition dispatched_in :: "string \<Rightarrow> Effect list \<Rightarrow> int" where
  "dispatched_in norm effs = int (length (filter (\<lambda>e. norm \<in> set (eff_state e)) effs))"

lemma dispatched_in_simps [simp]:
  "dispatched_in norm [] = 0"
  "dispatched_in norm (EffRevalidate i a # effs) =
     (if to_lower (iss_State i) = norm then 1 else 0) + dispatched_in norm effs"
  by (auto simp: dispatched_in_def)

lemma perStateRunning_eq: "perStateRunning s norm = runningInState s norm"
proof -
  have "fold (\<lambda>(id, run) used. (let n = to_lower (iss_State (ra_Issue run)) in used(n := used n + 1))) xs f norm =
      f norm + int (length (filter (\<lambda>(id, run). to_lower (iss_State (ra_Issue run)) = norm) xs))"
    for xs :: "(string \<times> RunAttempt) list" and f :: "string \<Rightarrow> int"
    by (induction xs arbitrary: f) (auto simp: Let_def)
  then show ?thesis by (simp add: perStateRunning_def runningInState_def)
qed

lemma dispatchLoop_global:
  "dispatchLoop cfg cs s g u = (t, effs) \<Longrightarrow> int (length effs) \<le> max 0 g"
proof (induction cs arbitrary: s g u t effs)
  case (Cons c cs)
  then show ?case
    by (fastforce simp: Let_def split: if_splits sum.splits prod.splits)
qed simp

lemma dispatchLoop_state_cap:
  "dispatchLoop cfg cs s g u = (t, effs) \<Longrightarrow>
     u norm + dispatched_in norm effs \<le> max (u norm) (stateCapacity cfg norm)"
proof (induction cs arbitrary: s g u t effs)
  case (Cons c cs)
  let ?n = "to_lower (iss_State c)"
  show ?case
  proof (cases "dispatchLoop cfg (c # cs) s g u = (s, []) \<or>
                dispatchLoop cfg (c # cs) s g u = dispatchLoop cfg cs s g u")
    case True
    then show ?thesis using Cons by (metis add.right_neutral dispatched_in_simps(1) max.cobounded1 prod.inject)
  next
    case False
    then obtain ns t' effs' where u: "u ?n < stateCapacity cfg ?n"
      and d: "dispatchLoop cfg cs ns (g - 1) (u(?n := u ?n + 1)) = (t', effs')"
      and e: "effs = EffRevalidate c 0 # effs'"
      using Cons.prems by (auto simp: Let_def split: if_splits sum.splits prod.splits)
    show ?thesis using Cons.IH[OF d] u e by (auto split: if_splits)
  qed
qed simp

lemma dispatchLoop_claims:
  "dispatchLoop cfg cs s g u = (t, effs) \<Longrightarrow> in_map k (st_Claimed s) \<Longrightarrow> in_map k (st_Claimed t)"
proof (induction cs arbitrary: s g u t effs)
  case (Cons c cs)
  have "in_map k (st_Claimed ns)" if "claim s c = Inr ns" for ns
    using that Cons.prems(2) by (auto simp: claim_def split: if_splits)
  then show ?case using Cons by (auto simp: Let_def split: if_splits sum.splits prod.splits)
qed simp

text \<open>A candidate is passed over only for want of a slot.\<close>

lemma dispatchLoop_passed_over:
  "dispatchLoop cfg cs s g u = (t, effs) \<Longrightarrow> c \<in> set cs \<Longrightarrow> \<not> in_map (iss_ID c) (st_Claimed t) \<Longrightarrow>
     \<forall>x\<in>set cs. \<not> in_map (iss_ID x) (st_Running s) \<Longrightarrow>
     g \<le> int (length effs) \<or>
     stateCapacity cfg (to_lower (iss_State c)) \<le>
       u (to_lower (iss_State c)) + dispatched_in (to_lower (iss_State c)) effs"
proof (induction cs arbitrary: s g u t effs)
  case (Cons x cs)
  let ?n = "to_lower (iss_State x)"
  have c: "claim s x = Inl ErrDuplicateDispatch \<and> in_map (iss_ID x) (st_Claimed s) \<or>
      (\<exists>ns. claim s x = Inr ns \<and> in_map (iss_ID x) (st_Claimed ns) \<and> st_Running ns = st_Running s)"
    using Cons.prems(4) by (auto simp: claim_def)
  consider (full) "g \<le> 0" | (cap) "0 < g" "stateCapacity cfg ?n \<le> u ?n"
    | (dup) "0 < g" "u ?n < stateCapacity cfg ?n" "claim s x = Inl ErrDuplicateDispatch" "in_map (iss_ID x) (st_Claimed s)"
    | (ok) ns where "0 < g" "u ?n < stateCapacity cfg ?n" "claim s x = Inr ns"
        "in_map (iss_ID x) (st_Claimed ns)" "st_Running ns = st_Running s"
    using c by (meson not_le)
  then show ?case
  proof cases
    case full
    then show ?thesis by simp
  next
    case cap
    have d: "dispatchLoop cfg cs s g u = (t, effs)" using Cons.prems(1) cap by simp
    have "0 \<le> dispatched_in ?n effs" by (simp add: dispatched_in_def)
    then show ?thesis using Cons.IH[OF d] Cons.prems cap by (cases "c = x") auto
  next
    case dup
    then have d: "dispatchLoop cfg cs s g u = (t, effs)" using Cons.prems(1) by simp
    then show ?thesis using Cons.IH[OF d] Cons.prems(2-) dispatchLoop_claims[OF d dup(4)] by (cases "c = x") auto
  next
    case ok
    obtain t' effs' where d: "dispatchLoop cfg cs ns (g - 1) (u(?n := u ?n + 1)) = (t', effs')" by fastforce
    then have e: "t = t'" "effs = EffRevalidate x 0 # effs'" using Cons.prems(1) ok by (auto simp: Let_def)
    show ?thesis using Cons.IH[OF d] Cons.prems(2-) dispatchLoop_claims[OF d ok(4)] ok(5) e
      by (cases "c = x") (auto split: if_splits)
  qed
qed simp

lemma dispatchLoop_subseq:
  "dispatchLoop cfg cs s g u = (t, effs) \<Longrightarrow>
     \<exists>ds. subseq ds cs \<and> effs = map (\<lambda>c. EffRevalidate c 0) ds"
proof (induction cs arbitrary: s g u t effs)
  case (Cons c cs)
  show ?case
  proof (cases "effs = [] \<or> dispatchLoop cfg cs s g u = (t, effs)")
    case True
    then show ?thesis using Cons.IH list_emb_Cons by (metis list.map_disc_iff list_emb_Nil)
  next
    case False
    then obtain ns g' u' effs' where d: "dispatchLoop cfg cs ns g' u' = (t, effs')"
      and e: "effs = EffRevalidate c 0 # effs'"
      using Cons.prems by (auto simp: Let_def split: if_splits sum.splits prod.splits)
    obtain ds where "subseq ds cs" "effs' = map (\<lambda>c. EffRevalidate c 0) ds" using Cons.IH[OF d] by blast
    then show ?thesis using e by (intro exI[of _ "c # ds"]) simp
  qed
qed simp

section \<open>Accounting\<close>

definition sum_by :: "('v \<Rightarrow> 'a::comm_monoid_add) \<Rightarrow> ('k, 'v) gomap \<Rightarrow> 'a" where
  "sum_by f m = sum_list (map (f \<circ> snd) m)"

lemma sum_by_delete:
  "wf_map m \<Longrightarrow> map_of m k = Some v \<Longrightarrow> sum_by f m = f v + sum_by f (AList.delete k m)"
proof (induction m)
  case (Cons p m)
  obtain k' v' where p: "p = (k', v')" by (cases p)
  show ?case
  proof (cases "k' = k")
    case True
    then have "\<not> in_map k m" using Cons.prems(1) p by (auto simp: in_map_def)
    then show ?thesis using True p Cons.prems(2) by (simp add: sum_by_def delete_absent)
  next
    case False
    then show ?thesis using Cons p by (auto simp: sum_by_def ac_simps)
  qed
qed simp

lemma Snapshot_totals:
  "Input (ss_CodexTotals (Snapshot s)) = Input (st_CodexTotals s) + sum_by (Input \<circ> AccTotals) (st_Usage s)"
  "Output (ss_CodexTotals (Snapshot s)) = Output (st_CodexTotals s) + sum_by (Output \<circ> AccTotals) (st_Usage s)"
  "Total (ss_CodexTotals (Snapshot s)) = Total (st_CodexTotals s) + sum_by (Total \<circ> AccTotals) (st_Usage s)"
proof -
  have "Input (fold (\<lambda>(id, acc) t. add_totals t (AccTotals acc)) m t) = Input t + sum_by (Input \<circ> AccTotals) m"
    "Output (fold (\<lambda>(id, acc) t. add_totals t (AccTotals acc)) m t) = Output t + sum_by (Output \<circ> AccTotals) m"
    "Total (fold (\<lambda>(id, acc) t. add_totals t (AccTotals acc)) m t) = Total t + sum_by (Total \<circ> AccTotals) m"
    for m :: "(string, Accumulator) gomap" and t
    by (induction m arbitrary: t) (auto simp: add_totals_def sum_by_def)
  then show "Input (ss_CodexTotals (Snapshot s)) = Input (st_CodexTotals s) + sum_by (Input \<circ> AccTotals) (st_Usage s)"
    "Output (ss_CodexTotals (Snapshot s)) = Output (st_CodexTotals s) + sum_by (Output \<circ> AccTotals) (st_Usage s)"
    "Total (ss_CodexTotals (Snapshot s)) = Total (st_CodexTotals s) + sum_by (Total \<circ> AccTotals) (st_Usage s)"
    by (simp_all add: Snapshot_def)
qed

lemma fold_wrap64: "fold (\<lambda>(id, d) r. wrap64 (r + d)) m (wrap64 r) = wrap64 (r + sum_by (\<lambda>d. d) m)"
proof (induction m arbitrary: r)
  case (Cons p m)
  then show ?case using Cons[of "r + snd p"] by (cases p) (simp add: sum_by_def add.assoc)
qed (simp add: sum_by_def)

text \<open>Releasing the runtime of one issue and adding up the rest gives the sum over all.\<close>

lemma fold_wrap64_delete:
  assumes "wf_map m" and "map_of m i = Some d"
  shows "fold (\<lambda>(id, d) r. wrap64 (r + d)) (AList.delete i m) (wrap64 (r + d)) = fold (\<lambda>(id, d) r. wrap64 (r + d)) m r"
proof -
  obtain p m' where m: "m = p # m'" using assms(2) by (cases m) auto
  have "fold (\<lambda>(id, d) r. wrap64 (r + d)) m r = wrap64 (r + sum_by (\<lambda>d. d) m)"
    using fold_wrap64[of m' "r + snd p"] m by (cases p) (simp add: sum_by_def add.assoc)
  then show ?thesis using fold_wrap64[of "AList.delete i m" "r + d"] sum_by_delete[OF assms, of "\<lambda>d. d"] by (simp add: add.assoc)
qed

lemma releaseClaim_totals:
  assumes "wf_map (st_Usage s)"
  shows "ss_CodexTotals (Snapshot (releaseClaim s i)) = ss_CodexTotals (Snapshot s)"
proof -
  have c: "st_CodexTotals (releaseClaim s i) = (case map_of (st_Usage s) i of None \<Rightarrow> st_CodexTotals s
      | Some acc \<Rightarrow> add_totals (st_CodexTotals s) (AccTotals acc))"
    by (simp add: releaseClaim_def Let_def split: option.splits)
  then show ?thesis
  proof (cases "map_of (st_Usage s) i")
    case None
    then have "AList.delete i (st_Usage s) = st_Usage s" by (simp add: delete_absent map_of_None_iff)
    then show ?thesis using c None by (intro Totals.equality) (simp_all add: Snapshot_totals releaseClaim_fields)
  next
    case (Some acc)
    note d = sum_by_delete[OF assms Some, of "Input \<circ> AccTotals"] sum_by_delete[OF assms Some, of "Output \<circ> AccTotals"]
      sum_by_delete[OF assms Some, of "Total \<circ> AccTotals"]
    show ?thesis
      using c Some by (intro Totals.equality) (simp_all add: Snapshot_totals releaseClaim_fields add_totals_def d add.assoc)
  qed
qed

lemma releaseClaim_runtime:
  assumes "wf_map (st_Runtime s)"
  shows "ss_CodexRuntime (Snapshot (releaseClaim s i)) = ss_CodexRuntime (Snapshot s)"
proof -
  have "st_CodexRuntime (releaseClaim s i) = (case map_of (st_Runtime s) i of None \<Rightarrow> st_CodexRuntime s
      | Some rt \<Rightarrow> wrap64 (st_CodexRuntime s + rt))"
    by (simp add: releaseClaim_def Let_def split: option.splits)
  then show ?thesis
    using fold_wrap64_delete[OF assms, of i]
    by (auto simp: Snapshot_def releaseClaim_fields delete_absent map_of_None_iff split: option.splits)
qed

section \<open>Ending runs\<close>

text \<open>
  A stall check and a reconcile pass treat each issue on its own: what becomes of an issue is a
  function of what the state says about it.
\<close>

type_synonym issue_view = "RunAttempt option \<times> bool \<times> RetryEntry option"

definition requeued :: "RunAttempt \<Rightarrow> string \<Rightarrow> sched_error \<Rightarrow> Config \<Rightarrow> time \<Rightarrow> bool \<Rightarrow> issue_view" where
  "requeued run k cause cfg now claimed =
     (None, claimed, Some \<lparr>re_IssueID = k, re_Identifier = iss_Identifier (ra_Issue run),
        re_Attempt = ra_Attempt run + 1, re_Kind = RetryBackoff, re_Err = Some cause,
        re_DueAtMS = unix_milli (now + backoffDelay (ra_Attempt run + 1) cfg)\<rparr>)"

definition stalled :: "duration \<Rightarrow> time \<Rightarrow> RunAttempt \<Rightarrow> bool" where
  "stalled threshold now run =
     (let base = (if is_zero (ra_LastCodexTimestamp run) then ra_StartedAt run else ra_LastCodexTimestamp run)
      in \<not> is_zero base \<and> threshold < time_sub now base)"

definition stall_view :: "Config \<Rightarrow> time \<Rightarrow> duration \<Rightarrow> string \<Rightarrow> issue_view \<Rightarrow> issue_view" where
  "stall_view cfg now threshold k v =
     (case v of
        (Some run, claimed, entry) \<Rightarrow>
          if stalled threshold now run then requeued run k ErrStall cfg now claimed else v
      | (None, _, _) \<Rightarrow> v)"

definition reconcile_view :: "(string, Issue) gomap \<Rightarrow> Config \<Rightarrow> time \<Rightarrow> string \<Rightarrow> issue_view \<Rightarrow> issue_view" where
  "reconcile_view byID cfg now k v =
     (case v of
        (None, _, _) \<Rightarrow> v
      | (Some run, claimed, entry) \<Rightarrow>
          (case map_of byID k of
             None \<Rightarrow> requeued run k ErrNotInRefresh cfg now claimed
           | Some iss \<Rightarrow>
               if set_has (normSet (tc_TerminalStates (cfg_Tracker cfg))) (to_lower (iss_State iss))
               then (None, False, None)
               else if set_has (normSet (tc_ActiveStates (cfg_Tracker cfg))) (to_lower (iss_State iss))
               then (Some (run\<lparr>ra_Issue := iss\<rparr>), claimed, entry)
               else requeued run k ErrLeftActiveStates cfg now claimed))"

lemma workerExitAbnormal_view:
  assumes "map_of (st_Running s) i = Some run"
  shows "\<exists>ns e. workerExitAbnormal s i c (ra_Attempt run) = Some (ns, e) \<and> re_Attempt e = ra_Attempt run + 1 \<and>
    (\<forall>k. view_at (fst (armRetry ns e (backoffDelay (re_Attempt e) cfg) now)) k =
       (if k = i then requeued run i c cfg now (in_map i (st_Claimed s)) else view_at s k))"
  using assms by (simp add: workerExitAbnormal_def view_at_def armRetry_fields requeued_def)

lemma reconcileOne_view:
  "view_at (fst (reconcileOne byID cfg now i s)) k =
     (if k = i then reconcile_view byID cfg now i (view_at s i) else view_at s k)"
proof (cases "map_of (st_Running s) i")
  case None
  then show ?thesis by (simp add: reconcileOne_def reconcile_view_def view_at_def Let_def)
next
  case (Some run)
  have kill: "view_at (fst (reconcileKillRetry s i (ra_Attempt run) c r cfg now)) k =
      (if k = i then requeued run i c cfg now (in_map i (st_Claimed s)) else view_at s k)" for c r k
    using workerExitAbnormal_view[OF Some, of c cfg now]
    by (auto simp: reconcileKillRetry_def case_prod_unfold Let_def)
  have upd: "view_at (updateIssueSnapshot s i iss) k =
      (if k = i then (Some (run\<lparr>ra_Issue := iss\<rparr>), in_map i (st_Claimed s), map_of (st_RetryAttempts s) i)
       else view_at s k)" for iss k
    using Some by (simp add: view_at_def updateIssueSnapshot_def)
  have "view_at s i = (Some run, in_map i (st_Claimed s), map_of (st_RetryAttempts s) i)"
    using Some by (simp add: view_at_def)
  then show ?thesis
    using Some by (cases "map_of byID i")
      (simp_all add: reconcileOne_def reconcile_view_def Let_def kill releaseClaim_view upd)
qed

lemma reconcileLoop_view:
  "distinct ids \<Longrightarrow> view_at (fst (reconcileLoop byID cfg now ids s)) k =
     (if k \<in> set ids then reconcile_view byID cfg now k (view_at s k) else view_at s k)"
proof (induction ids arbitrary: s)
  case (Cons i ids)
  then show ?case by (auto simp: case_prod_unfold Let_def reconcileOne_view)
qed simp

lemma stallLoop_view:
  "distinct ids \<Longrightarrow> view_at (fst (stallLoop cfg now th ids s)) k =
     (if k \<in> set ids then stall_view cfg now th k (view_at s k) else view_at s k)"
proof (induction ids arbitrary: s)
  case (Cons i ids)
  show ?case
  proof (cases "map_of (st_Running s) i")
    case None
    then show ?thesis using Cons by (auto simp: stall_view_def view_at_def)
  next
    case (Some run)
    obtain ns e where w: "workerExitAbnormal s i ErrStall (ra_Attempt run) = Some (ns, e)"
      and v: "\<And>k. view_at (fst (armRetry ns e (backoffDelay (re_Attempt e) cfg) now)) k =
         (if k = i then requeued run i ErrStall cfg now (in_map i (st_Claimed s)) else view_at s k)"
      using workerExitAbnormal_view[OF Some, of ErrStall cfg now] by blast
    have i: "view_at s i = (Some run, in_map i (st_Claimed s), map_of (st_RetryAttempts s) i)"
      using Some by (simp add: view_at_def)
    have eq: "fst (stallLoop cfg now th (i # ids) s) =
        fst (stallLoop cfg now th ids (if stalled th now run
          then fst (armRetry ns e (backoffDelay (re_Attempt e) cfg) now) else s))"
      using Some w by (auto simp: stalled_def Let_def case_prod_unfold)
    show ?thesis
    proof (cases "k = i")
      case True
      then show ?thesis using Cons v i unfolding eq by (simp add: stall_view_def)
    next
      case False
      then show ?thesis using Cons v unfolding eq by simp
    qed
  qed
qed simp

lemma stallLoop_kills:
  "distinct ids \<Longrightarrow> EffKillWorker k r \<in> set (snd (stallLoop cfg now th ids s)) \<longleftrightarrow>
     r = ''stall'' \<and> k \<in> set ids \<and> (\<exists>run. map_of (st_Running s) k = Some run \<and> stalled th now run)"
proof (induction ids arbitrary: s)
  case (Cons i ids)
  show ?case
  proof (cases "map_of (st_Running s) i")
    case None
    then show ?thesis using Cons by auto
  next
    case (Some run)
    obtain ns e where w: "workerExitAbnormal s i ErrStall (ra_Attempt run) = Some (ns, e)"
      and v: "\<And>k. view_at (fst (armRetry ns e (backoffDelay (re_Attempt e) cfg) now)) k =
         (if k = i then requeued run i ErrStall cfg now (in_map i (st_Claimed s)) else view_at s k)"
      using workerExitAbnormal_view[OF Some, of ErrStall cfg now] by blast
    let ?s1 = "fst (armRetry ns e (backoffDelay (re_Attempt e) cfg) now)"
    have r: "map_of (st_Running ?s1) k = (if k = i then None else map_of (st_Running s) k)" for k
      using v[of k] by (auto simp: view_at_def requeued_def split: if_splits)
    have eq: "snd (stallLoop cfg now th (i # ids) s) =
        (if stalled th now run
         then EffKillWorker i ''stall'' # snd (armRetry ns e (backoffDelay (re_Attempt e) cfg) now) @
           snd (stallLoop cfg now th ids ?s1)
         else snd (stallLoop cfg now th ids s))"
      using Some w by (auto simp: stalled_def Let_def case_prod_unfold)
    show ?thesis using Cons Some r unfolding eq by (auto simp: armRetry_effects)
  qed
qed simp

end
