(* ===== verification/SchedProps.thy ===== *)
theory SchedProps
  imports SchedStarve SchedDecide
begin

text \<open>
  The properties of the scheduler. The first group is about every state the loop can rest in:
  any sequence of loop events from a fresh scheduler, any answers of the environment.
  The second group is about single decisions: the order of the candidates, the delays, the slots of
  one dispatch pass, the accounting, stall detection and reconciliation.
\<close>

section \<open>A small concrete environment\<close>

text \<open>The witnesses run the model on this configuration and these issues.\<close>

definition demo_cfg :: Config where
  "demo_cfg = zero_config\<lparr>
     cfg_Tracker := (cfg_Tracker zero_config)\<lparr>tc_Kind := ''linear'', tc_APIKey := ''k'',
       tc_ProjectSlugs := [''p''], tc_ActiveStates := [''Todo''], tc_TerminalStates := [''Done'']\<rparr>,
     cfg_Agent := (cfg_Agent zero_config)\<lparr>ac_MaxConcurrentAgents := 2, ac_MaxRetryBackoffMS := 300000\<rparr>,
     cfg_Codex := (cfg_Codex zero_config)\<lparr>cc_Command := ''codex'', cc_StallTimeoutMS := 1000\<rparr>\<rparr>"

definition demo_issue :: "string \<Rightarrow> Issue" where
  "demo_issue k = \<lparr>iss_ID = k, iss_Identifier = k, iss_Title = ''t'', iss_Description = '''',
     iss_Priority = None, iss_State = ''Todo'', iss_BranchName = '''', iss_URL = '''', iss_Labels = [],
     iss_BlockedBy = [], iss_Project = \<lparr>pr_Name = '''', pr_Content = ''''\<rparr>, iss_CreatedAt = 0,
     iss_UpdatedAt = 0\<rparr>"

definition demo_session :: LiveSession where
  "demo_session = \<lparr>ls_SessionID = ''s'', ls_ThreadID = '''', ls_TurnID = '''', ls_StartedAt = 0\<rparr>"

definition demo_deps :: "bool \<Rightarrow> unit Deps" where
  "demo_deps ok = \<lparr>dp_Candidates = Some (\<lambda>_. Inr [demo_issue ''A'']),
     dp_Spawn = Some (\<lambda>_ _ _. if ok then Inr \<lparr>sr_Session = demo_session, sr_Worker = Some ()\<rparr>
                                else Inl (ErrExternal ''boom'')),
     dp_Now = (\<lambda>_. 0), dp_RefreshStates = None, dp_TerminalIssues = (\<lambda>_. Inr []),
     dp_Workspace = None, dp_Workflow = (\<lambda>_. Inr (demo_cfg, ''''))\<rparr>"

lemma demo_deps_ok: "deps_ok 2 (demo_deps ok)"
  by (simp add: deps_ok_def wired_def demo_deps_def agents_le_def demo_cfg_def zero_config_def)

lemma demo_cfg_le: "agents_le 2 demo_cfg"
  by (simp add: agents_le_def demo_cfg_def zero_config_def)

definition demo_req :: retryFireReq where
  "demo_req = \<lparr>rf_IssueID = ''A'', rf_Identifier = ''A'', rf_Attempt = 1\<rparr>"

section \<open>Every state the loop rests in\<close>

text \<open>C1: In every state the scheduler loop can reach, whatever the tracker, the agent launcher
  and the workflow file answer and in whatever order ticks, worker exits, codex activity and retry
  timers arrive, the running issues and the issues queued for retry together never exceed the
  largest \<open>max_concurrent_agents\<close> of the configurations that were loaded.\<close>

theorem concurrency_bound:
  assumes "deps_ok M d" and "agents_le M cfg"
    and "adm_run (loop_turn d) timely (loop_start d cfg tmpl) evs"
  shows "int (length (st_Running (sc_cur (Run d (New cfg tmpl) evs)))) +
    retryQueuedCount (sc_cur (Run d (New cfg tmpl) evs)) \<le> int M"
proof -
  have i: "shell_inv M d [] (Run d (New cfg tmpl) evs)" using assms by (rule Run_inv)
  then have "sched_inv (sc_cur (Run d (New cfg tmpl) evs))" by (auto simp: shell_inv_def drain_inv_def)
  from used_slots_int[OF this] show ?thesis using i by (simp add: shell_inv_def drain_inv_def)
qed

definition demo_events :: "LoopEvent list" where
  "demo_events = [TickerC, WorkerDone ''A'' None 0, RetryFire demo_req]"

lemma demo_adm: "adm_run (loop_turn (demo_deps True)) timely (loop_start (demo_deps True) demo_cfg '''') demo_events"
  by code_simp

theorem concurrency_bound_witness:
  "int (length (st_Running (sc_cur (Run (demo_deps True) (New demo_cfg '''') demo_events)))) +
   retryQueuedCount (sc_cur (Run (demo_deps True) (New demo_cfg '''') demo_events)) \<le> int 2"
  by (rule concurrency_bound[OF demo_deps_ok demo_cfg_le demo_adm])

text \<open>C2: The loop never launches an agent for an issue that already has a running one: every
  launch in the history of a reachable loop was made while its issue was not among the running
  issues (the third component of \<open>CallSpawn\<close>).\<close>

theorem no_duplicate_dispatch:
  assumes "deps_ok M d" and "agents_le M cfg"
    and "adm_run (loop_turn d) timely (loop_start d cfg tmpl) evs"
    and "CallSpawn issue attempt running \<in> set (sc_trace (Run d (New cfg tmpl) evs))"
  shows "iss_ID issue \<notin> set running"
proof -
  have "list_all call_ok (sc_trace (Run d (New cfg tmpl) evs))"
    using Run_inv[OF assms(1-3)] by (simp add: shell_inv_def)
  then show ?thesis using assms(4) by (auto simp: list_all_iff)
qed

lemma demo_trace:
  "sc_trace (Run (demo_deps True) (New demo_cfg '''') demo_events) =
     [CallSpawn (demo_issue ''A'') 0 [], CallArm ''A'' 1 continuationDelay, CallSpawn (demo_issue ''A'') 1 []]"
  by code_simp

theorem no_duplicate_dispatch_witness:
  "CallSpawn (demo_issue ''A'') 1 [] \<in> set (sc_trace (Run (demo_deps True) (New demo_cfg '''') demo_events)) \<and>
   iss_ID (demo_issue ''A'') \<notin> set []"
proof -
  have "CallSpawn (demo_issue ''A'') 1 [] \<in> set (sc_trace (Run (demo_deps True) (New demo_cfg '''') demo_events))"
    unfolding demo_trace by simp
  with no_duplicate_dispatch[OF demo_deps_ok demo_cfg_le demo_adm this] show ?thesis by blast
qed

text \<open>C7: No claim is ever orphaned: in every reachable resting state of the loop a claimed issue
  is either running, or it is queued for retry and its retry timer is armed.\<close>

theorem claims_are_backed:
  assumes "deps_ok M d" and "agents_le M cfg"
    and "adm_run (loop_turn d) timely (loop_start d cfg tmpl) evs"
    and "in_map k (st_Claimed (sc_cur (Run d (New cfg tmpl) evs)))"
  shows "in_map k (st_Running (sc_cur (Run d (New cfg tmpl) evs))) \<noteq>
    (in_map k (st_RetryAttempts (sc_cur (Run d (New cfg tmpl) evs))) \<and>
     in_map k (sc_timers (Run d (New cfg tmpl) evs)))"
  using Run_inv[OF assms(1-3)] assms(4)
  by (auto simp: shell_inv_def drain_inv_def occupied_iff sched_inv_def)

theorem claims_are_backed_witness:
  "in_map ''A'' (st_Running (sc_cur (Run (demo_deps True) (New demo_cfg '''') demo_events))) \<noteq>
    (in_map ''A'' (st_RetryAttempts (sc_cur (Run (demo_deps True) (New demo_cfg '''') demo_events))) \<and>
     in_map ''A'' (sc_timers (Run (demo_deps True) (New demo_cfg '''') demo_events)))"
proof -
  have "in_map ''A'' (st_Claimed (sc_cur (Run (demo_deps True) (New demo_cfg '''') demo_events)))" by code_simp
  from claims_are_backed[OF demo_deps_ok demo_cfg_le demo_adm this] show ?thesis .
qed

text \<open>C12: The maps of the scheduler state stay consistent in every reachable resting state: a
  running issue is claimed and not queued for retry, token and runtime accounts belong to claimed
  issues, every entry is filed under its own issue id, and the published snapshot is the current
  state.\<close>

theorem state_consistent:
  assumes "deps_ok M d" and "agents_le M cfg"
    and "adm_run (loop_turn d) timely (loop_start d cfg tmpl) evs"
  shows "sched_inv (sc_cur (Run d (New cfg tmpl) evs)) \<and>
    sc_published (Run d (New cfg tmpl) evs) = sc_cur (Run d (New cfg tmpl) evs)"
  using Run_inv[OF assms] by (simp add: shell_inv_def drain_inv_def)

theorem state_consistent_witness:
  "sched_inv (sc_cur (Run (demo_deps True) (New demo_cfg '''') demo_events)) \<and>
   sc_published (Run (demo_deps True) (New demo_cfg '''') demo_events) =
     sc_cur (Run (demo_deps True) (New demo_cfg '''') demo_events)"
  by (rule state_consistent[OF demo_deps_ok demo_cfg_le demo_adm])

section \<open>The retry that a failed spawn loses\<close>

text \<open>A spawn that fails leaves its issue in the retry queue without a claim, whatever the
  state was.\<close>

theorem spawn_failure_drops_claim:
  "lost (iss_ID issue) (fst (Reduce s (EvSpawnFailed issue attempt err) cfg now)) \<and>
   snd (Reduce s (EvSpawnFailed issue attempt err) cfg now) =
     [EffArmRetryTimer (iss_ID issue) (iss_Identifier issue) (attempt + 1) (backoffDelay (attempt + 1) cfg)]"
  using reduceSpawnFailed_eq[of issue s attempt err cfg now]
  by (auto simp: lost_def armRetry_fields releaseClaim_fields)

lemma fire_drops:
  assumes l: "lost (rf_IssueID req) (sc_cur s)"
    and w: "dp_Workflow d (sc_io s) = Inr (cfg, tmpl)" "Preflight cfg = None"
    and c: "dp_Candidates d = Some C" "dp_Spawn d \<noteq> None" "C (Suc (Suc (sc_io s))) = Inr cands"
    and f: "findIssue cands (rf_IssueID req) = Some f"
    and a: "set_has (normSet (tc_ActiveStates (cfg_Tracker cfg))) (to_lower (iss_State f))"
      "\<not> set_has (normSet (tc_TerminalStates (cfg_Tracker cfg))) (to_lower (iss_State f))"
      "retryReclaimHasSlot (sc_cur s) cfg (rf_IssueID req) (iss_State f)"
  shows "shell_lost (rf_IssueID req) (handleRetryFire d s req) \<and>
    spawn_count i (handleRetryFire d s req) = spawn_count i s"
proof -
  have "claimFromRetry (sc_cur s) (rf_IssueID req) = Inl ErrDuplicateDispatch"
    using l by (simp add: lost_def claimFromRetry_def)
  then have r: "reduceRetryResolved (sc_cur s) (rf_IssueID req) ident att cands None cfg now = (sc_cur s, [])"
    for ident att now using f a by (simp add: reduceRetryResolved_def Let_def)
  show ?thesis
    using l w c by (auto simp: handleRetryFire_def reloadConfig_def step.simps exec.simps execRetryFetch_def
        r shell_trace_simps shell_lost_def spawn_count_def)
qed

text \<open>C30: The retry of a failed spawn is never carried out. When its timer fires, the
  configuration is valid and the tracker still lists the issue as active with a free slot, the loop
  drops the request: from then on, through every further sequence of loop events, the issue keeps
  its entry in the retry queue (and the slot that goes with it), has no timer, and no agent is
  launched for it.\<close>

theorem failed_spawn_is_never_retried:
  assumes "lost (rf_IssueID req) (sc_cur s)"
    and "dp_Workflow d (sc_io s) = Inr (cfg, tmpl)" "Preflight cfg = None"
    and "dp_Candidates d = Some C" "dp_Spawn d \<noteq> None" "C (Suc (Suc (sc_io s))) = Inr cands"
    and "findIssue cands (rf_IssueID req) = Some f"
    and "set_has (normSet (tc_ActiveStates (cfg_Tracker cfg))) (to_lower (iss_State f))"
      "\<not> set_has (normSet (tc_TerminalStates (cfg_Tracker cfg))) (to_lower (iss_State f))"
      "retryReclaimHasSlot (sc_cur s) cfg (rf_IssueID req) (iss_State f)"
    and "adm_run (loop_turn d) timely (handleRetryFire d s req) evs"
  shows "shell_lost (rf_IssueID req) (fold_events (loop_turn d) (handleRetryFire d s req) evs) \<and>
    spawn_count (rf_IssueID req) (fold_events (loop_turn d) (handleRetryFire d s req) evs) =
      spawn_count (rf_IssueID req) s"
  using fire_drops[OF assms(1-10), of "rf_IssueID req"] lost_loop.run_le[OF _ assms(11), of "rf_IssueID req"]
  by (simp add: stays_lost_def)

text \<open>The run of the witness: the only candidate fails to spawn at the first tick.\<close>

definition demo_failed :: "unit Scheduler" where
  "demo_failed = loop_start (demo_deps False) demo_cfg ''''"

theorem failed_spawn_is_never_retried_witness:
  "map_of (sc_timers demo_failed) ''A'' = Some (demo_req, 10 * second) \<and>
   shell_lost ''A'' (fold_events (loop_turn (demo_deps False))
     (handleRetryFire (demo_deps False) demo_failed demo_req) [TickerC, TickerC]) \<and>
   spawn_count ''A'' (fold_events (loop_turn (demo_deps False))
     (handleRetryFire (demo_deps False) demo_failed demo_req) [TickerC, TickerC]) = spawn_count ''A'' demo_failed"
proof -
  have t: "map_of (sc_timers demo_failed) ''A'' = Some (demo_req, 10 * second)" by code_simp
  have r: "rf_IssueID demo_req = ''A''" by (simp add: demo_req_def)
  have d: "dp_Workflow (demo_deps False) n = Inr (demo_cfg, '''')"
    "dp_Candidates (demo_deps False) = Some (\<lambda>_. Inr [demo_issue ''A''])" "dp_Spawn (demo_deps False) \<noteq> None" for n
    by (simp_all add: demo_deps_def)
  have l: "lost (rf_IssueID demo_req) (sc_cur demo_failed)" by code_simp
  have p: "Preflight demo_cfg = None" by code_simp
  have f: "findIssue [demo_issue ''A''] (rf_IssueID demo_req) = Some (demo_issue ''A'')" by code_simp
  have a: "set_has (normSet (tc_ActiveStates (cfg_Tracker demo_cfg))) (to_lower (iss_State (demo_issue ''A'')))"
    "\<not> set_has (normSet (tc_TerminalStates (cfg_Tracker demo_cfg))) (to_lower (iss_State (demo_issue ''A'')))"
    "retryReclaimHasSlot (sc_cur demo_failed) demo_cfg (rf_IssueID demo_req) (iss_State (demo_issue ''A''))"
    by code_simp+
  show ?thesis
    using t failed_spawn_is_never_retried[OF l d(1) p d(2,3) _ f a, of "[TickerC, TickerC]"] r by simp
qed

section \<open>Order, delays and slots\<close>

text \<open>The candidates are dispatched in priority order: the sort returns a permutation of its
  input, no candidate is preceded by one the comparison puts after it, and candidates that the
  comparison does not tell apart keep the order the tracker listed them in.\<close>

theorem candidates_sorted:
  "mset (sortCandidates cands) = mset cands \<and>
   sorted_wrt (\<lambda>a b. \<not> candLess b a) (sortCandidates cands) \<and>
   filter (tied candLess a) (sortCandidates cands) = filter (tied candLess a) cands"
  by (simp add: sortCandidates_sorted sortCandidates_stable)

lemma wrap64_mult_small: "0 \<le> x \<Longrightarrow> x < 2 ^ 63 \<Longrightarrow> wrap64 x = x"
  by (rule wrap64_id) auto

text \<open>Up to attempt 50 the retry delay is the exponential backoff the configuration asks for:
  ten seconds doubled per attempt and capped at the configured maximum.\<close>

lemma backoff_exact:
  assumes "1 \<le> attempt" and "attempt \<le> 50"
    and "0 < ac_MaxRetryBackoffMS (cfg_Agent cfg)" and "ac_MaxRetryBackoffMS (cfg_Agent cfg) \<le> 9000000000000"
  shows "backoffDelay attempt cfg =
    min (10000 * 2 ^ nat (attempt - 1)) (ac_MaxRetryBackoffMS (cfg_Agent cfg)) * millisecond"
proof -
  define m where "m = ac_MaxRetryBackoffMS (cfg_Agent cfg)"
  have "(2::int) ^ nat (attempt - 1) \<le> 2 ^ 49" using assms by (intro power_increasing) auto
  then have p: "0 \<le> (2::int) ^ nat (attempt - 1)" "(2::int) ^ nat (attempt - 1) \<le> 2 ^ 49" by simp_all
  then have w: "wrap64 (2 ^ nat (attempt - 1)) = 2 ^ nat (attempt - 1)"
    "wrap64 (10000 * 2 ^ nat (attempt - 1)) = 10000 * 2 ^ nat (attempt - 1)"
    by (auto intro!: wrap64_mult_small)
  have "wrap64 (min (10000 * 2 ^ nat (attempt - 1)) m * millisecond) =
      min (10000 * 2 ^ nat (attempt - 1)) m * millisecond"
    using assms(3,4) p by (intro wrap64_mult_small) (auto simp: m_def millisecond_def min_def)
  then show ?thesis using assms w by (simp add: backoffDelay_def Let_def m_def min_def split: if_splits)
qed

lemma wrap64_zero: "wrap64 0 = 0"
  by code_simp

lemma shift_overflow: "n \<in> {60, 61, 62} \<Longrightarrow> wrap64 (10000 * wrap64 (2 ^ n)) = 0"
proof -
  have "wrap64 (10000 * wrap64 (2 ^ 60)) = 0" "wrap64 (10000 * wrap64 (2 ^ 61)) = 0"
    "wrap64 (10000 * wrap64 (2 ^ 62)) = 0" by code_simp+
  then show "n \<in> {60, 61, 62} \<Longrightarrow> wrap64 (10000 * wrap64 (2 ^ n)) = 0" by auto
qed

text \<open>From attempt 51 on the product overflows: it is negative at attempt 51 and zero from attempt 61 on, whatever
  the configured maximum.\<close>

lemma backoff_overflow: "backoffDelay 51 cfg < 0 \<and> (61 \<le> attempt \<longrightarrow> backoffDelay attempt cfg = 0)"
proof
  have "wrap64 (10000 * wrap64 (2 ^ 50)) = - 7187745005283311616" by code_simp
  moreover have "wrap64 (- 7187745005283311616 * millisecond) = - 8070450532247928832" by code_simp
  ultimately show "backoffDelay 51 cfg < 0" by (simp add: backoffDelay_def Let_def)
  show "61 \<le> attempt \<longrightarrow> backoffDelay attempt cfg = 0"
  proof
    assume a: "61 \<le> attempt"
    have big: "wrap64 (10000 * wrap64 4611686018427387904) = 0" by code_simp
    have "nat (attempt - 1) \<in> {60, 61, 62}" if "attempt \<le> 63" using a that by auto
    from shift_overflow[OF this] show "backoffDelay attempt cfg = 0"
      using a big by (cases "attempt \<le> 63") (simp_all add: backoffDelay_def Let_def wrap64_zero)
  qed
qed

lemma backoff_uncapped:
  assumes "1 \<le> attempt" and "attempt \<le> 30" and "ac_MaxRetryBackoffMS (cfg_Agent cfg) \<le> 0"
  shows "backoffDelay attempt cfg = 10000 * 2 ^ nat (attempt - 1) * millisecond"
proof -
  have "(2::int) ^ nat (attempt - 1) \<le> 2 ^ 29" using assms by (intro power_increasing) auto
  then have p: "0 \<le> (2::int) ^ nat (attempt - 1)" "(2::int) ^ nat (attempt - 1) \<le> 2 ^ 29" by simp_all
  then have "wrap64 (2 ^ nat (attempt - 1)) = 2 ^ nat (attempt - 1)"
    "wrap64 (10000 * 2 ^ nat (attempt - 1)) = 10000 * 2 ^ nat (attempt - 1)"
    "wrap64 (10000 * 2 ^ nat (attempt - 1) * millisecond) = 10000 * 2 ^ nat (attempt - 1) * millisecond"
    by (auto intro!: wrap64_mult_small simp: millisecond_def)
  then show ?thesis using assms by (simp add: backoffDelay_def Let_def)
qed

text \<open>C37: The retry delay is the exponential backoff the configuration asks for, up to where the \<open>int64\<close> product
  overflows. With a positive maximum of at most \<open>9 * 10 ^ 12\<close> milliseconds, attempts 1 to 50 wait ten
  seconds doubled per attempt and capped at the maximum; with no maximum (zero or below), attempts 1 to 30
  wait the doubled delay without a cap. Whatever the maximum, attempt 51 gives a negative delay and every
  attempt from 61 on gives no delay at all.\<close>

theorem backoff_delay:
  "(0 < ac_MaxRetryBackoffMS (cfg_Agent cfg) \<and> ac_MaxRetryBackoffMS (cfg_Agent cfg) \<le> 9000000000000 \<and>
      1 \<le> attempt \<and> attempt \<le> 50 \<longrightarrow>
      backoffDelay attempt cfg = min (10000 * 2 ^ nat (attempt - 1)) (ac_MaxRetryBackoffMS (cfg_Agent cfg)) * millisecond) \<and>
   (ac_MaxRetryBackoffMS (cfg_Agent cfg) \<le> 0 \<and> 1 \<le> attempt \<and> attempt \<le> 30 \<longrightarrow>
      backoffDelay attempt cfg = 10000 * 2 ^ nat (attempt - 1) * millisecond) \<and>
   backoffDelay 51 cfg < 0 \<and> (61 \<le> attempt \<longrightarrow> backoffDelay attempt cfg = 0)"
  using backoff_exact[of attempt cfg] backoff_uncapped[of attempt cfg] backoff_overflow[of cfg attempt] by blast

theorem backoff_delay_witness:
  "backoffDelay 6 demo_cfg = min (10000 * 2 ^ nat (6 - 1)) (ac_MaxRetryBackoffMS (cfg_Agent demo_cfg)) * millisecond \<and>
   backoffDelay 51 demo_cfg < 0 \<and> backoffDelay 100 demo_cfg = 0"
proof -
  have m: "0 < ac_MaxRetryBackoffMS (cfg_Agent demo_cfg)" "ac_MaxRetryBackoffMS (cfg_Agent demo_cfg) \<le> 9000000000000"
    by (simp_all add: demo_cfg_def)
  from backoff_delay[of demo_cfg 6] backoff_delay[of demo_cfg 100] m show ?thesis by simp
qed

section \<open>One dispatch pass\<close>

text \<open>C13: A dispatch pass claims candidates in priority order within both limits: the issues it
  claims are a subsequence of the sorted eligible candidates, no more than the free global slots,
  and in every tracker state the running issues and the newly claimed ones stay within that
  state's capacity (or within what was already running).\<close>

theorem dispatch_respects_limits:
  assumes "reduceCandidates s cands cfg = (t, effs)"
  shows "(\<exists>ds. subseq ds (sortCandidates (filterEligible cands s cfg)) \<and> effs = map (\<lambda>c. EffRevalidate c 0) ds) \<and>
    int (length effs) \<le> availableGlobalSlots s cfg \<and>
    runningInState s norm + dispatched_in norm effs \<le> max (runningInState s norm) (stateCapacity cfg norm)"
proof -
  note r = assms[unfolded reduceCandidates_def]
  have "0 \<le> availableGlobalSlots s cfg" by (simp add: availableGlobalSlots_def Let_def)
  then show ?thesis
    using dispatchLoop_subseq[OF r] dispatchLoop_global[OF r] dispatchLoop_state_cap[OF r, of norm]
    by (simp add: perStateRunning_eq)
qed

theorem dispatch_respects_limits_witness:
  "\<exists>ds. subseq ds (sortCandidates (filterEligible [demo_issue ''A'', demo_issue ''B'', demo_issue ''C''] NewState demo_cfg)) \<and>
     [EffRevalidate (demo_issue ''A'') 0, EffRevalidate (demo_issue ''B'') 0] = map (\<lambda>c. EffRevalidate c 0) ds"
proof -
  have "snd (reduceCandidates NewState [demo_issue ''A'', demo_issue ''B'', demo_issue ''C''] demo_cfg) =
      [EffRevalidate (demo_issue ''A'') 0, EffRevalidate (demo_issue ''B'') 0]" by code_simp
  then show ?thesis
    using dispatch_respects_limits[OF surjective_pairing[of "reduceCandidates NewState
        [demo_issue ''A'', demo_issue ''B'', demo_issue ''C''] demo_cfg"]] by simp
qed

text \<open>C14: A dispatch pass wastes no slot: an eligible candidate is left unclaimed only when the
  pass used up the free global slots or its tracker state reached its capacity.\<close>

theorem dispatch_work_conserving:
  assumes "reduceCandidates s cands cfg = (t, effs)"
    and "c \<in> set (filterEligible cands s cfg)" and "\<not> in_map (iss_ID c) (st_Claimed t)"
  shows "int (length effs) = availableGlobalSlots s cfg \<or>
    stateCapacity cfg (to_lower (iss_State c)) \<le>
      runningInState s (to_lower (iss_State c)) + dispatched_in (to_lower (iss_State c)) effs"
proof -
  note r = assms(1)[unfolded reduceCandidates_def]
  have "\<forall>x\<in>set (sortCandidates (filterEligible cands s cfg)). \<not> in_map (iss_ID x) (st_Running s)"
    using filterEligible_free by (auto simp: sortCandidates_def occupied_iff)
  moreover have "0 \<le> availableGlobalSlots s cfg" by (simp add: availableGlobalSlots_def Let_def)
  ultimately show ?thesis
    using dispatchLoop_passed_over[OF r _ assms(3)] dispatchLoop_global[OF r] assms(2)
    by (auto simp: perStateRunning_eq sortCandidates_def)
qed

theorem dispatch_work_conserving_witness:
  "int (length (snd (reduceCandidates NewState [demo_issue ''A'', demo_issue ''B'', demo_issue ''C''] demo_cfg))) = 2 \<or>
   stateCapacity demo_cfg (to_lower (iss_State (demo_issue ''C''))) \<le>
     runningInState NewState (to_lower (iss_State (demo_issue ''C''))) +
     dispatched_in (to_lower (iss_State (demo_issue ''C'')))
       (snd (reduceCandidates NewState [demo_issue ''A'', demo_issue ''B'', demo_issue ''C''] demo_cfg))"
proof -
  let ?c = "[demo_issue ''A'', demo_issue ''B'', demo_issue ''C'']"
  have "demo_issue ''C'' \<in> set (filterEligible ?c NewState demo_cfg)"
    "\<not> in_map (iss_ID (demo_issue ''C'')) (st_Claimed (fst (reduceCandidates NewState ?c demo_cfg)))"
    "availableGlobalSlots NewState demo_cfg = 2" by code_simp+
  then show ?thesis using dispatch_work_conserving[OF surjective_pairing] by metis
qed

section \<open>Accounts, stalls and reconciliation\<close>

text \<open>Releasing a claim loses no accounting: the token totals and the runtime that the
  observability snapshot reports are the same before and after.\<close>

theorem release_conserves_accounts:
  assumes "sched_inv s"
  shows "ss_CodexTotals (Snapshot (releaseClaim s issueID)) = ss_CodexTotals (Snapshot s) \<and>
    ss_CodexRuntime (Snapshot (releaseClaim s issueID)) = ss_CodexRuntime (Snapshot s)"
  using assms by (simp add: releaseClaim_totals releaseClaim_runtime sched_inv_def sched_wf_def)

definition demo_accounts :: State where
  "demo_accounts = recordUsage (addRuntime (sc_cur (loop_start (demo_deps True) demo_cfg '''')) ''A'' 5) ''A''
     \<lparr>ThreadID = ''t'', UInput = 3, UOutput = 4, UTotal = 7\<rparr>"

theorem release_conserves_accounts_witness:
  "ss_CodexTotals (Snapshot (releaseClaim demo_accounts ''A'')) = \<lparr>Input = 3, Output = 4, Total = 7\<rparr> \<and>
   ss_CodexRuntime (Snapshot (releaseClaim demo_accounts ''A'')) = 5"
proof -
  have "sched_inv (sc_cur (loop_start (demo_deps True) demo_cfg ''''))"
    using Run_inv[OF demo_deps_ok demo_cfg_le, of True "''''" "[]"]
    by (simp add: Run_def loop_start_def shell_inv_def drain_inv_def)
  then have "sched_inv demo_accounts"
    using recordUsage_keeps addRuntime_keeps by (simp add: demo_accounts_def keeps_def)
  moreover have "ss_CodexTotals (Snapshot demo_accounts) = \<lparr>Input = 3, Output = 4, Total = 7\<rparr>"
    "ss_CodexRuntime (Snapshot demo_accounts) = 5" by code_simp+
  ultimately show ?thesis using release_conserves_accounts[of demo_accounts "''A''"] by simp
qed

text \<open>C35: A stall check ends exactly the stalled runs. With a positive stall timeout, an issue
  whose run has been silent for longer than the timeout is moved to the retry queue with the next
  attempt number and its worker is killed; every other issue is left as it was and no other worker
  is killed.\<close>

theorem stall_exact:
  assumes "sched_inv s" and "0 < cc_StallTimeoutMS (cfg_Codex cfg)"
    and "th = wrap64 (cc_StallTimeoutMS (cfg_Codex cfg) * millisecond)"
  shows "view_at (fst (reduceStall s cfg now)) k = stall_view cfg now th k (view_at s k) \<and>
    (EffKillWorker k reason \<in> set (snd (reduceStall s cfg now)) \<longleftrightarrow>
       reason = ''stall'' \<and> (\<exists>run. map_of (st_Running s) k = Some run \<and> stalled th now run))"
proof -
  have d: "distinct (sortedRunningIDs s)"
    using assms(1) by (simp add: sortedRunningIDs_def sched_inv_def sched_wf_def)
  have m: "k \<in> set (sortedRunningIDs s) \<longleftrightarrow> map_of (st_Running s) k \<noteq> None"
    using in_map_iff[of k "st_Running s"] by (simp add: sortedRunningIDs_def in_map_def)
  have "map_of (st_Running s) k = None \<Longrightarrow> stall_view cfg now th k (view_at s k) = view_at s k"
    by (simp add: stall_view_def view_at_def)
  then show ?thesis using stallLoop_view[OF d, of cfg now th s k] stallLoop_kills[OF d, of k reason cfg now th s] assms m
    by (auto simp: reduceStall_def)
qed

theorem stall_exact_witness:
  "EffKillWorker ''A'' ''stall'' \<in> set (snd (reduceStall (sc_cur (loop_start (demo_deps True) demo_cfg '''')) demo_cfg (5 * second)))"
proof -
  let ?s = "sc_cur (loop_start (demo_deps True) demo_cfg '''')"
  have i: "sched_inv ?s"
    using Run_inv[OF demo_deps_ok demo_cfg_le, of True "''''" "[]"]
    by (simp add: Run_def loop_start_def shell_inv_def drain_inv_def)
  have c: "0 < cc_StallTimeoutMS (cfg_Codex demo_cfg)" by (simp add: demo_cfg_def)
  have "case map_of (st_Running ?s) ''A'' of None \<Rightarrow> False
      | Some run \<Rightarrow> stalled (wrap64 (cc_StallTimeoutMS (cfg_Codex demo_cfg) * millisecond)) (5 * second) run"
    by code_simp
  then show ?thesis using stall_exact[OF i c refl, of "5 * second" "''A''" "''stall''"] by (auto split: option.splits)
qed

text \<open>C36: Reconciliation decides each requested issue by the tracker's answer alone: a running
  issue that is missing from the answer or has left the active states is moved to the retry queue,
  one that became terminal loses its claim, one that is still active has its snapshot replaced, and
  an issue that was not requested is left as it was.\<close>

theorem reconcile_exact:
  assumes "distinct requestedIDs"
  shows "view_at (fst (Reduce s (EvTrackerRefreshed requestedIDs issues) cfg now)) k =
    (if k \<in> set requestedIDs then reconcile_view (byID_of issues) cfg now k (view_at s k) else view_at s k)"
  using assms reconcileLoop_view[of "sortedIDs requestedIDs"]
  by (simp add: reduceTrackerRefreshed_def sortedIDs_def)

theorem reconcile_exact_witness:
  "view_at (fst (Reduce (sc_cur (loop_start (demo_deps True) demo_cfg ''''))
     (EvTrackerRefreshed [''A''] [(demo_issue ''A'')\<lparr>iss_State := ''DONE''\<rparr>]) demo_cfg 0)) ''A'' = (None, False, None)"
proof -
  let ?s = "sc_cur (loop_start (demo_deps True) demo_cfg '''')" and ?i = "[(demo_issue ''A'')\<lparr>iss_State := ''DONE''\<rparr>]"
  have "view_at (fst (Reduce ?s (EvTrackerRefreshed [''A''] ?i) demo_cfg 0)) ''A'' =
      (if ''A'' \<in> set [''A''] then reconcile_view (byID_of ?i) demo_cfg 0 ''A'' (view_at ?s ''A'') else view_at ?s ''A'')"
    by (rule reconcile_exact) simp
  also have "\<dots> = (None, False, None)" by code_simp
  finally show ?thesis .
qed

text \<open>A fired retry of a claimed issue is dispatched whenever it can be: if the tracker still
  lists the issue as active and not terminal and there is a slot for it, the retry leaves the queue
  and the agent is spawned with the same attempt number.\<close>

theorem retry_dispatches:
  assumes "in_map issueID (st_RetryAttempts s)" and "in_map issueID (st_Claimed s)"
    and "\<not> in_map issueID (st_Running s)"
    and "findIssue issues issueID = Some f"
    and "set_has (normSet (tc_ActiveStates (cfg_Tracker cfg))) (to_lower (iss_State f))"
    and "\<not> set_has (normSet (tc_TerminalStates (cfg_Tracker cfg))) (to_lower (iss_State f))"
    and "retryReclaimHasSlot s cfg issueID (iss_State f)"
  shows "snd (Reduce s (EvRetryResolved issueID identifier attempt issues None) cfg now) = [EffSpawn f attempt] \<and>
    view_at (fst (Reduce s (EvRetryResolved issueID identifier attempt issues None) cfg now)) k =
      (if k = issueID then (None, True, None) else view_at s k)"
proof -
  have "map_of (st_Running s) issueID = None" using assms(3) by (simp add: map_of_None_iff)
  then show ?thesis using assms by (simp add: reduceRetryResolved_def claimFromRetry_def Let_def view_at_def)
qed

definition demo_queued :: State where
  "demo_queued = sc_cur (loop_turn (demo_deps True) (loop_start (demo_deps True) demo_cfg '''') (WorkerDone ''A'' None 0))"

theorem retry_dispatches_witness:
  "snd (Reduce demo_queued (EvRetryResolved ''A'' ''A'' 1 [demo_issue ''A''] None) demo_cfg 0) =
     [EffSpawn (demo_issue ''A'') 1]"
proof -
  have "in_map ''A'' (st_RetryAttempts demo_queued)" "in_map ''A'' (st_Claimed demo_queued)"
    "\<not> in_map ''A'' (st_Running demo_queued)" "findIssue [demo_issue ''A''] ''A'' = Some (demo_issue ''A'')"
    "set_has (normSet (tc_ActiveStates (cfg_Tracker demo_cfg))) (to_lower (iss_State (demo_issue ''A'')))"
    "\<not> set_has (normSet (tc_TerminalStates (cfg_Tracker demo_cfg))) (to_lower (iss_State (demo_issue ''A'')))"
    "retryReclaimHasSlot demo_queued demo_cfg ''A'' (iss_State (demo_issue ''A''))"
    by code_simp+
  from retry_dispatches[OF this] show ?thesis by blast
qed

text \<open>While the workflow file is invalid nothing new is dispatched, but reconciliation goes on:
  a tick folded with an invalid configuration asks for no candidates, and it still refreshes the
  running issues.\<close>

theorem invalid_config_gates_dispatch:
  "(\<forall>e\<in>set (snd (Reduce s (EvTick False) cfg now)). pend_of e = [] \<and> e \<noteq> EffFetchCandidates) \<and>
   (st_Running (fst (reduceStall s cfg now)) \<noteq> [] \<longrightarrow>
      EffRefreshTracker (sortedRunningIDs (fst (reduceStall s cfg now))) \<in>
        set (snd (Reduce s (EvTick False) cfg now)))"
proof -
  have "ranked 1 (snd (reduceStall s cfg now))" using stallLoop_ranked by (simp add: reduceStall_def)
  then have "pend_of e = [] \<and> e \<noteq> EffFetchCandidates" if "e \<in> set (snd (reduceStall s cfg now))" for e
    using that by (cases e) (auto simp: ranked_def)
  then show ?thesis by (auto simp: reduceTick_def Let_def case_prod_unfold)
qed

theorem invalid_config_gates_dispatch_witness:
  "EffRefreshTracker [''A''] \<in> set (snd (Reduce (sc_cur (loop_start (demo_deps True) demo_cfg '''')) (EvTick False) demo_cfg 0))"
proof -
  let ?s = "sc_cur (loop_start (demo_deps True) demo_cfg '''')"
  have "st_Running (fst (reduceStall ?s demo_cfg 0)) \<noteq> []" "sortedRunningIDs (fst (reduceStall ?s demo_cfg 0)) = [''A'']"
    by code_simp+
  then show ?thesis using invalid_config_gates_dispatch[of ?s demo_cfg 0] by simp
qed

section \<open>Feedback\<close>

text \<open>An event is fed back by another when executing an effect of the second, in whatever state, yields the first.\<close>

definition feeds :: "'w Deps \<Rightarrow> Event \<Rightarrow> Event \<Rightarrow> bool" where
  "feeds d ev ev' \<longleftrightarrow>
     (\<exists>s cfg now eff sc sc'. eff \<in> set (snd (Reduce s ev cfg now)) \<and> exec_io d sc eff = (sc', Some ev'))"

lemma feeds_rank: "feeds d ev ev' \<Longrightarrow> ev_rank ev' + 2 \<le> ev_rank ev"
proof -
  assume "feeds d ev ev'"
  then obtain s cfg now eff sc sc' where e: "eff \<in> set (snd (Reduce s ev cfg now))" "exec_io d sc eff = (sc', Some ev')"
    by (auto simp: feeds_def)
  have "eff_rank eff < ev_rank ev" using Reduce_ranked[of ev s cfg now] e(1) by (auto simp: ranked_def)
  moreover have "ev_rank ev' < eff_rank eff" by (rule exec_io_rank[OF e(2)])
  ultimately show ?thesis by simp
qed

lemma feeds_chain: "successively (feeds d) (ev # evs) \<Longrightarrow> 2 * length evs + 1 \<le> ev_rank ev"
proof (induction evs arbitrary: ev)
  case (Cons e evs)
  then show ?case using feeds_rank[of d ev e] by fastforce
qed (use ev_rank_pos in \<open>simp add: Suc_le_eq\<close>)

text \<open>C29: The loop's mutual recursion between \<open>step\<close> and \<open>exec\<close> is shallow: whatever the tracker, the
  launcher and the clock answer, a chain of events each fed back by the one before has at most four
  events, so handling one event never recurses without end.\<close>

theorem feedback_terminates:
  assumes "successively (feeds d) evs"
  shows "length evs \<le> 4"
proof (cases evs)
  case (Cons ev rest)
  then have "2 * length rest + 1 \<le> ev_rank ev" using feeds_chain assms by blast
  moreover have "ev_rank ev \<le> 7" by (cases ev) auto
  ultimately show ?thesis using Cons by simp
qed simp

theorem feedback_terminates_witness:
  "feeds (demo_deps True) (EvTick True) (EvCandidatesFetched [demo_issue ''A'']) \<and>
   length [EvTick True, EvCandidatesFetched [demo_issue ''A'']] \<le> 4"
proof -
  let ?sc = "loop_start (demo_deps True) demo_cfg ''''"
  have "EffFetchCandidates \<in> set (snd (Reduce NewState (EvTick True) demo_cfg 0))" by code_simp
  moreover have "snd (exec_io (demo_deps True) ?sc EffFetchCandidates) = Some (EvCandidatesFetched [demo_issue ''A''])" by code_simp
  ultimately have f: "feeds (demo_deps True) (EvTick True) (EvCandidatesFetched [demo_issue ''A''])"
    unfolding feeds_def by (metis prod.collapse)
  then show ?thesis using feedback_terminates[of "demo_deps True" "[EvTick True, EvCandidatesFetched [demo_issue ''A'']]"] by simp
qed


end
