(* ===== verification/HostTypes.thy ===== *)
theory HostTypes
  imports GoBase
begin

text \<open>
  The data of the host's functional core (\<open>services/host/state\<close>): the state, the sessions and
  frames it holds, the driver contract, and the closed sums of events and effects.

  A driver's private state is the type variable \<open>'ds\<close>, its worker jobs and their results are
  \<open>'j\<close> and \<open>'r\<close>. An interface value that may be \<open>nil\<close> is an option. The optional
  driver capabilities (Go's type assertions on the driver) are optional fields of the driver record.
  The view a driver step returns is dropped by every caller in the core, so the model's step does not
  return it.
\<close>

section \<open>Identifiers and launch data\<close>

type_synonym SessionID = string
type_synonym FrameID = string
type_synonym SubsystemID = string
type_synonym TargetID = string
type_synonym ConnID = "64 word"
type_synonym SubscriberID = string
type_synonym JobID = "64 word"
type_synonym ApprovalID = string
type_synonym QuestionID = string
type_synonym bytes = "8 word list"

datatype Status = StatusRunning | StatusWaiting | StatusIdle | StatusStopped | StatusPending

record LaunchOptions =
  lo_Worktree :: bool
  lo_InitialInput :: bytes
  lo_Cols :: uint16
  lo_Rows :: uint16

definition zero_options :: LaunchOptions where
  "zero_options = \<lparr>lo_Worktree = False, lo_InitialInput = [], lo_Cols = 0, lo_Rows = 0\<rparr>"

datatype LaunchMode = LaunchModeCreate | LaunchModeColdStart | LaunchModeWarmStart

datatype LaunchSubsystem = LaunchSubsystemCLI | LaunchSubsystemStream

record StreamLaunchOptions =
  so_DangerouslyBypassPermissions :: bool
  so_ResumeThreadID :: string
  so_ResumeRolloutPath :: string
  so_ColdStartSessionID :: string

record LaunchPlan =
  lp_Command :: string
  lp_Argv :: "string list"
  lp_PreCommands :: "string list list"
  lp_PreCommandTimeout :: duration
  lp_StartDir :: string
  lp_Project :: string
  lp_Options :: LaunchOptions
  lp_Subsystem :: LaunchSubsystem
  lp_Stream :: StreamLaunchOptions
  lp_ManagedMCPTools :: "string list"
  lp_Stdin :: bytes

record CreateLaunch =
  cl_Command :: string
  cl_StartDir :: string
  cl_Options :: LaunchOptions

section \<open>Human input\<close>

datatype ApprovalStatus = ApprovalPending | ApprovalResolved | ApprovalExpired | ApprovalCancelled

datatype ApprovalDecision =
    ApprovalDecisionNone
  | ApprovalDecisionAccept
  | ApprovalDecisionDeny
  | ApprovalDecisionOther string

datatype ApprovalResolutionReason =
    ApprovalReasonNone
  | ApprovalReasonClient
  | ApprovalReasonExpired
  | ApprovalReasonCancelled
  | ApprovalReasonAuto
  | ApprovalReasonServer

record ApprovalRequest =
  ar_ID :: ApprovalID
  ar_SessionID :: SessionID
  ar_FrameID :: FrameID
  ar_Kind :: string
  ar_Command :: string
  ar_Path :: string
  ar_Reason :: string
  ar_CreatedAt :: time
  ar_ExpiresAt :: time
  ar_Status :: ApprovalStatus
  ar_DefaultDecision :: ApprovalDecision
  ar_Decision :: ApprovalDecision
  ar_ResolvingClientInstanceID :: string
  ar_ResolutionReason :: ApprovalResolutionReason

datatype QuestionStatus = QuestionPending | QuestionResolved | QuestionExpired | QuestionCancelled

datatype QuestionResolutionReason =
    QuestionReasonNone
  | QuestionReasonClient
  | QuestionReasonExpired
  | QuestionReasonCancelled
  | QuestionReasonServer

record QuestionRequest =
  qr_ID :: QuestionID
  qr_SessionID :: SessionID
  qr_FrameID :: FrameID
  qr_Prompt :: string
  qr_CreatedAt :: time
  qr_ExpiresAt :: time
  qr_Status :: QuestionStatus
  qr_Answer :: string
  qr_ResolvingClientInstanceID :: string
  qr_ResolutionReason :: QuestionResolutionReason

section \<open>Repository preparation\<close>

record GitHubRepositoryIdentity =
  gr_ID :: string
  gr_Owner :: string
  gr_Name :: string

datatype PreparationStage =
    PrepStageConfirmed
  | PrepStageCloneInProgress
  | PrepStageCloneReady
  | PrepStageFailed
  | PrepStageCancelled
  | PrepStageInterrupted
  | PrepStageInternalCorruption
  | PrepStageAvailable
  | PrepStageAbandoned

datatype PreparationFailureCode =
    PrepFailureNone
  | PrepFailureInvalidIdentity
  | PrepFailureCloneFailed
  | PrepFailureLaunchFailed
  | PrepFailureCancelled
  | PrepFailureInterrupted
  | PrepFailureInternalCorrupt
  | PrepFailureIncompleteCommit
  | PrepFailureIllegalTransition

datatype RetryOrigin = RetryOriginNone | RetryOriginClone | RetryOriginLaunch

record CreationIntent =
  ci_ID :: string
  ci_ServerID :: string
  ci_Repository :: GitHubRepositoryIdentity
  ci_Fingerprint :: string
  ci_Command :: string

record RepositoryPreparation =
  rp_ID :: string
  rp_IntentID :: string
  rp_ServerID :: string
  rp_Repository :: GitHubRepositoryIdentity
  rp_Stage :: PreparationStage
  rp_FailureCode :: PreparationFailureCode
  rp_RetryOrigin :: RetryOrigin
  rp_Revision :: uint64
  rp_LastOwnedWorkerGeneration :: uint64
  rp_ClonePath :: string
  rp_SessionID :: SessionID
  rp_CloneDurable :: bool
  rp_LaunchSucceeded :: bool

section \<open>Messaging and resume capsules\<close>

record FrameReply =
  fr_ID :: string
  fr_SourceFrameID :: FrameID
  fr_Body :: string
  fr_FinalAnswer :: string
  fr_CreatedAt :: time
  fr_Resolution :: string
  fr_Confidence :: string
  fr_FinalAnswerPreview :: string

record FrameMessage =
  fm_ID :: string
  fm_SourceFrameID :: FrameID
  fm_TargetFrameID :: FrameID
  fm_Topic :: string
  fm_Body :: string
  fm_Priority :: string
  fm_CreatedAt :: time
  fm_Read :: bool
  fm_ReplyStatus :: string
  fm_DeliveryStatus :: string
  fm_Reply :: "FrameReply option"

record FrameMessagingSummary =
  fs_UnreadCount :: int
  fs_LatestMessagePreview :: string
  fs_LatestReplyPreview :: string
  fs_PendingDeliveryCount :: int
  fs_LastDeliveryStatus :: string

record SessionFrameMessaging =
  sm_Summary :: FrameMessagingSummary
  sm_Messages :: "FrameMessage list"

record ResumeCapsule =
  rc_Objective :: string
  rc_CurrentState :: string
  rc_NextAction :: string
  rc_Unresolved :: "string list"
  rc_Changed :: "string list"
  rc_Verified :: "string list"
  rc_Remaining :: "string list"
  rc_Attention :: string
  rc_GeneratedAt :: time
  rc_SourceDigest :: string
  rc_SourceTurns :: int
  rc_FlaggedWrong :: bool
  rc_FlaggedAt :: time
  rc_LastError :: string
  rc_LastErrorAt :: time

record CapsuleTurn =
  ct_Role :: string
  ct_Text :: string

record CapsuleJobInput =
  cj_SessionID :: SessionID
  cj_Prompt :: string
  cj_SourceDigest :: string
  cj_SourceTurns :: int

record CapsuleJobResult =
  cr_Objective :: string
  cr_CurrentState :: string
  cr_NextAction :: string
  cr_Unresolved :: "string list"
  cr_Changed :: "string list"
  cr_Verified :: "string list"
  cr_Remaining :: "string list"
  cr_Attention :: string
  cr_SourceDigest :: string
  cr_SourceTurns :: int

end
