(* ===== verification/HostState.thy ===== *)
theory HostState
  imports HostTypes
begin

text \<open>
  The state of the host, its events and effects, and the driver contract
  (\<open>state.go\<close>, \<open>event.go\<close>, \<open>effect.go\<close>, \<open>driver_iface.go\<close>).

  Session and frame ids are drawn from \<open>crypto/rand\<close>. The model makes the draws explicit: the
  environment holds the stream of draws and the state the position in it, the only field of the
  model's state that the source does not have.
\<close>

section \<open>Sessions and the state\<close>

record 'ds SessionFrame =
  sf_ID :: FrameID
  sf_SubsystemID :: SubsystemID
  sf_TargetID :: TargetID
  sf_Project :: string
  sf_Command :: string
  sf_LaunchOptions :: LaunchOptions
  sf_CreatedAt :: time
  sf_Driver :: "'ds option"

record 'ds Session =
  se_ID :: SessionID
  se_Project :: string
  se_CreatedAt :: time
  se_Frames :: "'ds SessionFrame list"
  se_HeadFrameID :: FrameID
  se_MRUFrameIDs :: "FrameID list"
  se_Command :: string
  se_LaunchOptions :: LaunchOptions
  se_Driver :: "'ds option"
  se_FrameMessaging :: "SessionFrameMessaging option"
  se_FrameGeneration :: int
  se_ResumeCapsule :: "ResumeCapsule option"
  se_EndedAt :: "time option"

definition Ended :: "'ds Session \<Rightarrow> bool" where
  "Ended sess \<longleftrightarrow> se_EndedAt sess \<noteq> None"

datatype LifecyclePhase = LifecycleRunning | LifecycleQuiescing

record ShutdownWaiter =
  sw_ConnID :: ConnID
  sw_ReqID :: string

record ShutdownTransaction =
  sx_ID :: uint64
  sx_Waiters :: "ShutdownWaiter list"

record Subscriber =
  sb_ConnID :: ConnID
  sb_Filters :: "string list"

record JobMeta =
  jm_SessionID :: SessionID
  jm_FrameID :: FrameID
  jm_StartedAt :: time

type_synonym SurfaceSubscription = "SessionID \<times> SubscriberID"
type_synonym SurfaceGeometry = "uint16 \<times> uint16"

record 'ds State =
  h_Lifecycle :: LifecyclePhase
  h_Shutdown :: "ShutdownTransaction option"
  h_NextShutdownID :: uint64
  h_Sessions :: "(SessionID, 'ds Session) gomap"
  h_Subscribers :: "(ConnID, Subscriber) gomap"
  h_SurfaceSubs :: "(ConnID, (SurfaceSubscription, SurfaceGeometry) gomap) gomap"
  h_Jobs :: "(JobID, JobMeta) gomap"
  h_NextJobID :: JobID
  h_NextConnID :: ConnID
  h_Now :: time
  h_Aliases :: "(string, string) gomap"
  h_DefaultCommand :: string
  h_Features :: "(string, bool) gomap"
  h_PendingApprovals :: "(SessionID, (ApprovalID, ApprovalRequest) gomap) gomap"
  h_PendingQuestions :: "(SessionID, (QuestionID, QuestionRequest) gomap) gomap"
  h_StatusEpoch :: string
  h_StatusSignals :: "(SessionID, uint64) gomap"
  h_CreationIntents :: "(string, CreationIntent) gomap"
  h_RepositoryPreparations :: "(string, RepositoryPreparation) gomap"
  h_ResumeCapsulesEnabled :: bool
  h_CapsuleGenerating :: "(SessionID, string) gomap"
  h_RandPos :: nat

definition New :: "'ds State" where
  "New = \<lparr>h_Lifecycle = LifecycleRunning, h_Shutdown = None, h_NextShutdownID = 0, h_Sessions = [],
     h_Subscribers = [], h_SurfaceSubs = [], h_Jobs = [], h_NextJobID = 0, h_NextConnID = 0,
     h_Now = zero_time, h_Aliases = [], h_DefaultCommand = '''', h_Features = [],
     h_PendingApprovals = [], h_PendingQuestions = [], h_StatusEpoch = '''', h_StatusSignals = [],
     h_CreationIntents = [], h_RepositoryPreparations = [], h_ResumeCapsulesEnabled = False,
     h_CapsuleGenerating = [], h_RandPos = 0\<rparr>"

section \<open>Subsystem and driver events\<close>

datatype SubsystemKind = SubsystemCLI | SubsystemStream

datatype SubsystemEventKind =
    SubsystemSessionReady
  | SubsystemFailed
  | SubsystemPromptSubmitted
  | SubsystemTurnStarted
  | SubsystemTurnCompleted
  | SubsystemToolStarted
  | SubsystemToolCompleted
  | SubsystemApprovalRequested
  | SubsystemApprovalResolved
  | SubsystemQuestionRequested
  | SubsystemQuestionResolved
  | SubsystemPlanUpdated
  | SubsystemDiffUpdated
  | SubsystemMessageUpdated
  | SubsystemTitleUpdated
  | SubsystemMetadataUpdated

record SubsystemTool =
  tl_ID :: string
  tl_Name :: string
  tl_Command :: string
  tl_Path :: string
  tl_Error :: string
  tl_PermissionMode :: string
  tl_IsInterrupt :: bool

record SubsystemApproval =
  sa_ID :: string
  sa_Kind :: string
  sa_Command :: string
  sa_Path :: string
  sa_Reason :: string
  sa_AutoApprove :: bool
  sa_Resolved :: bool
  sa_Denied :: bool

record SubsystemQuestion =
  sq_ID :: string
  sq_Prompt :: string
  sq_Answer :: string

record SubsystemDiff =
  sd_Summary :: string
  sd_Paths :: "string list"

record SubsystemPayload =
  sp_SessionID :: string
  sp_ColdStartSessionID :: string
  sp_TurnID :: string
  sp_TargetID :: string
  sp_RequestedTargetID :: string
  sp_ObservedTargetID :: string
  sp_ResumePhase :: string
  sp_Prompt :: string
  sp_Error :: string
  sp_LastAssistantMessage :: string
  sp_StatusLine :: string
  sp_Title :: string
  sp_Model :: string
  sp_ModelSet :: bool
  sp_Effort :: string
  sp_EffortSet :: bool
  sp_TitleSet :: bool
  sp_Preview :: string
  sp_TranscriptPath :: string
  sp_Tool :: "SubsystemTool option"
  sp_Approval :: "SubsystemApproval option"
  sp_Question :: "SubsystemQuestion option"
  sp_Plan :: "string option"
  sp_Diff :: "SubsystemDiff option"
  sp_Message :: "(string \<times> string) list option"

datatype TerminalSignalKind =
    TerminalSignalUnknown
  | TerminalSignalWindowTitle
  | TerminalSignalNotification
  | TerminalSignalProgress
  | TerminalSignalBell

datatype PromptPhase =
    PromptPhaseNone
  | PromptPhaseStart
  | PromptPhaseInput
  | PromptPhaseCommand
  | PromptPhaseComplete

record FrameContext =
  fc_ID :: FrameID
  fc_Project :: string
  fc_Command :: string
  fc_LaunchOptions :: LaunchOptions
  fc_CreatedAt :: time
  fc_IsRoot :: bool

datatype 'r DriverEvent =
    DEvHook string time string string
  | DEvSubsystem SubsystemKind SubsystemEventKind time SubsystemPayload
  | DEvTick time bool string uint64 uint64
  | DEvJobResult 'r "string option" time
  | DEvFileChanged string
  | DEvFrameOsc int TerminalSignalKind string string int int time
  | DEvFramePrompt PromptPhase "int option" time
  | DEvStatusLineClick string time
  | DEvWorktreeResolved string string
  | DEvCommandExited int time

end
