(* ===== verification/HostEvents.thy ===== *)
theory HostEvents
  imports HostState
begin

text \<open>
  The closed sums of effects and events of the host core (\<open>effect.go\<close>, \<open>event.go\<close>,
  \<open>repository.go\<close>), the driver record, the driver registry, and the environment of a
  reduction: the registry, the JSON decoders of the command payloads, the random draws. Decoding is
  done by \<open>encoding/json\<close> on the payload types; the model keeps the decoded value and takes the
  decoders as parameters.
\<close>

section \<open>Effects\<close>

record RepositoryPreparationReply =
  rr_PreparationID :: string
  rr_IntentID :: string
  rr_ServerID :: string
  rr_Repository :: GitHubRepositoryIdentity
  rr_Stage :: PreparationStage
  rr_FailureCode :: PreparationFailureCode
  rr_RetryOrigin :: RetryOrigin
  rr_Revision :: uint64
  rr_SessionID :: string
  rr_ClonePath :: string

text \<open>The response bodies the reducers send.\<close>

datatype Body =
    BodyNil
  | SurfaceReadTextReply SessionID int
  | SurfaceUnsubscribedReply SessionID SubscriberID
  | DriverListReply
  | CreateSessionReply string
  | SessionsReply
  | SessionMessagesReply SessionID
  | ResumeCapsulesReply
  | PreparationReply RepositoryPreparationReply

datatype BroadcastPayload = PayloadApproval ApprovalRequest | PayloadQuestion QuestionRequest

datatype ShutdownResult = ShutdownCommitted | ShutdownCommitFailed | ShutdownDeadlineExceeded

text \<open>The input of a worker job: a resume capsule prompt, or a job of a driver.\<close>

datatype 'j JobInput = CapsuleJob CapsuleJobInput | DriverJob 'j

datatype 'j Effect =
    EffSpawnFrame SessionID FrameID LaunchPlan "(string, string) gomap" ConnID string
  | EffKillFrame FrameID
  | EffRegisterFrame FrameID bool
  | EffUnregisterFrame FrameID
  | EffSetSessionEnv string string
  | EffUnsetSessionEnv string
  | EffReleaseFrames uint64
  | EffCommitShutdownSessions uint64
  | EffCompleteShutdown ShutdownResult
  | EffTerminateRuntime
  | EffReleaseFrame FrameID
  | EffSendResponse ConnID string Body
  | EffSendResponseSync ConnID string Body
  | EffSendError ConnID string string string "(string, string) gomap"
  | EffBroadcastSessionsChanged
  | EffBroadcastEvent string BroadcastPayload string
  | EffReplyHeldApproval FrameID ApprovalID ApprovalDecision string
  | EffReplyHeldQuestion FrameID QuestionID string string
  | EffCloseConn ConnID
  | EffSendFrameKeys ConnID string SessionID string string bool
  | EffPersistSnapshot
  | EffWatchFile FrameID string string
  | EffUnwatchFile FrameID
  | EffEventLogAppend FrameID string
  | EffToolLogAppend string string string
  | EffFrameMessagingPersistRead SessionID "string list"
  | EffReconcileWindows
  | EffRecordNotification SessionID FrameID int string string
  | EffPushDriver SessionID string
  | EffStartJob JobID "'j JobInput"
  | EffSurfaceSubscribeStart ConnID SessionID SubscriberID uint16 uint16
  | EffSurfaceSubscribeStop ConnID SessionID SubscriberID
  | EffSurfaceResize SessionID uint16 uint16
  | EffSurfaceWriteRaw SessionID bytes
  | EffBroadcastSurfaceOutput SessionID bytes int
  | EffBroadcastPromptEvent FrameID string int
  | EffRepositoryPersist string uint64
  | EffRepositoryStartClone string string GitHubRepositoryIdentity uint64
  | EffRepositoryLaunchSession string string GitHubRepositoryIdentity uint64
  | EffRepositoryStopOwnedWork string uint64

section \<open>Events\<close>

record EvSubsystem =
  es_ConnID :: ConnID
  es_ReqID :: string
  es_FrameID :: FrameID
  es_Source :: SubsystemKind
  es_Kind :: SubsystemEventKind
  es_Timestamp :: time
  es_Payload :: SubsystemPayload

record EvRepository =
  er_ConnID :: ConnID
  er_ReqID :: string
  er_Kind :: string
  er_IntentID :: string
  er_PreparationID :: string
  er_ServerID :: string
  er_Repository :: GitHubRepositoryIdentity
  er_Fingerprint :: string
  er_ObservedRevision :: uint64
  er_ClonePath :: string
  er_Code :: PreparationFailureCode
  er_SessionID :: SessionID
  er_Command :: string
  er_CloneDurable :: bool
  er_LaunchSucceeded :: bool

record EvFrameSpawned =
  ef_SessionID :: SessionID
  ef_FrameID :: FrameID
  ef_SubsystemID :: SubsystemID
  ef_WorktreeStartDir :: string
  ef_WorktreeName :: string
  ef_ReplyConn :: ConnID
  ef_ReplyReqID :: string

record EvFrameOsc =
  eo_FrameID :: FrameID
  eo_Cmd :: int
  eo_Kind :: TerminalSignalKind
  eo_Title :: string
  eo_Body :: string
  eo_ProgressState :: int
  eo_ProgressValue :: int
  eo_Now :: time

datatype ShutdownCleanupOutcome = ShutdownCleanupCompleted | ShutdownCleanupDeadlineExceeded

datatype 'r JobResult = CapsuleResult CapsuleJobResult | DriverResult 'r

datatype 'r Event =
    EvCmdSubscribe ConnID string "string list"
  | EvCmdUnsubscribe ConnID string
  | EvEvent ConnID string string string
  | EvCmdSurfaceReadText ConnID string SessionID int
  | EvCmdSurfaceSendText ConnID string SessionID string
  | EvCmdSurfaceSendKey ConnID string SessionID string
  | EvCmdSurfaceSubscribe ConnID string SessionID SubscriberID uint16 uint16
  | EvCmdSurfaceUnsubscribe ConnID string SessionID SubscriberID
  | EvCmdSurfaceResize ConnID string SessionID uint16 uint16
  | EvCmdSurfaceWriteRaw ConnID string SessionID bytes
  | EvCmdDriverList ConnID string
  | EvCmdApprovalRespond ConnID string SessionID ApprovalID ApprovalDecision string
  | EvCmdApprovalCancel ConnID string SessionID ApprovalID string
  | EvCmdQuestionRespond ConnID string SessionID QuestionID string string
  | EvCmdQuestionCancel ConnID string SessionID QuestionID string
  | EvDriverEvent ConnID string string time FrameID string
  | EvSubsystemEvent EvSubsystem
  | EvConnOpened ConnID
  | EvConnClosed ConnID
  | EvTick time uint64
  | EvFileChanged FrameID string
  | EvJobResult JobID "'r JobResult" "string option"
  | EvFrameVanished FrameID
  | EvFrameCommandExited FrameID int
  | EvFrameSpawnedEvent EvFrameSpawned
  | EvSpawnFailed SessionID FrameID string ConnID string
  | EvFrameOscEvent EvFrameOsc
  | EvFramePrompt FrameID PromptPhase "int option" time
  | EvShutdownSaveBarrierSucceeded uint64
  | EvShutdownSaveBarrierFailed uint64 string
  | EvShutdownCleanupFinished uint64 ShutdownCleanupOutcome
  | EvRepositoryEvent EvRepository

section \<open>Drivers\<close>

record ('ds, 'j, 'r) Driver =
  dr_Name :: string
  dr_NewState :: "time \<Rightarrow> 'ds"
  dr_Step :: "'ds \<Rightarrow> FrameContext \<Rightarrow> 'r DriverEvent \<Rightarrow> 'ds \<times> 'j Effect list"
  dr_Status :: "'ds option \<Rightarrow> Status"
  dr_PrepareLaunch :: "'ds \<Rightarrow> LaunchMode \<Rightarrow> string \<Rightarrow> string \<Rightarrow> LaunchOptions \<Rightarrow> string + LaunchPlan"
  dr_PrepareCreate ::
    "('ds \<Rightarrow> SessionID \<Rightarrow> string \<Rightarrow> string \<Rightarrow> LaunchOptions \<Rightarrow> string + ('ds \<times> CreateLaunch)) option"
  dr_Forkable :: "(('ds option \<Rightarrow> string \<Rightarrow> string option) \<times> ('ds option \<Rightarrow> time \<Rightarrow> 'ds)) option"
  dr_WithForkSessionID :: "('ds \<Rightarrow> SessionID \<Rightarrow> 'ds) option"
  dr_BootstrapSessionStart :: "('ds option \<Rightarrow> FrameContext \<Rightarrow> time \<Rightarrow> 'ds \<times> 'j Effect list) option"
  dr_StartDirAware :: "(('ds option \<Rightarrow> string) \<times> ('ds \<Rightarrow> string \<Rightarrow> 'ds)) option"
  dr_CapsuleTurns :: "('ds option \<Rightarrow> CapsuleTurn list) option"

record ('ds, 'j, 'r) Registry =
  rg_drivers :: "(string, ('ds, 'j, 'r) Driver) gomap"
  rg_default :: "(string \<Rightarrow> ('ds, 'j, 'r) Driver) option"

text \<open>\<open>Register\<close> panics on a duplicate name; \<open>None\<close> is the panic.\<close>

definition Register :: "('ds, 'j, 'r) Registry \<Rightarrow> ('ds, 'j, 'r) Driver \<Rightarrow> ('ds, 'j, 'r) Registry option" where
  "Register rg d =
     (if in_map (dr_Name d) (rg_drivers rg) then None
      else Some (rg\<lparr>rg_drivers := AList.update (dr_Name d) d (rg_drivers rg)\<rparr>))"

definition RegisterDefaultFactory ::
    "('ds, 'j, 'r) Registry \<Rightarrow> (string \<Rightarrow> ('ds, 'j, 'r) Driver) \<Rightarrow> ('ds, 'j, 'r) Registry" where
  "RegisterDefaultFactory rg factory = rg\<lparr>rg_default := Some factory\<rparr>"

definition FirstToken :: "string \<Rightarrow> string" where
  "FirstToken command = takeWhile (\<lambda>c. c \<noteq> CHR '' '' \<and> c \<noteq> CHR 0x09) command"

definition GetDriver :: "('ds, 'j, 'r) Registry \<Rightarrow> string \<Rightarrow> ('ds, 'j, 'r) Driver option" where
  "GetDriver rg command =
     (case map_of (rg_drivers rg) (FirstToken command) of
        Some d \<Rightarrow> Some d
      | None \<Rightarrow>
          (case rg_default rg of
             Some factory \<Rightarrow> Some (factory command)
           | None \<Rightarrow> map_of (rg_drivers rg) ''''))"

section \<open>Command payloads and the environment\<close>

record CreateSessionParams =
  cs_Project :: string
  cs_Command :: string
  cs_Options :: LaunchOptions

record PushDriverParams =
  pd_SessionID :: string
  pd_Project :: string
  pd_Command :: string
  pd_Options :: LaunchOptions
  pd_Input :: bytes

record SetHeadFrameParams =
  sh_SessionID :: string
  sh_FrameID :: string

record SessionMessagesParams =
  mp_SessionID :: string
  mp_LastReadMessageID :: string

record RepositoryCreateParams =
  pc_IntentID :: string
  pc_PreparationID :: string
  pc_ServerID :: string
  pc_Repository :: GitHubRepositoryIdentity
  pc_Fingerprint :: string
  pc_Command :: string

record ResumeCapsuleFlagParams =
  fp_SessionID :: string
  fp_Flagged :: bool

record Codec =
  cd_unit :: "string \<Rightarrow> string + unit"
  cd_CreateSession :: "string \<Rightarrow> string + CreateSessionParams"
  cd_PushDriver :: "string \<Rightarrow> string + PushDriverParams"
  cd_ForkSession :: "string \<Rightarrow> string + string"
  cd_StopSession :: "string \<Rightarrow> string + string"
  cd_SetHeadFrame :: "string \<Rightarrow> string + SetHeadFrameParams"
  cd_SessionMessages :: "string \<Rightarrow> string + SessionMessagesParams"
  cd_RepositoryCreate :: "string \<Rightarrow> string + RepositoryCreateParams"
  cd_RepositoryPreparation :: "string \<Rightarrow> string + string"
  cd_ResumeCapsuleFlag :: "string \<Rightarrow> string + ResumeCapsuleFlagParams"

record ('ds, 'j, 'r) Env =
  env_Registry :: "('ds, 'j, 'r) Registry"
  env_Codec :: Codec
  env_Rand :: "nat \<Rightarrow> bytes"

end
