(* ===== verification/HostFrames.thy ===== *)
theory HostFrames
  imports HostEvents
begin

text \<open>
  Sessions and frames (\<open>reduce_helpers.go\<close>): id allocation, the frame stack with its head and
  its most-recently-used list, the step of a frame's driver and the processing of the effects it
  returns.
\<close>

section \<open>Responses\<close>

definition errResp :: "ConnID \<Rightarrow> string \<Rightarrow> string \<Rightarrow> string \<Rightarrow> 'j Effect" where
  "errResp connID reqID code message = EffSendError connID reqID code message []"

definition okResp :: "ConnID \<Rightarrow> string \<Rightarrow> Body \<Rightarrow> 'j Effect" where
  "okResp connID reqID body = EffSendResponse connID reqID body"

definition ErrCodeNotFound :: string where "ErrCodeNotFound = ''not_found''"
definition ErrCodeInvalidArgument :: string where "ErrCodeInvalidArgument = ''invalid_argument''"
definition ErrCodeInternal :: string where "ErrCodeInternal = ''internal''"
definition ErrCodeUnsupported :: string where "ErrCodeUnsupported = ''unsupported''"
definition ErrCodeResourceExhausted :: string where "ErrCodeResourceExhausted = ''resource_exhausted''"
definition ErrCodeFrameNotReady :: string where "ErrCodeFrameNotReady = ''frame_not_ready''"
definition ErrCodeUnavailable :: string where "ErrCodeUnavailable = ''unavailable''"

section \<open>Id allocation\<close>

definition hex_digit :: "nat \<Rightarrow> char" where
  "hex_digit n = ''0123456789abcdef'' ! n"

definition hex_encode :: "bytes \<Rightarrow> string" where
  "hex_encode bs = concat (map (\<lambda>b. [hex_digit (unat b div 16), hex_digit (unat b mod 16)]) bs)"

definition allocSessionID :: "('ds, 'j, 'r) Env \<Rightarrow> 'ds State \<Rightarrow> SessionID \<times> 'ds State" where
  "allocSessionID env s =
     (hex_encode (env_Rand env (h_RandPos s)), s\<lparr>h_RandPos := Suc (h_RandPos s)\<rparr>)"

definition allocFrameID :: "('ds, 'j, 'r) Env \<Rightarrow> 'ds State \<Rightarrow> FrameID \<times> 'ds State" where
  "allocFrameID env s = allocSessionID env s"

definition spawnEffect ::
    "SessionID \<Rightarrow> FrameID \<Rightarrow> LaunchPlan \<Rightarrow> ConnID \<Rightarrow> string \<Rightarrow> 'j Effect" where
  "spawnEffect sessID frameID plan connID reqID =
     EffSpawnFrame sessID frameID plan
       [(''AG_SESSION_ID'', sessID), (''AG_FRAME_ID'', frameID)] connID reqID"

section \<open>The frame stack\<close>

definition rootFrame :: "'ds Session \<Rightarrow> 'ds SessionFrame option" where
  "rootFrame sess =
     (case se_Frames sess of
        [] \<Rightarrow>
          if se_Command sess = '''' \<or> se_Driver sess = None then None
          else Some \<lparr>sf_ID = se_ID sess, sf_SubsystemID = '''', sf_TargetID = '''',
                     sf_Project = se_Project sess, sf_Command = se_Command sess,
                     sf_LaunchOptions = se_LaunchOptions sess, sf_CreatedAt = se_CreatedAt sess,
                     sf_Driver = se_Driver sess\<rparr>
      | f # _ \<Rightarrow> Some f)"

definition headFrame :: "'ds Session \<Rightarrow> 'ds SessionFrame option" where
  "headFrame sess =
     (if se_Frames sess = [] then rootFrame sess
      else
        (case (if se_HeadFrameID sess \<noteq> '''' then find (\<lambda>f. sf_ID f = se_HeadFrameID sess) (se_Frames sess)
               else None) of
           Some f \<Rightarrow> Some f
         | None \<Rightarrow> Some (last (se_Frames sess))))"

definition pushMRU :: "'ds Session \<Rightarrow> FrameID \<Rightarrow> 'ds Session" where
  "pushMRU sess frameID =
     (if frameID = '''' then sess
      else
        (let mru = frameID # filter (\<lambda>id. id \<noteq> frameID) (se_MRUFrameIDs sess);
             mru = (if length mru > 16 then take 16 mru else mru)
         in sess\<lparr>se_MRUFrameIDs := mru\<rparr>))"

definition popMRU :: "'ds Session \<Rightarrow> FrameID \<times> 'ds Session" where
  "popMRU sess =
     (let existing = map sf_ID (se_Frames sess)
      in case dropWhile (\<lambda>id. id \<notin> set existing) (se_MRUFrameIDs sess) of
           i # rest \<Rightarrow> (i, sess\<lparr>se_MRUFrameIDs := rest\<rparr>)
         | [] \<Rightarrow> ('''', sess\<lparr>se_MRUFrameIDs := []\<rparr>))"

definition bumpFrameGeneration :: "'ds Session \<Rightarrow> 'ds Session" where
  "bumpFrameGeneration sess = sess\<lparr>se_FrameGeneration := se_FrameGeneration sess + 1\<rparr>"

fun prune_ids :: "FrameID list \<Rightarrow> FrameID list \<Rightarrow> FrameID list \<Rightarrow> FrameID list" where
  "prune_ids existing seen [] = []"
| "prune_ids existing seen (i # ids) =
     (if i \<notin> set existing then prune_ids existing seen ids
      else if i \<in> set seen then prune_ids existing seen ids
      else i # prune_ids existing (i # seen) ids)"

definition pruneMRU :: "'ds Session \<Rightarrow> 'ds Session" where
  "pruneMRU sess =
     (if se_MRUFrameIDs sess = [] then sess
      else sess\<lparr>se_MRUFrameIDs := prune_ids (map sf_ID (se_Frames sess)) [] (se_MRUFrameIDs sess)\<rparr>)"

definition removeFrameByIndex :: "'ds Session \<Rightarrow> nat \<Rightarrow> 'ds Session \<times> 'ds SessionFrame" where
  "removeFrameByIndex sess i =
     (sess\<lparr>se_Frames := take i (se_Frames sess) @ drop (Suc i) (se_Frames sess)\<rparr>, se_Frames sess ! i)"

text \<open>\<open>None\<close> is the index \<open>-1\<close> of the source.\<close>

fun frame_index :: "'ds SessionFrame list \<Rightarrow> FrameID \<Rightarrow> nat option" where
  "frame_index [] frameID = None"
| "frame_index (f # fs) frameID =
     (if sf_ID f = frameID then Some 0 else map_option Suc (frame_index fs frameID))"

definition findFrameIndex :: "'ds Session \<Rightarrow> FrameID \<Rightarrow> nat option" where
  "findFrameIndex sess frameID = frame_index (se_Frames sess) frameID"

fun find_in_sessions ::
    "(SessionID, 'ds Session) gomap \<Rightarrow> FrameID \<Rightarrow> (SessionID \<times> 'ds Session \<times> nat) option" where
  "find_in_sessions [] frameID = None"
| "find_in_sessions ((sessID, sess) # rest) frameID =
     (case findFrameIndex sess frameID of
        Some idx \<Rightarrow> Some (sessID, sess, idx)
      | None \<Rightarrow> find_in_sessions rest frameID)"

definition findFrame :: "'ds State \<Rightarrow> FrameID \<Rightarrow> (SessionID \<times> 'ds Session \<times> nat) option" where
  "findFrame s frameID = find_in_sessions (h_Sessions s) frameID"

definition truncateFrames :: "'ds Session \<Rightarrow> nat \<Rightarrow> 'ds SessionFrame list" where
  "truncateFrames sess from = drop from (se_Frames sess)"

section \<open>Driver steps\<close>

definition postProcessEffect ::
    "'ds State \<Rightarrow> SessionID \<Rightarrow> FrameID \<Rightarrow> 'j Effect \<Rightarrow> 'j Effect \<times> 'ds State" where
  "postProcessEffect s sessID frameID eff =
     (case eff of
        EffStartJob jobID input \<Rightarrow>
          (let s = s\<lparr>h_NextJobID := h_NextJobID s + 1\<rparr>;
               jobID = h_NextJobID s
           in (EffStartJob jobID input,
               s\<lparr>h_Jobs := AList.update jobID
                    \<lparr>jm_SessionID = sessID, jm_FrameID = frameID, jm_StartedAt = h_Now s\<rparr> (h_Jobs s)\<rparr>))
      | EffEventLogAppend f line \<Rightarrow> (EffEventLogAppend (if f = '''' then frameID else f) line, s)
      | EffWatchFile f path kind \<Rightarrow> (EffWatchFile (if f = '''' then frameID else f) path kind, s)
      | EffUnwatchFile f \<Rightarrow> (EffUnwatchFile (if f = '''' then frameID else f), s)
      | EffPushDriver sid command \<Rightarrow> (EffPushDriver (if sid = '''' then sessID else sid) command, s)
      | EffRecordNotification sid f cmd title body \<Rightarrow>
          (EffRecordNotification (if sid = '''' then sessID else sid) (if f = '''' then frameID else f)
             cmd title body, s)
      | _ \<Rightarrow> (eff, s))"

fun postProcessEffects ::
    "'ds State \<Rightarrow> SessionID \<Rightarrow> FrameID \<Rightarrow> 'j Effect list \<Rightarrow> 'ds State \<times> 'j Effect list" where
  "postProcessEffects s sessID frameID [] = (s, [])"
| "postProcessEffects s sessID frameID (eff # effs) =
     (let (patched, s) = postProcessEffect s sessID frameID eff;
          (s, out) = postProcessEffects s sessID frameID effs
      in (s, patched # out))"

definition frameContext :: "'ds SessionFrame \<Rightarrow> bool \<Rightarrow> FrameContext" where
  "frameContext frame isRoot =
     \<lparr>fc_ID = sf_ID frame, fc_Project = sf_Project frame, fc_Command = sf_Command frame,
      fc_LaunchOptions = sf_LaunchOptions frame, fc_CreatedAt = sf_CreatedAt frame, fc_IsRoot = isRoot\<rparr>"

text \<open>Writing the frame at an index back into its session and the session into the state.\<close>

definition putFrame :: "'ds State \<Rightarrow> SessionID \<Rightarrow> 'ds Session \<Rightarrow> nat \<Rightarrow> 'ds SessionFrame \<Rightarrow> 'ds State" where
  "putFrame s sessID sess frameIdx frame =
     s\<lparr>h_Sessions := AList.update sessID (sess\<lparr>se_Frames := (se_Frames sess)[frameIdx := frame]\<rparr>) (h_Sessions s)\<rparr>"

definition stepDriver ::
    "('ds, 'j, 'r) Env \<Rightarrow> 'ds State \<Rightarrow> FrameID \<Rightarrow> 'r DriverEvent \<Rightarrow> 'ds State \<times> 'j Effect list \<times> bool" where
  "stepDriver env s frameID ev =
     (case findFrame s frameID of
        None \<Rightarrow> (s, [], False)
      | Some (sessID, sess, frameIdx) \<Rightarrow>
          (let frame = se_Frames sess ! frameIdx
           in case GetDriver (env_Registry env) (sf_Command frame) of
                None \<Rightarrow> (s, [], False)
              | Some drv \<Rightarrow>
                  (let ctx = frameContext frame (frameIdx = 0);
                       ds = (case sf_Driver frame of None \<Rightarrow> dr_NewState drv (h_Now s) | Some ds \<Rightarrow> ds);
                       (nextDS, rawEffs) = dr_Step drv ds ctx ev;
                       s = putFrame s sessID sess frameIdx (frame\<lparr>sf_Driver := Some nextDS\<rparr>);
                       (s, out) = postProcessEffects s sessID frameID rawEffs
                   in (s, out, True))))"

definition bootstrapDriverSessionStart ::
    "('ds, 'j, 'r) Env \<Rightarrow> 'ds State \<Rightarrow> FrameID \<Rightarrow> 'ds State \<times> 'j Effect list \<times> bool" where
  "bootstrapDriverSessionStart env s frameID =
     (case findFrame s frameID of
        None \<Rightarrow> (s, [], False)
      | Some (sessID, sess, frameIdx) \<Rightarrow>
          if frameIdx \<noteq> 0 then (s, [], False)
          else
            (let frame = se_Frames sess ! frameIdx
             in case GetDriver (env_Registry env) (sf_Command frame) of
                  None \<Rightarrow> (s, [], False)
                | Some drv \<Rightarrow>
                    (case dr_BootstrapSessionStart drv of
                       None \<Rightarrow> (s, [], False)
                     | Some bootstrap \<Rightarrow>
                         (let ctx = frameContext frame True;
                              (nextDS, rawEffs) = bootstrap (sf_Driver frame) ctx (h_Now s);
                              s = putFrame s sessID sess frameIdx (frame\<lparr>sf_Driver := Some nextDS\<rparr>);
                              (s, out) = postProcessEffects s sessID frameID rawEffs
                          in (s, out, True)))))"

definition sessionWatched :: "'ds State \<Rightarrow> SessionID \<Rightarrow> bool" where
  "sessionWatched s sid = list_ex (\<lambda>(c, subs). list_ex (\<lambda>(sub, geo). fst sub = sid) subs) (h_SurfaceSubs s)"

text \<open>
  The event is built by a function of the number of events built before it (the \<open>seq\<close> that the
  tick's closure counts), the session id, the session and whether it is watched.
\<close>

fun stepSessions ::
    "('ds, 'j, 'r) Env \<Rightarrow> (nat \<Rightarrow> SessionID \<Rightarrow> 'ds Session \<Rightarrow> bool \<Rightarrow> 'r DriverEvent) \<Rightarrow> nat \<Rightarrow>
     SessionID list \<Rightarrow> 'ds State \<Rightarrow> 'ds State \<times> 'j Effect list \<times> bool" where
  "stepSessions env makeEv n [] s = (s, [], False)"
| "stepSessions env makeEv n (sessID # ids) s =
     (case map_of (h_Sessions s) sessID of
        None \<Rightarrow> stepSessions env makeEv n ids s
      | Some sess \<Rightarrow>
          (case rootFrame sess of
             None \<Rightarrow> stepSessions env makeEv n ids s
           | Some frame \<Rightarrow>
               (case GetDriver (env_Registry env) (sf_Command frame) of
                  None \<Rightarrow> stepSessions env makeEv n ids s
                | Some drv \<Rightarrow>
                    (let ev = makeEv n sessID sess (sessionWatched s sessID);
                         (next, sessEffs, ok) = stepDriver env s (sf_ID frame) ev
                     in if \<not> ok then stepSessions env makeEv (Suc n) ids s
                        else
                          (let (s', effs, changed) = stepSessions env makeEv (Suc n) ids next
                           in (s', sessEffs @ effs, sessEffs \<noteq> [] \<or> changed))))))"

definition stepActiveSessions ::
    "('ds, 'j, 'r) Env \<Rightarrow> 'ds State \<Rightarrow> (nat \<Rightarrow> SessionID \<Rightarrow> 'ds Session \<Rightarrow> bool \<Rightarrow> 'r DriverEvent) \<Rightarrow>
     'ds State \<times> 'j Effect list \<times> bool" where
  "stepActiveSessions env s makeEv =
     (if h_Sessions s = [] then (s, [], False)
      else stepSessions env makeEv 0 (sort (map fst (h_Sessions s))) s)"

end
