(* ===== verification/NestedMap.thy ===== *)
theory NestedMap
  imports GoBase
begin

text \<open>
  Maps of maps, \<open>map[SessionID]map[ID]Request\<close>, as the host core keeps its pending approvals and
  questions: a request is stored under its session and its own id and is looked up by its id across
  all sessions. The lemmas describe every operation by what a lookup returns afterwards.
\<close>

type_synonym ('s, 'k, 'r) nested = "('s, ('k, 'r) gomap) gomap"

fun find_nested :: "('s, 'k, 'r) nested \<Rightarrow> 'k \<Rightarrow> ('r \<times> 's) option" where
  "find_nested [] k = None"
| "find_nested ((sid, inner) # rest) k =
     (case map_of inner k of
        Some r \<Rightarrow> Some (r, sid)
      | None \<Rightarrow> find_nested rest k)"

definition inner_of :: "('s, 'k, 'r) nested \<Rightarrow> 's \<Rightarrow> ('k, 'r) gomap" where
  "inner_of m sid = (case map_of m sid of None \<Rightarrow> [] | Some inner \<Rightarrow> inner)"

definition put_nested :: "('s, 'k, 'r) nested \<Rightarrow> 's \<Rightarrow> 'k \<Rightarrow> 'r \<Rightarrow> ('s, 'k, 'r) nested" where
  "put_nested m sid k r = AList.update sid (AList.update k r (inner_of m sid)) m"

definition delete_nested :: "('s, 'k, 'r) nested \<Rightarrow> 's \<Rightarrow> 'k \<Rightarrow> ('s, 'k, 'r) nested" where
  "delete_nested m sid k =
     (if \<not> in_map k (inner_of m sid) then m
      else
        (let nm = AList.delete k (inner_of m sid)
         in if nm = [] then AList.delete sid m else AList.update sid nm m))"

text \<open>All entries that satisfy a predicate, with their session.\<close>

definition collect_nested :: "('r \<Rightarrow> bool) \<Rightarrow> ('s, 'k, 'r) nested \<Rightarrow> ('s \<times> 'r) list" where
  "collect_nested P m =
     concat (map (\<lambda>(sid, inner). map (\<lambda>r. (sid, r)) (filter P (map snd inner))) m)"

section \<open>Well-formed stores\<close>

text \<open>Distinct keys, and every id is stored under one session only.\<close>

definition nested_wf :: "('s, 'k, 'r) nested \<Rightarrow> bool" where
  "nested_wf m \<longleftrightarrow> wf_map m \<and> (\<forall>sid inner. map_of m sid = Some inner \<longrightarrow> wf_map inner) \<and>
     (\<forall>sid sid' k. in_map k (inner_of m sid) \<and> in_map k (inner_of m sid') \<longrightarrow> sid = sid')"

definition keyed_nested :: "('r \<Rightarrow> 's) \<Rightarrow> ('r \<Rightarrow> 'k) \<Rightarrow> ('s, 'k, 'r) nested \<Rightarrow> bool" where
  "keyed_nested sess rid m \<longleftrightarrow>
     (\<forall>sid k r. map_of (inner_of m sid) k = Some r \<longrightarrow> sess r = sid \<and> rid r = k)"

lemma nested_unique:
  "nested_wf m \<Longrightarrow> in_map k (inner_of m a) \<Longrightarrow> in_map k (inner_of m b) \<Longrightarrow> a = b"
  unfolding nested_wf_def by blast

lemma find_nested_Some_inner:
  "wf_map m \<Longrightarrow> find_nested m k = Some (r, sid) \<Longrightarrow> map_of (inner_of m sid) k = Some r"
proof (induction m)
  case (Cons p m)
  obtain s0 inner where p: "p = (s0, inner)" by (cases p)
  show ?case
  proof (cases "map_of inner k")
    case (Some r0)
    then show ?thesis using Cons.prems p by (simp add: inner_of_def)
  next
    case None
    then have f: "find_nested m k = Some (r, sid)" using Cons.prems p by simp
    then have "map_of (inner_of m sid) k = Some r" using Cons p by simp
    moreover have "sid \<noteq> s0"
    proof
      assume "sid = s0"
      then have "map_of m sid = None" using Cons.prems(1) p by (auto simp: map_of_eq_None_iff)
      then show False using calculation by (simp add: inner_of_def)
    qed
    ultimately show ?thesis using p by (simp add: inner_of_def)
  qed
qed simp

lemma find_nested_None_inner:
  "find_nested m k = None \<Longrightarrow> map_of m sid = Some inner \<Longrightarrow> map_of inner k = None"
  by (induction m) (auto split: if_splits option.splits)

lemma find_nested_iff:
  assumes "nested_wf m"
  shows "find_nested m k = Some (r, sid) \<longleftrightarrow> map_of (inner_of m sid) k = Some r"
proof
  assume "find_nested m k = Some (r, sid)"
  then show "map_of (inner_of m sid) k = Some r"
    using assms find_nested_Some_inner by (auto simp: nested_wf_def)
next
  assume i: "map_of (inner_of m sid) k = Some r"
  then obtain inner where o: "map_of m sid = Some inner" "map_of inner k = Some r"
    by (auto simp: inner_of_def split: option.splits)
  obtain r' sid' where f: "find_nested m k = Some (r', sid')"
    using find_nested_None_inner[of m k sid inner] o by (cases "find_nested m k") auto
  then have "map_of (inner_of m sid') k = Some r'"
    using assms find_nested_Some_inner by (auto simp: nested_wf_def)
  then have "sid' = sid" using nested_unique[OF assms, of k sid' sid] i by (simp add: in_map_iff)
  then show "find_nested m k = Some (r, sid)"
    using f i \<open>map_of (inner_of m sid') k = Some r'\<close> by simp
qed

lemma find_nested_eqI:
  assumes "nested_wf m" and "nested_wf n"
    and "\<And>sid. map_of (inner_of n sid) k = map_of (inner_of m sid) k"
  shows "find_nested n k = find_nested m k"
proof (cases "find_nested m k")
  case (Some p)
  then show ?thesis using assms find_nested_iff[of m k "fst p" "snd p"] find_nested_iff[of n k "fst p" "snd p"] by simp
next
  case None
  then have "find_nested n k \<noteq> Some p" for p
    using assms find_nested_iff[of m k "fst p" "snd p"] find_nested_iff[of n k "fst p" "snd p"] by auto
  then show ?thesis using None by (cases "find_nested n k") auto
qed

section \<open>Operations by lookup\<close>

definition can_put :: "('s, 'k, 'r) nested \<Rightarrow> 's \<Rightarrow> 'k \<Rightarrow> bool" where
  "can_put m sid k \<longleftrightarrow> (\<forall>r sid'. find_nested m k = Some (r, sid') \<longrightarrow> sid' = sid)"

lemma inner_of_put: "inner_of (put_nested m sid k r) sid' =
    (if sid' = sid then AList.update k r (inner_of m sid) else inner_of m sid')"
  by (simp add: put_nested_def inner_of_def)

lemma inner_wf: "nested_wf m \<Longrightarrow> wf_map (inner_of m sid)"
  by (auto simp: nested_wf_def inner_of_def split: option.splits)

lemma can_put_inner:
  assumes "nested_wf m" and "can_put m sid k" and "in_map k (inner_of m sid')"
  shows "sid' = sid"
proof -
  obtain r where "map_of (inner_of m sid') k = Some r" using in_map_Some[OF assms(3)] by blast
  then show ?thesis using assms(1,2) by (simp add: can_put_def find_nested_iff)
qed

lemma put_nested_wf:
  assumes "nested_wf m" and "can_put m sid k"
  shows "nested_wf (put_nested m sid k r)"
  unfolding nested_wf_def
proof (intro conjI allI impI)
  show "wf_map (put_nested m sid k r)" using assms by (simp add: put_nested_def nested_wf_def)
  show "wf_map inner" if "map_of (put_nested m sid k r) sid' = Some inner" for sid' inner
    using that assms(1) inner_wf[OF assms(1)] by (auto simp: put_nested_def nested_wf_def split: if_splits)
  show "a = b" if "in_map j (inner_of (put_nested m sid k r) a) \<and> in_map j (inner_of (put_nested m sid k r) b)" for a b j
    using that can_put_inner[OF assms] nested_unique[OF assms(1), of j a b]
    by (auto simp: inner_of_put split: if_splits)
qed

lemma find_put_nested:
  assumes "nested_wf m" and "can_put m sid k"
  shows "find_nested (put_nested m sid k r) j = (if j = k then Some (r, sid) else find_nested m j)"
proof (cases "j = k")
  case True
  then show ?thesis using find_nested_iff[OF put_nested_wf[OF assms]] by (simp add: inner_of_put)
next
  case False
  then show ?thesis using find_nested_eqI[OF assms(1) put_nested_wf[OF assms]] by (simp add: inner_of_put)
qed

lemma inner_of_delete: "nested_wf m \<Longrightarrow> inner_of (delete_nested m sid k) sid' =
    (if sid' = sid then AList.delete k (inner_of m sid) else inner_of m sid')"
  by (auto simp: delete_nested_def Let_def inner_of_def delete_absent split: option.splits)

lemma delete_nested_wf:
  assumes "nested_wf m"
  shows "nested_wf (delete_nested m sid k)"
  unfolding nested_wf_def
proof (intro conjI allI impI)
  show "wf_map (delete_nested m sid k)" using assms by (simp add: delete_nested_def Let_def nested_wf_def)
  show "wf_map inner" if "map_of (delete_nested m sid k) sid' = Some inner" for sid' inner
    using that assms inner_wf[OF assms]
    by (auto simp: delete_nested_def Let_def nested_wf_def split: if_splits)
  show "a = b" if "in_map j (inner_of (delete_nested m sid k) a) \<and> in_map j (inner_of (delete_nested m sid k) b)" for a b j
    using that nested_unique[OF assms, of j a b] by (auto simp: inner_of_delete[OF assms] split: if_splits)
qed

lemma find_delete_nested:
  assumes "nested_wf m"
  shows "find_nested (delete_nested m sid k) j =
    (if j = k \<and> (\<exists>r. find_nested m k = Some (r, sid)) then None else find_nested m j)"
proof (cases "j = k \<and> (\<exists>r. find_nested m k = Some (r, sid))")
  case True
  then obtain r where r: "find_nested m k = Some (r, sid)" by blast
  have "find_nested (delete_nested m sid k) k \<noteq> Some p" for p
  proof
    assume "find_nested (delete_nested m sid k) k = Some p"
    then have "map_of (inner_of (delete_nested m sid k) (snd p)) k = Some (fst p)"
      using find_nested_iff[OF delete_nested_wf[OF assms], of sid k k "fst p" "snd p"] by simp
    then have "snd p \<noteq> sid" "find_nested m k = Some p"
      using assms find_nested_iff[OF assms, of k "fst p" "snd p"] by (auto simp: inner_of_delete split: if_splits)
    then show False using r by (cases p) simp
  qed
  then show ?thesis using True by (cases "find_nested (delete_nested m sid k) k") auto
next
  case False
  have "map_of (inner_of (delete_nested m sid k) a) j = map_of (inner_of m a) j" for a
    using False assms find_nested_iff[OF assms, of k]
    by (cases "map_of (inner_of m sid) k") (auto simp: inner_of_delete)
  then have "find_nested (delete_nested m sid k) j = find_nested m j"
    by (rule find_nested_eqI[OF assms delete_nested_wf[OF assms]])
  then show ?thesis using False by (simp only: if_False)
qed


section \<open>Loops that update a state and emit effects\<close>

fun each :: "('s \<Rightarrow> 'a \<Rightarrow> 's \<times> 'e list) \<Rightarrow> 'a list \<Rightarrow> 's \<Rightarrow> 's \<times> 'e list" where
  "each f [] s = (s, [])"
| "each f (x # xs) s =
     (let (s, effs) = f s x;
          (s, more) = each f xs s
      in (s, effs @ more))"

lemma each_split:
  assumes "\<And>s x. f s x = (g s x, h x)"
  shows "each f xs s = (foldl g s xs, concat (map h xs))"
  by (induction xs arbitrary: s) (simp_all add: assms)

section \<open>Stores of requests\<close>

text \<open>A store whose entries sit under their own session and id.\<close>

definition store_ok :: "('r \<Rightarrow> 's) \<Rightarrow> ('r \<Rightarrow> 'k) \<Rightarrow> ('s, 'k, 'r) nested \<Rightarrow> bool" where
  "store_ok sess rid m \<longleftrightarrow> nested_wf m \<and> keyed_nested sess rid m"

lemma store_find:
  assumes "store_ok sess rid m" and "find_nested m k = Some (r, sid)"
  shows "sess r = sid" and "rid r = k"
  using assms find_nested_iff[of m k r sid] by (auto simp: store_ok_def keyed_nested_def)

lemma store_put:
  assumes "store_ok sess rid m" and "can_put m (sess r) (rid r)"
  shows "store_ok sess rid (put_nested m (sess r) (rid r) r)"
  using assms put_nested_wf[of m "sess r" "rid r" r]
  by (auto simp: store_ok_def keyed_nested_def inner_of_put split: if_splits)

lemma store_delete:
  assumes "store_ok sess rid m"
  shows "store_ok sess rid (delete_nested m sid k)"
  using assms delete_nested_wf[of m sid k]
  by (auto simp: store_ok_def keyed_nested_def inner_of_delete split: if_splits)

lemma collect_nested_find:
  assumes "store_ok sess rid m"
  shows "(sid, r) \<in> set (collect_nested P m) \<longleftrightarrow> P r \<and> find_nested m (rid r) = Some (r, sid)"
proof -
  have wf: "nested_wf m" using assms by (simp add: store_ok_def)
  have inner: "(sid, inner) \<in> set m \<longleftrightarrow> map_of m sid = Some inner" for inner
    using wf by (auto simp: nested_wf_def map_of_eq_Some_iff)
  have "(sid, r) \<in> set (collect_nested P m) \<longleftrightarrow> P r \<and> (\<exists>k. map_of (inner_of m sid) k = Some r)"
  proof
    assume "(sid, r) \<in> set (collect_nested P m)"
    then obtain inner k where i: "(sid, inner) \<in> set m" "(k, r) \<in> set inner" "P r"
      by (auto simp: collect_nested_def)
    then have "map_of m sid = Some inner" using inner by simp
    moreover have "wf_map inner" using calculation wf by (simp add: nested_wf_def)
    ultimately have "map_of (inner_of m sid) k = Some r" using i by (simp add: inner_of_def)
    then show "P r \<and> (\<exists>k. map_of (inner_of m sid) k = Some r)" using i by blast
  next
    assume "P r \<and> (\<exists>k. map_of (inner_of m sid) k = Some r)"
    then obtain k inner where "P r" "map_of m sid = Some inner" "map_of inner k = Some r"
      by (auto simp: inner_of_def split: option.splits)
    then have i: "(sid, inner) \<in> set m" and "(k, r) \<in> set inner" and P: "P r"
      using inner by (simp_all add: map_of_SomeD)
    then have "r \<in> set (map snd inner)" by (metis image_eqI list.set_map snd_conv)
    then have "(sid, r) \<in> set (map (Pair sid) (filter P (map snd inner)))" using P by simp
    then show "(sid, r) \<in> set (collect_nested P m)"
      using i unfolding collect_nested_def by (auto intro!: bexI[of _ "(sid, inner)"])
  qed
  also have "\<dots> \<longleftrightarrow> P r \<and> map_of (inner_of m sid) (rid r) = Some r"
    using assms by (auto simp: store_ok_def keyed_nested_def)
  finally show ?thesis using find_nested_iff[OF wf] by simp
qed

lemma distinct_rids_inner:
  assumes "wf_map inner" and "\<And>k r. (k, r) \<in> set inner \<Longrightarrow> rid r = k"
  shows "distinct (map rid (filter P (map snd inner)))"
proof -
  have "map rid (map snd inner) = map fst inner" using assms(2) by auto
  then have "distinct (map rid (map snd inner))" using assms(1) by (simp only:)
  then show ?thesis by (rule distinct_map_filter)
qed

lemma distinct_concat_map:
  assumes "distinct xs" and "\<And>x. x \<in> set xs \<Longrightarrow> distinct (f x)"
    and "\<And>x y z. x \<in> set xs \<Longrightarrow> y \<in> set xs \<Longrightarrow> z \<in> set (f x) \<Longrightarrow> z \<in> set (f y) \<Longrightarrow> x = y"
  shows "distinct (concat (map f xs))"
  using assms
proof (induction xs)
  case (Cons x xs)
  have "distinct (concat (map f xs))"
    by (rule Cons.IH) (use Cons.prems in auto)
  moreover have "z \<notin> set (f x)" if "y \<in> set xs" "z \<in> set (f y)" for y z
  proof
    assume "z \<in> set (f x)"
    then have "x = y" using Cons.prems(3)[of x y z] that by simp
    then show False using Cons.prems(1) that by simp
  qed
  ultimately show ?case using Cons.prems(2)[of x] by auto
qed simp

lemma collect_nested_distinct:
  assumes "store_ok sess rid m"
  shows "distinct (map (\<lambda>(sid, r). rid r) (collect_nested P m))"
proof -
  have wf: "nested_wf m" using assms by (simp add: store_ok_def)
  have look: "map_of (inner_of m sid) k = Some r" if "(sid, inner) \<in> set m" "(k, r) \<in> set inner" for sid inner k r
  proof -
    have "map_of m sid = Some inner" using that(1) wf by (auto simp: nested_wf_def)
    then show ?thesis using that(2) wf by (auto simp: nested_wf_def inner_of_def)
  qed
  then have key: "rid r = k" if "(sid, inner) \<in> set m" "(k, r) \<in> set inner" for sid inner k r
    using look[OF that] assms unfolding store_ok_def keyed_nested_def by blast
  have eq: "map (\<lambda>(sid, r). rid r) (collect_nested P m) =
      concat (map (\<lambda>(sid, inner). map rid (filter P (map snd inner))) m)"
    by (simp add: collect_nested_def map_concat comp_def case_prod_unfold)
  show ?thesis unfolding eq
  proof (rule distinct_concat_map)
    show "distinct m" using wf by (simp add: nested_wf_def distinct_map)
    show "distinct (case p of (sid, inner) \<Rightarrow> map rid (filter P (map snd inner)))" if "p \<in> set m" for p
    proof -
      have "map_of m (fst p) = Some (snd p)" using that wf by (auto simp: nested_wf_def)
      then have "wf_map (snd p)" using wf by (simp add: nested_wf_def)
      moreover have "rid r = k" if "(k, r) \<in> set (snd p)" for k r
        using key[of "fst p" "snd p" k r] that \<open>p \<in> set m\<close> by simp
      ultimately show ?thesis unfolding case_prod_unfold by (rule distinct_rids_inner)
    qed
    show "p = q" if pq: "p \<in> set m" "q \<in> set m"
      and z: "z \<in> set (case p of (sid, inner) \<Rightarrow> map rid (filter P (map snd inner)))"
        "z \<in> set (case q of (sid, inner) \<Rightarrow> map rid (filter P (map snd inner)))" for p q z
    proof -
      obtain r1 k1 where 1: "(k1, r1) \<in> set (snd p)" "rid r1 = z" using z(1) by (auto simp: case_prod_unfold)
      obtain r2 k2 where 2: "(k2, r2) \<in> set (snd q)" "rid r2 = z" using z(2) by (auto simp: case_prod_unfold)
      have "k1 = z" "k2 = z" using key[of "fst p" "snd p"] key[of "fst q" "snd q"] pq 1 2 by auto
      then have "map_of (inner_of m (fst p)) z = Some r1" "map_of (inner_of m (fst q)) z = Some r2"
        using look[of "fst p" "snd p"] look[of "fst q" "snd q"] pq 1 2 by auto
      then have "fst p = fst q" using nested_unique[OF wf, of z "fst p" "fst q"] by (simp add: in_map_iff)
      moreover have "snd p = snd q"
      proof (rule eq_key_imp_eq_value[of m "fst p"])
        show "wf_map m" using wf by (simp add: nested_wf_def)
        show "(fst p, snd p) \<in> set m" using pq by simp
        show "(fst p, snd q) \<in> set m" unfolding calculation using pq by simp
      qed
      ultimately show ?thesis by (rule prod_eqI)
    qed
  qed
qed


section \<open>Rewriting and reaping groups of entries\<close>

text \<open>A list of stored entries with pairwise distinct ids, as a loop collects them.\<close>

definition hits_of :: "('r \<Rightarrow> 'k) \<Rightarrow> ('s, 'k, 'r) nested \<Rightarrow> ('s \<times> 'r) list \<Rightarrow> bool" where
  "hits_of rid m hits \<longleftrightarrow> distinct (map (\<lambda>(sid, r). rid r) hits) \<and>
     (\<forall>(sid, r) \<in> set hits. find_nested m (rid r) = Some (r, sid))"

lemma hits_of_collect: "store_ok sess rid m \<Longrightarrow> hits_of rid m (collect_nested P m)"
  by (auto simp: hits_of_def collect_nested_distinct collect_nested_find)

lemma hits_of_fresh:
  assumes "hits_of rid m ((sid, r) # hits)" and "(sid', r') \<in> set hits"
  shows "rid r' \<noteq> rid r"
proof
  assume "rid r' = rid r"
  then have "rid r \<in> set (map (\<lambda>(sid, r). rid r) hits)" using assms(2) by (metis (mono_tags, lifting) case_prod_conv image_eqI list.set_map)
  then show False using assms(1) by (simp add: hits_of_def)
qed

lemma hits_of_step:
  assumes h: "hits_of rid m ((sid, r) # hits)" and "\<And>j. j \<noteq> rid r \<Longrightarrow> find_nested m1 j = find_nested m j"
  shows "hits_of rid m1 hits"
proof -
  have "find_nested m1 (rid r') = Some (r', sid')" if "(sid', r') \<in> set hits" for sid' r'
    using assms(2)[OF hits_of_fresh[OF h that]] h that by (auto simp: hits_of_def)
  then show ?thesis using h by (auto simp: hits_of_def)
qed

definition rewrite_hits ::
    "('r \<Rightarrow> 's) \<Rightarrow> ('r \<Rightarrow> 'k) \<Rightarrow> ('r \<Rightarrow> 'r) \<Rightarrow> ('s \<times> 'r) list \<Rightarrow> ('s, 'k, 'r) nested \<Rightarrow> ('s, 'k, 'r) nested" where
  "rewrite_hits sess rid u hits m =
     foldl (\<lambda>m (sid, r). put_nested m (sess (u r)) (rid (u r)) (u r)) m hits"

definition reap_hits ::
    "('r \<Rightarrow> 'k) \<Rightarrow> ('s \<times> 'r) list \<Rightarrow> ('s, 'k, 'r) nested \<Rightarrow> ('s, 'k, 'r) nested" where
  "reap_hits rid hits m = foldl (\<lambda>m (sid, r). delete_nested m sid (rid r)) m hits"

lemma rewrite_hits_ok:
  assumes "store_ok sess rid m" and "hits_of rid m hits"
    and u: "\<And>r. sess (u r) = sess r" "\<And>r. rid (u r) = rid r"
  shows "store_ok sess rid (rewrite_hits sess rid u hits m) \<and>
    find_nested (rewrite_hits sess rid u hits m) k =
      (case find_nested m k of None \<Rightarrow> None
       | Some (r, sid) \<Rightarrow> Some (if (sid, r) \<in> set hits then u r else r, sid))"
  using assms(1,2)
proof (induction hits arbitrary: m)
  case Nil
  then show ?case by (auto simp: rewrite_hits_def split: option.splits)
next
  case (Cons h hits)
  obtain sid r where h: "h = (sid, r)" by (cases h)
  have f: "find_nested m (rid r) = Some (r, sid)" using Cons.prems(2) h by (simp add: hits_of_def)
  then have s: "sess r = sid" using store_find[OF Cons.prems(1)] by simp
  define m1 where "m1 = put_nested m (sess (u r)) (rid (u r)) (u r)"
  have can: "can_put m (sess (u r)) (rid (u r))" using f s by (simp add: can_put_def u)
  have ok: "store_ok sess rid m1" unfolding m1_def by (rule store_put[OF Cons.prems(1) can])
  have find1: "find_nested m1 j = (if j = rid r then Some (u r, sid) else find_nested m j)" for j
    using Cons.prems(1) can s unfolding m1_def by (simp add: find_put_nested store_ok_def u)
  have hits1: "hits_of rid m1 hits"
    by (rule hits_of_step[OF Cons.prems(2)[unfolded h]]) (simp add: find1)
  have step: "rewrite_hits sess rid u ((sid, r) # hits) m = rewrite_hits sess rid u hits m1"
    by (simp add: rewrite_hits_def m1_def)
  have fresh: "(s', u') \<in> set hits \<Longrightarrow> rid u' \<noteq> rid r" for s' u'
    by (rule hits_of_fresh[OF Cons.prems(2)[unfolded h]])
  have key: "find_nested m k = Some (r', sid') \<Longrightarrow> rid r' = k" for r' sid'
    using store_find[OF Cons.prems(1)] by simp
  show ?case
  proof (cases "k = rid r")
    case True
    then show ?thesis using Cons.IH[OF ok hits1] f fresh[of sid "u r"] by (auto simp: step find1 h u)
  next
    case False
    then show ?thesis using Cons.IH[OF ok hits1] key
      by (auto simp: step find1 h split: option.splits)
  qed
qed

lemma reap_hits_ok:
  assumes "store_ok sess rid m" and "hits_of rid m hits"
  shows "store_ok sess rid (reap_hits rid hits m) \<and>
    find_nested (reap_hits rid hits m) k =
      (case find_nested m k of None \<Rightarrow> None
       | Some (r, sid) \<Rightarrow> if (sid, r) \<in> set hits then None else Some (r, sid))"
  using assms
proof (induction hits arbitrary: m)
  case Nil
  then show ?case by (auto simp: reap_hits_def split: option.splits)
next
  case (Cons h hits)
  obtain sid r where h: "h = (sid, r)" by (cases h)
  have f: "find_nested m (rid r) = Some (r, sid)" using Cons.prems(2) h by (simp add: hits_of_def)
  define m1 where "m1 = delete_nested m sid (rid r)"
  have ok: "store_ok sess rid m1" unfolding m1_def by (rule store_delete[OF Cons.prems(1)])
  have find1: "find_nested m1 j = (if j = rid r then None else find_nested m j)" for j
    using Cons.prems(1) f unfolding m1_def by (simp add: find_delete_nested store_ok_def)
  have hits1: "hits_of rid m1 hits"
    by (rule hits_of_step[OF Cons.prems(2)[unfolded h]]) (simp add: find1)
  have step: "reap_hits rid ((sid, r) # hits) m = reap_hits rid hits m1"
    by (simp add: reap_hits_def m1_def)
  have key: "find_nested m k = Some (r', sid') \<Longrightarrow> rid r' = k" for r' sid'
    using store_find[OF Cons.prems(1)] by simp
  show ?case
  proof (cases "k = rid r")
    case True
    then show ?thesis using Cons.IH[OF ok hits1] f by (simp add: step find1 h)
  next
    case False
    then show ?thesis using Cons.IH[OF ok hits1] key by (auto simp: step find1 h split: option.splits)
  qed
qed

end
