(* ===== verification/HostApproval.thy ===== *)
theory HostApproval
  imports HostFrames NestedMap
begin

text \<open>
  Approval requests (\<open>approval_request.go\<close>, \<open>reduce_approval.go\<close>): the store of
  requests by session and id, and the handlers that create, answer, cancel, expire and reap them.
\<close>

section \<open>The store\<close>

definition DefaultApprovalTTL :: duration where "DefaultApprovalTTL = 30 * second"
definition AutoResolvingClientInstanceID :: string where "AutoResolvingClientInstanceID = ''auto''"
definition ErrCodeResolvedByOther :: string where "ErrCodeResolvedByOther = ''resolved_by_other''"
definition EvtNameApprovalRequested :: string where "EvtNameApprovalRequested = ''approval-requested''"
definition EvtNameApprovalResolved :: string where "EvtNameApprovalResolved = ''approval-resolved''"

definition PendingApprovalsForSession :: "'ds State \<Rightarrow> SessionID \<Rightarrow> ApprovalRequest list" where
  "PendingApprovalsForSession s sessionID =
     filter (\<lambda>r. ar_Status r = ApprovalPending) (map snd (inner_of (h_PendingApprovals s) sessionID))"

definition FindApproval :: "'ds State \<Rightarrow> ApprovalID \<Rightarrow> (ApprovalRequest \<times> SessionID) option" where
  "FindApproval s i = (if i = '''' then None else find_nested (h_PendingApprovals s) i)"

definition putApproval :: "'ds State \<Rightarrow> ApprovalRequest \<Rightarrow> 'ds State" where
  "putApproval s r =
     s\<lparr>h_PendingApprovals := put_nested (h_PendingApprovals s) (ar_SessionID r) (ar_ID r) r\<rparr>"

definition deleteApproval :: "'ds State \<Rightarrow> SessionID \<Rightarrow> ApprovalID \<Rightarrow> 'ds State" where
  "deleteApproval s sessionID i =
     s\<lparr>h_PendingApprovals := delete_nested (h_PendingApprovals s) sessionID i\<rparr>"

section \<open>Effects\<close>

fun decision_text :: "ApprovalDecision \<Rightarrow> string" where
  "decision_text ApprovalDecisionNone = ''''"
| "decision_text ApprovalDecisionAccept = ''accept''"
| "decision_text ApprovalDecisionDeny = ''deny''"
| "decision_text (ApprovalDecisionOther t) = t"

fun approval_reason_text :: "ApprovalResolutionReason \<Rightarrow> string" where
  "approval_reason_text ApprovalReasonNone = ''''"
| "approval_reason_text ApprovalReasonClient = ''client''"
| "approval_reason_text ApprovalReasonExpired = ''expired''"
| "approval_reason_text ApprovalReasonCancelled = ''cancelled''"
| "approval_reason_text ApprovalReasonAuto = ''auto''"
| "approval_reason_text ApprovalReasonServer = ''server''"

fun approval_status_text :: "ApprovalStatus \<Rightarrow> string" where
  "approval_status_text ApprovalPending = ''pending''"
| "approval_status_text ApprovalResolved = ''resolved''"
| "approval_status_text ApprovalExpired = ''expired''"
| "approval_status_text ApprovalCancelled = ''cancelled''"

definition resolvedByOtherError :: "ConnID \<Rightarrow> string \<Rightarrow> ApprovalRequest \<Rightarrow> 'j Effect" where
  "resolvedByOtherError connID reqID r =
     EffSendError connID reqID ErrCodeResolvedByOther ''approval already resolved by another client''
       [(''decision'', decision_text (ar_Decision r)),
        (''resolving_client_instance_id'', ar_ResolvingClientInstanceID r),
        (''resolution_reason'', approval_reason_text (ar_ResolutionReason r)),
        (''status'', approval_status_text (ar_Status r))]"

definition approvalRequestedBroadcast :: "ApprovalRequest \<Rightarrow> 'j Effect" where
  "approvalRequestedBroadcast r =
     EffBroadcastEvent EvtNameApprovalRequested (PayloadApproval r) EvtNameApprovalRequested"

definition approvalResolvedBroadcast :: "ApprovalRequest \<Rightarrow> 'j Effect" where
  "approvalResolvedBroadcast r =
     EffBroadcastEvent EvtNameApprovalResolved (PayloadApproval r) EvtNameApprovalResolved"

section \<open>Handlers\<close>

definition reduceApprovalRespond ::
    "'ds State \<Rightarrow> ConnID \<Rightarrow> string \<Rightarrow> ApprovalID \<Rightarrow> ApprovalDecision \<Rightarrow> string \<Rightarrow> 'ds State \<times> 'j Effect list" where
  "reduceApprovalRespond s connID reqID approvalID decision clientInstanceID =
     (if approvalID = '''' then
        (s, [errResp connID reqID ErrCodeInvalidArgument ''approval_id required''])
      else if decision \<noteq> ApprovalDecisionAccept \<and> decision \<noteq> ApprovalDecisionDeny then
        (s, [errResp connID reqID ErrCodeInvalidArgument ''decision must be accept or deny''])
      else
        (case FindApproval s approvalID of
           None \<Rightarrow> (s, [errResp connID reqID ErrCodeNotFound ''approval not found''])
         | Some (r, _) \<Rightarrow>
             if ar_Status r \<noteq> ApprovalPending then (s, [resolvedByOtherError connID reqID r])
             else
               (let r = r\<lparr>ar_Status := ApprovalResolved, ar_Decision := decision,
                          ar_ResolvingClientInstanceID := clientInstanceID,
                          ar_ResolutionReason := ApprovalReasonClient\<rparr>
                in (putApproval s r,
                    [okResp connID reqID BodyNil,
                     EffReplyHeldApproval (ar_FrameID r) (ar_ID r) (ar_Decision r) '''',
                     approvalResolvedBroadcast r]))))"

definition reduceApprovalCancel ::
    "'ds State \<Rightarrow> ConnID \<Rightarrow> string \<Rightarrow> ApprovalID \<Rightarrow> string \<Rightarrow> 'ds State \<times> 'j Effect list" where
  "reduceApprovalCancel s connID reqID approvalID clientInstanceID =
     (if approvalID = '''' then
        (s, [errResp connID reqID ErrCodeInvalidArgument ''approval_id required''])
      else
        (case FindApproval s approvalID of
           None \<Rightarrow> (s, [errResp connID reqID ErrCodeNotFound ''approval not found''])
         | Some (r, _) \<Rightarrow>
             if ar_Status r \<noteq> ApprovalPending then (s, [resolvedByOtherError connID reqID r])
             else
               (let r = r\<lparr>ar_Status := ApprovalCancelled, ar_Decision := ApprovalDecisionDeny,
                          ar_ResolvingClientInstanceID := clientInstanceID,
                          ar_ResolutionReason := ApprovalReasonCancelled\<rparr>
                in (putApproval s r,
                    [okResp connID reqID BodyNil,
                     EffReplyHeldApproval (ar_FrameID r) (ar_ID r) ApprovalDecisionDeny ''connection-lost'',
                     approvalResolvedBroadcast r]))))"

text \<open>The request a driver event asks for, pending and with its expiry and default captured.\<close>

definition newApproval :: "ApprovalID \<Rightarrow> SessionID \<Rightarrow> FrameID \<Rightarrow> SubsystemApproval \<Rightarrow> time \<Rightarrow> ApprovalRequest" where
  "newApproval i sessID frameID a now =
     \<lparr>ar_ID = i, ar_SessionID = sessID, ar_FrameID = frameID, ar_Kind = sa_Kind a,
      ar_Command = sa_Command a, ar_Path = sa_Path a, ar_Reason = sa_Reason a,
      ar_CreatedAt = now, ar_ExpiresAt = now + DefaultApprovalTTL, ar_Status = ApprovalPending,
      ar_DefaultDecision = (if sa_AutoApprove a then ApprovalDecisionAccept else ApprovalDecisionDeny),
      ar_Decision = ApprovalDecisionNone, ar_ResolvingClientInstanceID = '''',
      ar_ResolutionReason = ApprovalReasonNone\<rparr>"

definition autoApproved :: "ApprovalRequest \<Rightarrow> ApprovalRequest" where
  "autoApproved r =
     r\<lparr>ar_Status := ApprovalResolved, ar_Decision := ApprovalDecisionAccept,
       ar_ResolvingClientInstanceID := AutoResolvingClientInstanceID,
       ar_ResolutionReason := ApprovalReasonAuto\<rparr>"

definition maybeCreateApprovalFromSubsystem ::
    "'ds State \<Rightarrow> EvSubsystem \<Rightarrow> 'ds State \<times> 'j Effect list \<times> bool" where
  "maybeCreateApprovalFromSubsystem s e =
     (case sp_Approval (es_Payload e) of
        None \<Rightarrow> (s, [], False)
      | Some a \<Rightarrow>
          if es_Kind e \<noteq> SubsystemApprovalRequested \<or> sa_ID a = '''' then (s, [], False)
          else if FindApproval s (sa_ID a) \<noteq> None then (s, [], True)
          else
            (case findFrame s (es_FrameID e) of
               None \<Rightarrow> (s, [], False)
             | Some (sessID, _, _) \<Rightarrow>
                 (let now = (if is_zero (es_Timestamp e) then h_Now s else es_Timestamp e);
                      r = newApproval (sa_ID a) sessID (es_FrameID e) a now;
                      s = putApproval s r;
                      effs = [approvalRequestedBroadcast r]
                  in if sa_AutoApprove a then
                       (let r = autoApproved r
                        in (putApproval s r,
                            effs @ [EffReplyHeldApproval (ar_FrameID r) (ar_ID r) ApprovalDecisionAccept '''',
                                    approvalResolvedBroadcast r],
                            True))
                     else (s, effs, True))))"

definition approvalExpired :: "ApprovalRequest \<Rightarrow> ApprovalRequest" where
  "approvalExpired r =
     r\<lparr>ar_Status := ApprovalExpired,
       ar_Decision := (if ar_DefaultDecision r = ApprovalDecisionNone then ApprovalDecisionDeny
                       else ar_DefaultDecision r),
       ar_ResolutionReason := ApprovalReasonExpired\<rparr>"

definition approvalCancelled :: "ApprovalRequest \<Rightarrow> ApprovalRequest" where
  "approvalCancelled r =
     r\<lparr>ar_Status := ApprovalCancelled, ar_Decision := ApprovalDecisionDeny,
       ar_ResolutionReason := ApprovalReasonCancelled\<rparr>"

definition approvalDue :: "time \<Rightarrow> ApprovalRequest \<Rightarrow> bool" where
  "approvalDue now r \<longleftrightarrow>
     ar_Status r = ApprovalPending \<and> \<not> is_zero (ar_ExpiresAt r) \<and> \<not> now < ar_ExpiresAt r"

definition expireHit :: "'ds State \<Rightarrow> SessionID \<times> ApprovalRequest \<Rightarrow> 'ds State \<times> 'j Effect list" where
  "expireHit s h =
     (let r = approvalExpired (snd h)
      in (putApproval s r,
          [EffReplyHeldApproval (ar_FrameID r) (ar_ID r) (ar_Decision r) '''', approvalResolvedBroadcast r]))"

definition expirePendingApprovals :: "'ds State \<Rightarrow> time \<Rightarrow> 'ds State \<times> 'j Effect list" where
  "expirePendingApprovals s now =
     (if is_zero now then (s, [])
      else each expireHit (collect_nested (approvalDue now) (h_PendingApprovals s)) s)"

definition reapHit :: "'ds State \<Rightarrow> SessionID \<times> ApprovalRequest \<Rightarrow> 'ds State \<times> 'j Effect list" where
  "reapHit s h =
     (let r = approvalCancelled (snd h)
      in (deleteApproval s (fst h) (ar_ID r),
          [EffReplyHeldApproval (ar_FrameID r) (ar_ID r) ApprovalDecisionDeny ''connection-lost'',
           approvalResolvedBroadcast r]))"

definition cancelApprovalsForFrame :: "'ds State \<Rightarrow> FrameID \<Rightarrow> 'ds State \<times> 'j Effect list" where
  "cancelApprovalsForFrame s frameID =
     (if frameID = '''' then (s, [])
      else each reapHit
             (collect_nested (\<lambda>r. ar_Status r = ApprovalPending \<and> ar_FrameID r = frameID) (h_PendingApprovals s)) s)"

definition reapEntry ::
    "SessionID \<Rightarrow> 'ds State \<Rightarrow> ApprovalID \<times> ApprovalRequest \<Rightarrow> 'ds State \<times> 'j Effect list" where
  "reapEntry sessionID s entry =
     (let effs =
        (if ar_Status (snd entry) = ApprovalPending then
           (let r = approvalCancelled (snd entry)
            in [EffReplyHeldApproval (ar_FrameID r) (ar_ID r) ApprovalDecisionDeny ''connection-lost'',
                approvalResolvedBroadcast r])
         else [])
      in (deleteApproval s sessionID (fst entry), effs))"

definition cancelApprovalsForSession :: "'ds State \<Rightarrow> SessionID \<Rightarrow> 'ds State \<times> 'j Effect list" where
  "cancelApprovalsForSession s sessionID =
     (if sessionID = '''' then (s, [])
      else each (reapEntry sessionID) (inner_of (h_PendingApprovals s) sessionID) s)"

end
