(* ===== verification/HostQuestion.thy ===== *)
theory HostQuestion
  imports HostApproval
begin

text \<open>
  Free-text questions (\<open>question_request.go\<close>, \<open>reduce_question.go\<close>): the same lifecycle as
  approvals, with an answer in place of a decision and no default at expiry.
\<close>

section \<open>The store\<close>

definition DefaultQuestionTTL :: duration where "DefaultQuestionTTL = 30 * second"
definition EvtNameQuestionRequested :: string where "EvtNameQuestionRequested = ''question-requested''"
definition EvtNameQuestionResolved :: string where "EvtNameQuestionResolved = ''question-resolved''"

definition PendingQuestionsForSession :: "'ds State \<Rightarrow> SessionID \<Rightarrow> QuestionRequest list" where
  "PendingQuestionsForSession s sessionID =
     filter (\<lambda>q. qr_Status q = QuestionPending) (map snd (inner_of (h_PendingQuestions s) sessionID))"

definition FindQuestion :: "'ds State \<Rightarrow> QuestionID \<Rightarrow> (QuestionRequest \<times> SessionID) option" where
  "FindQuestion s i = (if i = '''' then None else find_nested (h_PendingQuestions s) i)"

definition putQuestion :: "'ds State \<Rightarrow> QuestionRequest \<Rightarrow> 'ds State" where
  "putQuestion s q =
     s\<lparr>h_PendingQuestions := put_nested (h_PendingQuestions s) (qr_SessionID q) (qr_ID q) q\<rparr>"

definition deleteQuestion :: "'ds State \<Rightarrow> SessionID \<Rightarrow> QuestionID \<Rightarrow> 'ds State" where
  "deleteQuestion s sessionID i =
     s\<lparr>h_PendingQuestions := delete_nested (h_PendingQuestions s) sessionID i\<rparr>"

section \<open>Effects\<close>

fun question_reason_text :: "QuestionResolutionReason \<Rightarrow> string" where
  "question_reason_text QuestionReasonNone = ''''"
| "question_reason_text QuestionReasonClient = ''client''"
| "question_reason_text QuestionReasonExpired = ''expired''"
| "question_reason_text QuestionReasonCancelled = ''cancelled''"
| "question_reason_text QuestionReasonServer = ''server''"

fun question_status_text :: "QuestionStatus \<Rightarrow> string" where
  "question_status_text QuestionPending = ''pending''"
| "question_status_text QuestionResolved = ''resolved''"
| "question_status_text QuestionExpired = ''expired''"
| "question_status_text QuestionCancelled = ''cancelled''"

definition questionResolvedByOtherError :: "ConnID \<Rightarrow> string \<Rightarrow> QuestionRequest \<Rightarrow> 'j Effect" where
  "questionResolvedByOtherError connID reqID q =
     EffSendError connID reqID ErrCodeResolvedByOther ''question already resolved by another client''
       [(''answer'', qr_Answer q),
        (''resolving_client_instance_id'', qr_ResolvingClientInstanceID q),
        (''resolution_reason'', question_reason_text (qr_ResolutionReason q)),
        (''status'', question_status_text (qr_Status q))]"

definition questionRequestedBroadcast :: "QuestionRequest \<Rightarrow> 'j Effect" where
  "questionRequestedBroadcast q =
     EffBroadcastEvent EvtNameQuestionRequested (PayloadQuestion q) EvtNameQuestionRequested"

definition questionResolvedBroadcast :: "QuestionRequest \<Rightarrow> 'j Effect" where
  "questionResolvedBroadcast q =
     EffBroadcastEvent EvtNameQuestionResolved (PayloadQuestion q) EvtNameQuestionResolved"

section \<open>Handlers\<close>

definition reduceQuestionRespond ::
    "'ds State \<Rightarrow> ConnID \<Rightarrow> string \<Rightarrow> QuestionID \<Rightarrow> string \<Rightarrow> string \<Rightarrow> 'ds State \<times> 'j Effect list" where
  "reduceQuestionRespond s connID reqID questionID answer clientInstanceID =
     (if questionID = '''' then
        (s, [errResp connID reqID ErrCodeInvalidArgument ''question_id required''])
      else
        (case FindQuestion s questionID of
           None \<Rightarrow> (s, [errResp connID reqID ErrCodeNotFound ''question not found''])
         | Some (q, _) \<Rightarrow>
             if qr_Status q \<noteq> QuestionPending then (s, [questionResolvedByOtherError connID reqID q])
             else
               (let q = q\<lparr>qr_Status := QuestionResolved, qr_Answer := answer,
                          qr_ResolvingClientInstanceID := clientInstanceID,
                          qr_ResolutionReason := QuestionReasonClient\<rparr>
                in (putQuestion s q,
                    [okResp connID reqID BodyNil,
                     EffReplyHeldQuestion (qr_FrameID q) (qr_ID q) (qr_Answer q) '''',
                     questionResolvedBroadcast q]))))"

definition reduceQuestionCancel ::
    "'ds State \<Rightarrow> ConnID \<Rightarrow> string \<Rightarrow> QuestionID \<Rightarrow> string \<Rightarrow> 'ds State \<times> 'j Effect list" where
  "reduceQuestionCancel s connID reqID questionID clientInstanceID =
     (if questionID = '''' then
        (s, [errResp connID reqID ErrCodeInvalidArgument ''question_id required''])
      else
        (case FindQuestion s questionID of
           None \<Rightarrow> (s, [errResp connID reqID ErrCodeNotFound ''question not found''])
         | Some (q, _) \<Rightarrow>
             if qr_Status q \<noteq> QuestionPending then (s, [questionResolvedByOtherError connID reqID q])
             else
               (let q = q\<lparr>qr_Status := QuestionCancelled,
                          qr_ResolvingClientInstanceID := clientInstanceID,
                          qr_ResolutionReason := QuestionReasonCancelled\<rparr>
                in (putQuestion s q,
                    [okResp connID reqID BodyNil,
                     EffReplyHeldQuestion (qr_FrameID q) (qr_ID q) '''' ''connection-lost'',
                     questionResolvedBroadcast q]))))"

definition newQuestion :: "QuestionID \<Rightarrow> SessionID \<Rightarrow> FrameID \<Rightarrow> SubsystemQuestion \<Rightarrow> time \<Rightarrow> QuestionRequest" where
  "newQuestion i sessID frameID qp now =
     \<lparr>qr_ID = i, qr_SessionID = sessID, qr_FrameID = frameID, qr_Prompt = sq_Prompt qp,
      qr_CreatedAt = now, qr_ExpiresAt = now + DefaultQuestionTTL, qr_Status = QuestionPending,
      qr_Answer = '''', qr_ResolvingClientInstanceID = '''', qr_ResolutionReason = QuestionReasonNone\<rparr>"

definition maybeCreateQuestionFromSubsystem ::
    "'ds State \<Rightarrow> EvSubsystem \<Rightarrow> 'ds State \<times> 'j Effect list \<times> bool" where
  "maybeCreateQuestionFromSubsystem s e =
     (case sp_Question (es_Payload e) of
        None \<Rightarrow> (s, [], False)
      | Some qp \<Rightarrow>
          if es_Kind e \<noteq> SubsystemQuestionRequested \<or> sq_ID qp = '''' then (s, [], False)
          else if FindQuestion s (sq_ID qp) \<noteq> None then (s, [], True)
          else
            (case findFrame s (es_FrameID e) of
               None \<Rightarrow> (s, [], False)
             | Some (sessID, _, _) \<Rightarrow>
                 (let now = (if is_zero (es_Timestamp e) then h_Now s else es_Timestamp e);
                      q = newQuestion (sq_ID qp) sessID (es_FrameID e) qp now
                  in (putQuestion s q, [questionRequestedBroadcast q], True))))"

definition questionExpired :: "QuestionRequest \<Rightarrow> QuestionRequest" where
  "questionExpired q = q\<lparr>qr_Status := QuestionExpired, qr_ResolutionReason := QuestionReasonExpired\<rparr>"

definition questionCancelled :: "QuestionRequest \<Rightarrow> QuestionRequest" where
  "questionCancelled q = q\<lparr>qr_Status := QuestionCancelled, qr_ResolutionReason := QuestionReasonCancelled\<rparr>"

definition questionDue :: "time \<Rightarrow> QuestionRequest \<Rightarrow> bool" where
  "questionDue now q \<longleftrightarrow>
     qr_Status q = QuestionPending \<and> \<not> is_zero (qr_ExpiresAt q) \<and> \<not> now < qr_ExpiresAt q"

definition expireQuestionHit :: "'ds State \<Rightarrow> SessionID \<times> QuestionRequest \<Rightarrow> 'ds State \<times> 'j Effect list" where
  "expireQuestionHit s h =
     (let q = questionExpired (snd h)
      in (putQuestion s q,
          [EffReplyHeldQuestion (qr_FrameID q) (qr_ID q) '''' ''connection-lost'', questionResolvedBroadcast q]))"

definition expirePendingQuestions :: "'ds State \<Rightarrow> time \<Rightarrow> 'ds State \<times> 'j Effect list" where
  "expirePendingQuestions s now =
     (if is_zero now then (s, [])
      else each expireQuestionHit (collect_nested (questionDue now) (h_PendingQuestions s)) s)"

definition reapQuestionHit :: "'ds State \<Rightarrow> SessionID \<times> QuestionRequest \<Rightarrow> 'ds State \<times> 'j Effect list" where
  "reapQuestionHit s h =
     (let q = questionCancelled (snd h)
      in (deleteQuestion s (fst h) (qr_ID q),
          [EffReplyHeldQuestion (qr_FrameID q) (qr_ID q) '''' ''connection-lost'', questionResolvedBroadcast q]))"

definition cancelQuestionsForFrame :: "'ds State \<Rightarrow> FrameID \<Rightarrow> 'ds State \<times> 'j Effect list" where
  "cancelQuestionsForFrame s frameID =
     (if frameID = '''' then (s, [])
      else each reapQuestionHit
             (collect_nested (\<lambda>q. qr_Status q = QuestionPending \<and> qr_FrameID q = frameID) (h_PendingQuestions s)) s)"

definition reapQuestionEntry ::
    "SessionID \<Rightarrow> 'ds State \<Rightarrow> QuestionID \<times> QuestionRequest \<Rightarrow> 'ds State \<times> 'j Effect list" where
  "reapQuestionEntry sessionID s entry =
     (let effs =
        (if qr_Status (snd entry) = QuestionPending then
           (let q = questionCancelled (snd entry)
            in [EffReplyHeldQuestion (qr_FrameID q) (qr_ID q) '''' ''connection-lost'',
                questionResolvedBroadcast q])
         else [])
      in (deleteQuestion s sessionID (fst entry), effs))"

definition cancelQuestionsForSession :: "'ds State \<Rightarrow> SessionID \<Rightarrow> 'ds State \<times> 'j Effect list" where
  "cancelQuestionsForSession s sessionID =
     (if sessionID = '''' then (s, [])
      else each (reapQuestionEntry sessionID) (inner_of (h_PendingQuestions s) sessionID) s)"

end
