(* ===== verification/HostConn.thy ===== *)
theory HostConn
  imports HostFrames GoText
begin

text \<open>
  Connections, event subscriptions, terminal surfaces and the shutdown transaction
  (\<open>reduce_conn.go\<close>, \<open>reduce_surface.go\<close>, \<open>size_hint.go\<close>,
  \<open>reduce_lifecycle.go\<close>).
\<close>

section \<open>Connections\<close>

definition reduceConnOpened :: "'ds State \<Rightarrow> ConnID \<Rightarrow> 'ds State \<times> 'j Effect list" where
  "reduceConnOpened s connID =
     (if connID > h_NextConnID s then (s\<lparr>h_NextConnID := connID\<rparr>, []) else (s, []))"

definition reduceConnClosed :: "'ds State \<Rightarrow> ConnID \<Rightarrow> 'ds State \<times> 'j Effect list" where
  "reduceConnClosed s connID =
     (let hasSub = in_map connID (h_Subscribers s);
          hasSurface = in_map connID (h_SurfaceSubs s);
          inner = (case map_of (h_SurfaceSubs s) connID of None \<Rightarrow> [] | Some m \<Rightarrow> m)
      in if \<not> hasSub \<and> \<not> hasSurface then (s, [])
         else
           (let s = (if hasSub then s\<lparr>h_Subscribers := AList.delete connID (h_Subscribers s)\<rparr> else s)
            in if hasSurface then
                 (s\<lparr>h_SurfaceSubs := AList.delete connID (h_SurfaceSubs s)\<rparr>,
                  map (\<lambda>(sub, _). EffSurfaceSubscribeStop connID (fst sub) (snd sub)) inner)
               else (s, [])))"

definition reduceSubscribe :: "'ds State \<Rightarrow> ConnID \<Rightarrow> string \<Rightarrow> string list \<Rightarrow> 'ds State \<times> 'j Effect list" where
  "reduceSubscribe s connID reqID filters =
     (s\<lparr>h_Subscribers := AList.update connID \<lparr>sb_ConnID = connID, sb_Filters = filters\<rparr> (h_Subscribers s)\<rparr>,
      [okResp connID reqID BodyNil, EffBroadcastSessionsChanged])"

definition reduceUnsubscribe :: "'ds State \<Rightarrow> ConnID \<Rightarrow> string \<Rightarrow> 'ds State \<times> 'j Effect list" where
  "reduceUnsubscribe s connID reqID =
     ((if in_map connID (h_Subscribers s) then s\<lparr>h_Subscribers := AList.delete connID (h_Subscribers s)\<rparr> else s),
      [okResp connID reqID BodyNil])"

section \<open>Terminal size hints\<close>

text \<open>\<open>termvt.MaxDim\<close>.\<close>

definition MaxDim :: int where "MaxDim = 2000"

text \<open>\<open>None\<close> is the nil error, \<open>Some\<close> its message.\<close>

definition ValidateSizeHint :: "int \<Rightarrow> int \<Rightarrow> string option" where
  "ValidateSizeHint cols rows =
     (if cols = 0 \<and> rows = 0 then None
      else if (cols = 0) \<noteq> (rows = 0) then
        Some ''asymmetric size hint: both cols and rows must be specified''
      else if cols < 1 \<or> cols > MaxDim then
        Some (''cols must be 0 or 1..'' @ int_text MaxDim @ ''; got '' @ int_text cols)
      else if rows < 1 \<or> rows > MaxDim then
        Some (''rows must be 0 or 1..'' @ int_text MaxDim @ ''; got '' @ int_text rows)
      else None)"

definition SizeHintRejectReason :: "int \<Rightarrow> int \<Rightarrow> string" where
  "SizeHintRejectReason cols rows =
     (if ValidateSizeHint cols rows = None then ''''
      else if (cols = 0) \<noteq> (rows = 0) then ''asymmetric size hint''
      else if cols < 1 \<or> cols > MaxDim then ''cols out of range''
      else if rows < 1 \<or> rows > MaxDim then ''rows out of range''
      else ''invalid size hint'')"

section \<open>Surfaces\<close>

definition sessionNotFound :: "ConnID \<Rightarrow> string \<Rightarrow> SessionID \<Rightarrow> 'j Effect" where
  "sessionNotFound connID reqID sid = errResp connID reqID ErrCodeNotFound (''session not found: '' @ sid)"

definition reduceSurfaceReadText ::
    "'ds State \<Rightarrow> ConnID \<Rightarrow> string \<Rightarrow> SessionID \<Rightarrow> int \<Rightarrow> 'ds State \<times> 'j Effect list" where
  "reduceSurfaceReadText s connID reqID sid lines =
     (if \<not> in_map sid (h_Sessions s) then (s, [sessionNotFound connID reqID sid])
      else (s, [EffSendResponseSync connID reqID (SurfaceReadTextReply sid (if lines \<le> 0 then 30 else lines))]))"

definition reduceSurfaceSendText ::
    "'ds State \<Rightarrow> ConnID \<Rightarrow> string \<Rightarrow> SessionID \<Rightarrow> string \<Rightarrow> 'ds State \<times> 'j Effect list" where
  "reduceSurfaceSendText s connID reqID sid text =
     (if \<not> in_map sid (h_Sessions s) then (s, [sessionNotFound connID reqID sid])
      else (s, [EffSendFrameKeys connID reqID sid text '''' True]))"

definition reduceSurfaceSendKey ::
    "'ds State \<Rightarrow> ConnID \<Rightarrow> string \<Rightarrow> SessionID \<Rightarrow> string \<Rightarrow> 'ds State \<times> 'j Effect list" where
  "reduceSurfaceSendKey s connID reqID sid key =
     (if \<not> in_map sid (h_Sessions s) then (s, [sessionNotFound connID reqID sid])
      else (s, [EffSendFrameKeys connID reqID sid '''' key False]))"

definition reduceDriverList :: "'ds State \<Rightarrow> ConnID \<Rightarrow> string \<Rightarrow> 'ds State \<times> 'j Effect list" where
  "reduceDriverList s connID reqID = (s, [EffSendResponseSync connID reqID DriverListReply])"

definition surfaces_of ::
    "'ds State \<Rightarrow> ConnID \<Rightarrow> (SurfaceSubscription, SurfaceGeometry) gomap" where
  "surfaces_of s connID = (case map_of (h_SurfaceSubs s) connID of None \<Rightarrow> [] | Some m \<Rightarrow> m)"

definition reduceSurfaceSubscribe ::
    "'ds State \<Rightarrow> ConnID \<Rightarrow> string \<Rightarrow> SessionID \<Rightarrow> SubscriberID \<Rightarrow> uint16 \<Rightarrow> uint16 \<Rightarrow> 'ds State \<times> 'j Effect list" where
  "reduceSurfaceSubscribe s connID reqID sid subscriberID cols rows =
     (if cols = 0 \<or> rows = 0 then
        (s, [errResp connID reqID ErrCodeInvalidArgument ''surface subscribe requires non-zero cols and rows''])
      else
        (case ValidateSizeHint (uint cols) (uint rows) of
           Some err \<Rightarrow> (s, [errResp connID reqID ErrCodeInvalidArgument err])
         | None \<Rightarrow>
             (case map_of (h_Sessions s) sid of
                None \<Rightarrow> (s, [sessionNotFound connID reqID sid])
              | Some sess \<Rightarrow>
                  if headFrame sess = None then
                    (s, [errResp connID reqID ErrCodeFrameNotReady (''frame-not-ready: '' @ sid)])
                  else
                    (let existing = surfaces_of s connID;
                         already = in_map (sid, subscriberID) existing
                     in if \<not> already \<and> length existing \<ge> 8 then
                          (s, [errResp connID reqID ErrCodeResourceExhausted
                                 ''per-conn surface subscribe cap (8) exceeded''])
                        else if already then (s, [okResp connID reqID BodyNil])
                        else
                          (s\<lparr>h_SurfaceSubs := AList.update connID
                               (AList.update (sid, subscriberID) (cols, rows) existing) (h_SurfaceSubs s)\<rparr>,
                           [EffSurfaceSubscribeStart connID sid subscriberID cols rows,
                            okResp connID reqID BodyNil])))))"

definition reduceSurfaceUnsubscribe ::
    "'ds State \<Rightarrow> ConnID \<Rightarrow> string \<Rightarrow> SessionID \<Rightarrow> SubscriberID \<Rightarrow> 'ds State \<times> 'j Effect list" where
  "reduceSurfaceUnsubscribe s connID reqID sid subscriberID =
     (if \<not> in_map (sid, subscriberID) (surfaces_of s connID) then (s, [okResp connID reqID BodyNil])
      else
        (let inner = AList.delete (sid, subscriberID) (surfaces_of s connID);
             s = s\<lparr>h_SurfaceSubs := (if inner = [] then AList.delete connID (h_SurfaceSubs s)
                                      else AList.update connID inner (h_SurfaceSubs s))\<rparr>
         in (s, [EffSurfaceSubscribeStop connID sid subscriberID,
                 if reqID = '''' then EffSendResponseSync connID '''' (SurfaceUnsubscribedReply sid subscriberID)
                 else okResp connID reqID BodyNil])))"

definition reduceSurfaceResize ::
    "'ds State \<Rightarrow> ConnID \<Rightarrow> string \<Rightarrow> SessionID \<Rightarrow> uint16 \<Rightarrow> uint16 \<Rightarrow> 'ds State \<times> 'j Effect list" where
  "reduceSurfaceResize s connID reqID sid cols rows =
     (if \<not> in_map sid (h_Sessions s) then (s, [sessionNotFound connID reqID sid])
      else (s, [EffSurfaceResize sid cols rows, okResp connID reqID BodyNil]))"

definition reduceSurfaceWriteRaw ::
    "'ds State \<Rightarrow> ConnID \<Rightarrow> string \<Rightarrow> SessionID \<Rightarrow> bytes \<Rightarrow> 'ds State \<times> 'j Effect list" where
  "reduceSurfaceWriteRaw s connID reqID sid data =
     (if \<not> in_map sid (h_Sessions s) then (s, [sessionNotFound connID reqID sid])
      else (s, [EffSurfaceWriteRaw sid data, okResp connID reqID BodyNil]))"

section \<open>Shutdown\<close>

definition currentShutdown :: "'ds State \<Rightarrow> uint64 \<Rightarrow> ShutdownTransaction option" where
  "currentShutdown s txID =
     (if h_Lifecycle s = LifecycleQuiescing then
        (case h_Shutdown s of None \<Rightarrow> None | Some tx \<Rightarrow> if sx_ID tx = txID then Some tx else None)
      else None)"

definition reduceShutdown :: "'ds State \<Rightarrow> ConnID \<Rightarrow> string \<Rightarrow> 'ds State \<times> 'j Effect list" where
  "reduceShutdown s connID reqID =
     (let waiter = \<lparr>sw_ConnID = connID, sw_ReqID = reqID\<rparr>
      in if h_Lifecycle s = LifecycleQuiescing then
           (case h_Shutdown s of
              Some tx \<Rightarrow>
                if connID \<noteq> 0 then (s\<lparr>h_Shutdown := Some (tx\<lparr>sx_Waiters := sx_Waiters tx @ [waiter]\<rparr>)\<rparr>, [])
                else (s, [])
            | None \<Rightarrow> (s, []))
         else
           (let txID = h_NextShutdownID s + 1;
                tx = \<lparr>sx_ID = txID, sx_Waiters = (if connID \<noteq> 0 then [waiter] else [])\<rparr>
            in (s\<lparr>h_NextShutdownID := txID, h_Lifecycle := LifecycleQuiescing, h_Shutdown := Some tx\<rparr>,
                [EffCommitShutdownSessions txID])))"

definition reduceShutdownSaveSucceeded :: "'ds State \<Rightarrow> uint64 \<Rightarrow> 'ds State \<times> 'j Effect list" where
  "reduceShutdownSaveSucceeded s txID =
     (if currentShutdown s txID = None then (s, []) else (s, [EffReleaseFrames txID]))"

definition reduceShutdownSaveFailed :: "'ds State \<Rightarrow> uint64 \<Rightarrow> string \<Rightarrow> 'ds State \<times> 'j Effect list" where
  "reduceShutdownSaveFailed s txID err =
     (case currentShutdown s txID of
        None \<Rightarrow> (s, [])
      | Some tx \<Rightarrow>
          (s\<lparr>h_Lifecycle := LifecycleRunning, h_Shutdown := None\<rparr>,
           map (\<lambda>w. errResp (sw_ConnID w) (sw_ReqID w) ErrCodeInternal
                      (''shutdown persistence failed: '' @ err)) (sx_Waiters tx) @
           [EffCompleteShutdown ShutdownCommitFailed]))"

definition reduceShutdownCleanupFinished ::
    "'ds State \<Rightarrow> uint64 \<Rightarrow> ShutdownCleanupOutcome \<Rightarrow> 'ds State \<times> 'j Effect list" where
  "reduceShutdownCleanupFinished s txID outcome =
     (case currentShutdown s txID of
        None \<Rightarrow> (s, [])
      | Some tx \<Rightarrow>
          (let result = (if outcome = ShutdownCleanupDeadlineExceeded then ShutdownDeadlineExceeded
                         else ShutdownCommitted)
           in (s\<lparr>h_Shutdown := None\<rparr>,
               map (\<lambda>w. if result = ShutdownDeadlineExceeded then
                            errResp (sw_ConnID w) (sw_ReqID w) ErrCodeUnavailable
                              ''shutdown cleanup deadline exceeded''
                          else EffSendResponseSync (sw_ConnID w) (sw_ReqID w) BodyNil) (sx_Waiters tx) @
               [EffCompleteShutdown result, EffTerminateRuntime])))"

end
