(* ===== verification/HostSession.thy ===== *)
theory HostSession
  imports HostQuestion HostConn
begin

text \<open>
  Sessions: creating, forking, pushing a frame, stopping, the feedback of the frame backend, and the
  removal of frames (\<open>reduce_session.go\<close>, \<open>reduce_session_nav.go\<close>,
  \<open>reduce_frame.go\<close>, \<open>reduce_frame_evict.go\<close> and the eviction handlers of
  \<open>reduce_tick.go\<close>).

  A handler that fails after it has drawn an id returns the state it was given; the draws of a failed
  handler are not counted, which no later draw can observe.
\<close>

section \<open>Creating frames\<close>

definition resolveCreateCommand :: "'ds State \<Rightarrow> string \<Rightarrow> string" where
  "resolveCreateCommand s command =
     (let command = (if command = '''' then h_DefaultCommand s else command);
          command = (if command = '''' then ''shell'' else command)
      in case map_of (h_Aliases s) command of Some expanded \<Rightarrow> expanded | None \<Rightarrow> command)"

definition prepareSessionDriver ::
    "'ds State \<Rightarrow> ('ds, 'j, 'r) Driver \<Rightarrow> SessionID \<Rightarrow> string \<Rightarrow> string \<Rightarrow> LaunchOptions \<Rightarrow>
     string + ('ds \<times> CreateLaunch)" where
  "prepareSessionDriver s drv sessID project command options =
     (let driverState = dr_NewState drv (h_Now s);
          launch = \<lparr>cl_Command = command, cl_StartDir = project, cl_Options = options\<rparr>
      in case dr_PrepareCreate drv of
           Some prepareCreate \<Rightarrow> prepareCreate driverState sessID project command options
         | None \<Rightarrow> Inr (driverState, launch))"

definition newFrame :: "FrameID \<Rightarrow> TargetID \<Rightarrow> string \<Rightarrow> string \<Rightarrow> LaunchOptions \<Rightarrow> time \<Rightarrow> 'ds \<Rightarrow> 'ds SessionFrame" where
  "newFrame frameID targetID project command options now ds =
     \<lparr>sf_ID = frameID, sf_SubsystemID = '''', sf_TargetID = targetID, sf_Project = project,
      sf_Command = command, sf_LaunchOptions = options, sf_CreatedAt = now, sf_Driver = Some ds\<rparr>"

definition newSession ::
    "SessionID \<Rightarrow> string \<Rightarrow> time \<Rightarrow> string \<Rightarrow> LaunchOptions \<Rightarrow> 'ds \<Rightarrow> 'ds SessionFrame \<Rightarrow> 'ds Session" where
  "newSession sessID project now command options ds frame =
     \<lparr>se_ID = sessID, se_Project = project, se_CreatedAt = now, se_Frames = [frame],
      se_HeadFrameID = sf_ID frame, se_MRUFrameIDs = [], se_Command = command,
      se_LaunchOptions = options, se_Driver = Some ds, se_FrameMessaging = None,
      se_FrameGeneration = 0, se_ResumeCapsule = None, se_EndedAt = None\<rparr>"

definition putSession :: "'ds State \<Rightarrow> SessionID \<Rightarrow> 'ds Session \<Rightarrow> 'ds State" where
  "putSession s sessID sess = s\<lparr>h_Sessions := AList.update sessID sess (h_Sessions s)\<rparr>"

definition reduceCreateSession ::
    "('ds, 'j, 'r) Env \<Rightarrow> 'ds State \<Rightarrow> ConnID \<Rightarrow> string \<Rightarrow> CreateSessionParams \<Rightarrow> 'ds State \<times> 'j Effect list" where
  "reduceCreateSession env s connID reqID p =
     (if cs_Project p = '''' then
        (s, [errResp connID reqID ErrCodeInvalidArgument ''project arg required''])
      else
        (let command = resolveCreateCommand s (cs_Command p);
             (sessID, s1) = allocSessionID env s
         in case GetDriver (env_Registry env) command of
              None \<Rightarrow> (s, [errResp connID reqID ErrCodeUnsupported (''no driver registered for command '' @ command)])
            | Some drv \<Rightarrow>
                (case prepareSessionDriver s drv sessID (cs_Project p) command (cs_Options p) of
                   Inl err \<Rightarrow> (s, [errResp connID reqID ErrCodeInvalidArgument err])
                 | Inr (driverState, createLaunch) \<Rightarrow>
                     (let (rootFrameID, s2) = allocFrameID env s1
                      in case dr_PrepareLaunch drv driverState LaunchModeCreate (cs_Project p)
                                (cl_Command createLaunch) (cl_Options createLaunch) of
                           Inl err \<Rightarrow> (s, [errResp connID reqID ErrCodeInvalidArgument err])
                         | Inr launch \<Rightarrow>
                             (let launch = launch\<lparr>lp_Project := cs_Project p\<rparr>;
                                  frame = newFrame rootFrameID rootFrameID (cs_Project p) command
                                            (lp_Options launch) (h_Now s) driverState;
                                  session = newSession sessID (cs_Project p) (h_Now s) command
                                              (cs_Options p) driverState frame
                              in (putSession s2 sessID session,
                                  [spawnEffect sessID rootFrameID launch connID reqID]))))))"

text \<open>The start directory of a root frame's driver, carried over to a new frame's driver state.\<close>

definition inheritStartDir ::
    "('ds, 'j, 'r) Driver option \<Rightarrow> 'ds option \<Rightarrow> ('ds, 'j, 'r) Driver \<Rightarrow> 'ds \<Rightarrow> 'ds" where
  "inheritStartDir rootDrv rootState drv driverState =
     (case rootDrv of
        None \<Rightarrow> driverState
      | Some rd \<Rightarrow>
          (case dr_StartDirAware rd of
             None \<Rightarrow> driverState
           | Some (startDir, _) \<Rightarrow>
               (let dir = startDir rootState
                in if dir = '''' then driverState
                   else (case dr_StartDirAware drv of
                           None \<Rightarrow> driverState
                         | Some (_, withStartDir) \<Rightarrow> withStartDir driverState dir))))"

text \<open>A frame becomes the top of the stack and its head; the old head is the most recently used frame.\<close>

definition pushFrame :: "'ds Session \<Rightarrow> 'ds SessionFrame \<Rightarrow> 'ds Session" where
  "pushFrame sess frame =
     (let sess = pushMRU sess (se_HeadFrameID sess)
      in bumpFrameGeneration (sess\<lparr>se_HeadFrameID := sf_ID frame, se_Frames := se_Frames sess @ [frame]\<rparr>))"

definition pushDriverInternal ::
    "('ds, 'j, 'r) Env \<Rightarrow> 'ds State \<Rightarrow> SessionID \<Rightarrow> string \<Rightarrow> string \<Rightarrow> LaunchOptions \<Rightarrow> bytes \<Rightarrow> ConnID \<Rightarrow>
     string \<Rightarrow> string + ('ds State \<times> 'j Effect list)" where
  "pushDriverInternal env s sid project rawCommand options input connID reqID =
     (case map_of (h_Sessions s) sid of
        None \<Rightarrow> Inl ''session not found''
      | Some sess \<Rightarrow>
          (let project = (if project = '''' then se_Project sess else project);
               options = options\<lparr>lo_InitialInput := input\<rparr>;
               command = resolveCreateCommand s rawCommand
           in case GetDriver (env_Registry env) command of
                None \<Rightarrow> Inl (''no driver registered for command '' @ command)
              | Some drv \<Rightarrow>
                  (case prepareSessionDriver s drv sid project command options of
                     Inl err \<Rightarrow> Inl err
                   | Inr (driverState, createLaunch) \<Rightarrow>
                       (let driverState =
                              (case rootFrame sess of
                                 None \<Rightarrow> driverState
                               | Some rootF \<Rightarrow>
                                   inheritStartDir (GetDriver (env_Registry env) (sf_Command rootF))
                                     (sf_Driver rootF) drv driverState);
                            (frameID, s1) = allocFrameID env s
                        in case dr_PrepareLaunch drv driverState LaunchModeCreate project
                                  (cl_Command createLaunch) (cl_Options createLaunch) of
                             Inl err \<Rightarrow> Inl err
                           | Inr launch \<Rightarrow>
                               (let launch = launch\<lparr>lp_Project := project\<rparr>;
                                    frame = newFrame frameID frameID project command (lp_Options launch)
                                              (h_Now s) driverState
                                in Inr (putSession s1 sid (pushFrame sess frame),
                                        [spawnEffect sid frameID launch connID reqID]))))))"

definition reducePushDriver ::
    "('ds, 'j, 'r) Env \<Rightarrow> 'ds State \<Rightarrow> ConnID \<Rightarrow> string \<Rightarrow> PushDriverParams \<Rightarrow> 'ds State \<times> 'j Effect list" where
  "reducePushDriver env s connID reqID p =
     (let sid = pd_SessionID p
      in if sid = '''' then (s, [errResp connID reqID ErrCodeInvalidArgument ''session_id required''])
         else if \<not> in_map sid (h_Sessions s) then (s, [errResp connID reqID ErrCodeNotFound ''session not found''])
         else
           (case pushDriverInternal env s sid (pd_Project p) (pd_Command p) (pd_Options p) (pd_Input p)
                   connID reqID of
              Inl err \<Rightarrow> (s, [errResp connID reqID ErrCodeInvalidArgument err])
            | Inr (newS, effs) \<Rightarrow> (newS, effs)))"

fun resolvePushDriverEffects ::
    "('ds, 'j, 'r) Env \<Rightarrow> 'ds State \<Rightarrow> 'j Effect list \<Rightarrow> 'ds State \<times> 'j Effect list" where
  "resolvePushDriverEffects env s [] = (s, [])"
| "resolvePushDriverEffects env s (EffPushDriver sid command # rawEffs) =
     (case pushDriverInternal env s sid '''' command zero_options [] 0 '''' of
        Inl err \<Rightarrow> resolvePushDriverEffects env s rawEffs
      | Inr (newS, pushEffs) \<Rightarrow>
          (let (s, effs) = resolvePushDriverEffects env newS rawEffs in (s, pushEffs @ effs)))"
| "resolvePushDriverEffects env s (eff # rawEffs) =
     (let (s, effs) = resolvePushDriverEffects env s rawEffs in (s, eff # effs))"

section \<open>Forking\<close>

definition resolveForkDrv ::
    "('ds, 'j, 'r) Env \<Rightarrow> 'ds State \<Rightarrow> ConnID \<Rightarrow> string \<Rightarrow> 'ds SessionFrame \<Rightarrow>
     'j Effect list + (('ds, 'j, 'r) Driver \<times> ('ds option \<Rightarrow> time \<Rightarrow> 'ds) \<times> ('ds, 'j, 'r) Driver \<times> string)" where
  "resolveForkDrv env s connID reqID rootF =
     (case GetDriver (env_Registry env) (sf_Command rootF) of
        None \<Rightarrow> Inl [errResp connID reqID ErrCodeUnsupported (''no driver for command '' @ sf_Command rootF)]
      | Some rootDrv \<Rightarrow>
          (case dr_Forkable rootDrv of
             None \<Rightarrow> Inl [errResp connID reqID ErrCodeUnsupported (dr_Name rootDrv @ '' driver does not support fork'')]
           | Some (forkCommandOf, forkChildState) \<Rightarrow>
               (case forkCommandOf (sf_Driver rootF) (sf_Command rootF) of
                  None \<Rightarrow> Inl [errResp connID reqID ErrCodeUnsupported
                                 ''fork not available (session ID not yet established)'']
                | Some forkCmd \<Rightarrow>
                    (let forkCommand = resolveCreateCommand s forkCmd
                     in case GetDriver (env_Registry env) forkCommand of
                          None \<Rightarrow> Inl [errResp connID reqID ErrCodeUnsupported
                                         (''no driver for fork command '' @ forkCommand)]
                        | Some forkDrv \<Rightarrow> Inr (rootDrv, forkChildState, forkDrv, forkCommand)))))"

definition makeForkSession ::
    "'ds State \<Rightarrow> 'ds Session \<Rightarrow> SessionID \<Rightarrow> FrameID \<Rightarrow> string \<Rightarrow> LaunchOptions \<Rightarrow> LaunchOptions \<Rightarrow> 'ds \<Rightarrow> 'ds Session" where
  "makeForkSession s src newSessID rootFrameID durableCommand opts frameOpts driverState =
     newSession newSessID (se_Project src) (h_Now s) durableCommand opts driverState
       (newFrame rootFrameID '''' (se_Project src) durableCommand frameOpts (h_Now s) driverState)"

definition spawnForkSession ::
    "('ds, 'j, 'r) Env \<Rightarrow> 'ds State \<Rightarrow> ConnID \<Rightarrow> string \<Rightarrow> 'ds Session \<Rightarrow> ('ds, 'j, 'r) Driver \<Rightarrow> 'ds \<Rightarrow>
     string \<Rightarrow> string \<Rightarrow> LaunchOptions \<Rightarrow> 'ds State \<times> 'j Effect list" where
  "spawnForkSession env s connID reqID sess forkDrv driverState durableCommand launchCommand opts =
     (let (newSessID, s1) = allocSessionID env s;
          driverState = (case dr_WithForkSessionID forkDrv of
                           None \<Rightarrow> driverState
                         | Some withForkSessionID \<Rightarrow> withForkSessionID driverState newSessID);
          (rootFrameID, s2) = allocFrameID env s1
      in case dr_PrepareLaunch forkDrv driverState LaunchModeCreate (se_Project sess) launchCommand opts of
           Inl err \<Rightarrow> (s, [errResp connID reqID ErrCodeInvalidArgument err])
         | Inr launch \<Rightarrow>
             (let launch = launch\<lparr>lp_Project := se_Project sess\<rparr>;
                  newSess = makeForkSession s sess newSessID rootFrameID durableCommand opts
                              (lp_Options launch) driverState
              in (putSession s2 newSessID newSess,
                  [spawnEffect newSessID rootFrameID launch connID reqID])))"

definition buildForkSession ::
    "('ds, 'j, 'r) Env \<Rightarrow> 'ds State \<Rightarrow> ConnID \<Rightarrow> string \<Rightarrow> 'ds Session \<Rightarrow> 'ds SessionFrame \<Rightarrow>
     ('ds, 'j, 'r) Driver \<Rightarrow> ('ds option \<Rightarrow> time \<Rightarrow> 'ds) \<Rightarrow> ('ds, 'j, 'r) Driver \<Rightarrow> string \<Rightarrow>
     'ds State \<times> 'j Effect list" where
  "buildForkSession env s connID reqID sess rootF rootDrv forkChildState forkDrv forkCommand =
     (let driverState = forkChildState (sf_Driver rootF) (h_Now s);
          driverState = inheritStartDir (Some rootDrv) (sf_Driver rootF) forkDrv driverState
      in spawnForkSession env s connID reqID sess forkDrv driverState (sf_Command rootF) forkCommand zero_options)"

definition reduceForkSession ::
    "('ds, 'j, 'r) Env \<Rightarrow> 'ds State \<Rightarrow> ConnID \<Rightarrow> string \<Rightarrow> string \<Rightarrow> 'ds State \<times> 'j Effect list" where
  "reduceForkSession env s connID reqID sid =
     (if sid = '''' then (s, [errResp connID reqID ErrCodeInvalidArgument ''session_id required''])
      else
        (case map_of (h_Sessions s) sid of
           None \<Rightarrow> (s, [errResp connID reqID ErrCodeNotFound ''session not found''])
         | Some sess \<Rightarrow>
             (case rootFrame sess of
                None \<Rightarrow> (s, [errResp connID reqID ErrCodeInvalidArgument ''session has no root frame''])
              | Some rootF \<Rightarrow>
                  (case resolveForkDrv env s connID reqID rootF of
                     Inl errEff \<Rightarrow> (s, errEff)
                   | Inr (rootDrv, forkChildState, forkDrv, forkCommand) \<Rightarrow>
                       buildForkSession env s connID reqID sess rootF rootDrv forkChildState forkDrv forkCommand))))"

section \<open>Removing frames\<close>

datatype rootDisposition = retainEndedSession | dropUnstartedSession

definition endSession :: "'ds Session \<Rightarrow> time \<Rightarrow> 'ds Session" where
  "endSession sess now =
     sess\<lparr>se_Frames := [], se_HeadFrameID := '''', se_MRUFrameIDs := [], se_EndedAt := Some now\<rparr>"

definition frameTeardownEffects :: "FrameID \<Rightarrow> bool \<Rightarrow> 'j Effect list" where
  "frameTeardownEffects frameID killWindow =
     (if killWindow then [EffKillFrame frameID] else []) @
     [EffReleaseFrame frameID, EffUnregisterFrame frameID, EffUnwatchFile frameID]"

definition evictRootFrame ::
    "'ds State \<Rightarrow> SessionID \<Rightarrow> 'ds Session \<Rightarrow> bool \<Rightarrow> rootDisposition \<Rightarrow> 'ds State \<times> 'j Effect list \<times> bool" where
  "evictRootFrame s sessID sess killWindow disposition =
     (let allRemoved = truncateFrames sess 0;
          s = (if disposition = retainEndedSession then putSession s sessID (endSession sess (h_Now s))
               else s\<lparr>h_Sessions := AList.delete sessID (h_Sessions s)\<rparr>);
          (s, reapEffs) = cancelApprovalsForSession s sessID;
          (s, qReap) = cancelQuestionsForSession s sessID
      in (s, reapEffs @ qReap @ concat (map (\<lambda>f. frameTeardownEffects (sf_ID f) killWindow) allRemoved) @
             [EffPersistSnapshot, EffBroadcastSessionsChanged], True))"

definition evictChildFrame ::
    "'ds State \<Rightarrow> SessionID \<Rightarrow> 'ds Session \<Rightarrow> nat \<Rightarrow> FrameID \<Rightarrow> bool \<Rightarrow> 'ds State \<times> 'j Effect list \<times> bool" where
  "evictChildFrame s sessID sess idx frameID killWindow =
     (let wasActive = se_HeadFrameID sess = frameID;
          (sess, removed) = removeFrameByIndex sess idx;
          sess = pruneMRU (bumpFrameGeneration sess);
          sess =
            (if wasActive then
               (let (fallback, sess) = popMRU sess;
                    fallback = (if fallback = '''' then sf_ID (hd (se_Frames sess)) else fallback)
                in sess\<lparr>se_HeadFrameID := fallback\<rparr>)
             else sess);
          s = putSession s sessID sess;
          (s, reapEffs) = cancelApprovalsForFrame s frameID;
          (s, qReap) = cancelQuestionsForFrame s frameID
      in (s, reapEffs @ frameTeardownEffects (sf_ID removed) killWindow @ qReap @
             [EffPersistSnapshot, EffBroadcastSessionsChanged], True))"

definition evictFrame ::
    "'ds State \<Rightarrow> FrameID \<Rightarrow> bool \<Rightarrow> rootDisposition \<Rightarrow> 'ds State \<times> 'j Effect list \<times> bool" where
  "evictFrame s frameID killWindow disposition =
     (case findFrame s frameID of
        None \<Rightarrow> (s, [], False)
      | Some (sessID, sess, idx) \<Rightarrow>
          if idx = 0 then evictRootFrame s sessID sess killWindow disposition
          else evictChildFrame s sessID sess idx frameID killWindow)"

definition reduceStopSession :: "'ds State \<Rightarrow> ConnID \<Rightarrow> string \<Rightarrow> string \<Rightarrow> 'ds State \<times> 'j Effect list" where
  "reduceStopSession s connID reqID sid =
     (case map_of (h_Sessions s) sid of
        None \<Rightarrow> (s, [errResp connID reqID ErrCodeNotFound ''session not found''])
      | Some sess \<Rightarrow>
          (let removed = truncateFrames sess 0
           in (putSession s sid (endSession sess (h_Now s)),
               [EffBroadcastSessionsChanged] @
               concat (map (\<lambda>f. frameTeardownEffects (sf_ID f) True) removed) @
               [okResp connID reqID BodyNil, EffPersistSnapshot])))"

definition reduceFrameVanished :: "'ds State \<Rightarrow> FrameID \<Rightarrow> 'ds State \<times> 'j Effect list" where
  "reduceFrameVanished s frameID =
     (let (s', effs, ok) = evictFrame s frameID False retainEndedSession
      in if \<not> ok then (s', []) else (s', effs))"

definition isIntentionalExit :: "int \<Rightarrow> bool" where
  "isIntentionalExit code \<longleftrightarrow> code \<in> {0, 129, 130, 137, 143}"

definition reduceFrameCommandExited ::
    "('ds, 'j, 'r) Env \<Rightarrow> 'ds State \<Rightarrow> FrameID \<Rightarrow> int \<Rightarrow> 'ds State \<times> 'j Effect list" where
  "reduceFrameCommandExited env s frameID exitCode =
     (case findFrame s frameID of
        None \<Rightarrow> (s, [])
      | Some (_, sess, idx) \<Rightarrow>
          if isIntentionalExit exitCode then
            (let (next, effs, _) = evictFrame s frameID True retainEndedSession in (next, effs))
          else
            (let frame = se_Frames sess ! idx
             in if (case GetDriver (env_Registry env) (sf_Command frame) of
                      None \<Rightarrow> False
                    | Some drv \<Rightarrow> sf_Driver frame \<noteq> None \<and> dr_Status drv (sf_Driver frame) = StatusStopped) then
                  (s, [EffReleaseFrame frameID])
                else
                  (let (next, rawEffs, _) = stepDriver env s frameID (DEvCommandExited exitCode (h_Now s))
                   in (next, rawEffs @ [EffReleaseFrame frameID]))))"

section \<open>Spawn feedback and navigation\<close>

definition reduceFrameSpawned ::
    "('ds, 'j, 'r) Env \<Rightarrow> 'ds State \<Rightarrow> EvFrameSpawned \<Rightarrow> 'ds State \<times> 'j Effect list" where
  "reduceFrameSpawned env s e =
     (case map_of (h_Sessions s) (ef_SessionID e) of
        None \<Rightarrow> (s, [])
      | Some sess \<Rightarrow>
          (case findFrameIndex sess (ef_FrameID e) of
             None \<Rightarrow> (s, [])
           | Some frameIdx \<Rightarrow>
               (let frame = se_Frames sess ! frameIdx;
                    subsystem = (if ef_SubsystemID e \<noteq> '''' \<and> sf_SubsystemID frame \<noteq> ef_SubsystemID e
                                 then ef_SubsystemID e else sf_SubsystemID frame);
                    s = (if ef_SubsystemID e \<noteq> '''' \<and> sf_SubsystemID frame \<noteq> ef_SubsystemID e then
                           putFrame s (ef_SessionID e) sess frameIdx (frame\<lparr>sf_SubsystemID := ef_SubsystemID e\<rparr>)
                         else s);
                    s = (if ef_WorktreeStartDir e \<noteq> '''' then
                           (let (next, _, ok) = stepDriver env s (ef_FrameID e)
                                  (DEvWorktreeResolved (ef_WorktreeStartDir e) (ef_WorktreeName e))
                            in if ok then next else s)
                         else s);
                    (s, bootstrapEffs) =
                      (if frameIdx = 0 then
                         (let (s, effs, _) = bootstrapDriverSessionStart env s (ef_FrameID e) in (s, effs))
                       else (s, []))
                in (s, bootstrapEffs @
                       [EffRegisterFrame (ef_FrameID e) (frameIdx = 0 \<or> subsystem \<noteq> ''''),
                        EffPersistSnapshot, EffBroadcastSessionsChanged] @
                       (if ef_ReplyConn e \<noteq> 0 then
                          [okResp (ef_ReplyConn e) (ef_ReplyReqID e) (CreateSessionReply (ef_SessionID e))]
                        else [])))))"

definition reduceSpawnFailed ::
    "'ds State \<Rightarrow> FrameID \<Rightarrow> string \<Rightarrow> ConnID \<Rightarrow> string \<Rightarrow> 'ds State \<times> 'j Effect list" where
  "reduceSpawnFailed s frameID err replyConn replyReqID =
     (let (s, effs) =
            (let (next, evictEffs, ok) = evictFrame s frameID False dropUnstartedSession
             in if ok then (next, evictEffs) else (s, []))
      in if replyConn = 0 then (s, effs)
         else (s, effs @ [errResp replyConn replyReqID ErrCodeInternal (''frame spawn failed: '' @ err)]))"

definition reduceListSessions :: "'ds State \<Rightarrow> ConnID \<Rightarrow> string \<Rightarrow> 'ds State \<times> 'j Effect list" where
  "reduceListSessions s connID reqID = (s, [okResp connID reqID SessionsReply])"

definition reduceSetHeadFrame ::
    "'ds State \<Rightarrow> ConnID \<Rightarrow> string \<Rightarrow> SetHeadFrameParams \<Rightarrow> 'ds State \<times> 'j Effect list" where
  "reduceSetHeadFrame s connID reqID p =
     (case map_of (h_Sessions s) (sh_SessionID p) of
        None \<Rightarrow> (s, [errResp connID reqID ErrCodeNotFound ''session not found''])
      | Some sess \<Rightarrow>
          if findFrameIndex sess (sh_FrameID p) = None then
            (s, [errResp connID reqID ErrCodeNotFound ''frame not found''])
          else if se_HeadFrameID sess = sh_FrameID p then (s, [okResp connID reqID BodyNil])
          else
            (let sess = (pushMRU sess (se_HeadFrameID sess))\<lparr>se_HeadFrameID := sh_FrameID p\<rparr>
             in (putSession s (sh_SessionID p) sess,
                 [okResp connID reqID BodyNil, EffPersistSnapshot, EffBroadcastSessionsChanged])))"

end
