(* ===== verification/HostMessages.thy ===== *)
theory HostMessages
  imports HostSession
begin

text \<open>
  Session messages and terminal signals (\<open>frame_messaging.go\<close>,
  \<open>reduce_messages.go\<close>, \<open>reduce_osc.go\<close>).
\<close>

section \<open>Messages\<close>

fun message_index :: "FrameMessage list \<Rightarrow> string \<Rightarrow> nat option" where
  "message_index [] i = None"
| "message_index (m # ms) i = (if fm_ID m = i then Some 0 else map_option Suc (message_index ms i))"

definition mark_read :: "FrameMessage \<Rightarrow> FrameMessage" where
  "mark_read m = (if \<not> fm_Read m then m\<lparr>fm_Read := True\<rparr> else m)"

definition unread_count :: "FrameMessage list \<Rightarrow> nat" where
  "unread_count ms = length (filter (\<lambda>m. \<not> fm_Read m) ms)"

definition markSessionMessagesReadThroughID ::
    "SessionFrameMessaging \<Rightarrow> string \<Rightarrow> SessionFrameMessaging \<times> bool" where
  "markSessionMessagesReadThroughID inp lastReadMessageID =
     (if lastReadMessageID = '''' then (inp, False)
      else
        (case message_index (sm_Messages inp) lastReadMessageID of
           None \<Rightarrow> (inp, False)
         | Some boundary \<Rightarrow>
             (let before = take (Suc boundary) (sm_Messages inp);
                  changed = list_ex (\<lambda>m. \<not> fm_Read m) before;
                  msgs = map mark_read before @ drop (Suc boundary) (sm_Messages inp);
                  unreadCount = int (unread_count msgs)
              in if \<not> changed \<and> fs_UnreadCount (sm_Summary inp) = unreadCount then (inp, False)
                 else (\<lparr>sm_Summary = (sm_Summary inp)\<lparr>fs_UnreadCount := unreadCount\<rparr>, sm_Messages = msgs\<rparr>, True))))"

definition reduceListSessionMessages ::
    "'ds State \<Rightarrow> ConnID \<Rightarrow> string \<Rightarrow> SessionMessagesParams \<Rightarrow> 'ds State \<times> 'j Effect list" where
  "reduceListSessionMessages s connID reqID p =
     (let sid = mp_SessionID p
      in if sid = '''' then (s, [errResp connID reqID ErrCodeInvalidArgument ''session_id required''])
         else if \<not> in_map sid (h_Sessions s) then (s, [errResp connID reqID ErrCodeNotFound ''session not found''])
         else (s, [EffSendResponseSync connID reqID (SessionMessagesReply sid)]))"

definition reduceReadSessionMessages ::
    "'ds State \<Rightarrow> ConnID \<Rightarrow> string \<Rightarrow> SessionMessagesParams \<Rightarrow> 'ds State \<times> 'j Effect list" where
  "reduceReadSessionMessages s connID reqID p =
     (let sid = mp_SessionID p
      in if sid = '''' then (s, [errResp connID reqID ErrCodeInvalidArgument ''session_id required''])
         else
           (case map_of (h_Sessions s) sid of
              None \<Rightarrow> (s, [errResp connID reqID ErrCodeNotFound ''session not found''])
            | Some sess \<Rightarrow>
                (case se_FrameMessaging sess of
                   None \<Rightarrow> (s, [okResp connID reqID BodyNil])
                 | Some messaging \<Rightarrow>
                     (let (next, changed) = markSessionMessagesReadThroughID messaging (mp_LastReadMessageID p)
                      in if \<not> changed then (s, [okResp connID reqID BodyNil])
                         else
                           (let readIDs = map (fm_ID \<circ> fst)
                                  (filter (\<lambda>(new, old). fm_Read new \<and> \<not> fm_Read old)
                                     (zip (sm_Messages next) (sm_Messages messaging)))
                            in (putSession s sid (sess\<lparr>se_FrameMessaging := Some next\<rparr>),
                                [okResp connID reqID BodyNil, EffPersistSnapshot, EffBroadcastSessionsChanged] @
                                (if readIDs \<noteq> [] then [EffFrameMessagingPersistRead sid readIDs] else [])))))))"

section \<open>Terminal signals\<close>

definition incrementStatusSignal :: "'ds State \<Rightarrow> SessionID \<Rightarrow> 'ds State" where
  "incrementStatusSignal s sessID =
     (let n = (case map_of (h_StatusSignals s) sessID of None \<Rightarrow> 0 | Some n \<Rightarrow> n)
      in s\<lparr>h_StatusSignals := AList.update sessID (n + 1) (h_StatusSignals s)\<rparr>)"

definition appendMissingSessionRefreshEffects :: "'j Effect list \<Rightarrow> 'j Effect list" where
  "appendMissingSessionRefreshEffects effs =
     effs @ (if list_ex (\<lambda>e. case e of EffPersistSnapshot \<Rightarrow> True | _ \<Rightarrow> False) effs then [] else [EffPersistSnapshot]) @
     (if list_ex (\<lambda>e. case e of EffBroadcastSessionsChanged \<Rightarrow> True | _ \<Rightarrow> False) effs then []
      else [EffBroadcastSessionsChanged])"

definition reduceFrameOsc ::
    "('ds, 'j, 'r) Env \<Rightarrow> 'ds State \<Rightarrow> EvFrameOsc \<Rightarrow> 'ds State \<times> 'j Effect list" where
  "reduceFrameOsc env s e =
     (let kind = (if eo_Kind e = TerminalSignalUnknown then
                    (if eo_Cmd e = 0 \<or> eo_Cmd e = 2 then TerminalSignalWindowTitle
                     else TerminalSignalNotification)
                  else eo_Kind e)
      in if kind = TerminalSignalWindowTitle then
           (if eo_Title e = '''' \<or> findFrame s (eo_FrameID e) = None then (s, [])
            else
              (let (next, dEffs, _) = stepDriver env s (eo_FrameID e)
                     (DEvFrameOsc (eo_Cmd e) kind (eo_Title e) '''' 0 0 (eo_Now e))
               in (next, appendMissingSessionRefreshEffects
                     (EffEventLogAppend (eo_FrameID e)
                        (''[osc'' @ int_text (eo_Cmd e) @ ''] '' @ eo_Title e) # dEffs))))
         else if kind = TerminalSignalProgress then
           (if findFrame s (eo_FrameID e) = None then (s, [])
            else
              (let (next, dEffs, _) = stepDriver env s (eo_FrameID e)
                     (DEvFrameOsc (eo_Cmd e) kind '''' '''' (eo_ProgressState e) (eo_ProgressValue e) (eo_Now e))
               in (next, appendMissingSessionRefreshEffects
                     (EffEventLogAppend (eo_FrameID e)
                        (''[osc9;4] state='' @ int_text (eo_ProgressState e) @ '' value='' @
                         int_text (eo_ProgressValue e)) # dEffs))))
         else if kind = TerminalSignalBell then
           (case findFrame s (eo_FrameID e) of
              None \<Rightarrow> (s, [])
            | Some (sessID, _, _) \<Rightarrow>
                (incrementStatusSignal s sessID,
                 [EffEventLogAppend (eo_FrameID e) ''[bell]'', EffPersistSnapshot, EffBroadcastSessionsChanged]))
         else if eo_Title e = '''' \<and> eo_Body e = '''' then (s, [])
         else
           (case findFrame s (eo_FrameID e) of
              None \<Rightarrow> (s, [])
            | Some (sessID, _, _) \<Rightarrow>
                (incrementStatusSignal s sessID,
                 [EffRecordNotification sessID (eo_FrameID e) (eo_Cmd e) (eo_Title e) (eo_Body e),
                  EffPersistSnapshot, EffBroadcastSessionsChanged])))"

fun promptPhaseName :: "PromptPhase \<Rightarrow> string" where
  "promptPhaseName PromptPhaseStart = ''start''"
| "promptPhaseName PromptPhaseInput = ''input''"
| "promptPhaseName PromptPhaseCommand = ''command''"
| "promptPhaseName PromptPhaseComplete = ''complete''"
| "promptPhaseName PromptPhaseNone = ''none''"

definition promptEventLogLine :: "PromptPhase \<Rightarrow> int option \<Rightarrow> string" where
  "promptEventLogLine phase exitCode =
     (case (phase, exitCode) of
        (PromptPhaseComplete, Some c) \<Rightarrow> ''[osc133] phase='' @ promptPhaseName phase @ '' exit='' @ int_text c
      | _ \<Rightarrow> ''[osc133] phase='' @ promptPhaseName phase)"

definition reduceFramePrompt ::
    "('ds, 'j, 'r) Env \<Rightarrow> 'ds State \<Rightarrow> FrameID \<Rightarrow> PromptPhase \<Rightarrow> int option \<Rightarrow> time \<Rightarrow> 'ds State \<times> 'j Effect list" where
  "reduceFramePrompt env s frameID phase exitCode now =
     (let s = s\<lparr>h_Now := now\<rparr>
      in if findFrame s frameID = None then (s, [])
         else
           (let (next, dEffs, _) = stepDriver env s frameID (DEvFramePrompt phase exitCode now)
            in (next, appendMissingSessionRefreshEffects
                  (EffEventLogAppend frameID (promptEventLogLine phase exitCode) # dEffs))))"

end
