(* ===== verification/GoHash.thy ===== *)
theory GoHash
  imports GoText
begin

text \<open>
  The hashes and the UTF-8 conversions of Go's standard library that the host core uses:
  \<open>crypto/sha256\<close>, \<open>hash/fnv\<close> (32-bit FNV-1a), \<open>[]rune(s)\<close> and
  \<open>string(runes)\<close>.
\<close>

unbundle bit_operations_syntax

section \<open>Bytes\<close>

definition byte_of :: "char \<Rightarrow> 8 word" where
  "byte_of c = of_nat (of_char c)"

definition char_of_byte :: "8 word \<Rightarrow> char" where
  "char_of_byte b = char_of (unat b)"

section \<open>FNV-1a\<close>

definition fnv32a :: "string \<Rightarrow> 32 word" where
  "fnv32a s = foldl (\<lambda>h c. (h XOR ucast (byte_of c)) * 16777619) 2166136261 s"

section \<open>SHA-256\<close>

definition sha_k :: "32 word list" where
  "sha_k =
     [1116352408, 1899447441, 3049323471, 3921009573, 961987163, 1508970993, 2453635748, 2870763221,
      3624381080, 310598401, 607225278, 1426881987, 1925078388, 2162078206, 2614888103, 3248222580,
      3835390401, 4022224774, 264347078, 604807628, 770255983, 1249150122, 1555081692, 1996064986,
      2554220882, 2821834349, 2952996808, 3210313671, 3336571891, 3584528711, 113926993, 338241895,
      666307205, 773529912, 1294757372, 1396182291, 1695183700, 1986661051, 2177026350, 2456956037,
      2730485921, 2820302411, 3259730800, 3345764771, 3516065817, 3600352804, 4094571909, 275423344,
      430227734, 506948616, 659060556, 883997877, 958139571, 1322822218, 1537002063, 1747873779,
      1955562222, 2024104815, 2227730452, 2361852424, 2428436474, 2756734187, 3204031479, 3329325298]"

definition sha_init :: "32 word list" where
  "sha_init = [1779033703, 3144134277, 1013904242, 2773480762, 1359893119, 2600822924, 528734635, 1541459225]"

definition word_be :: "8 word list \<Rightarrow> 32 word" where
  "word_be bs = foldl (\<lambda>w b. push_bit 8 w OR ucast b) 0 bs"

fun chunks :: "nat \<Rightarrow> nat \<Rightarrow> 'a list \<Rightarrow> 'a list list" where
  "chunks 0 n xs = []"
| "chunks (Suc fuel) n xs = (if xs = [] then [] else take n xs # chunks fuel n (drop n xs))"

definition sha_pad :: "8 word list \<Rightarrow> 8 word list" where
  "sha_pad msg =
     (let zeros = (55 + 64 - length msg mod 64) mod 64;
          bits = (of_nat (8 * length msg) :: 64 word)
      in msg @ [0x80] @ replicate zeros 0 @ map (\<lambda>i. ucast (drop_bit (8 * (7 - i)) bits)) [0..<8])"

definition sha_extend :: "32 word list \<Rightarrow> 32 word list" where
  "sha_extend w =
     (let w15 = w ! (length w - 15); w2 = w ! (length w - 2);
          s0 = word_rotr 7 w15 XOR word_rotr 18 w15 XOR drop_bit 3 w15;
          s1 = word_rotr 17 w2 XOR word_rotr 19 w2 XOR drop_bit 10 w2
      in w @ [w ! (length w - 16) + s0 + w ! (length w - 7) + s1])"

definition sha_schedule :: "8 word list \<Rightarrow> 32 word list" where
  "sha_schedule block = (sha_extend ^^ 48) (map word_be (chunks 16 4 block))"

fun sha_round :: "32 word list \<Rightarrow> 32 word \<times> 32 word \<Rightarrow> 32 word list" where
  "sha_round [a, b, c, d, e, f, g, h] (k, w) =
     (let s1 = word_rotr 6 e XOR word_rotr 11 e XOR word_rotr 25 e;
          ch = (e AND f) XOR (NOT e AND g);
          t1 = h + s1 + ch + k + w;
          s0 = word_rotr 2 a XOR word_rotr 13 a XOR word_rotr 22 a;
          maj = (a AND b) XOR (a AND c) XOR (b AND c);
          t2 = s0 + maj
      in [t1 + t2, a, b, c, d + t1, e, f, g])"
| "sha_round st kw = st"

definition sha_block :: "32 word list \<Rightarrow> 8 word list \<Rightarrow> 32 word list" where
  "sha_block st block = map2 (+) st (foldl sha_round st (zip sha_k (sha_schedule block)))"

definition word_bytes :: "32 word \<Rightarrow> 8 word list" where
  "word_bytes w = map (\<lambda>i. ucast (drop_bit (8 * (3 - i)) w)) [0..<4]"

definition sha256 :: "8 word list \<Rightarrow> 8 word list" where
  "sha256 msg =
     (let padded = sha_pad msg
      in concat (map word_bytes (foldl sha_block sha_init (chunks (length padded) 64 padded))))"

section \<open>UTF-8\<close>

definition rune_error :: nat where "rune_error = 0xFFFD"

definition cont_byte :: "nat \<Rightarrow> bool" where
  "cont_byte b \<longleftrightarrow> 0x80 \<le> b \<and> b \<le> 0xBF"

text \<open>The rune at the front of a byte string and its width; an invalid byte is \<open>U+FFFD\<close> of width one.\<close>

definition decode_rune :: "nat list \<Rightarrow> nat \<times> nat" where
  "decode_rune bs =
     (case bs of
        [] \<Rightarrow> (rune_error, 0)
      | b0 # r0 \<Rightarrow>
          if b0 < 0x80 then (b0, 1)
          else
            (case r0 of
               [] \<Rightarrow> (rune_error, 1)
             | b1 # r1 \<Rightarrow>
                 if 0xC2 \<le> b0 \<and> b0 \<le> 0xDF then
                   (if cont_byte b1 then ((b0 - 0xC0) * 64 + (b1 - 0x80), 2) else (rune_error, 1))
                 else if 0xE0 \<le> b0 \<and> b0 \<le> 0xEF then
                   (case r1 of
                      [] \<Rightarrow> (rune_error, 1)
                    | b2 # r2 \<Rightarrow>
                        if (if b0 = 0xE0 then 0xA0 else 0x80) \<le> b1 \<and>
                           b1 \<le> (if b0 = 0xED then 0x9F else 0xBF) \<and> cont_byte b2
                        then ((b0 - 0xE0) * 4096 + (b1 - 0x80) * 64 + (b2 - 0x80), 3)
                        else (rune_error, 1))
                 else if 0xF0 \<le> b0 \<and> b0 \<le> 0xF4 then
                   (case r1 of
                      b2 # b3 # r3 \<Rightarrow>
                        if (if b0 = 0xF0 then 0x90 else 0x80) \<le> b1 \<and>
                           b1 \<le> (if b0 = 0xF4 then 0x8F else 0xBF) \<and> cont_byte b2 \<and> cont_byte b3
                        then ((b0 - 0xF0) * 262144 + (b1 - 0x80) * 4096 + (b2 - 0x80) * 64 + (b3 - 0x80), 4)
                        else (rune_error, 1)
                    | _ \<Rightarrow> (rune_error, 1))
                 else (rune_error, 1)))"

lemma decode_rune_width: "bs \<noteq> [] \<Longrightarrow> 0 < snd (decode_rune bs)"
  by (auto simp: decode_rune_def split: list.splits)

function runes_of :: "nat list \<Rightarrow> nat list" where
  "runes_of bs = (if bs = [] then [] else fst (decode_rune bs) # runes_of (drop (snd (decode_rune bs)) bs))"
  by auto
termination
proof (relation "measure length")
  fix bs :: "nat list"
  assume "bs \<noteq> []"
  then have "0 < snd (decode_rune bs)" "0 < length bs" using decode_rune_width by auto
  then show "(drop (snd (decode_rune bs)) bs, bs) \<in> measure length" by simp
qed simp

declare runes_of.simps [simp del]

definition encode_rune :: "nat \<Rightarrow> nat list" where
  "encode_rune r =
     (let r = (if 0x10FFFF < r \<or> (0xD800 \<le> r \<and> r \<le> 0xDFFF) then rune_error else r)
      in if r < 0x80 then [r]
         else if r < 0x800 then [0xC0 + r div 64, 0x80 + r mod 64]
         else if r < 0x10000 then [0xE0 + r div 4096, 0x80 + r div 64 mod 64, 0x80 + r mod 64]
         else [0xF0 + r div 262144, 0x80 + r div 4096 mod 64, 0x80 + r div 64 mod 64, 0x80 + r mod 64])"

definition to_runes :: "string \<Rightarrow> nat list" where
  "to_runes s = runes_of (map of_char s)"

definition from_runes :: "nat list \<Rightarrow> string" where
  "from_runes rs = map char_of (concat (map encode_rune rs))"

lemma runes_of_ascii: "b < 128 \<Longrightarrow> runes_of (b # rest) = b # runes_of rest"
  by (subst runes_of.simps) (simp add: decode_rune_def)

lemma runes_of_Nil [simp]: "runes_of [] = []"
  by (simp add: runes_of.simps)

lemma to_runes_ascii: "list_all (\<lambda>c. of_char c < (128 :: nat)) s \<Longrightarrow> to_runes s = map of_char s"
  by (induction s) (auto simp: to_runes_def runes_of_ascii)

section \<open>Round trip\<close>

definition scalar :: "nat \<Rightarrow> bool" where
  "scalar r \<longleftrightarrow> r \<le> 0x10FFFF \<and> \<not> (0xD800 \<le> r \<and> r \<le> 0xDFFF)"

end
