(* ===== verification/HostCapsule.thy ===== *)
theory HostCapsule
  imports HostSession GoHash
begin

text \<open>
  Resume capsules (\<open>resumecapsule.go\<close>, \<open>reduce_resumecapsule.go\<close>): the digest-driven
  regeneration of a session's summary, its prompt, and the application of its result.
\<close>

section \<open>The prompt\<close>

definition capsuleCheckInterval :: uint64 where "capsuleCheckInterval = 15"
definition capsuleErrorBackoff :: duration where "capsuleErrorBackoff = 5 * 60 * second"
definition capsuleEntryTextCap :: nat where "capsuleEntryTextCap = 2000"
definition capsuleTotalTextCap :: nat where "capsuleTotalTextCap = 16000"

definition nl :: string where "nl = [CHR 0x0A]"

text \<open>The UTF-8 bytes of the horizontal ellipsis and of the em dash.\<close>

definition ellipsis :: string where "ellipsis = [CHR 0xE2, CHR 0x80, CHR 0xA6]"
definition em_dash :: string where "em_dash = [CHR 0xE2, CHR 0x80, CHR 0x94]"

definition capsuleDigest :: "CapsuleTurn list \<Rightarrow> string" where
  "capsuleDigest turns =
     hex_encode (sha256 (concat (map (\<lambda>t. map byte_of (ct_Role t) @ [0] @ map byte_of (ct_Text t) @ [0xFF]) turns)))"

definition capsuleTailClip :: "string \<Rightarrow> nat \<Rightarrow> string" where
  "capsuleTailClip s mx =
     (let r = to_runes s
      in if length r \<le> mx then s else ellipsis @ from_runes (drop (length r - mx) r))"

definition capsuleBlock :: "CapsuleTurn \<Rightarrow> string" where
  "capsuleBlock t = ''['' @ ct_Role t @ '']'' @ nl @ capsuleTailClip (ct_Text t) capsuleEntryTextCap @ nl"

text \<open>The turns from the newest to the oldest, with the blocks kept so far and their total length.\<close>

fun collectBlocks :: "CapsuleTurn list \<Rightarrow> nat \<Rightarrow> string list \<Rightarrow> string list" where
  "collectBlocks [] used blocks = blocks"
| "collectBlocks (t # ts) used blocks =
     (let block = capsuleBlock t
      in if used + length block > capsuleTotalTextCap \<and> blocks \<noteq> [] then blocks
         else collectBlocks ts (used + length block) (block # blocks))"

definition renderCapsuleTurns :: "CapsuleTurn list \<Rightarrow> string" where
  "renderCapsuleTurns turns = join_text nl (collectBlocks (rev turns) 0 [])"

definition promptPreamble :: string where
  "promptPreamble =
     ''You maintain a resume capsule for an AI coding session: a compact work-state '' @
     ''summary that lets the user resume after an interruption without rereading history. '' @
     ''From the previous capsule and the recent conversation turns below, produce the '' @
     ''updated capsule.'' @ nl @ nl @
     ''Return ONLY a JSON object, no code fences, no prose, with exactly these keys:'' @ nl @
     ''{\"objective\": \"...\", \"current_state\": \"...\", \"next_action\": \"...\", \"unresolved\": [\"...\"],'' @ nl @
     '' \"changed\": [\"...\"], \"verified\": [\"...\"], \"remaining\": [\"...\"], \"attention\": \"...\"}'' @ nl @ nl @
     ''objective: the overall goal the user is driving (1 sentence, stable across turns).'' @ nl @
     ''current_state: what has been established or completed so far (1-2 sentences).'' @ nl @
     ''next_action: the single next concrete step (1 sentence).'' @ nl @
     ''unresolved: open questions or pending decisions (0-4 short items).'' @ nl @
     ''changed: concrete changes completed so far '' @ em_dash @
       '' files, behaviors, documents (0-4 short items).'' @ nl @
     ''verified: what has actually been verified '' @ em_dash @
       '' tests run, checks passed (0-3 short items; '' @
     ''only include evidence present in the conversation, never assumed).'' @ nl @
     ''remaining: work that is still left to do (0-4 short items).'' @ nl @
     ''attention: one sentence when the user'' @ [CHR 0x27] @ ''s decision or review is needed, else an empty string.'' @ nl @
     ''Base every field on the conversation only; never invent progress or verification.'' @ nl @ nl"

definition previousCapsule :: "ResumeCapsule option \<Rightarrow> string" where
  "previousCapsule prev =
     (case prev of
        None \<Rightarrow> ''''
      | Some c \<Rightarrow>
          if is_zero (rc_GeneratedAt c) then ''''
          else
            ''<previous_capsule>'' @ nl @ ''objective: '' @ rc_Objective c @ nl @
            ''current_state: '' @ rc_CurrentState c @ nl @ ''next_action: '' @ rc_NextAction c @ nl @
            (if rc_Unresolved c \<noteq> [] then ''unresolved: '' @ join_text ''; '' (rc_Unresolved c) @ nl else '''') @
            ''</previous_capsule>'' @ nl @ nl)"

definition formatResumeCapsulePrompt :: "ResumeCapsule option \<Rightarrow> CapsuleTurn list \<Rightarrow> string \<Rightarrow> string" where
  "formatResumeCapsulePrompt prev turns project =
     promptPreamble @
     (if project \<noteq> '''' then ''<project>'' @ nl @ project @ nl @ ''</project>'' @ nl @ nl else '''') @
     previousCapsule prev @
     ''<recent_turns>'' @ nl @ renderCapsuleTurns turns @ ''</recent_turns>'' @ nl"

section \<open>Regeneration\<close>

definition capsuleCheckDue :: "SessionID \<Rightarrow> uint64 \<Rightarrow> bool" where
  "capsuleCheckDue sessID tickN \<longleftrightarrow> (tickN + ucast (fnv32a sessID)) mod capsuleCheckInterval = 0"

text \<open>The turns to summarise and their digest, when a generation may start.\<close>

definition capsuleCandidate ::
    "('ds, 'j, 'r) Env \<Rightarrow> 'ds State \<Rightarrow> SessionID \<Rightarrow> 'ds Session \<Rightarrow> ('ds SessionFrame \<times> CapsuleTurn list \<times> string) option" where
  "capsuleCandidate env s sessID sess =
     (if in_map sessID (h_CapsuleGenerating s) then None
      else
        (case rootFrame sess of
           None \<Rightarrow> None
         | Some frame \<Rightarrow>
             (case GetDriver (env_Registry env) (sf_Command frame) of
                None \<Rightarrow> None
              | Some drv \<Rightarrow>
                  (case dr_CapsuleTurns drv of
                     None \<Rightarrow> None
                   | Some turnsOf \<Rightarrow>
                       if dr_Status drv (sf_Driver frame) = StatusRunning then None
                       else
                         (let turns = turnsOf (sf_Driver frame)
                          in if turns = [] then None
                             else
                               (let digest = capsuleDigest turns
                                in case se_ResumeCapsule sess of
                                     None \<Rightarrow> Some (frame, turns, digest)
                                   | Some prev \<Rightarrow>
                                       if rc_SourceDigest prev = digest then None
                                       else if rc_LastError prev \<noteq> '''' \<and>
                                               time_sub (h_Now s) (rc_LastErrorAt prev) < capsuleErrorBackoff then None
                                       else Some (frame, turns, digest)))))))"

definition maybeEnqueueOneCapsule ::
    "('ds, 'j, 'r) Env \<Rightarrow> 'ds State \<Rightarrow> SessionID \<Rightarrow> 'ds Session \<Rightarrow> ('ds State \<times> 'j Effect) option" where
  "maybeEnqueueOneCapsule env s sessID sess =
     (case capsuleCandidate env s sessID sess of
        None \<Rightarrow> None
      | Some (frame, turns, digest) \<Rightarrow>
          (let input = \<lparr>cj_SessionID = sessID,
                        cj_Prompt = formatResumeCapsulePrompt (se_ResumeCapsule sess) turns (se_Project sess),
                        cj_SourceDigest = digest, cj_SourceTurns = int (length turns)\<rparr>;
               (eff, s) = postProcessEffect s sessID (sf_ID frame) (EffStartJob 0 (CapsuleJob input))
           in Some (s\<lparr>h_CapsuleGenerating := AList.update sessID digest (h_CapsuleGenerating s)\<rparr>, eff)))"

fun enqueueCapsules ::
    "('ds, 'j, 'r) Env \<Rightarrow> uint64 \<Rightarrow> (SessionID, 'ds Session) gomap \<Rightarrow> 'ds State \<Rightarrow> 'ds State \<times> 'j Effect list" where
  "enqueueCapsules env tickN [] s = (s, [])"
| "enqueueCapsules env tickN ((sessID, sess) # rest) s =
     (if \<not> capsuleCheckDue sessID tickN then enqueueCapsules env tickN rest s
      else
        (case maybeEnqueueOneCapsule env s sessID sess of
           None \<Rightarrow> enqueueCapsules env tickN rest s
         | Some (next, eff) \<Rightarrow>
             (let (s, effs) = enqueueCapsules env tickN rest next in (s, eff # effs))))"

definition maybeEnqueueResumeCapsules ::
    "('ds, 'j, 'r) Env \<Rightarrow> 'ds State \<Rightarrow> uint64 \<Rightarrow> 'ds State \<times> 'j Effect list" where
  "maybeEnqueueResumeCapsules env s tickN =
     (if \<not> h_ResumeCapsulesEnabled s then (s, [])
      else enqueueCapsules env tickN (h_Sessions s) s)"

section \<open>Results and commands\<close>

definition reduceListResumeCapsules :: "'ds State \<Rightarrow> ConnID \<Rightarrow> string \<Rightarrow> 'ds State \<times> 'j Effect list" where
  "reduceListResumeCapsules s connID reqID = (s, [EffSendResponseSync connID reqID ResumeCapsulesReply])"

definition reduceFlagResumeCapsule ::
    "'ds State \<Rightarrow> ConnID \<Rightarrow> string \<Rightarrow> ResumeCapsuleFlagParams \<Rightarrow> 'ds State \<times> 'j Effect list" where
  "reduceFlagResumeCapsule s connID reqID p =
     (let sid = fp_SessionID p
      in if sid = '''' then (s, [errResp connID reqID ErrCodeInvalidArgument ''session_id required''])
         else
           (case map_of (h_Sessions s) sid of
              None \<Rightarrow> (s, [errResp connID reqID ErrCodeNotFound ''session not found''])
            | Some sess \<Rightarrow>
                (case se_ResumeCapsule sess of
                   None \<Rightarrow> (s, [errResp connID reqID ErrCodeNotFound ''session has no resume capsule''])
                 | Some capsule \<Rightarrow>
                     (let capsule = capsule\<lparr>rc_FlaggedWrong := fp_Flagged p,
                                            rc_FlaggedAt := (if fp_Flagged p then h_Now s else rc_FlaggedAt capsule)\<rparr>;
                          sess = sess\<lparr>se_ResumeCapsule := Some capsule\<rparr>
                      in (putSession s sid sess,
                          [okResp connID reqID BodyNil, EffPersistSnapshot, EffBroadcastSessionsChanged] @
                          (case rootFrame sess of
                             None \<Rightarrow> []
                           | Some frame \<Rightarrow>
                               [EffEventLogAppend (sf_ID frame)
                                  (if fp_Flagged p then ''resume-capsule flagged wrong''
                                   else ''resume-capsule flag cleared'')]))))))"

definition reduceCapsuleJobResult ::
    "'ds State \<Rightarrow> JobMeta \<Rightarrow> CapsuleJobResult \<Rightarrow> string option \<Rightarrow> 'ds State \<times> 'j Effect list" where
  "reduceCapsuleJobResult s meta result jobErr =
     (let sid = jm_SessionID meta;
          s = s\<lparr>h_CapsuleGenerating := AList.delete sid (h_CapsuleGenerating s)\<rparr>
      in case map_of (h_Sessions s) sid of
           None \<Rightarrow> (s, [])
         | Some sess \<Rightarrow>
             (case jobErr of
                Some err \<Rightarrow>
                  (case se_ResumeCapsule sess of
                     None \<Rightarrow> (s, [])
                   | Some capsule \<Rightarrow>
                       (putSession s sid
                          (sess\<lparr>se_ResumeCapsule := Some (capsule\<lparr>rc_LastError := err, rc_LastErrorAt := h_Now s\<rparr>)\<rparr>),
                        [EffPersistSnapshot, EffBroadcastSessionsChanged]))
              | None \<Rightarrow>
                  if cr_SourceDigest result = '''' then (s, [])
                  else
                    (let capsule =
                       \<lparr>rc_Objective = cr_Objective result, rc_CurrentState = cr_CurrentState result,
                        rc_NextAction = cr_NextAction result, rc_Unresolved = cr_Unresolved result,
                        rc_Changed = cr_Changed result, rc_Verified = cr_Verified result,
                        rc_Remaining = cr_Remaining result, rc_Attention = cr_Attention result,
                        rc_GeneratedAt = h_Now s, rc_SourceDigest = cr_SourceDigest result,
                        rc_SourceTurns = cr_SourceTurns result, rc_FlaggedWrong = False,
                        rc_FlaggedAt = zero_time, rc_LastError = '''', rc_LastErrorAt = zero_time\<rparr>
                     in (putSession s sid (sess\<lparr>se_ResumeCapsule := Some capsule\<rparr>),
                         [EffPersistSnapshot, EffBroadcastSessionsChanged]))))"

end
