(* ===== verification/HostRepo.thy ===== *)
theory HostRepo
  imports HostFrames
begin

text \<open>
  Repository preparation (\<open>repository.go\<close>, \<open>repository_reduce.go\<close>,
  \<open>reduce_repository_event.go\<close>): the lifecycle of a clone that becomes a session, fenced by a
  revision counter.
\<close>

section \<open>Data\<close>

definition repo_Valid :: "GitHubRepositoryIdentity \<Rightarrow> bool" where
  "repo_Valid r \<longleftrightarrow> gr_ID r \<noteq> '''' \<and> gr_Owner r \<noteq> '''' \<and> gr_Name r \<noteq> ''''"

definition stage_IsTerminal :: "PreparationStage \<Rightarrow> bool" where
  "stage_IsTerminal st \<longleftrightarrow>
     st = PrepStageAvailable \<or> st = PrepStageAbandoned \<or> st = PrepStageInternalCorruption"

definition IsSessionAvailable :: "RepositoryPreparation \<Rightarrow> bool" where
  "IsSessionAvailable p \<longleftrightarrow> rp_Stage p = PrepStageAvailable \<and> rp_SessionID p \<noteq> ''''"

definition AvailablePreparations :: "'ds State \<Rightarrow> RepositoryPreparation list" where
  "AvailablePreparations s = filter IsSessionAvailable (map snd (h_RepositoryPreparations s))"

definition FindPreparation :: "'ds State \<Rightarrow> string \<Rightarrow> RepositoryPreparation option" where
  "FindPreparation s i = (if i = '''' then None else map_of (h_RepositoryPreparations s) i)"

definition putPreparation :: "'ds State \<Rightarrow> RepositoryPreparation \<Rightarrow> 'ds State" where
  "putPreparation s p =
     s\<lparr>h_RepositoryPreparations := AList.update (rp_ID p) p (h_RepositoryPreparations s)\<rparr>"

definition putCreationIntent :: "'ds State \<Rightarrow> CreationIntent \<Rightarrow> 'ds State" where
  "putCreationIntent s intent = s\<lparr>h_CreationIntents := AList.update (ci_ID intent) intent (h_CreationIntents s)\<rparr>"

definition SessionIsAvailableProjection :: "'ds State \<Rightarrow> SessionID \<Rightarrow> bool" where
  "SessionIsAvailableProjection s i \<longleftrightarrow> i \<noteq> '''' \<and> in_map i (h_Sessions s)"

definition findPrepByIntent :: "'ds State \<Rightarrow> string \<Rightarrow> RepositoryPreparation option" where
  "findPrepByIntent s intent = find (\<lambda>p. rp_IntentID p = intent) (map snd (h_RepositoryPreparations s))"

fun stage_text :: "PreparationStage \<Rightarrow> string" where
  "stage_text PrepStageConfirmed = ''confirmed''"
| "stage_text PrepStageCloneInProgress = ''clone-in-progress''"
| "stage_text PrepStageCloneReady = ''clone-ready''"
| "stage_text PrepStageFailed = ''failed''"
| "stage_text PrepStageCancelled = ''cancelled''"
| "stage_text PrepStageInterrupted = ''interrupted''"
| "stage_text PrepStageInternalCorruption = ''internal_corruption''"
| "stage_text PrepStageAvailable = ''available''"
| "stage_text PrepStageAbandoned = ''abandoned''"

fun failure_text :: "PreparationFailureCode \<Rightarrow> string" where
  "failure_text PrepFailureNone = ''''"
| "failure_text PrepFailureInvalidIdentity = ''invalid_identity''"
| "failure_text PrepFailureCloneFailed = ''clone_failed''"
| "failure_text PrepFailureLaunchFailed = ''launch_failed''"
| "failure_text PrepFailureCancelled = ''cancelled''"
| "failure_text PrepFailureInterrupted = ''interrupted''"
| "failure_text PrepFailureInternalCorrupt = ''internal_corruption''"
| "failure_text PrepFailureIncompleteCommit = ''incomplete_commit_evidence''"
| "failure_text PrepFailureIllegalTransition = ''illegal_transition''"

section \<open>Replies\<close>

definition ErrCodeStaleRevision :: string where "ErrCodeStaleRevision = ''stale_revision''"

definition prepSnapshot :: "RepositoryPreparation \<Rightarrow> RepositoryPreparationReply" where
  "prepSnapshot p =
     \<lparr>rr_PreparationID = rp_ID p, rr_IntentID = rp_IntentID p, rr_ServerID = rp_ServerID p,
      rr_Repository = rp_Repository p, rr_Stage = rp_Stage p, rr_FailureCode = rp_FailureCode p,
      rr_RetryOrigin = rp_RetryOrigin p, rr_Revision = rp_Revision p, rr_SessionID = rp_SessionID p,
      rr_ClonePath = rp_ClonePath p\<rparr>"

definition rejectPrep :: "ConnID \<Rightarrow> string \<Rightarrow> PreparationFailureCode \<Rightarrow> string \<Rightarrow> 'j Effect list" where
  "rejectPrep conn req code msg = [errResp conn req (failure_text code) msg]"

definition illegal :: "RepositoryPreparation \<Rightarrow> ConnID \<Rightarrow> string \<Rightarrow> 'j Effect list" where
  "illegal prep conn req =
     rejectPrep conn req PrepFailureIllegalTransition
       (''illegal preparation transition from '' @ stage_text (rp_Stage prep))"

definition loadPrepFenced ::
    "'ds State \<Rightarrow> string \<Rightarrow> uint64 \<Rightarrow> ConnID \<Rightarrow> string \<Rightarrow> 'j Effect list + RepositoryPreparation" where
  "loadPrepFenced s i observed conn req =
     (case FindPreparation s i of
        None \<Rightarrow> Inl (rejectPrep conn req PrepFailureInvalidIdentity ''preparation not found'')
      | Some prep \<Rightarrow>
          if observed \<noteq> rp_Revision prep then
            Inl [errResp conn req ErrCodeStaleRevision ''observed revision does not match'']
          else Inr prep)"

definition advancePrep ::
    "'ds State \<Rightarrow> RepositoryPreparation \<Rightarrow> PreparationStage \<Rightarrow> PreparationFailureCode \<Rightarrow> RetryOrigin \<Rightarrow>
     ConnID \<Rightarrow> string \<Rightarrow> 'ds State \<times> 'j Effect list" where
  "advancePrep s prep stage code origin conn req =
     (let prep = prep\<lparr>rp_Stage := stage, rp_FailureCode := code, rp_RetryOrigin := origin,
                      rp_Revision := rp_Revision prep + 1\<rparr>
      in (putPreparation s prep,
          [EffRepositoryPersist (rp_ID prep) (rp_Revision prep),
           okResp conn req (PreparationReply (prepSnapshot prep))]))"

section \<open>Handlers\<close>

definition reduceRepositoryCreate :: "'ds State \<Rightarrow> EvRepository \<Rightarrow> 'ds State \<times> 'j Effect list" where
  "reduceRepositoryCreate s e =
     (if er_IntentID e = '''' \<or> er_PreparationID e = '''' \<or> er_ServerID e = '''' \<or>
         \<not> repo_Valid (er_Repository e) \<or> er_Command e = '''' then
        (s, rejectPrep (er_ConnID e) (er_ReqID e) PrepFailureInvalidIdentity
              ''fully-qualified identities and command required'')
      else
        (let fresh =
           (if in_map (er_PreparationID e) (h_RepositoryPreparations s) then
              (s, rejectPrep (er_ConnID e) (er_ReqID e) PrepFailureIllegalTransition
                    ''preparation already exists'')
            else
              (let intent = \<lparr>ci_ID = er_IntentID e, ci_ServerID = er_ServerID e,
                             ci_Repository = er_Repository e, ci_Fingerprint = er_Fingerprint e,
                             ci_Command = er_Command e\<rparr>;
                   prep = \<lparr>rp_ID = er_PreparationID e, rp_IntentID = er_IntentID e,
                           rp_ServerID = er_ServerID e, rp_Repository = er_Repository e,
                           rp_Stage = PrepStageConfirmed, rp_FailureCode = PrepFailureNone,
                           rp_RetryOrigin = RetryOriginNone, rp_Revision = 1,
                           rp_LastOwnedWorkerGeneration = 1, rp_ClonePath = '''', rp_SessionID = '''',
                           rp_CloneDurable = False, rp_LaunchSucceeded = False\<rparr>
               in (putPreparation (putCreationIntent s intent) prep,
                   [EffRepositoryPersist (rp_ID prep) (rp_Revision prep),
                    EffRepositoryStartClone (rp_ID prep) (rp_ServerID prep) (rp_Repository prep) 1,
                    okResp (er_ConnID e) (er_ReqID e) (PreparationReply (prepSnapshot prep))])))
         in case map_of (h_CreationIntents s) (er_IntentID e) of
              Some existing \<Rightarrow>
                if ci_Fingerprint existing \<noteq> er_Fingerprint e then
                  (s, rejectPrep (er_ConnID e) (er_ReqID e) PrepFailureIllegalTransition
                        ''intent fingerprint conflict'')
                else
                  (case findPrepByIntent s (er_IntentID e) of
                     Some prep \<Rightarrow>
                       (s, [okResp (er_ConnID e) (er_ReqID e) (PreparationReply (prepSnapshot prep))])
                   | None \<Rightarrow> fresh)
            | None \<Rightarrow> fresh))"

text \<open>A handler that first loads its preparation behind the revision fence.\<close>

definition fenced ::
    "'ds State \<Rightarrow> EvRepository \<Rightarrow> (RepositoryPreparation \<Rightarrow> 'ds State \<times> 'j Effect list) \<Rightarrow>
     'ds State \<times> 'j Effect list" where
  "fenced s e k =
     (case loadPrepFenced s (er_PreparationID e) (er_ObservedRevision e) (er_ConnID e) (er_ReqID e) of
        Inl effs \<Rightarrow> (s, effs)
      | Inr prep \<Rightarrow> k prep)"

definition reduceRepositoryCloneStarted :: "'ds State \<Rightarrow> EvRepository \<Rightarrow> 'ds State \<times> 'j Effect list" where
  "reduceRepositoryCloneStarted s e = fenced s e (\<lambda>prep.
     if rp_Stage prep \<notin> {PrepStageConfirmed, PrepStageFailed, PrepStageCancelled, PrepStageInterrupted} then
       (s, illegal prep (er_ConnID e) (er_ReqID e))
     else if rp_RetryOrigin prep \<noteq> RetryOriginNone \<and> rp_RetryOrigin prep \<noteq> RetryOriginClone then
       (s, illegal prep (er_ConnID e) (er_ReqID e))
     else advancePrep s prep PrepStageCloneInProgress PrepFailureNone RetryOriginNone (er_ConnID e) (er_ReqID e))"

definition reduceRepositoryCloneReady :: "'ds State \<Rightarrow> EvRepository \<Rightarrow> 'ds State \<times> 'j Effect list" where
  "reduceRepositoryCloneReady s e = fenced s e (\<lambda>prep.
     if rp_Stage prep \<noteq> PrepStageCloneInProgress then (s, illegal prep (er_ConnID e) (er_ReqID e))
     else if er_ClonePath e = '''' then
       (s, rejectPrep (er_ConnID e) (er_ReqID e) PrepFailureInvalidIdentity ''clone path required'')
     else
       (let prep = prep\<lparr>rp_ClonePath := er_ClonePath e, rp_CloneDurable := True,
                        rp_Stage := PrepStageCloneReady, rp_FailureCode := PrepFailureNone,
                        rp_RetryOrigin := RetryOriginNone, rp_Revision := rp_Revision prep + 1\<rparr>
        in (putPreparation s prep,
            [EffRepositoryPersist (rp_ID prep) (rp_Revision prep),
             EffRepositoryLaunchSession (rp_ID prep) (rp_ServerID prep) (rp_Repository prep)
               (rp_LastOwnedWorkerGeneration prep),
             okResp (er_ConnID e) (er_ReqID e) (PreparationReply (prepSnapshot prep))])))"

definition reduceRepositoryFailed :: "'ds State \<Rightarrow> EvRepository \<Rightarrow> 'ds State \<times> 'j Effect list" where
  "reduceRepositoryFailed s e = fenced s e (\<lambda>prep.
     if stage_IsTerminal (rp_Stage prep) then (s, illegal prep (er_ConnID e) (er_ReqID e))
     else
       (let code = (if er_Code e = PrepFailureNone then PrepFailureCloneFailed else er_Code e);
            (code, origin) =
              (if rp_Stage prep = PrepStageCloneReady then
                 (if code = PrepFailureCloneFailed then PrepFailureLaunchFailed else code, RetryOriginLaunch)
               else (code, RetryOriginClone))
        in advancePrep s prep PrepStageFailed code origin (er_ConnID e) (er_ReqID e)))"

definition reduceRepositoryCancelled :: "'ds State \<Rightarrow> EvRepository \<Rightarrow> 'ds State \<times> 'j Effect list" where
  "reduceRepositoryCancelled s e = fenced s e (\<lambda>prep.
     if stage_IsTerminal (rp_Stage prep) then (s, illegal prep (er_ConnID e) (er_ReqID e))
     else
       (let origin = (if rp_Stage prep = PrepStageCloneReady then RetryOriginLaunch else RetryOriginClone);
            prep = prep\<lparr>rp_Stage := PrepStageCancelled, rp_FailureCode := PrepFailureCancelled,
                        rp_RetryOrigin := origin, rp_Revision := rp_Revision prep + 1\<rparr>
        in (putPreparation s prep,
            [EffRepositoryPersist (rp_ID prep) (rp_Revision prep),
             EffRepositoryStopOwnedWork (rp_ID prep) (rp_LastOwnedWorkerGeneration prep),
             okResp (er_ConnID e) (er_ReqID e) (PreparationReply (prepSnapshot prep))])))"

definition reduceRepositoryInterrupted :: "'ds State \<Rightarrow> EvRepository \<Rightarrow> 'ds State \<times> 'j Effect list" where
  "reduceRepositoryInterrupted s e =
     (case FindPreparation s (er_PreparationID e) of
        None \<Rightarrow>
          (s, rejectPrep (er_ConnID e) (er_ReqID e) PrepFailureInvalidIdentity ''preparation not found'')
      | Some prep \<Rightarrow>
          if rp_Stage prep \<notin> {PrepStageConfirmed, PrepStageCloneInProgress, PrepStageCloneReady} then
            (s, [okResp (er_ConnID e) (er_ReqID e) (PreparationReply (prepSnapshot prep))])
          else
            (let origin = (if rp_Stage prep = PrepStageCloneReady then RetryOriginLaunch else RetryOriginClone)
             in advancePrep s prep PrepStageInterrupted PrepFailureInterrupted origin (er_ConnID e) (er_ReqID e)))"

definition reduceRepositoryQuarantined :: "'ds State \<Rightarrow> EvRepository \<Rightarrow> 'ds State \<times> 'j Effect list" where
  "reduceRepositoryQuarantined s e = fenced s e (\<lambda>prep.
     if IsSessionAvailable prep then (s, illegal prep (er_ConnID e) (er_ReqID e))
     else advancePrep s prep PrepStageInternalCorruption PrepFailureInternalCorrupt RetryOriginNone
            (er_ConnID e) (er_ReqID e))"

definition reduceRepositoryRetry :: "'ds State \<Rightarrow> EvRepository \<Rightarrow> 'ds State \<times> 'j Effect list" where
  "reduceRepositoryRetry s e = fenced s e (\<lambda>prep.
     if rp_Stage prep \<noteq> PrepStageFailed \<and> rp_Stage prep \<noteq> PrepStageCancelled \<and>
        rp_Stage prep \<noteq> PrepStageInterrupted then
       (s, illegal prep (er_ConnID e) (er_ReqID e))
     else
       (let prep = prep\<lparr>rp_LastOwnedWorkerGeneration := rp_LastOwnedWorkerGeneration prep + 1,
                        rp_FailureCode := PrepFailureNone, rp_Revision := rp_Revision prep + 1\<rparr>;
            (prep, start) =
              (if rp_RetryOrigin prep = RetryOriginLaunch then
                 (prep\<lparr>rp_Stage := PrepStageCloneReady\<rparr>,
                  EffRepositoryLaunchSession (rp_ID prep) (rp_ServerID prep) (rp_Repository prep)
                    (rp_LastOwnedWorkerGeneration prep))
               else
                 (prep\<lparr>rp_Stage := PrepStageConfirmed, rp_CloneDurable := False, rp_ClonePath := ''''\<rparr>,
                  EffRepositoryStartClone (rp_ID prep) (rp_ServerID prep) (rp_Repository prep)
                    (rp_LastOwnedWorkerGeneration prep)));
            prep = prep\<lparr>rp_RetryOrigin := RetryOriginNone\<rparr>
        in (putPreparation s prep,
            [EffRepositoryPersist (rp_ID prep) (rp_Revision prep), start,
             okResp (er_ConnID e) (er_ReqID e) (PreparationReply (prepSnapshot prep))])))"

text \<open>The session record a commit publishes: no frames yet, the command of the event.\<close>

definition repositorySession :: "RepositoryPreparation \<Rightarrow> EvRepository \<Rightarrow> 'ds Session" where
  "repositorySession prep e =
     \<lparr>se_ID = er_SessionID e,
      se_Project = ''github://'' @ rp_ServerID prep @ ''/'' @ gr_Owner (rp_Repository prep) @ ''/'' @
                   gr_Name (rp_Repository prep),
      se_CreatedAt = zero_time, se_Frames = [], se_HeadFrameID = '''', se_MRUFrameIDs = [],
      se_Command = er_Command e, se_LaunchOptions = zero_options, se_Driver = None,
      se_FrameMessaging = None, se_FrameGeneration = 0, se_ResumeCapsule = None, se_EndedAt = None\<rparr>"

definition reduceRepositoryCommitAvailable :: "'ds State \<Rightarrow> EvRepository \<Rightarrow> 'ds State \<times> 'j Effect list" where
  "reduceRepositoryCommitAvailable s e = fenced s e (\<lambda>prep.
     if rp_Stage prep \<noteq> PrepStageCloneReady then (s, illegal prep (er_ConnID e) (er_ReqID e))
     else if \<not> er_CloneDurable e \<or> \<not> er_LaunchSucceeded e then
       (s, rejectPrep (er_ConnID e) (er_ReqID e) PrepFailureIncompleteCommit ''clone and launch evidence required'')
     else if er_SessionID e = '''' \<or> er_ClonePath e = '''' then
       (s, rejectPrep (er_ConnID e) (er_ReqID e) PrepFailureInvalidIdentity ''session and clone path ids required'')
     else if SessionIsAvailableProjection s (er_SessionID e) then
       (s, rejectPrep (er_ConnID e) (er_ReqID e) PrepFailureIllegalTransition ''session already available'')
     else
       (let prep = prep\<lparr>rp_Stage := PrepStageAvailable, rp_SessionID := er_SessionID e,
                        rp_ClonePath := er_ClonePath e, rp_CloneDurable := True, rp_LaunchSucceeded := True,
                        rp_FailureCode := PrepFailureNone, rp_RetryOrigin := RetryOriginNone,
                        rp_Revision := rp_Revision prep + 1\<rparr>;
            s = putPreparation s prep;
            s = s\<lparr>h_Sessions := AList.update (er_SessionID e) (repositorySession prep e) (h_Sessions s)\<rparr>
        in (s, [EffRepositoryPersist (rp_ID prep) (rp_Revision prep), EffBroadcastSessionsChanged,
                okResp (er_ConnID e) (er_ReqID e) (PreparationReply (prepSnapshot prep))])))"

definition reduceRepositoryAbandon :: "'ds State \<Rightarrow> EvRepository \<Rightarrow> 'ds State \<times> 'j Effect list" where
  "reduceRepositoryAbandon s e = fenced s e (\<lambda>prep.
     if rp_Stage prep = PrepStageAvailable then (s, illegal prep (er_ConnID e) (er_ReqID e))
     else
       (let (s, _ :: 'j Effect list) =
              advancePrep s prep PrepStageAbandoned (rp_FailureCode prep) (rp_RetryOrigin prep)
                (er_ConnID e) (er_ReqID e)
        in case FindPreparation s (er_PreparationID e) of
             None \<Rightarrow> (s, [])
           | Some prep \<Rightarrow>
               (s, [EffRepositoryPersist (rp_ID prep) (rp_Revision prep),
                    EffRepositoryStopOwnedWork (rp_ID prep) (rp_LastOwnedWorkerGeneration prep),
                    okResp (er_ConnID e) (er_ReqID e) (PreparationReply (prepSnapshot prep))])))"

definition reduceRepository :: "'ds State \<Rightarrow> EvRepository \<Rightarrow> 'ds State \<times> 'j Effect list" where
  "reduceRepository s e =
     (let kind = er_Kind e
      in if kind = ''create'' then reduceRepositoryCreate s e
         else if kind = ''clone_started'' then reduceRepositoryCloneStarted s e
         else if kind = ''clone_ready'' then reduceRepositoryCloneReady s e
         else if kind = ''failed'' then reduceRepositoryFailed s e
         else if kind = ''cancelled'' then reduceRepositoryCancelled s e
         else if kind = ''interrupted'' then reduceRepositoryInterrupted s e
         else if kind = ''quarantined'' then reduceRepositoryQuarantined s e
         else if kind = ''retry'' then reduceRepositoryRetry s e
         else if kind = ''commit_available'' then reduceRepositoryCommitAvailable s e
         else if kind = ''abandon'' then reduceRepositoryAbandon s e
         else (s, rejectPrep (er_ConnID e) (er_ReqID e) PrepFailureIllegalTransition
                    ''unknown repository event kind''))"

section \<open>Commands\<close>

definition zero_repository :: GitHubRepositoryIdentity where
  "zero_repository = \<lparr>gr_ID = '''', gr_Owner = '''', gr_Name = ''''\<rparr>"

definition reduceRepositoryCreateEvent ::
    "'ds State \<Rightarrow> ConnID \<Rightarrow> string \<Rightarrow> RepositoryCreateParams \<Rightarrow> 'ds State \<times> 'j Effect list" where
  "reduceRepositoryCreateEvent s connID reqID p =
     reduceRepositoryCreate s
       \<lparr>er_ConnID = connID, er_ReqID = reqID, er_Kind = ''create'', er_IntentID = pc_IntentID p,
        er_PreparationID = pc_PreparationID p, er_ServerID = pc_ServerID p,
        er_Repository = pc_Repository p, er_Fingerprint = pc_Fingerprint p, er_ObservedRevision = 0,
        er_ClonePath = '''', er_Code = PrepFailureNone, er_SessionID = '''', er_Command = pc_Command p,
        er_CloneDurable = False, er_LaunchSucceeded = False\<rparr>"

definition reduceRepositoryPreparationEvent ::
    "'ds State \<Rightarrow> ConnID \<Rightarrow> string \<Rightarrow> string \<Rightarrow> 'ds State \<times> 'j Effect list" where
  "reduceRepositoryPreparationEvent s connID reqID preparationID =
     (case FindPreparation s preparationID of
        None \<Rightarrow> (s, rejectPrep connID reqID PrepFailureInvalidIdentity ''preparation not found'')
      | Some prep \<Rightarrow> (s, [okResp connID reqID (PreparationReply (prepSnapshot prep))]))"

end
