(* ===== verification/HostReduce.thy ===== *)
theory HostReduce
  imports HostMessages HostCapsule HostRepo
begin

text \<open>
  The host's reducer (\<open>reduce.go\<close>, \<open>reduce_event.go\<close>,
  \<open>event_dispatch.go\<close>, \<open>reduce_tick.go\<close>, \<open>reduce_job.go\<close>): driver and
  subsystem events, the command table, the tick, job results, and the two dispatchers
  \<open>Reduce\<close> and \<open>reduceQuiescing\<close>. A panic of the source is the value \<open>Panic\<close>.
\<close>

datatype ('ds, 'j) outcome = Panic | Done "'ds State" "'j Effect list"

definition ret :: "'ds State \<times> 'j Effect list \<Rightarrow> ('ds, 'j) outcome" where
  "ret r = Done (fst r) (snd r)"

section \<open>Driver and subsystem events\<close>

definition reduceDriverHook ::
    "('ds, 'j, 'r) Env \<Rightarrow> 'ds State \<Rightarrow> ConnID \<Rightarrow> string \<Rightarrow> string \<Rightarrow> time \<Rightarrow> FrameID \<Rightarrow> string \<Rightarrow>
     'ds State \<times> 'j Effect list" where
  "reduceDriverHook env s connID reqID event timestamp senderID payload =
     (if senderID = '''' then
        (s, [errResp connID reqID ErrCodeInvalidArgument (''driver event requires sender_id: '' @ event)])
      else if findFrame s senderID = None then (s, [errResp connID reqID ErrCodeNotFound ''unknown session''])
      else
        (let (next, rawEffs, ok) = stepDriver env s senderID (DEvHook event timestamp senderID payload)
         in if \<not> ok then (s, [errResp connID reqID ErrCodeInternal ''no driver for session''])
            else
              (let (s, effs) = resolvePushDriverEffects env next rawEffs
               in (s, effs @ [EffPersistSnapshot, EffBroadcastSessionsChanged] @
                      (if connID \<noteq> 0 then [okResp connID reqID BodyNil] else [])))))"

definition maybeResolveHumanInputFromSubsystem ::
    "'ds State \<Rightarrow> EvSubsystem \<Rightarrow> 'ds State \<times> 'j Effect list \<times> bool" where
  "maybeResolveHumanInputFromSubsystem s e =
     (case es_Kind e of
        SubsystemApprovalResolved \<Rightarrow>
          (case sp_Approval (es_Payload e) of
             None \<Rightarrow> (s, [], False)
           | Some a \<Rightarrow>
               (case FindApproval s (sa_ID a) of
                  None \<Rightarrow> (s, [], False)
                | Some (request, _) \<Rightarrow>
                    if ar_Status request \<noteq> ApprovalPending then (s, [], True)
                    else
                      (let request = request\<lparr>ar_Status := ApprovalResolved,
                                              ar_ResolutionReason := ApprovalReasonServer\<rparr>
                       in (putApproval s request, [approvalResolvedBroadcast request], True))))
      | SubsystemQuestionResolved \<Rightarrow>
          (case sp_Question (es_Payload e) of
             None \<Rightarrow> (s, [], False)
           | Some q \<Rightarrow>
               (case FindQuestion s (sq_ID q) of
                  None \<Rightarrow> (s, [], False)
                | Some (request, _) \<Rightarrow>
                    if qr_Status request \<noteq> QuestionPending then (s, [], True)
                    else
                      (let request = request\<lparr>qr_Status := QuestionResolved,
                                              qr_ResolutionReason := QuestionReasonServer\<rparr>
                       in (putQuestion s request, [questionResolvedBroadcast request], True))))
      | _ \<Rightarrow> (s, [], False))"

text \<open>The state and effects of an optional step, kept only when it was handled.\<close>

definition handled ::
    "('ds State \<Rightarrow> 'ds State \<times> 'j Effect list \<times> bool) \<Rightarrow> 'ds State \<times> 'j Effect list \<Rightarrow>
     'ds State \<times> 'j Effect list" where
  "handled f r =
     (let (next, effs, ok) = f (fst r)
      in if ok then (next, snd r @ effs) else r)"

definition reduceSubsystem ::
    "('ds, 'j, 'r) Env \<Rightarrow> 'ds State \<Rightarrow> EvSubsystem \<Rightarrow> 'ds State \<times> 'j Effect list" where
  "reduceSubsystem env s e =
     (if es_FrameID e = '''' then
        (s, [errResp (es_ConnID e) (es_ReqID e) ErrCodeInvalidArgument ''subsystem event requires frame_id''])
      else
        (case findFrame s (es_FrameID e) of
           None \<Rightarrow> (s, [errResp (es_ConnID e) (es_ReqID e) ErrCodeNotFound ''unknown session''])
         | Some (sessID, sess, frameIdx) \<Rightarrow>
             (let frame = se_Frames sess ! frameIdx;
                  targetID = sp_TargetID (es_Payload e);
                  s = (if targetID \<noteq> '''' \<and> targetID \<noteq> sf_TargetID frame
                       then putFrame s sessID sess frameIdx (frame\<lparr>sf_TargetID := targetID\<rparr>) else s);
                  (next, rawEffs, ok) = stepDriver env s (es_FrameID e)
                     (DEvSubsystem (es_Source e) (es_Kind e) (es_Timestamp e) (es_Payload e))
              in if \<not> ok then
                   (s, [errResp (es_ConnID e) (es_ReqID e) ErrCodeInternal ''no driver for session''])
                 else
                   (let r = resolvePushDriverEffects env next rawEffs;
                        r = handled (\<lambda>s. maybeCreateApprovalFromSubsystem s e) r;
                        r = handled (\<lambda>s. maybeCreateQuestionFromSubsystem s e) r;
                        (s, effs) = handled (\<lambda>s. maybeResolveHumanInputFromSubsystem s e) r;
                        s = (if es_Kind e = SubsystemTurnCompleted \<or> es_Kind e = SubsystemApprovalRequested \<or>
                                es_Kind e = SubsystemQuestionRequested
                             then incrementStatusSignal s sessID else s)
                    in (s, effs @ [EffPersistSnapshot, EffBroadcastSessionsChanged] @
                           (if es_ConnID e \<noteq> 0 then [okResp (es_ConnID e) (es_ReqID e) BodyNil] else []))))))"

section \<open>Tick, job results, file changes\<close>

definition tickEvent ::
    "time \<Rightarrow> uint64 \<Rightarrow> nat \<Rightarrow> SessionID \<Rightarrow> 'ds Session \<Rightarrow> bool \<Rightarrow> 'r DriverEvent" where
  "tickEvent now n seq sessID sess watched =
     DEvTick now watched (case rootFrame sess of None \<Rightarrow> '''' | Some frame \<Rightarrow> sf_Project frame) n (of_nat seq)"

definition reduceTick ::
    "('ds, 'j, 'r) Env \<Rightarrow> 'ds State \<Rightarrow> time \<Rightarrow> uint64 \<Rightarrow> 'ds State \<times> 'j Effect list" where
  "reduceTick env s now n =
     (let s = s\<lparr>h_Now := now\<rparr>;
          (s, effs, changed) = stepActiveSessions env s (tickEvent now n);
          effs = effs @ (if n mod 5 = 0 then [EffReconcileWindows] else []);
          (s, capsuleEffs) = maybeEnqueueResumeCapsules env s n;
          (s, aExp) = expirePendingApprovals s now;
          (s, qExp) = expirePendingQuestions s now;
          expired = (aExp \<noteq> [] \<or> qExp \<noteq> [])
      in (s, effs @ capsuleEffs @ aExp @ qExp @
             (if changed \<or> expired then [EffPersistSnapshot, EffBroadcastSessionsChanged] else [])))"

definition reduceJobResult ::
    "('ds, 'j, 'r) Env \<Rightarrow> 'ds State \<Rightarrow> JobID \<Rightarrow> 'r JobResult \<Rightarrow> string option \<Rightarrow> 'ds State \<times> 'j Effect list" where
  "reduceJobResult env s jobID result err =
     (case map_of (h_Jobs s) jobID of
        None \<Rightarrow> (s, [])
      | Some meta \<Rightarrow>
          (let s = s\<lparr>h_Jobs := AList.delete jobID (h_Jobs s)\<rparr>
           in case result of
                CapsuleResult capResult \<Rightarrow> reduceCapsuleJobResult s meta capResult err
              | DriverResult r \<Rightarrow>
                  (let (next, effs, ok) = stepDriver env s (jm_FrameID meta) (DEvJobResult r err (h_Now s))
                   in if \<not> ok then (s, [])
                      else (next, effs @ [EffPersistSnapshot, EffBroadcastSessionsChanged]))))"

definition reduceFileChanged ::
    "('ds, 'j, 'r) Env \<Rightarrow> 'ds State \<Rightarrow> FrameID \<Rightarrow> string \<Rightarrow> 'ds State \<times> 'j Effect list" where
  "reduceFileChanged env s frameID path =
     (if findFrame s frameID = None then (s, [])
      else
        (let (next, effs, ok) = stepDriver env s frameID (DEvFileChanged path)
         in if \<not> ok then (s, [])
            else (next, if effs \<noteq> [] then effs @ [EffPersistSnapshot, EffBroadcastSessionsChanged] else effs)))"

section \<open>The command table\<close>

text \<open>
  \<open>RegisterEvent\<close> wraps a handler with the decoding of its payload; an empty payload is the zero
  value of the parameter type.
\<close>

definition withPayload ::
    "(string \<Rightarrow> string + 'p) \<Rightarrow> 'p \<Rightarrow> 'ds State \<Rightarrow> ConnID \<Rightarrow> string \<Rightarrow> string \<Rightarrow>
     ('p \<Rightarrow> 'ds State \<times> 'j Effect list) \<Rightarrow> 'ds State \<times> 'j Effect list" where
  "withPayload decode zero s connID reqID payload handler =
     (if payload \<noteq> '''' then
        (case decode payload of
           Inl err \<Rightarrow> (s, [errResp connID reqID ErrCodeInvalidArgument (''invalid payload: '' @ err)])
         | Inr p \<Rightarrow> handler p)
      else handler zero)"

definition reduceEvent ::
    "('ds, 'j, 'r) Env \<Rightarrow> 'ds State \<Rightarrow> ConnID \<Rightarrow> string \<Rightarrow> string \<Rightarrow> string \<Rightarrow> ('ds, 'j) outcome" where
  "reduceEvent env s connID reqID event payload =
     (let cd = env_Codec env
      in if event = ''create-session'' then
           ret (withPayload (cd_CreateSession cd) \<lparr>cs_Project = '''', cs_Command = '''', cs_Options = zero_options\<rparr>
                   s connID reqID payload (reduceCreateSession env s connID reqID))
         else if event = ''push-driver'' then
           ret (withPayload (cd_PushDriver cd)
                   \<lparr>pd_SessionID = '''', pd_Project = '''', pd_Command = '''', pd_Options = zero_options, pd_Input = []\<rparr>
                   s connID reqID payload (reducePushDriver env s connID reqID))
         else if event = ''fork-session'' then
           ret (withPayload (cd_ForkSession cd) '''' s connID reqID payload (reduceForkSession env s connID reqID))
         else if event = ''stop-session'' then
           ret (withPayload (cd_StopSession cd) '''' s connID reqID payload (reduceStopSession s connID reqID))
         else if event = ''list-sessions'' then
           ret (withPayload (cd_unit cd) () s connID reqID payload (\<lambda>_. reduceListSessions s connID reqID))
         else if event = ''shutdown'' then
           ret (withPayload (cd_unit cd) () s connID reqID payload (\<lambda>_. reduceShutdown s connID reqID))
         else if event = ''set-head-frame'' then
           ret (withPayload (cd_SetHeadFrame cd) \<lparr>sh_SessionID = '''', sh_FrameID = ''''\<rparr>
                   s connID reqID payload (reduceSetHeadFrame s connID reqID))
         else if event = ''list-session-messages'' then
           ret (withPayload (cd_SessionMessages cd) \<lparr>mp_SessionID = '''', mp_LastReadMessageID = ''''\<rparr>
                   s connID reqID payload (reduceListSessionMessages s connID reqID))
         else if event = ''read-session-messages'' then
           ret (withPayload (cd_SessionMessages cd) \<lparr>mp_SessionID = '''', mp_LastReadMessageID = ''''\<rparr>
                   s connID reqID payload (reduceReadSessionMessages s connID reqID))
         else if event = ''create-repository-session'' then
           ret (withPayload (cd_RepositoryCreate cd)
                   \<lparr>pc_IntentID = '''', pc_PreparationID = '''', pc_ServerID = '''', pc_Repository = zero_repository,
                    pc_Fingerprint = '''', pc_Command = ''''\<rparr>
                   s connID reqID payload (reduceRepositoryCreateEvent s connID reqID))
         else if event = ''get-repository-preparation'' then
           ret (withPayload (cd_RepositoryPreparation cd) '''' s connID reqID payload
                   (reduceRepositoryPreparationEvent s connID reqID))
         else if event = ''list-resume-capsules'' then
           ret (withPayload (cd_unit cd) () s connID reqID payload (\<lambda>_. reduceListResumeCapsules s connID reqID))
         else if event = ''flag-resume-capsule'' then
           ret (withPayload (cd_ResumeCapsuleFlag cd) \<lparr>fp_SessionID = '''', fp_Flagged = False\<rparr>
                   s connID reqID payload (reduceFlagResumeCapsule s connID reqID))
         else Panic)"

definition IsRegisteredEvent :: "string \<Rightarrow> bool" where
  "IsRegisteredEvent name \<longleftrightarrow>
     name \<in> set [''create-session'', ''push-driver'', ''fork-session'', ''stop-session'', ''list-sessions'',
       ''shutdown'', ''set-head-frame'', ''list-session-messages'', ''read-session-messages'',
       ''create-repository-session'', ''get-repository-preparation'', ''list-resume-capsules'',
       ''flag-resume-capsule'']"

section \<open>The dispatchers\<close>

definition shuttingDown :: "'ds State \<Rightarrow> ConnID \<Rightarrow> string \<Rightarrow> ('ds, 'j) outcome" where
  "shuttingDown s connID reqID = Done s [errResp connID reqID ErrCodeUnavailable ''runtime is shutting down'']"

fun reduceQuiescing :: "('ds, 'j, 'r) Env \<Rightarrow> 'ds State \<Rightarrow> 'r Event \<Rightarrow> ('ds, 'j) outcome" where
  "reduceQuiescing env s (EvShutdownSaveBarrierSucceeded tx) = ret (reduceShutdownSaveSucceeded s tx)"
| "reduceQuiescing env s (EvShutdownSaveBarrierFailed tx err) = ret (reduceShutdownSaveFailed s tx err)"
| "reduceQuiescing env s (EvShutdownCleanupFinished tx out) = ret (reduceShutdownCleanupFinished s tx out)"
| "reduceQuiescing env s (EvConnOpened c) = ret (reduceConnOpened s c)"
| "reduceQuiescing env s (EvConnClosed c) = ret (reduceConnClosed s c)"
| "reduceQuiescing env s (EvCmdDriverList c r) = ret (reduceDriverList s c r)"
| "reduceQuiescing env s (EvCmdSurfaceReadText c r sid n) = ret (reduceSurfaceReadText s c r sid n)"
| "reduceQuiescing env s (EvCmdSubscribe c r fs) = ret (reduceSubscribe s c r fs)"
| "reduceQuiescing env s (EvCmdUnsubscribe c r) = ret (reduceUnsubscribe s c r)"
| "reduceQuiescing env s (EvCmdSurfaceUnsubscribe c r sid sub) = ret (reduceSurfaceUnsubscribe s c r sid sub)"
| "reduceQuiescing env s (EvEvent c r event payload) =
     (if event = ''shutdown'' \<or> event = ''list-sessions'' \<or> event = ''list-session-messages''
      then reduceEvent env s c r event payload
      else shuttingDown s c r)"
| "reduceQuiescing env s (EvCmdSurfaceSubscribe c r sid sub w h) = shuttingDown s c r"
| "reduceQuiescing env s (EvCmdSurfaceSendText c r sid t) = shuttingDown s c r"
| "reduceQuiescing env s (EvCmdSurfaceSendKey c r sid k) = shuttingDown s c r"
| "reduceQuiescing env s (EvCmdSurfaceResize c r sid w h) = shuttingDown s c r"
| "reduceQuiescing env s (EvCmdSurfaceWriteRaw c r sid d) = shuttingDown s c r"
| "reduceQuiescing env s (EvCmdApprovalRespond c r sid a d cl) = shuttingDown s c r"
| "reduceQuiescing env s (EvCmdApprovalCancel c r sid a cl) = shuttingDown s c r"
| "reduceQuiescing env s (EvCmdQuestionRespond c r sid q a cl) = shuttingDown s c r"
| "reduceQuiescing env s (EvCmdQuestionCancel c r sid q cl) = shuttingDown s c r"
| "reduceQuiescing env s (EvDriverEvent c r event t f p) = (if c \<noteq> 0 then shuttingDown s c r else Done s [])"
| "reduceQuiescing env s (EvSubsystemEvent e) =
     (if es_ConnID e \<noteq> 0 then shuttingDown s (es_ConnID e) (es_ReqID e) else Done s [])"
| "reduceQuiescing env s (EvFrameSpawnedEvent e) = Done s []"
| "reduceQuiescing env s (EvSpawnFailed sid f err c r) = Done s []"
| "reduceQuiescing env s (EvFrameVanished f) = Done s []"
| "reduceQuiescing env s (EvFrameCommandExited f c) = Done s []"
| "reduceQuiescing env s (EvTick t n) = Done s []"
| "reduceQuiescing env s (EvJobResult j r err) = Done s []"
| "reduceQuiescing env s (EvFileChanged f p) = Done s []"
| "reduceQuiescing env s (EvFrameOscEvent e) = Done s []"
| "reduceQuiescing env s (EvFramePrompt f ph c t) = Done s []"
| "reduceQuiescing env s (EvRepositoryEvent e) = Panic"

fun reduceRunning :: "('ds, 'j, 'r) Env \<Rightarrow> 'ds State \<Rightarrow> 'r Event \<Rightarrow> ('ds, 'j) outcome" where
  "reduceRunning env s (EvEvent c r event payload) = reduceEvent env s c r event payload"
| "reduceRunning env s (EvDriverEvent c r event t f p) = ret (reduceDriverHook env s c r event t f p)"
| "reduceRunning env s (EvSubsystemEvent e) = ret (reduceSubsystem env s e)"
| "reduceRunning env s (EvFrameSpawnedEvent e) = ret (reduceFrameSpawned env s e)"
| "reduceRunning env s (EvSpawnFailed sid f err c r) = ret (reduceSpawnFailed s f err c r)"
| "reduceRunning env s (EvFrameVanished f) = ret (reduceFrameVanished s f)"
| "reduceRunning env s (EvFrameCommandExited f c) = ret (reduceFrameCommandExited env s f c)"
| "reduceRunning env s (EvTick t n) = ret (reduceTick env s t n)"
| "reduceRunning env s (EvJobResult j r err) = ret (reduceJobResult env s j r err)"
| "reduceRunning env s (EvFileChanged f p) = ret (reduceFileChanged env s f p)"
| "reduceRunning env s (EvFrameOscEvent e) = ret (reduceFrameOsc env s e)"
| "reduceRunning env s (EvFramePrompt f ph c t) = ret (reduceFramePrompt env s f ph c t)"
| "reduceRunning env s (EvShutdownSaveBarrierSucceeded tx) = ret (reduceShutdownSaveSucceeded s tx)"
| "reduceRunning env s (EvShutdownSaveBarrierFailed tx err) = ret (reduceShutdownSaveFailed s tx err)"
| "reduceRunning env s (EvShutdownCleanupFinished tx out) = ret (reduceShutdownCleanupFinished s tx out)"
| "reduceRunning env s (EvConnOpened c) = ret (reduceConnOpened s c)"
| "reduceRunning env s (EvConnClosed c) = ret (reduceConnClosed s c)"
| "reduceRunning env s (EvCmdSubscribe c r fs) = ret (reduceSubscribe s c r fs)"
| "reduceRunning env s (EvCmdUnsubscribe c r) = ret (reduceUnsubscribe s c r)"
| "reduceRunning env s (EvCmdSurfaceReadText c r sid n) = ret (reduceSurfaceReadText s c r sid n)"
| "reduceRunning env s (EvCmdSurfaceSendText c r sid t) = ret (reduceSurfaceSendText s c r sid t)"
| "reduceRunning env s (EvCmdSurfaceSendKey c r sid k) = ret (reduceSurfaceSendKey s c r sid k)"
| "reduceRunning env s (EvCmdDriverList c r) = ret (reduceDriverList s c r)"
| "reduceRunning env s (EvCmdSurfaceSubscribe c r sid sub w h) = ret (reduceSurfaceSubscribe s c r sid sub w h)"
| "reduceRunning env s (EvCmdSurfaceUnsubscribe c r sid sub) = ret (reduceSurfaceUnsubscribe s c r sid sub)"
| "reduceRunning env s (EvCmdSurfaceResize c r sid w h) = ret (reduceSurfaceResize s c r sid w h)"
| "reduceRunning env s (EvCmdSurfaceWriteRaw c r sid d) = ret (reduceSurfaceWriteRaw s c r sid d)"
| "reduceRunning env s (EvCmdApprovalRespond c r sid a d cl) = ret (reduceApprovalRespond s c r a d cl)"
| "reduceRunning env s (EvCmdApprovalCancel c r sid a cl) = ret (reduceApprovalCancel s c r a cl)"
| "reduceRunning env s (EvCmdQuestionRespond c r sid q a cl) = ret (reduceQuestionRespond s c r q a cl)"
| "reduceRunning env s (EvCmdQuestionCancel c r sid q cl) = ret (reduceQuestionCancel s c r q cl)"
| "reduceRunning env s (EvRepositoryEvent e) = ret (reduceRepository s e)"

definition Reduce :: "('ds, 'j, 'r) Env \<Rightarrow> 'ds State \<Rightarrow> 'r Event \<Rightarrow> ('ds, 'j) outcome" where
  "Reduce env s ev =
     (if h_Lifecycle s = LifecycleQuiescing then reduceQuiescing env s ev else reduceRunning env s ev)"

end
