(* ===== verification/HostCore.thy ===== *)
theory HostCore
  imports HostReduce
begin

text \<open>
  What the driver machinery may do: a driver step and the effects it returns touch sessions, jobs and
  id draws and nothing else of the state. The lemmas here are the frame conditions of every handler
  that runs a driver.
\<close>

section \<open>Fields no driver step writes\<close>

definition core_eq :: "'ds State \<Rightarrow> 'ds State \<Rightarrow> bool" where
  "core_eq s s' \<longleftrightarrow>
     h_Lifecycle s' = h_Lifecycle s \<and> h_Shutdown s' = h_Shutdown s \<and> h_NextShutdownID s' = h_NextShutdownID s \<and>
     h_Subscribers s' = h_Subscribers s \<and> h_SurfaceSubs s' = h_SurfaceSubs s \<and> h_NextConnID s' = h_NextConnID s \<and>
     h_Now s' = h_Now s \<and> h_Aliases s' = h_Aliases s \<and> h_DefaultCommand s' = h_DefaultCommand s \<and>
     h_Features s' = h_Features s \<and> h_PendingApprovals s' = h_PendingApprovals s \<and>
     h_PendingQuestions s' = h_PendingQuestions s \<and> h_StatusEpoch s' = h_StatusEpoch s \<and>
     h_StatusSignals s' = h_StatusSignals s \<and> h_CreationIntents s' = h_CreationIntents s \<and>
     h_RepositoryPreparations s' = h_RepositoryPreparations s \<and>
     h_ResumeCapsulesEnabled s' = h_ResumeCapsulesEnabled s \<and> h_CapsuleGenerating s' = h_CapsuleGenerating s"

lemma core_eq_refl [simp]: "core_eq s s"
  by (simp add: core_eq_def)

lemma core_eq_trans: "core_eq s t \<Longrightarrow> core_eq t u \<Longrightarrow> core_eq s u"
  by (simp add: core_eq_def)

lemma core_eq_sessions [simp]: "core_eq s (t\<lparr>h_Sessions := m\<rparr>) = core_eq s t"
  by (simp add: core_eq_def)

lemma core_eq_jobs [simp]:
  "core_eq s (t\<lparr>h_Jobs := j\<rparr>) = core_eq s t" "core_eq s (t\<lparr>h_NextJobID := n\<rparr>) = core_eq s t"
  "core_eq s (t\<lparr>h_RandPos := k\<rparr>) = core_eq s t"
  by (simp_all add: core_eq_def)

lemma core_eq_putSession [simp]: "core_eq s (putSession t sid sess) = core_eq s t"
  by (simp add: putSession_def)

lemma core_eq_putFrame [simp]: "core_eq s (putFrame t sid sess i f) = core_eq s t"
  by (simp add: putFrame_def)

section \<open>Effects of drivers\<close>

text \<open>The effects a driver may return, and those of a driver's step after frames were pushed.\<close>

fun driver_effect :: "'j Effect \<Rightarrow> bool" where
  "driver_effect (EffStartJob _ _) = True"
| "driver_effect (EffEventLogAppend _ _) = True"
| "driver_effect (EffToolLogAppend _ _ _) = True"
| "driver_effect (EffWatchFile _ _ _) = True"
| "driver_effect (EffPushDriver _ _) = True"
| "driver_effect (EffRecordNotification _ _ _ _ _) = True"
| "driver_effect _ = False"

fun routine_effect :: "'j Effect \<Rightarrow> bool" where
  "routine_effect (EffSpawnFrame _ _ _ _ _ _) = True"
| "routine_effect eff = driver_effect eff"

lemma driver_routine [simp]: "driver_effect eff \<Longrightarrow> routine_effect eff"
  by (cases eff) auto

text \<open>
  The registered drivers of the host return driver effects only. This is a hypothesis about the
  registry, which is filled at start-up.
\<close>

definition drivers_ok :: "('ds, 'j, 'r) Env \<Rightarrow> bool" where
  "drivers_ok env \<longleftrightarrow>
     (\<forall>command drv. GetDriver (env_Registry env) command = Some drv \<longrightarrow>
        (\<forall>ds ctx ev. list_all driver_effect (snd (dr_Step drv ds ctx ev))) \<and>
        (\<forall>boot ds ctx t. dr_BootstrapSessionStart drv = Some boot \<longrightarrow>
           list_all driver_effect (snd (boot ds ctx t))))"

lemma drivers_ok_step:
  "drivers_ok env \<Longrightarrow> GetDriver (env_Registry env) command = Some drv \<Longrightarrow> dr_Step drv ds ctx ev = (ds', effs) \<Longrightarrow>
     list_all driver_effect effs"
  unfolding drivers_ok_def by (metis snd_conv)

lemma drivers_ok_boot:
  "drivers_ok env \<Longrightarrow> GetDriver (env_Registry env) command = Some drv \<Longrightarrow>
     dr_BootstrapSessionStart drv = Some boot \<Longrightarrow> boot ds ctx t = (ds', effs) \<Longrightarrow> list_all driver_effect effs"
  unfolding drivers_ok_def by (metis snd_conv)

section \<open>Driver steps\<close>

text \<open>A relation between states is a \<^emph>\<open>driver frame\<close> when the writes of driver steps keep it.\<close>

definition shape :: "'ds Session \<Rightarrow> SessionID \<times> FrameID list \<times> FrameID \<times> FrameID list \<times> time option" where
  "shape sess = (se_ID sess, map sf_ID (se_Frames sess), se_HeadFrameID sess, se_MRUFrameIDs sess, se_EndedAt sess)"

definition shapes :: "'ds State \<Rightarrow> SessionID \<Rightarrow> (SessionID \<times> FrameID list \<times> FrameID \<times> FrameID list \<times> time option) option" where
  "shapes s sid = map_option shape (map_of (h_Sessions s) sid)"

lemma frame_index_Some: "frame_index fs i = Some n \<Longrightarrow> n < length fs \<and> sf_ID (fs ! n) = i"
  by (induction fs arbitrary: n) (auto split: if_splits)

lemma frame_index_None: "frame_index fs i = None \<longleftrightarrow> i \<notin> sf_ID ` set fs"
  by (induction fs) auto

lemma find_in_sessions_Some:
  "wf_map m \<Longrightarrow> find_in_sessions m i = Some (sid, sess, n) \<Longrightarrow>
     map_of m sid = Some sess \<and> n < length (se_Frames sess) \<and> sf_ID (se_Frames sess ! n) = i"
proof (induction m)
  case (Cons p m)
  then show ?case
    by (cases p) (auto simp: findFrameIndex_def map_of_eq_None_iff[symmetric] split: option.splits
        dest!: frame_index_Some map_of_SomeD intro: rev_image_eqI)
qed simp

lemma findFrame_Some:
  assumes "wf_map (h_Sessions s)" and "findFrame s i = Some (sid, sess, n)"
  shows "map_of (h_Sessions s) sid = Some sess" and "n < length (se_Frames sess)"
    and "sf_ID (se_Frames sess ! n) = i"
  using find_in_sessions_Some assms unfolding findFrame_def by blast+

lemma shape_update_frame:
  "n < length (se_Frames sess) \<Longrightarrow> sf_ID f = sf_ID (se_Frames sess ! n) \<Longrightarrow>
     shape (sess\<lparr>se_Frames := (se_Frames sess)[n := f]\<rparr>) = shape sess"
  by (simp add: shape_def map_update) (metis list_update_id map_update)

lemma shapes_putFrame:
  assumes "map_of (h_Sessions s) sid = Some sess" and "n < length (se_Frames sess)"
    and "sf_ID f = sf_ID (se_Frames sess ! n)"
  shows "shapes (putFrame s sid sess n f) = shapes s"
  using assms shape_update_frame[OF assms(2,3)] by (auto simp: shapes_def putFrame_def)

lemma wf_putFrame [simp]: "wf_map (h_Sessions s) \<Longrightarrow> wf_map (h_Sessions (putFrame s sid sess n f))"
  by (simp add: putFrame_def)

lemma postProcessEffect_frame:
  assumes "postProcessEffect s sid fid eff = (eff', s')"
  shows "core_eq s s'" and "h_Sessions s' = h_Sessions s" and "h_RandPos s' = h_RandPos s"
    and "driver_effect eff' = driver_effect eff"
  using assms by (auto simp: postProcessEffect_def Let_def split: Effect.splits)

lemma postProcessEffects_frame:
  "postProcessEffects s sid fid effs = (s', effs') \<Longrightarrow>
     core_eq s s' \<and> h_Sessions s' = h_Sessions s \<and> h_RandPos s' = h_RandPos s \<and>
     list_all driver_effect effs' = list_all driver_effect effs"
proof (induction effs arbitrary: s s' effs')
  case (Cons eff effs)
  obtain p s1 where p: "postProcessEffect s sid fid eff = (p, s1)" by fastforce
  obtain s2 out where r: "postProcessEffects s1 sid fid effs = (s2, out)" by fastforce
  show ?case using Cons.IH[OF r] postProcessEffect_frame[OF p] Cons.prems p r
    by (auto intro: core_eq_trans)
qed simp

lemma shapes_cong: "h_Sessions s' = h_Sessions s \<Longrightarrow> shapes s' = shapes s"
  by (simp add: shapes_def fun_eq_iff)

lemma stepDriver_frame:
  assumes "stepDriver env s fid ev = (s', effs, ok)" and "wf_map (h_Sessions s)"
  shows "core_eq s s'" and "wf_map (h_Sessions s')" and "shapes s' = shapes s" and "h_RandPos s' = h_RandPos s"
    and "drivers_ok env \<Longrightarrow> list_all driver_effect effs" and "\<not> ok \<Longrightarrow> s' = s \<and> effs = []"
proof -
  consider (none) "s' = s" "effs = []" "ok = False"
    | (step) sid sess n drv ds' raw where "findFrame s fid = Some (sid, sess, n)"
        "GetDriver (env_Registry env) (sf_Command (se_Frames sess ! n)) = Some drv"
        "dr_Step drv (case sf_Driver (se_Frames sess ! n) of None \<Rightarrow> dr_NewState drv (h_Now s) | Some ds \<Rightarrow> ds)
           (frameContext (se_Frames sess ! n) (n = 0)) ev = (ds', raw)"
        "postProcessEffects (putFrame s sid sess n ((se_Frames sess ! n)\<lparr>sf_Driver := Some ds'\<rparr>)) sid fid raw
           = (s', effs)" "ok"
    using assms(1) by (auto simp: stepDriver_def Let_def split: option.splits prod.splits)
  then have "core_eq s s' \<and> wf_map (h_Sessions s') \<and> shapes s' = shapes s \<and> h_RandPos s' = h_RandPos s \<and>
    (drivers_ok env \<longrightarrow> list_all driver_effect effs) \<and> (\<not> ok \<longrightarrow> s' = s \<and> effs = [])"
  proof cases
    case none
    then show ?thesis using assms(2) by simp
  next
    case step
    note f = findFrame_Some[OF assms(2) step(1)]
    define t where "t = putFrame s sid sess n ((se_Frames sess ! n)\<lparr>sf_Driver := Some ds'\<rparr>)"
    have "shapes t = shapes s" unfolding t_def using f by (simp add: shapes_putFrame)
    moreover have "wf_map (h_Sessions t)" "core_eq s t" "h_RandPos t = h_RandPos s"
      unfolding t_def using assms(2) by (simp_all add: putFrame_def)
    moreover note postProcessEffects_frame[OF step(4)[folded t_def]]
    ultimately show ?thesis using step(5) drivers_ok_step[OF _ step(2,3)] shapes_cong[of s' t]
      by (auto intro: core_eq_trans)
  qed
  then show "core_eq s s'" "wf_map (h_Sessions s')" "shapes s' = shapes s" "h_RandPos s' = h_RandPos s"
    "drivers_ok env \<Longrightarrow> list_all driver_effect effs" "\<not> ok \<Longrightarrow> s' = s \<and> effs = []"
    by blast+
qed


lemma bootstrap_frame:
  assumes "bootstrapDriverSessionStart env s fid = (s', effs, ok)" and "wf_map (h_Sessions s)"
  shows "core_eq s s'" and "wf_map (h_Sessions s')" and "shapes s' = shapes s" and "h_RandPos s' = h_RandPos s"
    and "drivers_ok env \<Longrightarrow> list_all driver_effect effs"
proof -
  consider (none) "s' = s" "effs = []"
    | (step) sid sess drv boot ds' raw where "findFrame s fid = Some (sid, sess, 0)"
        "GetDriver (env_Registry env) (sf_Command (se_Frames sess ! 0)) = Some drv"
        "dr_BootstrapSessionStart drv = Some boot"
        "boot (sf_Driver (se_Frames sess ! 0)) (frameContext (se_Frames sess ! 0) True) (h_Now s) = (ds', raw)"
        "postProcessEffects (putFrame s sid sess 0 ((se_Frames sess ! 0)\<lparr>sf_Driver := Some ds'\<rparr>)) sid fid raw
           = (s', effs)"
    using assms(1)
    by (auto simp: bootstrapDriverSessionStart_def Let_def split: option.splits prod.splits if_splits)
  then have "core_eq s s' \<and> wf_map (h_Sessions s') \<and> shapes s' = shapes s \<and> h_RandPos s' = h_RandPos s \<and>
    (drivers_ok env \<longrightarrow> list_all driver_effect effs)"
  proof cases
    case none
    then show ?thesis using assms(2) by simp
  next
    case step
    note f = findFrame_Some[OF assms(2) step(1)]
    define t where "t = putFrame s sid sess 0 ((se_Frames sess ! 0)\<lparr>sf_Driver := Some ds'\<rparr>)"
    have "shapes t = shapes s" unfolding t_def using f by (simp add: shapes_putFrame)
    moreover have "wf_map (h_Sessions t)" "core_eq s t" "h_RandPos t = h_RandPos s"
      unfolding t_def using assms(2) by (simp_all add: putFrame_def)
    moreover note postProcessEffects_frame[OF step(5)[folded t_def]]
    ultimately show ?thesis using drivers_ok_boot[OF _ step(2,3,4)] shapes_cong[of s' t]
      by (auto intro: core_eq_trans)
  qed
  then show "core_eq s s'" "wf_map (h_Sessions s')" "shapes s' = shapes s" "h_RandPos s' = h_RandPos s"
    "drivers_ok env \<Longrightarrow> list_all driver_effect effs"
    by blast+
qed

text \<open>The outcome of any sequence of driver steps.\<close>

definition driver_run ::
    "('ds, 'j, 'r) Env \<Rightarrow> 'ds State \<Rightarrow> 'ds State \<Rightarrow> 'j Effect list \<Rightarrow> bool" where
  "driver_run env s s' effs \<longleftrightarrow>
     core_eq s s' \<and> wf_map (h_Sessions s') \<and> shapes s' = shapes s \<and> h_RandPos s' = h_RandPos s \<and>
     (drivers_ok env \<longrightarrow> list_all driver_effect effs)"

lemma driver_run_step:
  assumes "stepDriver env s fid ev = (s', effs, ok)" and "wf_map (h_Sessions s)"
  shows "driver_run env s s' effs"
  using stepDriver_frame[OF assms] by (simp add: driver_run_def)

lemma driver_run_boot:
  assumes "bootstrapDriverSessionStart env s fid = (s', effs, ok)" and "wf_map (h_Sessions s)"
  shows "driver_run env s s' effs"
  using bootstrap_frame[OF assms] by (simp add: driver_run_def)

lemma driver_run_refl [simp]: "wf_map (h_Sessions s) \<Longrightarrow> driver_run env s s []"
  by (simp add: driver_run_def)

lemma driver_run_trans:
  "driver_run env s t effs \<Longrightarrow> driver_run env t u effs' \<Longrightarrow> driver_run env s u (effs @ effs')"
  by (auto simp: driver_run_def intro: core_eq_trans)

lemma stepSessions_run:
  "stepSessions env makeEv n ids s = (s', effs, changed) \<Longrightarrow> wf_map (h_Sessions s) \<Longrightarrow> driver_run env s s' effs"
proof (induction ids arbitrary: n s s' effs changed)
  case (Cons sid ids)
  show ?case
  proof (cases "\<exists>sess frame drv. map_of (h_Sessions s) sid = Some sess \<and> rootFrame sess = Some frame \<and>
      GetDriver (env_Registry env) (sf_Command frame) = Some drv")
    case False
    then have "stepSessions env makeEv n ids s = (s', effs, changed)"
      using Cons.prems(1) by (auto split: option.splits)
    then show ?thesis using Cons.IH Cons.prems(2) by blast
  next
    case True
    then obtain sess frame drv where sess: "map_of (h_Sessions s) sid = Some sess" "rootFrame sess = Some frame"
      "GetDriver (env_Registry env) (sf_Command frame) = Some drv" by blast
    obtain t e1 ok where st: "stepDriver env s (sf_ID frame) (makeEv n sid sess (sessionWatched s sid)) = (t, e1, ok)"
      by (metis prod_cases3)
    show ?thesis
    proof (cases ok)
      case False
      then have "stepSessions env makeEv (Suc n) ids s = (s', effs, changed)"
        using Cons.prems(1) sess st by simp
      then show ?thesis using Cons.IH Cons.prems(2) by blast
    next
      case True
      obtain u e2 c2 where rest: "stepSessions env makeEv (Suc n) ids t = (u, e2, c2)" by (metis prod_cases3)
      have "s' = u" "effs = e1 @ e2" using Cons.prems(1) sess st rest True by (simp_all add: Let_def)
      moreover have r1: "driver_run env s t e1" using driver_run_step[OF st Cons.prems(2)] .
      moreover have "driver_run env t u e2" using Cons.IH[OF rest] r1 by (simp add: driver_run_def)
      ultimately show ?thesis using driver_run_trans by blast
    qed
  qed
qed simp

lemma stepActiveSessions_run:
  "stepActiveSessions env s makeEv = (s', effs, changed) \<Longrightarrow> wf_map (h_Sessions s) \<Longrightarrow> driver_run env s s' effs"
  using stepSessions_run by (auto simp: stepActiveSessions_def split: if_splits)

section \<open>Frames pushed onto sessions\<close>

text \<open>
  The shape of a session: its id is its key, its head is one of its frames, and the recently used
  list holds distinct frames of the session, sixteen at most.
\<close>

type_synonym session_shape = "SessionID \<times> FrameID list \<times> FrameID \<times> FrameID list \<times> time option"

definition shape_ok :: "SessionID \<Rightarrow> session_shape \<Rightarrow> bool" where
  "shape_ok sid sh \<longleftrightarrow>
     (case sh of (i, ids, head, mru, ended) \<Rightarrow>
        i = sid \<and> (if ids = [] then head = '''' else head \<in> set ids) \<and> set mru \<subseteq> set ids \<and>
        distinct mru \<and> length mru \<le> 16)"

definition sessions_ok :: "'ds State \<Rightarrow> bool" where
  "sessions_ok s \<longleftrightarrow> wf_map (h_Sessions s) \<and> (\<forall>sid. pred_option (shape_ok sid) (shapes s sid))"

definition live_of :: "(SessionID \<Rightarrow> session_shape option) \<Rightarrow> FrameID set" where
  "live_of m = (\<Union>sh \<in> ran m. set (fst (snd sh)))"

definition live_frames :: "'ds State \<Rightarrow> FrameID set" where
  "live_frames s = live_of (shapes s)"

lemma live_of_upd: "live_of (m(k \<mapsto> x)) = set (fst (snd x)) \<union> live_of (m(k := None))"
  by (auto simp: live_of_def ran_def)

lemma live_of_split: "m k = Some x \<Longrightarrow> live_of m = set (fst (snd x)) \<union> live_of (m(k := None))"
  by (metis fun_upd_triv live_of_upd)

lemma driver_run_sessions:
  "driver_run env s s' effs \<Longrightarrow> sessions_ok s \<Longrightarrow> sessions_ok s' \<and> live_frames s' = live_frames s"
  by (simp add: driver_run_def sessions_ok_def live_frames_def)

lemma shapes_putSession: "shapes (putSession s sid sess) = (shapes s)(sid \<mapsto> shape sess)"
  by (auto simp: shapes_def putSession_def)

lemma wf_putSession [simp]: "wf_map (h_Sessions s) \<Longrightarrow> wf_map (h_Sessions (putSession s sid sess))"
  by (simp add: putSession_def)

lemma sessions_ok_put:
  "sessions_ok s \<Longrightarrow> shape_ok sid (shape sess) \<Longrightarrow> sessions_ok (putSession s sid sess)"
  by (simp add: sessions_ok_def shapes_putSession)

lemma sessions_ok_get:
  "sessions_ok s \<Longrightarrow> map_of (h_Sessions s) sid = Some sess \<Longrightarrow> shape_ok sid (shape sess)"
  unfolding sessions_ok_def shapes_def by (metis option.pred_inject(2) option.simps(9))

lemma live_frames_put:
  "live_frames (putSession s sid sess) = sf_ID ` set (se_Frames sess) \<union> live_of ((shapes s)(sid := None))"
  by (simp add: live_frames_def shapes_putSession live_of_upd shape_def)

lemma live_frames_split:
  "map_of (h_Sessions s) sid = Some sess \<Longrightarrow>
     live_frames s = sf_ID ` set (se_Frames sess) \<union> live_of ((shapes s)(sid := None))"
  using live_of_split[of "shapes s" sid "shape sess"] by (simp add: live_frames_def shapes_def shape_def)

lemma live_of_mono: "live_of (m(k := None)) \<subseteq> live_of m"
  by (auto simp: live_of_def ran_def split: if_splits)

end
