(* ===== verification/HostHuman.thy ===== *)
theory HostHuman
  imports HostReduce
begin

text \<open>
  The lifecycle of human-input requests. Approvals and questions are two fields of the state that hold
  a store of requests; what the loops over such a store do is proved once for a field of a state and
  used for both.
\<close>

section \<open>A field of a state\<close>

locale state_field =
  fixes get :: "'st \<Rightarrow> 'f"
    and set_to :: "'f \<Rightarrow> 'st \<Rightarrow> 'st"
  assumes get_set: "get (set_to m s) = m"
    and set_get: "set_to (get s) s = s"
    and set_set: "set_to m (set_to n s) = set_to m s"
begin

lemma foldl_field: "foldl (\<lambda>s x. set_to (f (get s) x) s) s xs = set_to (foldl f (get s) xs) s"
  by (induction xs arbitrary: s) (simp_all add: get_set set_get set_set)

lemma each_field:
  assumes "\<And>s x. g s x = (set_to (f (get s) x) s, h x)"
  shows "each g xs s = (set_to (foldl f (get s) xs) s, concat (map h xs))"
  using each_split[of g "\<lambda>s x. set_to (f (get s) x) s" h, OF assms] foldl_field by simp

end

interpretation approvals: state_field h_PendingApprovals "\<lambda>m s. s\<lparr>h_PendingApprovals := m\<rparr>"
  by unfold_locales simp_all

interpretation questions: state_field h_PendingQuestions "\<lambda>m s. s\<lparr>h_PendingQuestions := m\<rparr>"
  by unfold_locales simp_all

section \<open>The lifecycle of a request\<close>

text \<open>
  How a request may differ between two states: it may appear, it may be reaped, a pending request may
  be rewritten by a step that keeps its captured fields, a terminal one is never rewritten.
\<close>

fun request_step :: "('r \<Rightarrow> bool) \<Rightarrow> ('r \<Rightarrow> 'c) \<Rightarrow> ('r \<times> 's) option \<Rightarrow> ('r \<times> 's) option \<Rightarrow> bool" where
  "request_step pending captured (Some (r, sid)) (Some (r', sid')) =
     (sid' = sid \<and> captured r' = captured r \<and> (pending r \<or> r' = r))"
| "request_step pending captured old new = True"

lemma request_step_refl [simp]: "request_step pending captured x x"
  by (cases x) auto

lemma request_step_None [simp]:
  "request_step pending captured None x" "request_step pending captured x None"
  by (cases x; simp)+

text \<open>
  The driver that holds a request is owed one reply when the request leaves the pending state: it was
  answered, cancelled, expired or reaped, or it was created already answered. A request that was
  resolved on the server side needs no reply.
\<close>

fun owed :: "('r \<Rightarrow> bool) \<Rightarrow> ('r \<Rightarrow> bool) \<Rightarrow> ('r \<times> 's) option \<Rightarrow> ('r \<times> 's) option \<Rightarrow> bool" where
  "owed pending server (Some (r, _)) None = pending r"
| "owed pending server (Some (r, _)) (Some (r', _)) = (pending r \<and> \<not> pending r' \<and> \<not> server r')"
| "owed pending server None (Some (r', _)) = (\<not> pending r')"
| "owed pending server None None = False"

lemma owed_refl [simp]: "owed pending server x x = False"
  by (cases x) auto

definition count_replies :: "('k \<Rightarrow> 'e \<Rightarrow> bool) \<Rightarrow> 'k \<Rightarrow> 'e list \<Rightarrow> nat" where
  "count_replies reply i effs = length (filter (reply i) effs)"

lemma count_replies_simps [simp]:
  "count_replies reply i [] = 0"
  "count_replies reply i (e # effs) = (if reply i e then 1 else 0) + count_replies reply i effs"
  "count_replies reply i (xs @ ys) = count_replies reply i xs + count_replies reply i ys"
  by (simp_all add: count_replies_def)

definition requests_ok :: "('r \<Rightarrow> 's) \<Rightarrow> ('r \<Rightarrow> string) \<Rightarrow> ('s, string, 'r) nested \<Rightarrow> bool" where
  "requests_ok sess rid m \<longleftrightarrow> store_ok sess rid m \<and> find_nested m '''' = None"

definition requests_evolve ::
    "('r \<Rightarrow> 's) \<Rightarrow> ('r \<Rightarrow> string) \<Rightarrow> ('r \<Rightarrow> bool) \<Rightarrow> ('r \<Rightarrow> bool) \<Rightarrow> ('r \<Rightarrow> 'c) \<Rightarrow> (string \<Rightarrow> 'e \<Rightarrow> bool) \<Rightarrow>
     ('s, string, 'r) nested \<Rightarrow> ('s, string, 'r) nested \<Rightarrow> 'e list \<Rightarrow> bool" where
  "requests_evolve sess rid pending server captured reply m m' effs \<longleftrightarrow>
     requests_ok sess rid m' \<and>
     (\<forall>i. request_step pending captured (find_nested m i) (find_nested m' i) \<and>
          count_replies reply i effs = (if owed pending server (find_nested m i) (find_nested m' i) then 1 else 0))"

lemma count_distinct_key:
  "distinct (map f xs) \<Longrightarrow> length (filter (\<lambda>x. f x = i) xs) = (if i \<in> f ` set xs then 1 else 0)"
  by (induction xs) (auto simp: filter_empty_conv)

lemma count_replies_concat:
  assumes "\<And>h. h \<in> set hits \<Longrightarrow> count_replies reply i (g h) = (if P h then 1 else 0)"
  shows "count_replies reply i (concat (map g hits)) = length (filter P hits)"
  using assms by (induction hits) auto

text \<open>The laws of one kind of request, and what the handlers and loops do to a store of them.\<close>

locale request_kind =
  fixes sess :: "'r \<Rightarrow> 's"
    and rid :: "'r \<Rightarrow> string"
    and pending :: "'r \<Rightarrow> bool"
    and server :: "'r \<Rightarrow> bool"
    and captured :: "'r \<Rightarrow> 'c"
    and reply :: "string \<Rightarrow> 'e \<Rightarrow> bool"
  assumes captured_key: "captured r = captured r' \<Longrightarrow> sess r = sess r' \<and> rid r = rid r'"
begin

lemma rewrite_one:
  assumes "store_ok sess rid m" and "find_nested m k = Some (r, sid)" and "captured r' = captured r"
  shows "store_ok sess rid (put_nested m (sess r') (rid r') r') \<and>
    find_nested (put_nested m (sess r') (rid r') r') j = (if j = k then Some (r', sid) else find_nested m j)"
proof -
  have key: "sess r' = sid" "rid r' = k"
    using captured_key[OF assms(3)] store_find[OF assms(1,2)] by simp_all
  then have "can_put m (sess r') (rid r')" using assms(2) by (simp add: can_put_def)
  then show ?thesis
    using store_put[OF assms(1), of r'] find_put_nested[of m "sess r'" "rid r'" r' j] assms(1) key
    by (simp add: store_ok_def)
qed

lemma insert_one:
  assumes "store_ok sess rid m" and "find_nested m (rid r) = None"
  shows "store_ok sess rid (put_nested m (sess r) (rid r) r) \<and>
    find_nested (put_nested m (sess r) (rid r) r) j = (if j = rid r then Some (r, sess r) else find_nested m j)"
proof -
  have "can_put m (sess r) (rid r)" using assms(2) by (simp add: can_put_def)
  then show ?thesis
    using store_put[OF assms(1), of r] find_put_nested[of m "sess r" "rid r" r j] assms(1) by (simp add: store_ok_def)
qed

lemma rewrite_group:
  assumes "store_ok sess rid m" and "\<And>r. captured (u r) = captured r"
  shows "store_ok sess rid (rewrite_hits sess rid u (collect_nested P m) m) \<and>
    find_nested (rewrite_hits sess rid u (collect_nested P m) m) k =
      (case find_nested m k of None \<Rightarrow> None | Some (r, sid) \<Rightarrow> Some (if P r then u r else r, sid))"
proof -
  have u: "sess (u r) = sess r" "rid (u r) = rid r" for r using captured_key[OF assms(2)] by simp_all
  have hit: "find_nested m k = Some (r, sid) \<Longrightarrow> (sid, r) \<in> set (collect_nested P m) \<longleftrightarrow> P r" for r sid
    using collect_nested_find[OF assms(1), of sid r P] store_find[OF assms(1), of k r sid] by auto
  show ?thesis
    using rewrite_hits_ok[OF assms(1) hits_of_collect[OF assms(1)], of u P k, OF u] hit
    by (auto split: option.splits)
qed

lemma reap_group:
  assumes "store_ok sess rid m"
  shows "store_ok sess rid (reap_hits rid (collect_nested P m) m) \<and>
    find_nested (reap_hits rid (collect_nested P m) m) k =
      (case find_nested m k of None \<Rightarrow> None | Some (r, sid) \<Rightarrow> if P r then None else Some (r, sid))"
proof -
  have hit: "find_nested m k = Some (r, sid) \<Longrightarrow> (sid, r) \<in> set (collect_nested P m) \<longleftrightarrow> P r" for r sid
    using collect_nested_find[OF assms(1), of sid r P] store_find[OF assms(1), of k r sid] by auto
  show ?thesis
    using reap_hits_ok[OF assms(1) hits_of_collect[OF assms(1)], of P k] hit
    by (auto split: option.splits)
qed

lemma reap_session:
  assumes "store_ok sess rid m"
  shows "store_ok sess rid (foldl (\<lambda>m p. delete_nested m sid (fst p)) m (inner_of m sid)) \<and>
    find_nested (foldl (\<lambda>m p. delete_nested m sid (fst p)) m (inner_of m sid)) k =
      (case find_nested m k of None \<Rightarrow> None | Some (r, sid') \<Rightarrow> if sid' = sid then None else Some (r, sid'))"
proof -
  have general: "store_ok sess rid n \<Longrightarrow>
      store_ok sess rid (foldl (\<lambda>m p. delete_nested m sid (fst p)) n ps) \<and>
      find_nested (foldl (\<lambda>m p. delete_nested m sid (fst p)) n ps) k =
        (case find_nested n k of None \<Rightarrow> None
         | Some (r, sid') \<Rightarrow> if sid' = sid \<and> k \<in> fst ` set ps then None else Some (r, sid'))" for n ps
  proof (induction ps arbitrary: n)
    case (Cons p ps)
    have ok: "store_ok sess rid (delete_nested n sid (fst p))" by (rule store_delete[OF Cons.prems])
    show ?case using Cons.IH[OF ok] Cons.prems
      by (auto simp: find_delete_nested store_ok_def split: option.splits)
  qed (auto split: option.splits)
  have "find_nested m k = Some (r, sid) \<Longrightarrow> k \<in> fst ` set (inner_of m sid)" for r
    using assms find_nested_iff[of m k r sid] map_of_SomeD[of "inner_of m sid" k r]
    by (force simp: store_ok_def image_iff)
  then show ?thesis using general[OF assms, of "inner_of m sid"] by (auto split: option.splits)
qed

lemma evolve_same:
  "requests_ok sess rid m \<Longrightarrow> (\<And>i. count_replies reply i effs = 0) \<Longrightarrow>
     requests_evolve sess rid pending server captured reply m m effs"
  by (simp add: requests_evolve_def)

lemma evolve_rewrite:
  assumes ok: "requests_ok sess rid m" and f: "find_nested m i = Some (r, sid)" and p: "pending r"
    and c: "captured r' = captured r" and np: "\<not> pending r'"
    and effs: "\<And>j. count_replies reply j effs = (if j = i \<and> \<not> server r' then 1 else 0)"
  shows "requests_evolve sess rid pending server captured reply m (put_nested m (sess r') (rid r') r') effs"
proof -
  have st: "store_ok sess rid m" using ok by (simp add: requests_ok_def)
  note one = rewrite_one[OF st f c]
  have "i \<noteq> ''''" using ok f by (auto simp: requests_ok_def)
  then have "requests_ok sess rid (put_nested m (sess r') (rid r') r')"
    using one[of "''''"] ok by (simp add: requests_ok_def)
  moreover have "request_step pending captured (find_nested m j) (find_nested (put_nested m (sess r') (rid r') r') j) \<and>
      count_replies reply j effs =
        (if owed pending server (find_nested m j) (find_nested (put_nested m (sess r') (rid r') r') j) then 1 else 0)" for j
    using f p c np one[of j] by (cases "j = i") (simp_all add: effs)
  ultimately show ?thesis by (simp add: requests_evolve_def)
qed

lemma evolve_insert:
  assumes ok: "requests_ok sess rid m" and f: "find_nested m (rid r) = None" and i: "rid r \<noteq> ''''"
    and effs: "\<And>j. count_replies reply j effs = (if j = rid r \<and> \<not> pending r then 1 else 0)"
  shows "requests_evolve sess rid pending server captured reply m (put_nested m (sess r) (rid r) r) effs"
proof -
  have st: "store_ok sess rid m" using ok by (simp add: requests_ok_def)
  note one = insert_one[OF st f]
  have "requests_ok sess rid (put_nested m (sess r) (rid r) r)"
    using one[of "''''"] ok i by (simp add: requests_ok_def)
  moreover have "request_step pending captured (find_nested m j) (find_nested (put_nested m (sess r) (rid r) r) j) \<and>
      count_replies reply j effs =
        (if owed pending server (find_nested m j) (find_nested (put_nested m (sess r) (rid r) r) j) then 1 else 0)" for j
    using f one[of j] by (cases "j = rid r") (simp_all add: effs)
  ultimately show ?thesis by (simp add: requests_evolve_def)
qed

lemma group_replies:
  assumes st: "store_ok sess rid m"
    and "\<And>h. count_replies reply i (g h) = (if rid (snd h) = i then 1 else 0)"
  shows "count_replies reply i (concat (map g (collect_nested P m))) =
    (case find_nested m i of None \<Rightarrow> 0 | Some (r, sid) \<Rightarrow> if P r then 1 else 0)"
proof -
  let ?hits = "collect_nested P m"
  have d: "distinct (map (\<lambda>h. rid (snd h)) ?hits)"
    using collect_nested_distinct[OF st, of P] by (simp add: case_prod_unfold)
  have "count_replies reply i (concat (map g ?hits)) = length (filter (\<lambda>h. rid (snd h) = i) ?hits)"
    by (rule count_replies_concat) (rule assms(2))
  also have "\<dots> = (if i \<in> (\<lambda>h. rid (snd h)) ` set ?hits then 1 else 0)"
    by (rule count_distinct_key[OF d])
  also have "i \<in> (\<lambda>h. rid (snd h)) ` set ?hits \<longleftrightarrow> (\<exists>r sid. find_nested m i = Some (r, sid) \<and> P r)"
  proof
    assume "i \<in> (\<lambda>h. rid (snd h)) ` set ?hits"
    then obtain sid r where "(sid, r) \<in> set ?hits" "rid r = i" by auto
    then show "\<exists>r sid. find_nested m i = Some (r, sid) \<and> P r" using collect_nested_find[OF st] by blast
  next
    assume "\<exists>r sid. find_nested m i = Some (r, sid) \<and> P r"
    then obtain r sid where r: "find_nested m i = Some (r, sid)" "P r" by blast
    then have "rid r = i" using store_find[OF st] by simp
    then have "(sid, r) \<in> set ?hits" using r collect_nested_find[OF st, of sid r P] by simp
    then show "i \<in> (\<lambda>h. rid (snd h)) ` set ?hits" using \<open>rid r = i\<close> by force
  qed
  finally show ?thesis by (auto split: option.splits)
qed

lemma evolve_expire:
  assumes ok: "requests_ok sess rid m" and c: "\<And>r. captured (u r) = captured r"
    and P: "\<And>r. P r \<Longrightarrow> pending r \<and> \<not> pending (u r) \<and> \<not> server (u r)"
    and g: "\<And>h i. count_replies reply i (g h) = (if rid (snd h) = i then 1 else 0)"
  shows "requests_evolve sess rid pending server captured reply m
    (rewrite_hits sess rid u (collect_nested P m) m) (concat (map g (collect_nested P m)))"
proof -
  have st: "store_ok sess rid m" using ok by (simp add: requests_ok_def)
  note grp = rewrite_group[OF st c, of P]
  have "requests_ok sess rid (rewrite_hits sess rid u (collect_nested P m) m)"
    using grp[of "''''"] ok by (auto simp: requests_ok_def)
  then show ?thesis using grp P c
    by (auto simp: requests_evolve_def group_replies[OF st g] split: option.splits)
qed

lemma evolve_reap:
  assumes ok: "requests_ok sess rid m" and P: "\<And>r. P r \<Longrightarrow> pending r"
    and g: "\<And>h i. count_replies reply i (g h) = (if rid (snd h) = i then 1 else 0)"
  shows "requests_evolve sess rid pending server captured reply m
    (reap_hits rid (collect_nested P m) m) (concat (map g (collect_nested P m)))"
proof -
  have st: "store_ok sess rid m" using ok by (simp add: requests_ok_def)
  note grp = reap_group[OF st, of P]
  have "requests_ok sess rid (reap_hits rid (collect_nested P m) m)"
    using grp[of "''''"] ok by (auto simp: requests_ok_def)
  then show ?thesis using grp P
    by (auto simp: requests_evolve_def group_replies[OF st g] split: option.splits)
qed

lemma evolve_reap_session:
  assumes ok: "requests_ok sess rid m"
    and g: "\<And>k r i. rid r = k \<Longrightarrow> count_replies reply i (g (k, r)) = (if k = i \<and> pending r then 1 else 0)"
  shows "requests_evolve sess rid pending server captured reply m
    (foldl (\<lambda>m p. delete_nested m sid (fst p)) m (inner_of m sid)) (concat (map g (inner_of m sid)))"
proof -
  have st: "store_ok sess rid m" and wf: "nested_wf m" using ok by (simp_all add: requests_ok_def store_ok_def)
  let ?ps = "inner_of m sid"
  have d: "distinct (map fst ?ps)" using inner_wf[OF wf] by simp
  have key: "(k, r) \<in> set ?ps \<longleftrightarrow> find_nested m k = Some (r, sid)" for k r
    using find_nested_iff[OF wf, of k r sid] d by (auto dest: map_of_SomeD)
  have "count_replies reply i (concat (map g ?ps)) = length (filter (\<lambda>p. fst p = i \<and> pending (snd p)) ?ps)" for i
  proof (rule count_replies_concat)
    fix h assume h: "h \<in> set ?ps"
    then have "rid (snd h) = fst h" using key[of "fst h" "snd h"] store_find(2)[OF st, of "fst h" "snd h" sid] by simp
    then show "count_replies reply i (g h) = (if fst h = i \<and> pending (snd h) then 1 else 0)"
      using g[of "snd h" "fst h" i] by simp
  qed
  also have "length (filter (\<lambda>p. fst p = i \<and> pending (snd p)) ?ps) =
      (case find_nested m i of None \<Rightarrow> 0 | Some (r, sid') \<Rightarrow> if sid' = sid \<and> pending r then 1 else 0)" for i
  proof (cases "\<exists>r. find_nested m i = Some (r, sid)")
    case True
    then obtain r where r: "find_nested m i = Some (r, sid)" by blast
    have "filter (\<lambda>p. fst p = i) ?ps = [(i, r)]"
    proof -
      have "length (filter (\<lambda>p. fst p = i) ?ps) = 1" using count_distinct_key[OF d, of i] r key[of i r] by force
      moreover have "(i, r) \<in> set (filter (\<lambda>p. fst p = i) ?ps)" using r key by simp
      ultimately show ?thesis by (rule singleton_of_length)
    qed
    then have "filter (\<lambda>p. fst p = i \<and> pending (snd p)) ?ps = filter (\<lambda>p. pending (snd p)) [(i, r)]"
      by (metis (no_types, lifting) conj_commute filter_cong filter_filter)
    then show ?thesis using r by simp
  next
    case False
    then have "filter (\<lambda>p. fst p = i \<and> pending (snd p)) ?ps = []"
      using key[of i] by (auto simp: filter_empty_conv)
    then show ?thesis using False by (auto split: option.splits)
  qed
  finally have replies: "count_replies reply i (concat (map g ?ps)) =
      (case find_nested m i of None \<Rightarrow> 0 | Some (r, sid') \<Rightarrow> if sid' = sid \<and> pending r then 1 else 0)" for i .
  note grp = reap_session[OF st, of sid]
  have "requests_ok sess rid (foldl (\<lambda>m p. delete_nested m sid (fst p)) m ?ps)"
    using grp[of "''''"] ok by (auto simp: requests_ok_def)
  then show ?thesis using grp by (auto simp: requests_evolve_def replies split: option.splits)
qed

end


section \<open>Approvals\<close>

definition approval_captured ::
    "ApprovalRequest \<Rightarrow> (string \<times> string \<times> string) \<times> (string \<times> string \<times> string \<times> string) \<times> time \<times> time \<times> ApprovalDecision" where
  "approval_captured r =
     ((ar_ID r, ar_SessionID r, ar_FrameID r), (ar_Kind r, ar_Command r, ar_Path r, ar_Reason r),
      ar_CreatedAt r, ar_ExpiresAt r, ar_DefaultDecision r)"

abbreviation approval_pending :: "ApprovalRequest \<Rightarrow> bool" where
  "approval_pending r \<equiv> ar_Status r = ApprovalPending"

abbreviation approval_server :: "ApprovalRequest \<Rightarrow> bool" where
  "approval_server r \<equiv> ar_ResolutionReason r = ApprovalReasonServer"

fun approval_reply :: "ApprovalID \<Rightarrow> 'j Effect \<Rightarrow> bool" where
  "approval_reply i (EffReplyHeldApproval f j d err) = (j = i)"
| "approval_reply i _ = False"

interpretation approval:
  request_kind ar_SessionID ar_ID approval_pending approval_server approval_captured approval_reply
  by unfold_locales (simp add: approval_captured_def)

abbreviation (input) approvals_find :: "'ds State \<Rightarrow> ApprovalID \<Rightarrow> (ApprovalRequest \<times> SessionID) option" where
  "approvals_find s i \<equiv> find_nested (h_PendingApprovals s) i"

definition approvals_ok :: "'ds State \<Rightarrow> bool" where
  "approvals_ok s \<longleftrightarrow> requests_ok ar_SessionID ar_ID (h_PendingApprovals s)"

definition approvals_evolve :: "'ds State \<Rightarrow> 'ds State \<Rightarrow> 'j Effect list \<Rightarrow> bool" where
  "approvals_evolve s s' effs \<longleftrightarrow>
     requests_evolve ar_SessionID ar_ID approval_pending approval_server approval_captured approval_reply
       (h_PendingApprovals s) (h_PendingApprovals s') effs"

lemma FindApproval_eq: "approvals_ok s \<Longrightarrow> FindApproval s i = approvals_find s i"
  by (auto simp: FindApproval_def approvals_ok_def requests_ok_def)

lemma approval_reply_simps [simp]:
  "approval_reply i (errResp c r code msg) = False" "approval_reply i (okResp c r b) = False"
  "approval_reply i (approvalResolvedBroadcast a) = False" "approval_reply i (approvalRequestedBroadcast a) = False"
  "approval_reply i (questionResolvedBroadcast q) = False" "approval_reply i (questionRequestedBroadcast q) = False"
  "approval_reply i (resolvedByOtherError c r a) = False" "approval_reply i (questionResolvedByOtherError c r q) = False"
  by (simp_all add: errResp_def okResp_def approvalResolvedBroadcast_def approvalRequestedBroadcast_def
      questionResolvedBroadcast_def questionRequestedBroadcast_def resolvedByOtherError_def
      questionResolvedByOtherError_def)

lemma evolve_approvals_same:
  "approvals_ok s \<Longrightarrow> h_PendingApprovals s' = h_PendingApprovals s \<Longrightarrow>
     (\<And>i. count_replies approval_reply i effs = 0) \<Longrightarrow> approvals_evolve s s' effs"
  by (simp add: approvals_evolve_def approvals_ok_def approval.evolve_same)

lemma evolve_approvals_cong:
  "approvals_evolve s s' effs \<Longrightarrow> h_PendingApprovals t = h_PendingApprovals s \<Longrightarrow>
     h_PendingApprovals t' = h_PendingApprovals s' \<Longrightarrow>
     (\<And>i. count_replies approval_reply i effs' = count_replies approval_reply i effs) \<Longrightarrow> approvals_evolve t t' effs'"
  by (simp add: approvals_evolve_def requests_evolve_def)

lemma evolve_approval_rewrite:
  assumes "approvals_ok s" and "approvals_find s i = Some (r, sid)" and "approval_pending r"
    and "approval_captured r' = approval_captured r" and "\<not> approval_pending r'"
    and "\<And>j. count_replies approval_reply j effs = (if j = i \<and> \<not> approval_server r' then 1 else 0)"
  shows "approvals_evolve s (putApproval s r') effs"
  using approval.evolve_rewrite[OF _ assms(2-6)] assms(1)
  by (simp add: approvals_evolve_def approvals_ok_def putApproval_def)

lemma approval_key: "approvals_ok s \<Longrightarrow> approvals_find s i = Some (r, sid) \<Longrightarrow> ar_ID r = i \<and> ar_SessionID r = sid"
  using store_find[of ar_SessionID ar_ID "h_PendingApprovals s" i r sid] by (simp add: approvals_ok_def requests_ok_def)

lemma respond_pending:
  assumes "approvals_ok s" and "approvals_find s i = Some (r, sid)" and "approval_pending r"
    and "d = ApprovalDecisionAccept \<or> d = ApprovalDecisionDeny"
  shows "reduceApprovalRespond s c q i d cl =
    (let r = r\<lparr>ar_Status := ApprovalResolved, ar_Decision := d, ar_ResolvingClientInstanceID := cl,
               ar_ResolutionReason := ApprovalReasonClient\<rparr>
     in (putApproval s r,
         [okResp c q BodyNil, EffReplyHeldApproval (ar_FrameID r) i d '''', approvalResolvedBroadcast r]))"
proof -
  have "i \<noteq> ''''" using assms(1,2) by (auto simp: approvals_ok_def requests_ok_def)
  then show ?thesis
    using assms approval_key[OF assms(1,2)] by (auto simp: reduceApprovalRespond_def FindApproval_eq Let_def)
qed

lemma cancel_pending:
  assumes "approvals_ok s" and "approvals_find s i = Some (r, sid)" and "approval_pending r"
  shows "reduceApprovalCancel s c q i cl =
    (let r = r\<lparr>ar_Status := ApprovalCancelled, ar_Decision := ApprovalDecisionDeny,
               ar_ResolvingClientInstanceID := cl, ar_ResolutionReason := ApprovalReasonCancelled\<rparr>
     in (putApproval s r,
         [okResp c q BodyNil, EffReplyHeldApproval (ar_FrameID r) i ApprovalDecisionDeny ''connection-lost'',
          approvalResolvedBroadcast r]))"
proof -
  have "i \<noteq> ''''" using assms(1,2) by (auto simp: approvals_ok_def requests_ok_def)
  then show ?thesis
    using assms approval_key[OF assms(1,2)] by (auto simp: reduceApprovalCancel_def FindApproval_eq Let_def)
qed

lemma respond_evolves:
  assumes "approvals_ok s" and "reduceApprovalRespond s c q i d cl = (s', effs)"
  shows "approvals_evolve s s' effs"
proof (cases "\<exists>r sid. (d = ApprovalDecisionAccept \<or> d = ApprovalDecisionDeny) \<and>
    approvals_find s i = Some (r, sid) \<and> approval_pending r")
  case False
  then show ?thesis using assms
    by (auto simp: reduceApprovalRespond_def FindApproval_eq Let_def intro!: evolve_approvals_same
        split: if_splits option.splits)
next
  case True
  then obtain r sid where d: "d = ApprovalDecisionAccept \<or> d = ApprovalDecisionDeny"
    and r: "approvals_find s i = Some (r, sid)" "approval_pending r" by blast
  then show ?thesis using assms(2)
    by (auto simp: respond_pending[OF assms(1) r d] Let_def approval_captured_def intro!: evolve_approval_rewrite[OF assms(1) r])
qed

lemma cancel_evolves:
  assumes "approvals_ok s" and "reduceApprovalCancel s c q i cl = (s', effs)"
  shows "approvals_evolve s s' effs"
proof (cases "\<exists>r sid. approvals_find s i = Some (r, sid) \<and> approval_pending r")
  case False
  then show ?thesis using assms
    by (auto simp: reduceApprovalCancel_def FindApproval_eq Let_def intro!: evolve_approvals_same
        split: if_splits option.splits)
next
  case True
  then obtain r sid where r: "approvals_find s i = Some (r, sid)" "approval_pending r" by blast
  then show ?thesis using assms(2)
    by (auto simp: cancel_pending[OF assms(1) r] Let_def approval_captured_def intro!: evolve_approval_rewrite[OF assms(1) r])
qed

lemma put_put_nested: "put_nested (put_nested m sid k r) sid k r' = put_nested m sid k r'"
  by (simp add: put_nested_def inner_of_def update_last)

lemma create_evolves:
  assumes ok: "approvals_ok s" and cr: "maybeCreateApprovalFromSubsystem s e = (s', effs, b)"
  shows "approvals_evolve s s' effs"
proof (cases "\<exists>a sid sess n. sp_Approval (es_Payload e) = Some a \<and> es_Kind e = SubsystemApprovalRequested \<and>
    sa_ID a \<noteq> '''' \<and> FindApproval s (sa_ID a) = None \<and> findFrame s (es_FrameID e) = Some (sid, sess, n)")
  case False
  then have "s' = s \<and> effs = []" using cr
    by (auto simp: maybeCreateApprovalFromSubsystem_def Let_def split: option.splits if_splits)
  then show ?thesis using ok by (simp add: evolve_approvals_same)
next
  case True
  then obtain a sid sess n where a: "sp_Approval (es_Payload e) = Some a" "es_Kind e = SubsystemApprovalRequested"
    "sa_ID a \<noteq> ''''" "approvals_find s (sa_ID a) = None" "findFrame s (es_FrameID e) = Some (sid, sess, n)"
    using FindApproval_eq[OF ok] by auto
  define r where "r = newApproval (sa_ID a) sid (es_FrameID e) a (if is_zero (es_Timestamp e) then h_Now s else es_Timestamp e)"
  define r' where "r' = (if sa_AutoApprove a then autoApproved r else r)"
  have fields: "ar_ID r' = sa_ID a" "ar_SessionID r' = sid" "ar_ID r = sa_ID a" "ar_SessionID r = sid"
    "approval_pending r' \<longleftrightarrow> \<not> sa_AutoApprove a"
    by (auto simp: r'_def r_def newApproval_def autoApproved_def)
  have "s' = putApproval s r' \<and> (\<forall>j. count_replies approval_reply j effs = (if j = sa_ID a \<and> sa_AutoApprove a then 1 else 0))"
    using cr a FindApproval_eq[OF ok] fields unfolding r'_def
    by (auto simp: maybeCreateApprovalFromSubsystem_def Let_def r_def[symmetric] putApproval_def put_put_nested autoApproved_def
        split: if_splits)
  then show ?thesis
    using approval.evolve_insert[of "h_PendingApprovals s" r' effs] ok a fields
    by (auto simp: approvals_evolve_def approvals_ok_def putApproval_def)
qed

lemma expirePendingApprovals_eq:
  "\<not> is_zero now \<Longrightarrow> expirePendingApprovals s now =
     (s\<lparr>h_PendingApprovals := rewrite_hits ar_SessionID ar_ID approvalExpired
         (collect_nested (approvalDue now) (h_PendingApprovals s)) (h_PendingApprovals s)\<rparr>,
      concat (map (\<lambda>h. [EffReplyHeldApproval (ar_FrameID (snd h)) (ar_ID (snd h)) (ar_Decision (approvalExpired (snd h))) '''',
                        approvalResolvedBroadcast (approvalExpired (snd h))])
                (collect_nested (approvalDue now) (h_PendingApprovals s))))"
  unfolding expirePendingApprovals_def rewrite_hits_def
  by (simp, rule approvals.each_field) (simp add: expireHit_def putApproval_def Let_def approvalExpired_def case_prod_unfold)

lemma expired_captured: "approval_captured (approvalExpired r) = approval_captured r"
  by (simp add: approval_captured_def approvalExpired_def)

lemma expire_find:
  assumes "approvals_ok s" and "\<not> is_zero now" and "expirePendingApprovals s now = (s', effs)"
  shows "approvals_find s' i =
    (case approvals_find s i of None \<Rightarrow> None
     | Some (r, sid) \<Rightarrow> Some (if approvalDue now r then approvalExpired r else r, sid))"
  using assms approval.rewrite_group[of "h_PendingApprovals s" approvalExpired "approvalDue now" i]
  by (auto simp: expirePendingApprovals_eq approvals_ok_def requests_ok_def expired_captured)

lemma expire_evolves:
  assumes "approvals_ok s" and "expirePendingApprovals s now = (s', effs)"
  shows "approvals_evolve s s' effs"
proof (cases "is_zero now")
  case True
  then show ?thesis using assms by (auto simp: expirePendingApprovals_def intro: evolve_approvals_same)
next
  case False
  then show ?thesis using assms unfolding approvals_evolve_def approvals_ok_def
    by (auto simp: expirePendingApprovals_eq approval_captured_def approvalDue_def approvalExpired_def
        intro!: approval.evolve_expire)
qed

lemma cancelFrame_eq:
  "f \<noteq> '''' \<Longrightarrow> cancelApprovalsForFrame s f =
     (s\<lparr>h_PendingApprovals := reap_hits ar_ID
         (collect_nested (\<lambda>r. approval_pending r \<and> ar_FrameID r = f) (h_PendingApprovals s)) (h_PendingApprovals s)\<rparr>,
      concat (map (\<lambda>h. [EffReplyHeldApproval (ar_FrameID (snd h)) (ar_ID (snd h)) ApprovalDecisionDeny ''connection-lost'',
                        approvalResolvedBroadcast (approvalCancelled (snd h))])
                (collect_nested (\<lambda>r. approval_pending r \<and> ar_FrameID r = f) (h_PendingApprovals s))))"
  unfolding cancelApprovalsForFrame_def reap_hits_def
  by (simp, intro approvals.each_field) (simp add: reapHit_def deleteApproval_def Let_def approvalCancelled_def case_prod_unfold)

lemma cancelSession_eq:
  "sid \<noteq> '''' \<Longrightarrow> cancelApprovalsForSession s sid =
     (s\<lparr>h_PendingApprovals := foldl (\<lambda>m p. delete_nested m sid (fst p)) (h_PendingApprovals s)
         (inner_of (h_PendingApprovals s) sid)\<rparr>,
      concat (map (\<lambda>p. if approval_pending (snd p) then
          [EffReplyHeldApproval (ar_FrameID (snd p)) (ar_ID (snd p)) ApprovalDecisionDeny ''connection-lost'',
           approvalResolvedBroadcast (approvalCancelled (snd p))] else [])
        (inner_of (h_PendingApprovals s) sid)))"
  unfolding cancelApprovalsForSession_def
  by (simp, intro approvals.each_field) (simp add: reapEntry_def deleteApproval_def Let_def approvalCancelled_def)

lemma cancelFrame_evolves:
  assumes "approvals_ok s" and "cancelApprovalsForFrame s f = (s', effs)"
  shows "approvals_evolve s s' effs"
proof (cases "f = ''''")
  case True
  then show ?thesis using assms by (auto simp: cancelApprovalsForFrame_def intro: evolve_approvals_same)
next
  case False
  then show ?thesis using assms unfolding approvals_evolve_def approvals_ok_def
    by (auto simp: cancelFrame_eq intro!: approval.evolve_reap)
qed

lemma cancelSession_evolves:
  assumes "approvals_ok s" and "cancelApprovalsForSession s sid = (s', effs)"
  shows "approvals_evolve s s' effs"
proof (cases "sid = ''''")
  case True
  then show ?thesis using assms by (auto simp: cancelApprovalsForSession_def intro: evolve_approvals_same)
next
  case False
  then show ?thesis using assms unfolding approvals_evolve_def approvals_ok_def
    by (auto simp: cancelSession_eq intro!: approval.evolve_reap_session)
qed

lemma resolve_evolves:
  assumes ok: "approvals_ok s" and rs: "maybeResolveHumanInputFromSubsystem s e = (s', effs, b)"
  shows "approvals_evolve s s' effs"
proof (cases "\<exists>a r sid. es_Kind e = SubsystemApprovalResolved \<and> sp_Approval (es_Payload e) = Some a \<and>
    FindApproval s (sa_ID a) = Some (r, sid) \<and> approval_pending r")
  case False
  then have "h_PendingApprovals s' = h_PendingApprovals s \<and> (\<forall>i. count_replies approval_reply i effs = 0)" using rs
    by (auto simp: maybeResolveHumanInputFromSubsystem_def putQuestion_def Let_def
        split: SubsystemEventKind.splits option.splits if_splits)
  then show ?thesis using ok by (simp add: evolve_approvals_same)
next
  case True
  then obtain a r sid where a: "es_Kind e = SubsystemApprovalResolved" "sp_Approval (es_Payload e) = Some a"
    "FindApproval s (sa_ID a) = Some (r, sid)" "approval_pending r" by blast
  then have f: "approvals_find s (sa_ID a) = Some (r, sid)" using FindApproval_eq[OF ok] by simp
  show ?thesis using rs a
    by (auto simp: maybeResolveHumanInputFromSubsystem_def Let_def approval_captured_def
        intro!: evolve_approval_rewrite[OF ok f])
qed

section \<open>Questions\<close>

definition question_captured ::
    "QuestionRequest \<Rightarrow> (string \<times> string \<times> string) \<times> string \<times> time \<times> time" where
  "question_captured q = ((qr_ID q, qr_SessionID q, qr_FrameID q), qr_Prompt q, qr_CreatedAt q, qr_ExpiresAt q)"

abbreviation question_pending :: "QuestionRequest \<Rightarrow> bool" where
  "question_pending q \<equiv> qr_Status q = QuestionPending"

abbreviation question_server :: "QuestionRequest \<Rightarrow> bool" where
  "question_server q \<equiv> qr_ResolutionReason q = QuestionReasonServer"

fun question_reply :: "QuestionID \<Rightarrow> 'j Effect \<Rightarrow> bool" where
  "question_reply i (EffReplyHeldQuestion f j a err) = (j = i)"
| "question_reply i _ = False"

interpretation question:
  request_kind qr_SessionID qr_ID question_pending question_server question_captured question_reply
  by unfold_locales (simp add: question_captured_def)

abbreviation (input) questions_find :: "'ds State \<Rightarrow> QuestionID \<Rightarrow> (QuestionRequest \<times> SessionID) option" where
  "questions_find s i \<equiv> find_nested (h_PendingQuestions s) i"

definition questions_ok :: "'ds State \<Rightarrow> bool" where
  "questions_ok s \<longleftrightarrow> requests_ok qr_SessionID qr_ID (h_PendingQuestions s)"

definition questions_evolve :: "'ds State \<Rightarrow> 'ds State \<Rightarrow> 'j Effect list \<Rightarrow> bool" where
  "questions_evolve s s' effs \<longleftrightarrow>
     requests_evolve qr_SessionID qr_ID question_pending question_server question_captured question_reply
       (h_PendingQuestions s) (h_PendingQuestions s') effs"

lemma FindQuestion_eq: "questions_ok s \<Longrightarrow> FindQuestion s i = questions_find s i"
  by (auto simp: FindQuestion_def questions_ok_def requests_ok_def)

lemma question_reply_simps [simp]:
  "question_reply i (errResp c r code msg) = False" "question_reply i (okResp c r b) = False"
  "question_reply i (approvalResolvedBroadcast a) = False" "question_reply i (approvalRequestedBroadcast a) = False"
  "question_reply i (questionResolvedBroadcast q) = False" "question_reply i (questionRequestedBroadcast q) = False"
  "question_reply i (resolvedByOtherError c r a) = False" "question_reply i (questionResolvedByOtherError c r q) = False"
  by (simp_all add: errResp_def okResp_def approvalResolvedBroadcast_def approvalRequestedBroadcast_def
      questionResolvedBroadcast_def questionRequestedBroadcast_def resolvedByOtherError_def
      questionResolvedByOtherError_def)

lemma evolve_questions_same:
  "questions_ok s \<Longrightarrow> h_PendingQuestions s' = h_PendingQuestions s \<Longrightarrow>
     (\<And>i. count_replies question_reply i effs = 0) \<Longrightarrow> questions_evolve s s' effs"
  by (simp add: questions_evolve_def questions_ok_def question.evolve_same)

lemma evolve_questions_cong:
  "questions_evolve s s' effs \<Longrightarrow> h_PendingQuestions t = h_PendingQuestions s \<Longrightarrow>
     h_PendingQuestions t' = h_PendingQuestions s' \<Longrightarrow>
     (\<And>i. count_replies question_reply i effs' = count_replies question_reply i effs) \<Longrightarrow> questions_evolve t t' effs'"
  by (simp add: questions_evolve_def requests_evolve_def)

lemma evolve_question_rewrite:
  assumes "questions_ok s" and "questions_find s i = Some (q, sid)" and "question_pending q"
    and "question_captured q' = question_captured q" and "\<not> question_pending q'"
    and "\<And>j. count_replies question_reply j effs = (if j = i \<and> \<not> question_server q' then 1 else 0)"
  shows "questions_evolve s (putQuestion s q') effs"
  using question.evolve_rewrite[OF _ assms(2-6)] assms(1)
  by (simp add: questions_evolve_def questions_ok_def putQuestion_def)

lemma question_key: "questions_ok s \<Longrightarrow> questions_find s i = Some (q, sid) \<Longrightarrow> qr_ID q = i \<and> qr_SessionID q = sid"
  using store_find[of qr_SessionID qr_ID "h_PendingQuestions s" i q sid] by (simp add: questions_ok_def requests_ok_def)

lemma question_id_nonempty: "questions_ok s \<Longrightarrow> questions_find s i = Some x \<Longrightarrow> i \<noteq> ''''"
  by (auto simp: questions_ok_def requests_ok_def)

lemma answer_evolves:
  assumes ok: "questions_ok s" and rs: "reduceQuestionRespond s c r i a cl = (s', effs)"
  shows "questions_evolve s s' effs"
proof (cases "\<exists>q sid. questions_find s i = Some (q, sid) \<and> question_pending q")
  case False
  then show ?thesis using assms
    by (auto simp: reduceQuestionRespond_def FindQuestion_eq Let_def intro!: evolve_questions_same
        split: if_splits option.splits)
next
  case True
  then obtain q sid where q: "questions_find s i = Some (q, sid)" "question_pending q" by blast
  then show ?thesis using rs question_key[OF ok q(1)] question_id_nonempty[OF ok q(1)]
    by (auto simp: reduceQuestionRespond_def FindQuestion_eq[OF ok] Let_def question_captured_def
        intro!: evolve_question_rewrite[OF ok q])
qed

lemma cancelQuestion_evolves:
  assumes ok: "questions_ok s" and rs: "reduceQuestionCancel s c r i cl = (s', effs)"
  shows "questions_evolve s s' effs"
proof (cases "\<exists>q sid. questions_find s i = Some (q, sid) \<and> question_pending q")
  case False
  then show ?thesis using assms
    by (auto simp: reduceQuestionCancel_def FindQuestion_eq Let_def intro!: evolve_questions_same
        split: if_splits option.splits)
next
  case True
  then obtain q sid where q: "questions_find s i = Some (q, sid)" "question_pending q" by blast
  then show ?thesis using rs question_key[OF ok q(1)] question_id_nonempty[OF ok q(1)]
    by (auto simp: reduceQuestionCancel_def FindQuestion_eq[OF ok] Let_def question_captured_def
        intro!: evolve_question_rewrite[OF ok q])
qed

lemma createQuestion_evolves:
  assumes ok: "questions_ok s" and cr: "maybeCreateQuestionFromSubsystem s e = (s', effs, b)"
  shows "questions_evolve s s' effs"
proof (cases "\<exists>qp sid sess n. sp_Question (es_Payload e) = Some qp \<and> es_Kind e = SubsystemQuestionRequested \<and>
    sq_ID qp \<noteq> '''' \<and> FindQuestion s (sq_ID qp) = None \<and> findFrame s (es_FrameID e) = Some (sid, sess, n)")
  case False
  then have "s' = s \<and> effs = []" using cr
    by (auto simp: maybeCreateQuestionFromSubsystem_def Let_def split: option.splits if_splits)
  then show ?thesis using ok by (simp add: evolve_questions_same)
next
  case True
  then obtain qp sid sess n where q: "sp_Question (es_Payload e) = Some qp" "es_Kind e = SubsystemQuestionRequested"
    "sq_ID qp \<noteq> ''''" "questions_find s (sq_ID qp) = None" "findFrame s (es_FrameID e) = Some (sid, sess, n)"
    using FindQuestion_eq[OF ok] by auto
  define r where "r = newQuestion (sq_ID qp) sid (es_FrameID e) qp (if is_zero (es_Timestamp e) then h_Now s else es_Timestamp e)"
  have fields: "qr_ID r = sq_ID qp" "question_pending r" by (simp_all add: r_def newQuestion_def)
  have "s' = putQuestion s r \<and> (\<forall>j. count_replies question_reply j effs = 0)"
    using cr q FindQuestion_eq[OF ok] by (auto simp: maybeCreateQuestionFromSubsystem_def Let_def r_def[symmetric])
  then show ?thesis
    using question.evolve_insert[of "h_PendingQuestions s" r effs] ok q fields
    by (auto simp: questions_evolve_def questions_ok_def putQuestion_def)
qed

lemma resolveQuestion_evolves:
  assumes ok: "questions_ok s" and rs: "maybeResolveHumanInputFromSubsystem s e = (s', effs, b)"
  shows "questions_evolve s s' effs"
proof (cases "\<exists>qp q sid. es_Kind e = SubsystemQuestionResolved \<and> sp_Question (es_Payload e) = Some qp \<and>
    FindQuestion s (sq_ID qp) = Some (q, sid) \<and> question_pending q")
  case False
  then have "h_PendingQuestions s' = h_PendingQuestions s \<and> (\<forall>i. count_replies question_reply i effs = 0)" using rs
    by (auto simp: maybeResolveHumanInputFromSubsystem_def putApproval_def Let_def
        split: SubsystemEventKind.splits option.splits if_splits)
  then show ?thesis using ok by (simp add: evolve_questions_same)
next
  case True
  then obtain qp q sid where a: "es_Kind e = SubsystemQuestionResolved" "sp_Question (es_Payload e) = Some qp"
    "FindQuestion s (sq_ID qp) = Some (q, sid)" "question_pending q" by blast
  then have f: "questions_find s (sq_ID qp) = Some (q, sid)" using FindQuestion_eq[OF ok] by simp
  show ?thesis using rs a
    by (auto simp: maybeResolveHumanInputFromSubsystem_def Let_def question_captured_def
        intro!: evolve_question_rewrite[OF ok f])
qed

lemma expirePendingQuestions_eq:
  "\<not> is_zero now \<Longrightarrow> expirePendingQuestions s now =
     (s\<lparr>h_PendingQuestions := rewrite_hits qr_SessionID qr_ID questionExpired
         (collect_nested (questionDue now) (h_PendingQuestions s)) (h_PendingQuestions s)\<rparr>,
      concat (map (\<lambda>h. [EffReplyHeldQuestion (qr_FrameID (snd h)) (qr_ID (snd h)) '''' ''connection-lost'',
                        questionResolvedBroadcast (questionExpired (snd h))])
                (collect_nested (questionDue now) (h_PendingQuestions s))))"
  unfolding expirePendingQuestions_def rewrite_hits_def
  by (simp, rule questions.each_field) (simp add: expireQuestionHit_def putQuestion_def Let_def questionExpired_def case_prod_unfold)

lemma expireQuestions_evolves:
  assumes "questions_ok s" and "expirePendingQuestions s now = (s', effs)"
  shows "questions_evolve s s' effs"
proof (cases "is_zero now")
  case True
  then show ?thesis using assms by (auto simp: expirePendingQuestions_def intro: evolve_questions_same)
next
  case False
  then show ?thesis using assms unfolding questions_evolve_def questions_ok_def
    by (auto simp: expirePendingQuestions_eq question_captured_def questionDue_def questionExpired_def
        intro!: question.evolve_expire)
qed

lemma cancelQFrame_eq:
  "f \<noteq> '''' \<Longrightarrow> cancelQuestionsForFrame s f =
     (s\<lparr>h_PendingQuestions := reap_hits qr_ID
         (collect_nested (\<lambda>r. question_pending r \<and> qr_FrameID r = f) (h_PendingQuestions s)) (h_PendingQuestions s)\<rparr>,
      concat (map (\<lambda>h. [EffReplyHeldQuestion (qr_FrameID (snd h)) (qr_ID (snd h)) '''' ''connection-lost'',
                        questionResolvedBroadcast (questionCancelled (snd h))])
                (collect_nested (\<lambda>r. question_pending r \<and> qr_FrameID r = f) (h_PendingQuestions s))))"
  unfolding cancelQuestionsForFrame_def reap_hits_def
  by (simp, intro questions.each_field) (simp add: reapQuestionHit_def deleteQuestion_def Let_def questionCancelled_def case_prod_unfold)

lemma cancelQSession_eq:
  "sid \<noteq> '''' \<Longrightarrow> cancelQuestionsForSession s sid =
     (s\<lparr>h_PendingQuestions := foldl (\<lambda>m p. delete_nested m sid (fst p)) (h_PendingQuestions s)
         (inner_of (h_PendingQuestions s) sid)\<rparr>,
      concat (map (\<lambda>p. if question_pending (snd p) then
          [EffReplyHeldQuestion (qr_FrameID (snd p)) (qr_ID (snd p)) '''' ''connection-lost'',
           questionResolvedBroadcast (questionCancelled (snd p))] else [])
        (inner_of (h_PendingQuestions s) sid)))"
  unfolding cancelQuestionsForSession_def
  by (simp, intro questions.each_field) (simp add: reapQuestionEntry_def deleteQuestion_def Let_def questionCancelled_def)

lemma cancelQFrame_evolves:
  assumes "questions_ok s" and "cancelQuestionsForFrame s f = (s', effs)"
  shows "questions_evolve s s' effs"
proof (cases "f = ''''")
  case True
  then show ?thesis using assms by (auto simp: cancelQuestionsForFrame_def intro: evolve_questions_same)
next
  case False
  then show ?thesis using assms unfolding questions_evolve_def questions_ok_def
    by (auto simp: cancelQFrame_eq intro!: question.evolve_reap)
qed

lemma cancelQSession_evolves:
  assumes "questions_ok s" and "cancelQuestionsForSession s sid = (s', effs)"
  shows "questions_evolve s s' effs"
proof (cases "sid = ''''")
  case True
  then show ?thesis using assms by (auto simp: cancelQuestionsForSession_def intro: evolve_questions_same)
next
  case False
  then show ?thesis using assms unfolding questions_evolve_def questions_ok_def
    by (auto simp: cancelQSession_eq intro!: question.evolve_reap_session)
qed

end
