(* ===== verification/HostSessInv.thy ===== *)
theory HostSessInv
  imports HostCore HostHuman
begin

text \<open>
  The session invariant and the frames of the host: every handler keeps the shape of the sessions, and
  a frame leaves the session graph only with its teardown effects.
\<close>

section \<open>The most-recently-used list\<close>

lemma set_prune_ids: "set (prune_ids ex seen ids) \<subseteq> set ex \<inter> set ids - set seen"
proof (induction ids arbitrary: seen)
  case (Cons i ids)
  then show ?case using Cons.IH[of seen] Cons.IH[of "i # seen"] by auto
qed simp

lemma distinct_prune_ids: "distinct (prune_ids ex seen ids)"
proof (induction ids arbitrary: seen)
  case (Cons i ids)
  then show ?case using set_prune_ids[of ex "i # seen" ids] by auto
qed simp

lemma length_prune_ids: "length (prune_ids ex seen ids) \<le> length ids"
  by (induction ids arbitrary: seen) (auto simp: le_SucI)

lemma pushMRU_fields [simp]:
  "se_Frames (pushMRU sess f) = se_Frames sess" "se_ID (pushMRU sess f) = se_ID sess"
  "se_HeadFrameID (pushMRU sess f) = se_HeadFrameID sess" "se_EndedAt (pushMRU sess f) = se_EndedAt sess"
  by (simp_all add: pushMRU_def Let_def)

lemma pushMRU_ok:
  assumes "distinct (se_MRUFrameIDs sess)" and "length (se_MRUFrameIDs sess) \<le> 16"
    and "set (se_MRUFrameIDs sess) \<subseteq> A" and "f \<noteq> '''' \<Longrightarrow> f \<in> A"
  shows "distinct (se_MRUFrameIDs (pushMRU sess f)) \<and> length (se_MRUFrameIDs (pushMRU sess f)) \<le> 16 \<and>
    set (se_MRUFrameIDs (pushMRU sess f)) \<subseteq> A"
  using assms by (auto simp: pushMRU_def Let_def distinct_take dest!: in_set_takeD)

lemma pruneMRU_fields [simp]:
  "se_Frames (pruneMRU sess) = se_Frames sess" "se_ID (pruneMRU sess) = se_ID sess"
  "se_HeadFrameID (pruneMRU sess) = se_HeadFrameID sess" "se_EndedAt (pruneMRU sess) = se_EndedAt sess"
  by (simp_all add: pruneMRU_def)

lemma pruneMRU_ok:
  "length (se_MRUFrameIDs sess) \<le> 16 \<Longrightarrow>
     set (se_MRUFrameIDs (pruneMRU sess)) \<subseteq> sf_ID ` set (se_Frames sess) \<and>
     distinct (se_MRUFrameIDs (pruneMRU sess)) \<and> length (se_MRUFrameIDs (pruneMRU sess)) \<le> 16"
  using set_prune_ids[of "map sf_ID (se_Frames sess)" "[]" "se_MRUFrameIDs sess"]
    distinct_prune_ids[of "map sf_ID (se_Frames sess)" "[]" "se_MRUFrameIDs sess"]
    length_prune_ids[of "map sf_ID (se_Frames sess)" "[]" "se_MRUFrameIDs sess"]
  by (auto simp: pruneMRU_def)

lemma bump_fields [simp]:
  "se_Frames (bumpFrameGeneration sess) = se_Frames sess" "se_ID (bumpFrameGeneration sess) = se_ID sess"
  "se_HeadFrameID (bumpFrameGeneration sess) = se_HeadFrameID sess"
  "se_MRUFrameIDs (bumpFrameGeneration sess) = se_MRUFrameIDs sess"
  "se_EndedAt (bumpFrameGeneration sess) = se_EndedAt sess"
  by (simp_all add: bumpFrameGeneration_def)

lemma popMRU_ok:
  assumes "popMRU sess = (f, sess')" and "distinct (se_MRUFrameIDs sess)" and "length (se_MRUFrameIDs sess) \<le> 16"
    and "set (se_MRUFrameIDs sess) \<subseteq> A"
  shows "se_Frames sess' = se_Frames sess \<and> se_ID sess' = se_ID sess \<and> se_EndedAt sess' = se_EndedAt sess \<and>
    (f \<noteq> '''' \<longrightarrow> f \<in> sf_ID ` set (se_Frames sess)) \<and> distinct (se_MRUFrameIDs sess') \<and>
    length (se_MRUFrameIDs sess') \<le> 16 \<and> set (se_MRUFrameIDs sess') \<subseteq> A"
proof (cases "dropWhile (\<lambda>id. id \<notin> set (map sf_ID (se_Frames sess))) (se_MRUFrameIDs sess)")
  case Nil
  have "f = '''' \<and> sess' = sess\<lparr>se_MRUFrameIDs := []\<rparr>" using assms(1) unfolding popMRU_def Let_def Nil by simp
  then show ?thesis by simp
next
  case (Cons i rest)
  then have hd: "i \<in> sf_ID ` set (se_Frames sess)"
    using hd_dropWhile[of "\<lambda>id. id \<notin> set (map sf_ID (se_Frames sess))" "se_MRUFrameIDs sess"] by simp
  obtain pre where "se_MRUFrameIDs sess = pre @ i # rest"
    using Cons by (metis takeWhile_dropWhile_id)
  then have "distinct rest" "length rest \<le> 16" "set rest \<subseteq> A" using assms by auto
  moreover have "f = i" "sess' = sess\<lparr>se_MRUFrameIDs := rest\<rparr>"
    using assms(1) unfolding popMRU_def Let_def Cons by simp_all
  ultimately show ?thesis using hd by simp
qed

section \<open>Shapes of the handlers' sessions\<close>

lemma shape_ok_iff:
  "shape_ok sid (shape sess) \<longleftrightarrow>
     se_ID sess = sid \<and>
     (if se_Frames sess = [] then se_HeadFrameID sess = '''' else se_HeadFrameID sess \<in> sf_ID ` set (se_Frames sess)) \<and>
     set (se_MRUFrameIDs sess) \<subseteq> sf_ID ` set (se_Frames sess) \<and> distinct (se_MRUFrameIDs sess) \<and>
     length (se_MRUFrameIDs sess) \<le> 16"
  by (simp add: shape_ok_def shape_def)

lemma shape_endSession: "shape_ok sid (shape sess) \<Longrightarrow> shape_ok sid (shape (endSession sess now))"
  by (simp add: shape_ok_iff endSession_def)

lemma shape_newSession: "shape_ok sid (shape (newSession sid project now command options ds frame))"
  by (simp add: shape_ok_iff newSession_def)

lemma shape_pushed:
  assumes "shape_ok sid (shape sess)"
  shows "shape_ok sid (shape (pushFrame sess frame))"
  using assms pushMRU_ok[of sess "sf_ID ` set (se_Frames sess)" "se_HeadFrameID sess"]
  by (auto simp: shape_ok_iff pushFrame_def Let_def split: if_splits)

lemma shape_setHead:
  assumes "shape_ok sid (shape sess)" and "f \<in> sf_ID ` set (se_Frames sess)"
  shows "shape_ok sid (shape ((pushMRU sess (se_HeadFrameID sess))\<lparr>se_HeadFrameID := f\<rparr>))"
  using assms pushMRU_ok[of sess "sf_ID ` set (se_Frames sess)" "se_HeadFrameID sess"]
  by (auto simp: shape_ok_iff split: if_splits)

lemma remove_nth_ids:
  assumes "n < length fs"
  shows "set fs \<subseteq> insert (fs ! n) (set (take n fs @ drop (Suc n) fs))"
proof -
  have "fs = take n fs @ fs ! n # drop (Suc n) fs" using assms by (rule id_take_nth_drop)
  then have "set fs = set (take n fs) \<union> {fs ! n} \<union> set (drop (Suc n) fs)" by (metis Un_assoc Un_insert_left insert_is_Un list.simps(15) set_append)
  then show ?thesis by auto
qed


section \<open>What one step of the host may do\<close>

definition torn_down :: "'j Effect list \<Rightarrow> FrameID \<Rightarrow> bool" where
  "torn_down effs f \<longleftrightarrow>
     EffReleaseFrame f \<in> set effs \<and> EffUnregisterFrame f \<in> set effs \<and> EffUnwatchFile f \<in> set effs"

definition host_ok :: "'ds State \<Rightarrow> bool" where
  "host_ok s \<longleftrightarrow> sessions_ok s \<and> approvals_ok s \<and> questions_ok s"

definition step_ok :: "'ds State \<Rightarrow> 'ds State \<Rightarrow> 'j Effect list \<Rightarrow> bool" where
  "step_ok s s' effs \<longleftrightarrow>
     approvals_evolve s s' effs \<and> questions_evolve s s' effs \<and> sessions_ok s' \<and>
     (\<forall>f \<in> live_frames s - live_frames s'. torn_down effs f)"

lemma step_ok_host: "step_ok s s' effs \<Longrightarrow> host_ok s'"
  by (simp add: step_ok_def host_ok_def approvals_evolve_def questions_evolve_def requests_evolve_def
      approvals_ok_def questions_ok_def)

text \<open>Effects that answer no held request.\<close>

fun plain_effect :: "'j Effect \<Rightarrow> bool" where
  "plain_effect (EffReplyHeldApproval _ _ _ _) = False"
| "plain_effect (EffReplyHeldQuestion _ _ _ _) = False"
| "plain_effect _ = True"

lemma plain_resp [simp]: "plain_effect (errResp c r code msg)" "plain_effect (okResp c r b)"
  "plain_effect (sessionNotFound c r sid)" "plain_effect (spawnEffect sid f l c r)"
  by (simp_all add: errResp_def okResp_def sessionNotFound_def spawnEffect_def)

lemma plain_counts:
  "list_all plain_effect effs \<Longrightarrow> count_replies approval_reply i effs = 0"
  "list_all plain_effect effs \<Longrightarrow> count_replies question_reply i effs = 0"
proof (induction effs)
  case (Cons e effs)
  { case 1 then show ?case using Cons by (cases e) auto }
  { case 2 then show ?case using Cons by (cases e) auto }
qed simp_all

lemma routine_plain: "list_all routine_effect effs \<Longrightarrow> list_all plain_effect effs"
proof (induction effs)
  case (Cons e effs)
  then show ?case by (cases e) auto
qed simp

lemma torn_down_append [simp]: "torn_down effs f \<Longrightarrow> torn_down (effs @ effs2) f" "torn_down effs f \<Longrightarrow> torn_down (effs2 @ effs) f"
  by (auto simp: torn_down_def)

lemma step_ok_same:
  assumes "host_ok s" and "h_PendingApprovals s' = h_PendingApprovals s" and "h_PendingQuestions s' = h_PendingQuestions s"
    and "sessions_ok s'" and "\<And>f. f \<in> live_frames s \<Longrightarrow> f \<in> live_frames s' \<or> torn_down effs f"
    and "list_all plain_effect effs"
  shows "step_ok s s' effs"
  using assms plain_counts[OF assms(6)]
  by (auto simp: step_ok_def host_ok_def intro!: evolve_approvals_same evolve_questions_same)

lemma step_ok_pre:
  assumes "step_ok t u effs" and "h_PendingApprovals t = h_PendingApprovals s" and "h_PendingQuestions t = h_PendingQuestions s"
    and "live_frames s \<subseteq> live_frames t" and "list_all plain_effect pre"
  shows "step_ok s u (pre @ effs)"
proof -
  have "approvals_evolve s u (pre @ effs)"
    by (rule evolve_approvals_cong[of t u effs]) (use assms plain_counts[OF assms(5)] in \<open>simp_all add: step_ok_def\<close>)
  moreover have "questions_evolve s u (pre @ effs)"
    by (rule evolve_questions_cong[of t u effs]) (use assms plain_counts[OF assms(5)] in \<open>simp_all add: step_ok_def\<close>)
  ultimately show ?thesis using assms by (auto simp: step_ok_def)
qed

lemma step_ok_post:
  assumes "step_ok s t effs" and "h_PendingApprovals u = h_PendingApprovals t" and "h_PendingQuestions u = h_PendingQuestions t"
    and "sessions_ok u" and "live_frames t \<subseteq> live_frames u" and "list_all plain_effect post"
  shows "step_ok s u (effs @ post)"
proof -
  have "approvals_evolve s u (effs @ post)"
    by (rule evolve_approvals_cong[of s t effs]) (use assms plain_counts[OF assms(6)] in \<open>simp_all add: step_ok_def\<close>)
  moreover have "questions_evolve s u (effs @ post)"
    by (rule evolve_questions_cong[of s t effs]) (use assms plain_counts[OF assms(6)] in \<open>simp_all add: step_ok_def\<close>)
  moreover have "live_frames s - live_frames u \<subseteq> live_frames s - live_frames t" using assms(5) by blast
  ultimately show ?thesis using assms(1,4) by (auto simp: step_ok_def)
qed

section \<open>Steps that only add frames\<close>

definition grows :: "'ds State \<Rightarrow> 'ds State \<Rightarrow> 'j Effect list \<Rightarrow> bool" where
  "grows s s' effs \<longleftrightarrow>
     core_eq s s' \<and> sessions_ok s' \<and> live_frames s \<subseteq> live_frames s' \<and> list_all routine_effect effs"

lemma grows_run: "driver_run env s s' effs \<Longrightarrow> drivers_ok env \<Longrightarrow> sessions_ok s \<Longrightarrow> grows s s' effs"
  using driver_run_sessions[of env s s' effs]
  by (auto simp: grows_def driver_run_def list_all_iff)

lemma grows_trans: "grows s t effs \<Longrightarrow> grows t u effs2 \<Longrightarrow> grows s u (effs @ effs2)"
  by (auto simp: grows_def intro: core_eq_trans)

lemma grows_refl [simp]: "sessions_ok s \<Longrightarrow> grows s s []"
  by (simp add: grows_def)

lemma grows_step: "host_ok s \<Longrightarrow> grows s s' effs \<Longrightarrow> step_ok s s' effs"
  by (rule step_ok_same) (auto simp: grows_def core_eq_def host_ok_def routine_plain)

lemma alloc_fields:
  "allocSessionID env s = (i, s') \<Longrightarrow> s' = s\<lparr>h_RandPos := Suc (h_RandPos s)\<rparr> \<and> i = hex_encode (env_Rand env (h_RandPos s))"
  "allocFrameID env s = (i, s') \<Longrightarrow> s' = s\<lparr>h_RandPos := Suc (h_RandPos s)\<rparr> \<and> i = hex_encode (env_Rand env (h_RandPos s))"
  by (auto simp: allocFrameID_def allocSessionID_def)

lemma shapes_RandPos [simp]: "shapes (s\<lparr>h_RandPos := n\<rparr>) = shapes s"
  by (simp add: shapes_def fun_eq_iff)

lemma sessions_ok_RandPos [simp]: "sessions_ok (s\<lparr>h_RandPos := n\<rparr>) = sessions_ok s"
  by (simp add: sessions_ok_def)

lemma live_frames_RandPos [simp]: "live_frames (s\<lparr>h_RandPos := n\<rparr>) = live_frames s"
  by (simp add: live_frames_def)

lemma routine_spawn [simp]: "routine_effect (spawnEffect sid f l c r)"
  by (simp add: spawnEffect_def)

lemma push_grows:
  assumes ok: "sessions_ok s" and push: "pushDriverInternal env s sid project raw options inp c r = Inr (s', effs)"
  shows "grows s s' effs"
proof -
  obtain sess frame fid launch n where sess: "map_of (h_Sessions s) sid = Some sess"
    and s': "s' = putSession (s\<lparr>h_RandPos := n\<rparr>) sid (pushFrame sess frame)"
    and effs: "effs = [spawnEffect sid fid launch c r]"
    using push
    by (auto simp: pushDriverInternal_def Let_def allocFrameID_def allocSessionID_def
        split: option.splits sum.splits prod.splits)
  have sh: "shape_ok sid (shape sess)" by (rule sessions_ok_get[OF ok sess])
  have "sessions_ok s'" unfolding s' using ok sh by (intro sessions_ok_put shape_pushed) simp_all
  moreover have "live_frames s \<subseteq> live_frames s'"
    unfolding s' live_frames_put live_frames_split[OF sess] by (auto simp: pushFrame_def Let_def)
  ultimately show ?thesis by (simp add: grows_def s' effs core_eq_def putSession_def)
qed

lemma resolvePush_grows:
  "sessions_ok s \<Longrightarrow> list_all routine_effect raw \<Longrightarrow> resolvePushDriverEffects env s raw = (s', effs) \<Longrightarrow> grows s s' effs"
proof (induction env s raw arbitrary: s' effs rule: resolvePushDriverEffects.induct)
  case (2 env s sid command raw)
  show ?case
  proof (cases "pushDriverInternal env s sid '''' command zero_options [] 0 ''''")
    case (Inl err)
    then show ?thesis using 2 by simp
  next
    case (Inr p)
    obtain t pe where p: "p = (t, pe)" by (cases p)
    obtain u effs2 where rest: "resolvePushDriverEffects env t raw = (u, effs2)" by fastforce
    have g: "grows s t pe" using push_grows[OF "2.prems"(1)] Inr p by simp
    then have "grows t u effs2" using "2.IH"(2)[OF Inr p[symmetric]] "2.prems" rest p
      by (simp add: grows_def)
    then show ?thesis using g "2.prems"(3) Inr p rest grows_trans by fastforce
  qed
qed (auto simp: grows_def split: prod.splits)


section \<open>Steps that remove frames\<close>

lemma count_concat_zero:
  "(\<And>h. count_replies reply i (g h) = 0) \<Longrightarrow> count_replies reply i (concat (map g hits)) = 0"
  by (induction hits) simp_all

lemma reap_nothing:
  "cancelApprovalsForSession s '''' = (s, [])" "cancelApprovalsForFrame s '''' = (s, [])"
  "cancelQuestionsForSession s '''' = (s, [])" "cancelQuestionsForFrame s '''' = (s, [])"
  "is_zero now \<Longrightarrow> expirePendingApprovals s now = (s, [])" "is_zero now \<Longrightarrow> expirePendingQuestions s now = (s, [])"
  by (simp_all add: cancelApprovalsForSession_def cancelApprovalsForFrame_def cancelQuestionsForSession_def
      cancelQuestionsForFrame_def expirePendingApprovals_def expirePendingQuestions_def)

text \<open>The reaping and expiry loops write their own store and reply to their own kind only.\<close>

lemma cancelSession_frame:
  "cancelApprovalsForSession s sid = (s', effs) \<Longrightarrow>
     s' = s\<lparr>h_PendingApprovals := h_PendingApprovals s'\<rparr> \<and> count_replies question_reply i effs = 0"
  by (cases "sid = ''''") (auto simp: cancelSession_eq reap_nothing intro!: count_concat_zero)

lemma cancelFrame_frame:
  "cancelApprovalsForFrame s f = (s', effs) \<Longrightarrow>
     s' = s\<lparr>h_PendingApprovals := h_PendingApprovals s'\<rparr> \<and> count_replies question_reply i effs = 0"
  by (cases "f = ''''") (auto simp: cancelFrame_eq reap_nothing intro!: count_concat_zero)

lemma expire_frame:
  "expirePendingApprovals s now = (s', effs) \<Longrightarrow>
     s' = s\<lparr>h_PendingApprovals := h_PendingApprovals s'\<rparr> \<and> count_replies question_reply i effs = 0"
  by (cases "is_zero now") (auto simp: expirePendingApprovals_eq reap_nothing intro!: count_concat_zero)

lemma cancelQSession_frame:
  "cancelQuestionsForSession s sid = (s', effs) \<Longrightarrow>
     s' = s\<lparr>h_PendingQuestions := h_PendingQuestions s'\<rparr> \<and> count_replies approval_reply i effs = 0"
  by (cases "sid = ''''") (auto simp: cancelQSession_eq reap_nothing intro!: count_concat_zero)

lemma cancelQFrame_frame:
  "cancelQuestionsForFrame s f = (s', effs) \<Longrightarrow>
     s' = s\<lparr>h_PendingQuestions := h_PendingQuestions s'\<rparr> \<and> count_replies approval_reply i effs = 0"
  by (cases "f = ''''") (auto simp: cancelQFrame_eq reap_nothing intro!: count_concat_zero)

lemma expireQ_frame:
  "expirePendingQuestions s now = (s', effs) \<Longrightarrow>
     s' = s\<lparr>h_PendingQuestions := h_PendingQuestions s'\<rparr> \<and> count_replies approval_reply i effs = 0"
  by (cases "is_zero now") (auto simp: expirePendingQuestions_eq reap_nothing intro!: count_concat_zero)

lemma sessions_ok_cong: "h_Sessions s' = h_Sessions s \<Longrightarrow> sessions_ok s' = sessions_ok s"
  by (simp add: sessions_ok_def shapes_def)

lemma live_frames_cong: "h_Sessions s' = h_Sessions s \<Longrightarrow> live_frames s' = live_frames s"
  using shapes_cong[of s' s] by (simp add: live_frames_def)

text \<open>
  Both stores evolve while the sessions stay: the common shape of an eviction and of the expiry on a
  tick. The effects come in three groups, the approvals', the questions' and plain ones.
\<close>

lemma reap_both:
  assumes "approvals_evolve s t e1" and "t = s\<lparr>h_PendingApprovals := h_PendingApprovals t\<rparr>"
    and "\<And>i. count_replies question_reply i e1 = 0"
    and "questions_evolve t u e2" and "u = t\<lparr>h_PendingQuestions := h_PendingQuestions u\<rparr>"
    and "\<And>i. count_replies approval_reply i e2 = 0"
    and "\<And>i. count_replies approval_reply i effs = count_replies approval_reply i e1"
    and "\<And>i. count_replies question_reply i effs = count_replies question_reply i e2"
  shows "approvals_evolve s u effs" and "questions_evolve s u effs" and "h_Sessions u = h_Sessions s"
proof -
  have "h_PendingApprovals u = h_PendingApprovals t"
    by (subst assms(5)) simp
  then show "approvals_evolve s u effs"
    by (intro evolve_approvals_cong[OF assms(1)]) (simp_all add: assms(7))
  have "h_PendingQuestions s = h_PendingQuestions t"
    by (subst assms(2)) simp
  then show "questions_evolve s u effs"
    by (intro evolve_questions_cong[OF assms(4)]) (simp_all add: assms(8))
  have "h_Sessions u = h_Sessions t" by (subst assms(5)) simp
  also have "\<dots> = h_Sessions s" by (subst assms(2)) simp
  finally show "h_Sessions u = h_Sessions s" .
qed

lemma teardown_plain [simp]: "list_all plain_effect (frameTeardownEffects f k)"
  by (simp add: frameTeardownEffects_def)

lemma teardown_torn [simp]: "torn_down (frameTeardownEffects f k) f"
  by (simp add: frameTeardownEffects_def torn_down_def)

lemma teardowns_plain: "list_all plain_effect (concat (map (\<lambda>f. frameTeardownEffects (sf_ID f) k) fs))"
  by (induction fs) simp_all

lemma teardowns_torn:
  "f \<in> sf_ID ` set fs \<Longrightarrow> torn_down (concat (map (\<lambda>f. frameTeardownEffects (sf_ID f) k) fs)) f"
  by (induction fs) auto

lemma ok_put_questions: "approvals_ok (putSession s sid sess) = approvals_ok s" "questions_ok (putSession s sid sess) = questions_ok s"
  by (simp_all add: approvals_ok_def questions_ok_def putSession_def)

text \<open>The sessions that an eviction leaves: the session is ended or dropped.\<close>

lemma evict_sessions:
  assumes ok: "sessions_ok s" and sess: "map_of (h_Sessions s) sid = Some sess"
    and t: "t = (if disposition = retainEndedSession then putSession s sid (endSession sess (h_Now s))
                 else s\<lparr>h_Sessions := AList.delete sid (h_Sessions s)\<rparr>)"
  shows "sessions_ok t" and "live_frames s \<subseteq> sf_ID ` set (se_Frames sess) \<union> live_frames t"
proof -
  have shd: "shapes (s\<lparr>h_Sessions := AList.delete sid (h_Sessions s)\<rparr>) = (shapes s)(sid := None)"
    by (auto simp: shapes_def)
  have "shape_ok sid (shape (endSession sess (h_Now s)))"
    by (rule shape_endSession[OF sessions_ok_get[OF ok sess]])
  then show "sessions_ok t"
    using ok sessions_ok_put[OF ok] by (auto simp: t sessions_ok_def shd)
  show "live_frames s \<subseteq> sf_ID ` set (se_Frames sess) \<union> live_frames t"
    unfolding live_frames_split[OF sess] t
    by (auto simp: live_frames_put live_frames_def[of "s\<lparr>h_Sessions := AList.delete sid (h_Sessions s)\<rparr>"] shd)
qed

lemma evictRoot_step:
  fixes effs :: "'j Effect list"
  assumes ok: "host_ok s" and sess: "map_of (h_Sessions s) sid = Some sess"
    and ev: "evictRootFrame s sid sess kill disposition = (s', effs, b)"
  shows "step_ok s s' effs"
proof -
  define t where "t = (if disposition = retainEndedSession then putSession s sid (endSession sess (h_Now s))
                 else s\<lparr>h_Sessions := AList.delete sid (h_Sessions s)\<rparr>)"
  have same: "h_PendingApprovals t = h_PendingApprovals s" "h_PendingQuestions t = h_PendingQuestions s"
    by (simp_all add: t_def putSession_def)
  obtain t1 and e1 :: "'j Effect list" where c1: "cancelApprovalsForSession t sid = (t1, e1)" by fastforce
  obtain t2 and e2 :: "'j Effect list" where c2: "cancelQuestionsForSession t1 sid = (t2, e2)" by fastforce
  define td :: "'j Effect list" where "td = concat (map (\<lambda>f. frameTeardownEffects (sf_ID f) kill) (se_Frames sess))"
  have res: "s' = t2" "effs = e1 @ e2 @ td @ [EffPersistSnapshot, EffBroadcastSessionsChanged]"
    using ev c1 c2 by (auto simp: evictRootFrame_def Let_def t_def td_def truncateFrames_def split: prod.splits)
  have okt: "approvals_ok t" "questions_ok t" using ok same by (simp_all add: host_ok_def approvals_ok_def questions_ok_def)
  note f1 = cancelSession_frame[OF c1] and f2 = cancelQSession_frame[OF c2]
  have "h_PendingQuestions t1 = h_PendingQuestions t" using f1 by (metis State.select_convs(15) State.surjective State.update_convs(14))
  then have okq: "questions_ok t1" using okt by (simp add: questions_ok_def)
  note ev1 = cancelSession_evolves[OF okt(1) c1] and ev2 = cancelQSession_evolves[OF okq c2]
  have pl: "list_all plain_effect (td @ [EffPersistSnapshot, EffBroadcastSessionsChanged])"
    using teardowns_plain[of kill "se_Frames sess"] by (simp add: td_def)
  note both = reap_both[of t t1 e1 t2 e2 effs, OF ev1 _ _ ev2]
  have A: "approvals_evolve t t2 effs" and Q: "questions_evolve t t2 effs" and S: "h_Sessions t2 = h_Sessions t"
    using both f1 f2 plain_counts[OF pl] unfolding res(2) by simp_all
  have es: "sessions_ok t" "live_frames s \<subseteq> sf_ID ` set (se_Frames sess) \<union> live_frames t"
    using evict_sessions[OF _ sess t_def] ok by (simp_all add: host_ok_def)
  have torn: "torn_down effs f" if "f \<in> sf_ID ` set (se_Frames sess)" for f
  proof -
    have "torn_down td f" unfolding td_def by (rule teardowns_torn[OF that])
    then show ?thesis unfolding res(2) by simp
  qed
  have "approvals_evolve s t2 effs" "questions_evolve s t2 effs"
    using A Q same unfolding approvals_evolve_def questions_evolve_def by simp_all
  then show ?thesis
    using es torn sessions_ok_cong[OF S] live_frames_cong[OF S] by (auto simp: step_ok_def res(1))
qed


text \<open>The session that is left when a child frame goes.\<close>

definition childEvicted :: "'ds Session \<Rightarrow> nat \<Rightarrow> FrameID \<Rightarrow> 'ds Session" where
  "childEvicted sess idx frameID =
     (let rest = pruneMRU (bumpFrameGeneration (fst (removeFrameByIndex sess idx)))
      in if se_HeadFrameID sess = frameID then
           (let (fallback, rest) = popMRU rest
            in rest\<lparr>se_HeadFrameID := (if fallback = '''' then sf_ID (hd (se_Frames rest)) else fallback)\<rparr>)
         else rest)"

lemma childEvicted_frames:
  "se_Frames (childEvicted sess idx f) = take idx (se_Frames sess) @ drop (Suc idx) (se_Frames sess)"
  "se_ID (childEvicted sess idx f) = se_ID sess" "se_EndedAt (childEvicted sess idx f) = se_EndedAt sess"
  by (simp_all add: childEvicted_def Let_def removeFrameByIndex_def popMRU_def split: prod.splits list.splits)

lemma shape_childEvicted:
  assumes sh: "shape_ok sid (shape sess)" and idx: "0 < idx" "idx < length (se_Frames sess)"
    and f: "sf_ID (se_Frames sess ! idx) = f"
  shows "shape_ok sid (shape (childEvicted sess idx f))"
proof -
  define rest where "rest = pruneMRU (bumpFrameGeneration (fst (removeFrameByIndex sess idx)))"
  define fs where "fs = take idx (se_Frames sess) @ drop (Suc idx) (se_Frames sess)"
  have fs: "se_Frames rest = fs" "fs \<noteq> []" "se_ID rest = se_ID sess" "se_HeadFrameID rest = se_HeadFrameID sess"
    using idx by (auto simp: rest_def fs_def removeFrameByIndex_def)
  have len: "length (se_MRUFrameIDs sess) \<le> 16" using sh by (simp add: shape_ok_iff)
  have mru: "set (se_MRUFrameIDs rest) \<subseteq> sf_ID ` set fs" "distinct (se_MRUFrameIDs rest)" "length (se_MRUFrameIDs rest) \<le> 16"
    using pruneMRU_ok[of "bumpFrameGeneration (fst (removeFrameByIndex sess idx))"] len
    by (auto simp: rest_def removeFrameByIndex_def fs_def)
  show ?thesis
  proof (cases "se_HeadFrameID sess = f")
    case True
    obtain fb r2 where pop: "popMRU rest = (fb, r2)" by fastforce
    have r2: "se_Frames r2 = fs" "se_ID r2 = se_ID sess" "fb \<noteq> '''' \<longrightarrow> fb \<in> sf_ID ` set fs"
      "set (se_MRUFrameIDs r2) \<subseteq> sf_ID ` set fs" "distinct (se_MRUFrameIDs r2)" "length (se_MRUFrameIDs r2) \<le> 16"
      using popMRU_ok[OF pop mru(2,3,1)] fs by auto
    moreover have "hd fs \<in> set fs" using fs(2) by simp
    moreover have "childEvicted sess idx f = r2\<lparr>se_HeadFrameID := (if fb = '''' then sf_ID (hd (se_Frames r2)) else fb)\<rparr>"
      using True pop by (simp add: childEvicted_def Let_def rest_def)
    ultimately show ?thesis using sh fs by (auto simp: shape_ok_iff)
  next
    case False
    have "se_HeadFrameID sess \<in> sf_ID ` set (se_Frames sess)" using sh idx by (auto simp: shape_ok_iff split: if_splits)
    then have "se_HeadFrameID sess \<in> sf_ID ` set fs"
      using remove_nth_ids[OF idx(2)] False f unfolding fs_def by auto
    moreover have "childEvicted sess idx f = rest" using False by (simp add: childEvicted_def Let_def rest_def)
    ultimately show ?thesis using sh fs mru by (auto simp: shape_ok_iff)
  qed
qed

lemma evictChild_step:
  fixes effs :: "'j Effect list"
  assumes ok: "host_ok s" and sess: "map_of (h_Sessions s) sid = Some sess"
    and idx: "0 < idx" "idx < length (se_Frames sess)" and f: "sf_ID (se_Frames sess ! idx) = f"
    and ev: "evictChildFrame s sid sess idx f kill = (s', effs, b)"
  shows "step_ok s s' effs"
proof -
  define t where "t = putSession s sid (childEvicted sess idx f)"
  have same: "h_PendingApprovals t = h_PendingApprovals s" "h_PendingQuestions t = h_PendingQuestions s"
    by (simp_all add: t_def putSession_def)
  obtain t1 and e1 :: "'j Effect list" where c1: "cancelApprovalsForFrame t f = (t1, e1)" by fastforce
  obtain t2 and e2 :: "'j Effect list" where c2: "cancelQuestionsForFrame t1 f = (t2, e2)" by fastforce
  define td :: "'j Effect list" where "td = frameTeardownEffects f kill"
  have res: "s' = t2" "effs = e1 @ td @ e2 @ [EffPersistSnapshot, EffBroadcastSessionsChanged]"
    using ev c1 c2 f
    by (auto simp: evictChildFrame_def childEvicted_def Let_def t_def td_def removeFrameByIndex_def split: prod.splits if_splits)
  have okt: "approvals_ok t" "questions_ok t" using ok same by (simp_all add: host_ok_def approvals_ok_def questions_ok_def)
  note f1 = cancelFrame_frame[OF c1] and f2 = cancelQFrame_frame[OF c2]
  have "h_PendingQuestions t1 = h_PendingQuestions t" using f1 by (metis State.select_convs(15) State.surjective State.update_convs(14))
  then have okq: "questions_ok t1" using okt by (simp add: questions_ok_def)
  note ev1 = cancelFrame_evolves[OF okt(1) c1] and ev2 = cancelQFrame_evolves[OF okq c2]
  have pl: "list_all plain_effect (td @ [EffPersistSnapshot, EffBroadcastSessionsChanged])" "list_all plain_effect td"
    by (simp_all add: td_def)
  note both = reap_both[of t t1 e1 t2 e2 effs, OF ev1 _ _ ev2]
  have A: "approvals_evolve t t2 effs" and Q: "questions_evolve t t2 effs" and S: "h_Sessions t2 = h_Sessions t"
    using both f1 f2 plain_counts[OF pl(2)] unfolding res(2) by simp_all
  have "shape_ok sid (shape sess)" using sessions_ok_get[OF _ sess] ok by (simp add: host_ok_def)
  then have "sessions_ok t"
    unfolding t_def using ok by (intro sessions_ok_put shape_childEvicted) (simp_all add: host_ok_def idx f)
  moreover have "live_frames s \<subseteq> insert f (live_frames t)"
    unfolding t_def live_frames_put live_frames_split[OF sess] childEvicted_frames
    using remove_nth_ids[OF idx(2)] f by auto
  moreover have "torn_down effs f" unfolding res(2) td_def by simp
  moreover have "approvals_evolve s t2 effs" "questions_evolve s t2 effs"
    using A Q same unfolding approvals_evolve_def questions_evolve_def by simp_all
  ultimately show ?thesis
    using sessions_ok_cong[OF S] live_frames_cong[OF S] by (auto simp: step_ok_def res(1))
qed

lemma evict_step:
  assumes ok: "host_ok s" and ev: "evictFrame s f kill disposition = (s', effs, b)"
  shows "step_ok s s' effs"
proof (cases "findFrame s f")
  case None
  then show ?thesis using assms by (auto simp: evictFrame_def host_ok_def intro!: step_ok_same)
next
  case (Some p)
  obtain sid sess idx where p: "findFrame s f = Some (sid, sess, idx)" using Some by (cases p) auto
  have wf: "wf_map (h_Sessions s)" using ok by (simp add: host_ok_def sessions_ok_def)
  note ff = findFrame_Some[OF wf p]
  show ?thesis
  proof (cases "idx = 0")
    case True
    then show ?thesis using evictRoot_step[OF ok ff(1)] ev p by (simp add: evictFrame_def)
  next
    case False
    then show ?thesis using evictChild_step[OF ok ff(1) _ ff(2,3)] ev p by (simp add: evictFrame_def)
  qed
qed

end
