(* ===== verification/HostStep.thy ===== *)
theory HostStep
  imports HostSessInv
begin

text \<open>
  One lemma per handler: from a well-formed state a handler takes a step that keeps the invariant,
  moves human-input requests forward only, replies to a held request exactly when it is owed a reply,
  and removes frames only with their teardown effects.
\<close>

lemma step_ok_idle:
  "host_ok s \<Longrightarrow> h_Sessions s' = h_Sessions s \<Longrightarrow> h_PendingApprovals s' = h_PendingApprovals s \<Longrightarrow>
     h_PendingQuestions s' = h_PendingQuestions s \<Longrightarrow> list_all plain_effect effs \<Longrightarrow> step_ok s s' effs"
  using sessions_ok_cong[of s' s] live_frames_cong[of s' s] by (intro step_ok_same) (auto simp: host_ok_def)

section \<open>Sessions\<close>

lemma live_put_fresh:
  "map_of (h_Sessions s) sid = None \<Longrightarrow> live_frames s \<subseteq> live_frames (putSession s sid sess)"
proof -
  assume "map_of (h_Sessions s) sid = None"
  then have "(shapes s)(sid := None) = shapes s" by (auto simp: shapes_def)
  then show ?thesis unfolding live_frames_put by (simp add: live_frames_def)
qed

lemma shapes_put_same:
  "map_of (h_Sessions s) sid = Some sess \<Longrightarrow> shape sess' = shape sess \<Longrightarrow> shapes (putSession s sid sess') = shapes s"
  by (auto simp: shapes_putSession shapes_def)

lemma put_same_shape:
  assumes "host_ok s" and "map_of (h_Sessions s) sid = Some sess" and "shape sess' = shape sess"
    and "list_all plain_effect effs"
  shows "step_ok s (putSession s sid sess') effs"
proof (rule step_ok_same)
  note sh = shapes_put_same[OF assms(2,3)]
  show "sessions_ok (putSession s sid sess')" using assms(1) by (simp add: host_ok_def sessions_ok_def sh)
  show "f \<in> live_frames (putSession s sid sess') \<or> torn_down effs f" if "f \<in> live_frames s" for f
    using that by (simp add: live_frames_def sh)
qed (use assms in \<open>simp_all add: putSession_def\<close>)

lemma stop_step:
  assumes ok: "host_ok s" and st: "reduceStopSession s c r sid = (s', effs)"
  shows "step_ok s s' effs"
proof (cases "map_of (h_Sessions s) sid")
  case None
  then show ?thesis using assms by (auto simp: reduceStopSession_def intro!: step_ok_idle)
next
  case (Some sess)
  have s': "s' = putSession s sid (endSession sess (h_Now s))"
    and effs: "effs = EffBroadcastSessionsChanged # concat (map (\<lambda>f. frameTeardownEffects (sf_ID f) True) (se_Frames sess)) @
      [okResp c r BodyNil, EffPersistSnapshot]"
    using st Some by (auto simp: reduceStopSession_def truncateFrames_def)
  have es: "sessions_ok s'" "live_frames s \<subseteq> sf_ID ` set (se_Frames sess) \<union> live_frames s'"
    using evict_sessions[of s sid sess s' retainEndedSession] ok Some s' by (simp_all add: host_ok_def)
  have torn: "f \<in> sf_ID ` set (se_Frames sess) \<Longrightarrow> torn_down effs f" for f
    using torn_down_append(2)[of _ f "[EffBroadcastSessionsChanged]", OF torn_down_append(1)[OF teardowns_torn]]
    unfolding effs by simp
  show ?thesis
    using es torn teardowns_plain[of True "se_Frames sess"]
    by (intro step_ok_same[OF ok]) (auto simp: s' effs putSession_def)
qed

lemma vanished_step:
  fixes effs :: "'j Effect list"
  assumes ok: "host_ok s" and v: "reduceFrameVanished s f = (s', effs)"
  shows "step_ok s s' effs"
proof -
  obtain t e b where ev: "evictFrame s f False retainEndedSession = (t, e :: 'j Effect list, b)" by (metis prod_cases3)
  have "\<not> b \<Longrightarrow> e = []" using ev
    by (auto simp: evictFrame_def evictRootFrame_def evictChildFrame_def Let_def split: option.splits if_splits prod.splits)
  then have "s' = t" "effs = e" using v ev by (auto simp: reduceFrameVanished_def split: if_splits)
  then show ?thesis using evict_step[OF ok ev] by simp
qed

lemma spawnFailed_step:
  fixes effs :: "'j Effect list"
  assumes ok: "host_ok s" and v: "reduceSpawnFailed s f err c r = (s', effs)"
  shows "step_ok s s' effs"
proof -
  obtain t e b where ev: "evictFrame s f False dropUnstartedSession = (t, e :: 'j Effect list, b)" by (metis prod_cases3)
  define p where "p = (if b then (t, e) else (s, []))"
  have p: "step_ok s (fst p) (snd p)"
    using evict_step[OF ok ev] ok by (simp add: p_def step_ok_idle)
  have "s' = fst p \<and> effs = snd p @ (if c = 0 then [] else [errResp c r ErrCodeInternal (''frame spawn failed: '' @ err)])"
    using v ev by (auto simp: reduceSpawnFailed_def p_def)
  moreover have "sessions_ok (fst p)" using step_ok_host[OF p] by (simp add: host_ok_def)
  ultimately show ?thesis using p by (auto intro!: step_ok_post)
qed

lemma grows_post:
  "host_ok s \<Longrightarrow> grows s t effs \<Longrightarrow> list_all plain_effect post \<Longrightarrow> step_ok s t (effs @ post)"
  using grows_step[of s t effs] by (auto simp: grows_def intro!: step_ok_post)

lemma grows_around:
  "host_ok s \<Longrightarrow> grows s t effs \<Longrightarrow> list_all plain_effect pre \<Longrightarrow> list_all plain_effect post \<Longrightarrow>
     step_ok s t (pre @ effs @ post)"
  using step_ok_pre[OF grows_post[of s t effs post], of s pre] by simp

lemma host_wf: "host_ok s \<Longrightarrow> wf_map (h_Sessions s)"
  by (simp add: host_ok_def sessions_ok_def)

lemma host_sessions: "host_ok s \<Longrightarrow> sessions_ok s"
  by (simp add: host_ok_def)

lemma stepDriver_grows:
  "drivers_ok env \<Longrightarrow> sessions_ok s \<Longrightarrow> stepDriver env s f ev = (t, effs, b) \<Longrightarrow> grows s t effs"
  using driver_run_step[of env s f ev t effs b] grows_run[of env s t effs] by (simp add: sessions_ok_def)

lemma commandExited_step:
  assumes ok: "host_ok s" and d: "drivers_ok env" and ex: "reduceFrameCommandExited env s f code = (s', effs)"
  shows "step_ok s s' effs"
proof -
  consider "s' = s" "list_all plain_effect effs"
    | b where "evictFrame s f True retainEndedSession = (s', effs, b)"
    | raw b where "stepDriver env s f (DEvCommandExited code (h_Now s)) = (s', raw, b)" "effs = raw @ [EffReleaseFrame f]"
    using ex by (auto simp: reduceFrameCommandExited_def Let_def split: option.splits if_splits prod.splits)
  then show ?thesis
  proof cases
    case 1 then show ?thesis using ok by (simp add: step_ok_idle)
  next
    case 2 then show ?thesis by (rule evict_step[OF ok])
  next
    case 3 then show ?thesis using grows_post[OF ok stepDriver_grows[OF d host_sessions[OF ok]]] by simp
  qed
qed

definition fresh_draw :: "('ds, 'j, 'r) Env \<Rightarrow> 'ds State \<Rightarrow> bool" where
  "fresh_draw env s \<longleftrightarrow> map_of (h_Sessions s) (hex_encode (env_Rand env (h_RandPos s))) = None"

lemma create_step:
  assumes ok: "host_ok s" and fresh: "fresh_draw env s" and cr: "reduceCreateSession env s c r p = (s', effs)"
  shows "step_ok s s' effs"
proof -
  let ?sid = "hex_encode (env_Rand env (h_RandPos s))"
  consider "s' = s" "list_all plain_effect effs"
    | n project now command options ds frame launch fid where
        "s' = putSession (s\<lparr>h_RandPos := n\<rparr>) ?sid (newSession ?sid project now command options ds frame)"
        "effs = [spawnEffect ?sid fid launch c r]"
    using cr by (auto simp: reduceCreateSession_def Let_def allocFrameID_def allocSessionID_def
        split: option.splits sum.splits prod.splits if_splits)
  then show ?thesis
  proof cases
    case 1 then show ?thesis using ok by (simp add: step_ok_idle)
  next
    case 2
    have "sessions_ok s'" unfolding 2(1) using host_sessions[OF ok] by (intro sessions_ok_put shape_newSession) simp
    moreover have "live_frames s \<subseteq> live_frames s'"
      unfolding 2(1) using live_put_fresh[of "s\<lparr>h_RandPos := n\<rparr>"] fresh by (simp add: fresh_draw_def)
    ultimately show ?thesis using 2 by (intro step_ok_same[OF ok]) (auto simp: putSession_def)
  qed
qed

lemma fork_step:
  assumes ok: "host_ok s" and fresh: "fresh_draw env s" and fk: "reduceForkSession env s c r sid = (s', effs)"
  shows "step_ok s s' effs"
proof -
  let ?sid = "hex_encode (env_Rand env (h_RandPos s))"
  consider "s' = s" "list_all plain_effect effs"
    | n project now command options ds frame launch fid where
        "s' = putSession (s\<lparr>h_RandPos := n\<rparr>) ?sid (newSession ?sid project now command options ds frame)"
        "effs = [spawnEffect ?sid fid launch c r]"
    using fk by (auto simp: reduceForkSession_def resolveForkDrv_def buildForkSession_def spawnForkSession_def
        makeForkSession_def Let_def allocFrameID_def allocSessionID_def
        split: option.splits sum.splits prod.splits if_splits)
  then show ?thesis
  proof cases
    case 1 then show ?thesis using ok by (simp add: step_ok_idle)
  next
    case 2
    have "sessions_ok s'" unfolding 2(1) using host_sessions[OF ok] by (intro sessions_ok_put shape_newSession) simp
    moreover have "live_frames s \<subseteq> live_frames s'"
      unfolding 2(1) using live_put_fresh[of "s\<lparr>h_RandPos := n\<rparr>"] fresh by (simp add: fresh_draw_def)
    ultimately show ?thesis using 2 by (intro step_ok_same[OF ok]) (auto simp: putSession_def)
  qed
qed

lemma push_step:
  assumes ok: "host_ok s" and ps: "reducePushDriver env s c r p = (s', effs)"
  shows "step_ok s s' effs"
proof -
  consider "s' = s" "list_all plain_effect effs"
    | "pushDriverInternal env s (pd_SessionID p) (pd_Project p) (pd_Command p) (pd_Options p) (pd_Input p) c r = Inr (s', effs)"
    using ps by (auto simp: reducePushDriver_def Let_def split: if_splits sum.splits)
  then show ?thesis
  proof cases
    case 1 then show ?thesis using ok by (simp add: step_ok_idle)
  next
    case 2 then show ?thesis by (rule grows_step[OF ok push_grows[OF host_sessions[OF ok]]])
  qed
qed

lemma setHead_step:
  assumes ok: "host_ok s" and sh: "reduceSetHeadFrame s c r p = (s', effs)"
  shows "step_ok s s' effs"
proof -
  consider "s' = s" "list_all plain_effect effs"
    | sess where "map_of (h_Sessions s) (sh_SessionID p) = Some sess" "findFrameIndex sess (sh_FrameID p) \<noteq> None"
        "s' = putSession s (sh_SessionID p) ((pushMRU sess (se_HeadFrameID sess))\<lparr>se_HeadFrameID := sh_FrameID p\<rparr>)"
        "list_all plain_effect effs"
    using sh by (auto simp: reduceSetHeadFrame_def Let_def split: option.splits if_splits)
  then show ?thesis
  proof cases
    case 1 then show ?thesis using ok by (simp add: step_ok_idle)
  next
    case 2
    have mem: "sh_FrameID p \<in> sf_ID ` set (se_Frames sess)" using 2(2) by (auto simp: findFrameIndex_def frame_index_None)
    have "sessions_ok s'" unfolding 2(3)
      by (intro sessions_ok_put shape_setHead sessions_ok_get[OF host_sessions[OF ok] 2(1)] mem host_sessions[OF ok])
    moreover have "live_frames s \<subseteq> live_frames s'" unfolding 2(3) live_frames_put live_frames_split[OF 2(1)] by auto
    ultimately show ?thesis using 2 by (intro step_ok_same[OF ok]) (auto simp: putSession_def)
  qed
qed


section \<open>Driver steps\<close>

lemma step_ok_shapes:
  assumes "host_ok s" and "shapes s' = shapes s" and "wf_map (h_Sessions s')"
    and "h_PendingApprovals s' = h_PendingApprovals s" and "h_PendingQuestions s' = h_PendingQuestions s"
    and "list_all plain_effect effs"
  shows "step_ok s s' effs"
  using assms by (intro step_ok_same) (auto simp: host_ok_def sessions_ok_def live_frames_def)

lemma run_shapes:
  assumes "driver_run env s t effs"
  shows "shapes t = shapes s" "wf_map (h_Sessions t)" "h_PendingApprovals t = h_PendingApprovals s"
    "h_PendingQuestions t = h_PendingQuestions s" "drivers_ok env \<Longrightarrow> list_all plain_effect effs"
  using assms by (auto simp: driver_run_def core_eq_def intro!: routine_plain elim: list.pred_mono_strong)

lemma driver_plain:
  "driver_run env s t effs \<Longrightarrow> drivers_ok env \<Longrightarrow> list_all plain_effect effs"
  by (rule run_shapes(5))

lemma run_around:
  assumes "host_ok s" and "drivers_ok env" and "driver_run env s t effs"
    and "list_all plain_effect pre" and "list_all plain_effect post"
  shows "step_ok s t (pre @ effs @ post)"
  using assms driver_plain[OF assms(3,2)] run_shapes[OF assms(3)] by (intro step_ok_shapes) auto

lemma host_ok_Now [simp]: "host_ok (s\<lparr>h_Now := n\<rparr>) = host_ok s"
  by (simp add: host_ok_def sessions_ok_def shapes_def approvals_ok_def questions_ok_def)

lemma step_ok_Now [simp]: "step_ok (s\<lparr>h_Now := n\<rparr>) t effs = step_ok s t effs"
  using live_frames_cong[of "s\<lparr>h_Now := n\<rparr>" s] by (simp add: step_ok_def approvals_evolve_def questions_evolve_def)

lemma refresh_plain:
  "list_all plain_effect effs \<Longrightarrow> list_all plain_effect (appendMissingSessionRefreshEffects effs)"
  by (simp add: appendMissingSessionRefreshEffects_def)

lemma run_refresh:
  assumes "host_ok s" and "drivers_ok env" and "stepDriver env s f ev = (t, effs, b)"
  shows "step_ok s t (appendMissingSessionRefreshEffects (EffEventLogAppend f line # effs))"
proof -
  have run: "driver_run env s t effs" by (rule driver_run_step[OF assms(3) host_wf[OF assms(1)]])
  show ?thesis
    using run_shapes[OF run] driver_plain[OF run assms(2)] assms(1)
    by (intro step_ok_shapes refresh_plain) auto
qed

lemma signal_step:
  "host_ok s \<Longrightarrow> list_all plain_effect effs \<Longrightarrow> step_ok s (incrementStatusSignal s sid) effs"
  by (rule step_ok_idle) (simp_all add: incrementStatusSignal_def Let_def)

lemma osc_step:
  assumes "host_ok s" and "drivers_ok env" and "reduceFrameOsc env s e = (s', effs)"
  shows "step_ok s s' effs"
proof -
  consider "s' = s" "effs = []"
    | ev line raw b where "stepDriver env s (eo_FrameID e) ev = (s', raw, b)"
        "effs = appendMissingSessionRefreshEffects (EffEventLogAppend (eo_FrameID e) line # raw)"
    | sid where "s' = incrementStatusSignal s sid" "list_all plain_effect effs"
    using assms(3) by (simp add: reduceFrameOsc_def Let_def split: if_splits prod.splits option.splits) fastforce+
  then show ?thesis
    using run_refresh[OF assms(1,2)] assms(1) by cases (auto simp: step_ok_idle signal_step)
qed

lemma prompt_step:
  assumes "host_ok s" and "drivers_ok env" and "reduceFramePrompt env s f ph code now = (s', effs)"
  shows "step_ok s s' effs"
proof -
  let ?s = "s\<lparr>h_Now := now\<rparr>"
  have ok: "host_ok ?s" using assms(1) by simp
  have "step_ok ?s s' effs"
    using assms(3) run_refresh[OF ok assms(2)]
    by (auto simp: reduceFramePrompt_def Let_def simp del: step_ok_Now intro: step_ok_idle[OF ok] split: if_splits prod.splits)
  then show ?thesis by simp
qed

lemma run_changed:
  assumes "host_ok s" and "drivers_ok env" and "stepDriver env s f ev = (t, effs, b)" and "list_all plain_effect post"
  shows "step_ok s t (effs @ post)"
  using run_around[OF assms(1,2) driver_run_step[OF assms(3) host_wf[OF assms(1)]], of "[]"] assms(4) by simp

lemma fileChanged_step:
  assumes "host_ok s" and "drivers_ok env" and fc: "reduceFileChanged env s f path = (s', effs)"
  shows "step_ok s s' effs"
proof (cases "findFrame s f = None")
  case True
  then show ?thesis using fc assms(1) by (simp add: reduceFileChanged_def step_ok_idle)
next
  case False
  obtain t e b where st: "stepDriver env s f (DEvFileChanged path) = (t, e, b)" by (metis prod_cases3)
  consider "s' = s" "effs = []" | post where "s' = t" "effs = e @ post" "list_all plain_effect post"
    using fc False st by (auto simp: reduceFileChanged_def split: if_splits)
  then show ?thesis using run_changed[OF assms(1,2) st] assms(1) by cases (simp_all add: step_ok_idle)
qed


section \<open>Session bookkeeping and jobs\<close>

lemma shape_updates [simp]:
  "shape (sess\<lparr>se_FrameMessaging := m\<rparr>) = shape sess" "shape (sess\<lparr>se_ResumeCapsule := k\<rparr>) = shape sess"
  by (simp_all add: shape_def)

lemma step_ok_refl: "host_ok s \<Longrightarrow> list_all plain_effect effs \<Longrightarrow> step_ok s s effs"
  by (simp add: step_ok_idle)

lemma readMessages_step:
  assumes "host_ok s" and "reduceReadSessionMessages s c r p = (s', effs)"
  shows "step_ok s s' effs"
  using assms(2) assms(1)
  by (auto simp: reduceReadSessionMessages_def Let_def step_ok_refl put_same_shape
      split: if_splits option.splits prod.splits)

lemma flagCapsule_step:
  assumes "host_ok s" and "reduceFlagResumeCapsule s c r p = (s', effs)"
  shows "step_ok s s' effs"
  using assms(2) assms(1)
  by (auto simp: reduceFlagResumeCapsule_def Let_def step_ok_refl put_same_shape split: if_splits option.splits)

text \<open>A change of the job table or of the in-flight capsules is invisible to the invariant.\<close>

lemma step_ok_table [simp]:
  "step_ok (s\<lparr>h_Jobs := j\<rparr>) t effs = step_ok s t effs"
  "step_ok (s\<lparr>h_CapsuleGenerating := g\<rparr>) t effs = step_ok s t effs"
  using live_frames_cong[of "s\<lparr>h_Jobs := j\<rparr>" s] live_frames_cong[of "s\<lparr>h_CapsuleGenerating := g\<rparr>" s]
  by (simp_all add: step_ok_def approvals_evolve_def questions_evolve_def)

lemma host_ok_table [simp]:
  "host_ok (s\<lparr>h_Jobs := j\<rparr>) = host_ok s" "host_ok (s\<lparr>h_CapsuleGenerating := g\<rparr>) = host_ok s"
  by (simp_all add: host_ok_def sessions_ok_def shapes_def approvals_ok_def questions_ok_def)

lemma capsuleResult_step:
  assumes "host_ok s" and "reduceCapsuleJobResult s meta res err = (s', effs)"
  shows "step_ok s s' effs"
proof -
  define t where "t = s\<lparr>h_CapsuleGenerating := AList.delete (jm_SessionID meta) (h_CapsuleGenerating s)\<rparr>"
  have ok: "host_ok t" using assms(1) by (simp add: t_def)
  have ses: "h_Sessions t = h_Sessions s" by (simp add: t_def)
  have "step_ok t s' effs"
    using assms(2) ok
    by (auto simp: reduceCapsuleJobResult_def Let_def t_def[symmetric] ses step_ok_refl put_same_shape
        split: if_splits option.splits)
  then show ?thesis by (simp add: t_def)
qed

lemma jobResult_step:
  assumes "host_ok s" and "drivers_ok env" and jr: "reduceJobResult env s j res err = (s', effs)"
  shows "step_ok s s' effs"
proof (cases "map_of (h_Jobs s) j")
  case None
  then show ?thesis using jr assms(1) by (simp add: reduceJobResult_def step_ok_idle)
next
  case (Some meta)
  define t where "t = s\<lparr>h_Jobs := AList.delete j (h_Jobs s)\<rparr>"
  have ok: "host_ok t" using assms(1) by (simp add: t_def)
  have "step_ok t s' effs"
  proof (cases res)
    case (CapsuleResult c)
    then show ?thesis using jr Some capsuleResult_step[OF ok] by (simp add: reduceJobResult_def t_def[symmetric])
  next
    case (DriverResult r)
    obtain u e b where st: "stepDriver env t (jm_FrameID meta) (DEvJobResult r err (h_Now t)) = (u, e, b)" by (metis prod_cases3)
    consider "s' = t" "effs = []" | "s' = u" "effs = e @ [EffPersistSnapshot, EffBroadcastSessionsChanged]"
      using jr Some DriverResult st by (auto simp: reduceJobResult_def t_def[symmetric] split: if_splits)
    then show ?thesis using run_changed[OF ok assms(2) st] ok by cases (simp_all add: step_ok_idle)
  qed
  then show ?thesis by (simp add: t_def)
qed

lemma enqueueOne_frame:
  assumes "maybeEnqueueOneCapsule env s sid sess = Some (s', eff)"
  shows "h_Sessions s' = h_Sessions s" "h_PendingApprovals s' = h_PendingApprovals s"
    "h_PendingQuestions s' = h_PendingQuestions s" "plain_effect eff"
  using assms by (auto simp: maybeEnqueueOneCapsule_def Let_def postProcessEffect_def split: option.splits)

lemma enqueue_frame:
  "enqueueCapsules env n ses s = (s', effs) \<Longrightarrow>
     h_Sessions s' = h_Sessions s \<and> h_PendingApprovals s' = h_PendingApprovals s \<and>
     h_PendingQuestions s' = h_PendingQuestions s \<and> list_all plain_effect effs"
proof (induction ses arbitrary: s s' effs)
  case (Cons p ses)
  obtain sid sess where p: "p = (sid, sess)" by (cases p)
  show ?case
  proof (cases "if capsuleCheckDue sid n then maybeEnqueueOneCapsule env s sid sess else None")
    case None
    then have "enqueueCapsules env n ses s = (s', effs)" using Cons.prems p by (simp split: if_splits)
    then show ?thesis by (rule Cons.IH)
  next
    case (Some q)
    obtain t eff where one: "maybeEnqueueOneCapsule env s sid sess = Some (t, eff)" and due: "capsuleCheckDue sid n"
      using Some by (cases q) (simp split: if_splits)
    obtain u effs2 where rest: "enqueueCapsules env n ses t = (u, effs2)" by fastforce
    then show ?thesis using Cons.IH[OF rest] enqueueOne_frame[OF one] Cons.prems due one p by auto
  qed
qed simp

lemma capsules_frame:
  "maybeEnqueueResumeCapsules env s n = (s', effs) \<Longrightarrow>
     h_Sessions s' = h_Sessions s \<and> h_PendingApprovals s' = h_PendingApprovals s \<and>
     h_PendingQuestions s' = h_PendingQuestions s \<and> list_all plain_effect effs"
  using enqueue_frame[of env n "h_Sessions s" s s' effs] by (auto simp: maybeEnqueueResumeCapsules_def split: if_splits)

section \<open>Human input\<close>

lemma human_step:
  assumes "host_ok s" and "approvals_evolve s s' effs" and "questions_evolve s s' effs" and "h_Sessions s' = h_Sessions s"
  shows "step_ok s s' effs"
  using assms sessions_ok_cong[of s' s] live_frames_cong[of s' s] by (simp add: step_ok_def host_ok_def)

lemma approval_step:
  assumes "host_ok s" and "approvals_evolve s s' effs" and "s' = s\<lparr>h_PendingApprovals := h_PendingApprovals s'\<rparr>"
    and "\<And>i. count_replies question_reply i effs = 0"
  shows "step_ok s s' effs"
proof (rule human_step)
  have "h_PendingQuestions s' = h_PendingQuestions s" "h_Sessions s' = h_Sessions s"
    by (subst assms(3), simp)+
  then show "questions_evolve s s' effs" "h_Sessions s' = h_Sessions s"
    using assms by (auto simp: host_ok_def intro!: evolve_questions_same)
qed (rule assms)+

lemma question_step:
  assumes "host_ok s" and "questions_evolve s s' effs" and "s' = s\<lparr>h_PendingQuestions := h_PendingQuestions s'\<rparr>"
    and "\<And>i. count_replies approval_reply i effs = 0"
  shows "step_ok s s' effs"
proof (rule human_step)
  have "h_PendingApprovals s' = h_PendingApprovals s" "h_Sessions s' = h_Sessions s"
    by (subst assms(3), simp)+
  then show "approvals_evolve s s' effs" "h_Sessions s' = h_Sessions s"
    using assms by (auto simp: host_ok_def intro!: evolve_approvals_same)
qed (rule assms)+


lemma approval_commands_step:
  assumes "host_ok s"
  shows "reduceApprovalRespond s c r i d cl = (s', effs) \<Longrightarrow> step_ok s s' effs"
    and "reduceApprovalCancel s c r i cl = (s', effs) \<Longrightarrow> step_ok s s' effs"
    and "maybeCreateApprovalFromSubsystem s e = (s', effs, b) \<Longrightarrow> step_ok s s' effs"
proof -
  have ok: "approvals_ok s" using assms by (simp add: host_ok_def)
  show "step_ok s s' effs" if c: "reduceApprovalRespond s c r i d cl = (s', effs)"
    using c by (intro approval_step[OF assms respond_evolves[OF ok c]])
      (auto simp: reduceApprovalRespond_def putApproval_def approvalResolvedBroadcast_def resolvedByOtherError_def Let_def
        split: if_splits option.splits)
  show "step_ok s s' effs" if c: "reduceApprovalCancel s c r i cl = (s', effs)"
    using c by (intro approval_step[OF assms cancel_evolves[OF ok c]])
      (auto simp: reduceApprovalCancel_def putApproval_def approvalResolvedBroadcast_def resolvedByOtherError_def Let_def
        split: if_splits option.splits)
  show "step_ok s s' effs" if c: "maybeCreateApprovalFromSubsystem s e = (s', effs, b)"
    using c by (intro approval_step[OF assms create_evolves[OF ok c]])
      (auto simp: maybeCreateApprovalFromSubsystem_def putApproval_def approvalResolvedBroadcast_def
        approvalRequestedBroadcast_def Let_def split: if_splits option.splits)
qed

lemma question_commands_step:
  assumes "host_ok s"
  shows "reduceQuestionRespond s c r i a cl = (s', effs) \<Longrightarrow> step_ok s s' effs"
    and "reduceQuestionCancel s c r i cl = (s', effs) \<Longrightarrow> step_ok s s' effs"
    and "maybeCreateQuestionFromSubsystem s e = (s', effs, b) \<Longrightarrow> step_ok s s' effs"
proof -
  have ok: "questions_ok s" using assms by (simp add: host_ok_def)
  show "step_ok s s' effs" if c: "reduceQuestionRespond s c r i a cl = (s', effs)"
    using c by (intro question_step[OF assms answer_evolves[OF ok c]])
      (auto simp: reduceQuestionRespond_def putQuestion_def questionResolvedBroadcast_def
        Let_def split: if_splits option.splits)
  show "step_ok s s' effs" if c: "reduceQuestionCancel s c r i cl = (s', effs)"
    using c by (intro question_step[OF assms cancelQuestion_evolves[OF ok c]])
      (auto simp: reduceQuestionCancel_def putQuestion_def questionResolvedBroadcast_def
        Let_def split: if_splits option.splits)
  show "step_ok s s' effs" if c: "maybeCreateQuestionFromSubsystem s e = (s', effs, b)"
    using c by (intro question_step[OF assms createQuestion_evolves[OF ok c]])
      (auto simp: maybeCreateQuestionFromSubsystem_def putQuestion_def
        Let_def split: if_splits option.splits)
qed

lemma resolve_step:
  assumes "host_ok s" and "maybeResolveHumanInputFromSubsystem s e = (s', effs, b)"
  shows "step_ok s s' effs"
proof (rule human_step[OF assms(1)])
  show "approvals_evolve s s' effs" "questions_evolve s s' effs"
    using assms resolve_evolves resolveQuestion_evolves by (auto simp: host_ok_def)
  show "h_Sessions s' = h_Sessions s"
    using assms(2) by (auto simp: maybeResolveHumanInputFromSubsystem_def putApproval_def putQuestion_def Let_def
        split: SubsystemEventKind.splits option.splits if_splits)
qed

lemma expire_step:
  assumes ok: "host_ok s" and a: "expirePendingApprovals s now = (t, aeffs)" and q: "expirePendingQuestions t now = (u, qeffs)"
  shows "step_ok s u (aeffs @ qeffs)"
proof -
  note fa = expire_frame[OF a] and fq = expireQ_frame[OF q]
  have t: "h_Sessions t = h_Sessions s" "h_PendingQuestions t = h_PendingQuestions s" by (subst fa[THEN conjunct1], simp)+
  have u: "h_Sessions u = h_Sessions t" "h_PendingApprovals u = h_PendingApprovals t" by (subst fq[THEN conjunct1], simp)+
  have "approvals_evolve s t aeffs" using expire_evolves[OF _ a] ok by (simp add: host_ok_def)
  then have "approvals_evolve s u (aeffs @ qeffs)"
    by (rule evolve_approvals_cong) (use u fq in simp_all)
  moreover have "questions_evolve t u qeffs" using expireQuestions_evolves[OF _ q] ok t by (simp add: host_ok_def questions_ok_def)
  then have "questions_evolve s u (aeffs @ qeffs)"
    by (rule evolve_questions_cong) (use t fa in simp_all)
  ultimately show ?thesis by (rule human_step[OF ok]) (simp add: t u)
qed


section \<open>Composite handlers\<close>

lemma tick_step:
  fixes effs :: "'j Effect list"
  assumes ok: "host_ok s" and d: "drivers_ok env" and tk: "reduceTick env s now n = (s', effs)"
  shows "step_ok s s' effs"
proof -
  define s0 where "s0 = s\<lparr>h_Now := now\<rparr>"
  have ok0: "host_ok s0" using ok by (simp add: s0_def)
  obtain s1 e1 ch where r1: "stepActiveSessions env s0 (tickEvent now n) = (s1, e1 :: 'j Effect list, ch)" by (metis prod_cases3)
  obtain s2 e2 where r2: "maybeEnqueueResumeCapsules env s1 n = (s2, e2 :: 'j Effect list)" by fastforce
  obtain s3 e3 where r3: "expirePendingApprovals s2 now = (s3, e3 :: 'j Effect list)" by fastforce
  obtain s4 e4 where r4: "expirePendingQuestions s3 now = (s4, e4 :: 'j Effect list)" by fastforce
  define pre where "pre = e1 @ (if n mod 5 = 0 then [EffReconcileWindows] else []) @ e2"
  obtain post where s': "s' = s4" and effs: "effs = pre @ (e3 @ e4) @ post" and post: "list_all plain_effect post"
    using tk by (auto simp: reduceTick_def Let_def s0_def[symmetric] r1 r2 r3 r4 pre_def)
  have run: "driver_run env s0 s1 e1" by (rule stepActiveSessions_run[OF r1 host_wf[OF ok0]])
  note f1 = run_shapes[OF run] and f2 = capsules_frame[OF r2]
  have s2: "shapes s2 = shapes s0" "wf_map (h_Sessions s2)" "h_PendingApprovals s2 = h_PendingApprovals s0"
    "h_PendingQuestions s2 = h_PendingQuestions s0"
    using f1 f2 shapes_cong[of s2 s1] by simp_all
  have ok2: "host_ok s2" using ok0 s2 by (simp add: host_ok_def sessions_ok_def approvals_ok_def questions_ok_def)
  have "step_ok s2 s4 (e3 @ e4)" by (rule expire_step[OF ok2 r3 r4])
  then have "step_ok s0 s4 (pre @ e3 @ e4)"
    by (rule step_ok_pre) (use s2 f1(5)[OF d] f2 in \<open>simp_all add: live_frames_def pre_def\<close>)
  then have "step_ok s0 s4 ((pre @ e3 @ e4) @ post)"
    by (rule step_ok_post) (use post host_sessions[OF step_ok_host[OF \<open>step_ok s2 s4 (e3 @ e4)\<close>]] in simp_all)
  then show ?thesis by (simp add: s0_def s' effs)
qed

lemma hook_grows:
  assumes "host_ok s" and "drivers_ok env" and "stepDriver env s f ev = (t, raw, b)"
    and "resolvePushDriverEffects env t raw = (u, effs)"
  shows "grows s u effs"
proof -
  have g: "grows s t raw" by (rule stepDriver_grows[OF assms(2) host_sessions[OF assms(1)] assms(3)])
  then have "grows t u effs" using resolvePush_grows[OF _ _ assms(4)] by (simp add: grows_def)
  then show ?thesis using g by (auto simp: grows_def intro: core_eq_trans)
qed

lemma driverHook_step:
  fixes effs :: "'j Effect list"
  assumes ok: "host_ok s" and d: "drivers_ok env" and h: "reduceDriverHook env s c r ev ts f p = (s', effs)"
  shows "step_ok s s' effs"
proof -
  obtain t raw b where st: "stepDriver env s f (DEvHook ev ts f p) = (t, raw :: 'j Effect list, b)" by (metis prod_cases3)
  obtain u e where rs: "resolvePushDriverEffects env t raw = (u, e)" by fastforce
  consider "s' = s" "list_all plain_effect effs" | post where "s' = u" "effs = e @ post" "list_all plain_effect post"
    using h st rs by (auto simp: reduceDriverHook_def split: if_splits)
  then show ?thesis
    using grows_post[OF ok hook_grows[OF ok d st rs]] ok by cases (auto simp: step_ok_refl)
qed

lemma putFrame_shapes:
  assumes "wf_map (h_Sessions s)" and "map_of (h_Sessions s) sid = Some sess" and "findFrameIndex sess fid = Some n"
    and "sf_ID f = sf_ID (se_Frames sess ! n)"
  shows "shapes (putFrame s sid sess n f) = shapes s" "wf_map (h_Sessions (putFrame s sid sess n f))"
    "core_eq s (putFrame s sid sess n f)"
  using assms frame_index_Some[of "se_Frames sess" fid n] by (simp_all add: shapes_putFrame findFrameIndex_def)

lemma same_shapes_host:
  "host_ok s \<Longrightarrow> shapes t = shapes s \<Longrightarrow> wf_map (h_Sessions t) \<Longrightarrow> core_eq s t \<Longrightarrow> host_ok t"
  by (simp add: host_ok_def sessions_ok_def approvals_ok_def questions_ok_def core_eq_def)

lemma same_shapes_step:
  "shapes t = shapes s \<Longrightarrow> core_eq s t \<Longrightarrow> step_ok t u effs = step_ok s u effs"
  by (simp add: step_ok_def live_frames_def core_eq_def approvals_evolve_def questions_evolve_def)

lemma spawned_step:
  fixes effs :: "'j Effect list"
  assumes ok: "host_ok s" and d: "drivers_ok env" and sp: "reduceFrameSpawned env s e = (s', effs)"
  shows "step_ok s s' effs"
proof (cases "map_of (h_Sessions s) (ef_SessionID e)")
  case None
  then show ?thesis using sp ok by (simp add: reduceFrameSpawned_def step_ok_refl)
next
  case (Some sess)
  show ?thesis
  proof (cases "findFrameIndex sess (ef_FrameID e)")
    case None
    then show ?thesis using sp ok Some by (simp add: reduceFrameSpawned_def step_ok_refl)
  next
    case (Some n)
    define t where "t = (if ef_SubsystemID e \<noteq> '''' \<and> sf_SubsystemID (se_Frames sess ! n) \<noteq> ef_SubsystemID e
      then putFrame s (ef_SessionID e) sess n ((se_Frames sess ! n)\<lparr>sf_SubsystemID := ef_SubsystemID e\<rparr>) else s)"
    have t: "shapes t = shapes s" "wf_map (h_Sessions t)" "core_eq s t"
      using putFrame_shapes[OF host_wf[OF ok] \<open>map_of _ _ = Some sess\<close> Some] host_wf[OF ok] by (auto simp: t_def)
    have okt: "host_ok t" by (rule same_shapes_host[OF ok t])
    obtain u raw b where st: "stepDriver env t (ef_FrameID e)
        (DEvWorktreeResolved (ef_WorktreeStartDir e) (ef_WorktreeName e)) = (u, raw :: 'j Effect list, b)" by (metis prod_cases3)
    define v where "v = (if ef_WorktreeStartDir e \<noteq> '''' then (if b then u else t) else t)"
    have v: "shapes v = shapes t" "wf_map (h_Sessions v)" "core_eq t v"
      using stepDriver_frame[OF st t(2)] t(2) by (auto simp: v_def)
    have okv: "host_ok v" by (rule same_shapes_host[OF okt v])
    obtain w be b2 where bo: "bootstrapDriverSessionStart env v (ef_FrameID e) = (w, be :: 'j Effect list, b2)" by (metis prod_cases3)
    consider post where "s' = w" "effs = be @ post" "list_all plain_effect post" | "s' = v" "list_all plain_effect effs"
      using sp
      unfolding reduceFrameSpawned_def \<open>map_of _ _ = Some sess\<close> option.case Some Let_def t_def[symmetric] st prod.case
        v_def[symmetric]
      by (auto simp: bo split: if_splits)
    then have "step_ok v s' effs"
      using run_around[OF okv d driver_run_boot[OF bo v(2)], of "[]"] okv by cases (auto simp: step_ok_refl)
    then show ?thesis by (simp add: same_shapes_step[OF v(1,3)] same_shapes_step[OF t(1,3)])
  qed
qed


text \<open>At most one of the three human-input steps applies to a subsystem event.\<close>

definition human_input ::
    "EvSubsystem \<Rightarrow> 'ds State \<times> 'j Effect list \<Rightarrow> 'ds State \<times> 'j Effect list" where
  "human_input e r =
     handled (\<lambda>s. maybeResolveHumanInputFromSubsystem s e)
       (handled (\<lambda>s. maybeCreateQuestionFromSubsystem s e)
         (handled (\<lambda>s. maybeCreateApprovalFromSubsystem s e) r))"

lemma handled_skip: "f s = (s', [], False) \<Longrightarrow> handled f (s, effs) = (s, effs)"
  by (simp add: handled_def)

lemma kind_skips:
  "es_Kind e \<noteq> SubsystemApprovalRequested \<Longrightarrow> maybeCreateApprovalFromSubsystem s e = (s, [], False)"
  "es_Kind e \<noteq> SubsystemQuestionRequested \<Longrightarrow> maybeCreateQuestionFromSubsystem s e = (s, [], False)"
  "es_Kind e \<noteq> SubsystemApprovalResolved \<Longrightarrow> es_Kind e \<noteq> SubsystemQuestionResolved \<Longrightarrow>
     maybeResolveHumanInputFromSubsystem s e = (s, [], False)"
  by (auto simp: maybeCreateApprovalFromSubsystem_def maybeCreateQuestionFromSubsystem_def
      maybeResolveHumanInputFromSubsystem_def split: option.splits SubsystemEventKind.splits)

lemma handled_step:
  fixes effs :: "'j Effect list"
  assumes "host_ok s" and "\<And>s' effs b. f s = (s', effs :: 'j Effect list, b) \<Longrightarrow> step_ok s s' effs"
    and "handled f (s, effs) = (s', effs')"
  shows "\<exists>effs2. effs' = effs @ effs2 \<and> step_ok s s' effs2"
proof -
  obtain t e b where "f s = (t, e, b)" by (metis prod_cases3)
  then show ?thesis using assms by (cases b) (auto simp: handled_def step_ok_refl)
qed

lemma human_input_step:
  fixes effs :: "'j Effect list"
  assumes ok: "host_ok s" and h: "human_input e (s, effs) = (s', effs')"
  shows "\<exists>effs2. effs' = effs @ effs2 \<and> step_ok s s' effs2"
proof -
  consider "es_Kind e = SubsystemApprovalRequested" | "es_Kind e = SubsystemQuestionRequested"
    | "es_Kind e \<noteq> SubsystemApprovalRequested" "es_Kind e \<noteq> SubsystemQuestionRequested" by blast
  then show ?thesis
  proof cases
    case 1
    obtain t e1 where r: "handled (\<lambda>s. maybeCreateApprovalFromSubsystem s e) (s, effs) = (t, e1)" by fastforce
    have "(s', effs') = (t, e1)" using h 1 by (simp add: human_input_def r handled_skip kind_skips)
    then show ?thesis using handled_step[OF ok approval_commands_step(3)[OF ok] r] by simp
  next
    case 2
    then have r: "handled (\<lambda>s. maybeCreateQuestionFromSubsystem s e) (s, effs) = (s', effs')"
      using h by (cases "handled (\<lambda>s. maybeCreateQuestionFromSubsystem s e) (s, effs)")
        (simp add: human_input_def handled_skip kind_skips)
    show ?thesis using handled_step[OF ok question_commands_step(3)[OF ok] r] by simp
  next
    case 3
    then have r: "handled (\<lambda>s. maybeResolveHumanInputFromSubsystem s e) (s, effs) = (s', effs')"
      using h by (simp add: human_input_def handled_skip kind_skips)
    show ?thesis using handled_step[OF ok resolve_step[OF ok] r] by simp
  qed
qed

lemma subsystem_step:
  fixes effs :: "'j Effect list"
  assumes ok: "host_ok s" and d: "drivers_ok env" and h: "reduceSubsystem env s e = (s', effs)"
  shows "step_ok s s' effs"
proof (cases "es_FrameID e = '''' \<or> findFrame s (es_FrameID e) = None")
  case True
  then show ?thesis using h ok by (auto simp: reduceSubsystem_def step_ok_refl split: if_splits)
next
  case False
  then obtain sid sess n where found: "findFrame s (es_FrameID e) = Some (sid, sess, n)" by auto
  note ff = findFrame_Some[OF host_wf[OF ok] found]
  define t where "t = (if sp_TargetID (es_Payload e) \<noteq> '''' \<and> sp_TargetID (es_Payload e) \<noteq> sf_TargetID (se_Frames sess ! n)
    then putFrame s sid sess n ((se_Frames sess ! n)\<lparr>sf_TargetID := sp_TargetID (es_Payload e)\<rparr>) else s)"
  have t: "shapes t = shapes s" "wf_map (h_Sessions t)" "core_eq s t"
    using ff host_wf[OF ok] by (auto simp: t_def intro!: shapes_putFrame)
  have okt: "host_ok t" by (rule same_shapes_host[OF ok t])
  obtain u raw b where st: "stepDriver env t (es_FrameID e)
      (DEvSubsystem (es_Source e) (es_Kind e) (es_Timestamp e) (es_Payload e)) = (u, raw :: 'j Effect list, b)" by (metis prod_cases3)
  obtain v ve where rs: "resolvePushDriverEffects env u raw = (v, ve)" by fastforce
  obtain w we where hi: "human_input e (v, ve) = (w, we)" by fastforce
  consider "s' = t" "list_all plain_effect effs"
    | post where "s' = w \<or> s' = incrementStatusSignal w sid" "effs = we @ post" "list_all plain_effect post"
    using h False
    unfolding reduceSubsystem_def found option.case prod.case Let_def t_def[symmetric] st rs
      human_input_def[symmetric] hi
    by (cases b) (auto split: if_splits)
  then have "step_ok t s' effs"
  proof cases
    case 1 then show ?thesis using okt by (simp add: step_ok_refl)
  next
    case 2
    have g: "grows t v ve" by (rule hook_grows[OF okt d st rs])
    have okv: "host_ok v" by (rule step_ok_host[OF grows_step[OF okt g]])
    obtain e2 where we: "we = ve @ e2" and s2: "step_ok v w e2" using human_input_step[OF okv hi] by blast
    have "step_ok t w we"
      unfolding we by (rule step_ok_pre[OF s2]) (use g in \<open>auto simp: grows_def core_eq_def routine_plain\<close>)
    moreover have "sessions_ok s'" "live_frames w \<subseteq> live_frames s'" "h_PendingApprovals s' = h_PendingApprovals w"
      "h_PendingQuestions s' = h_PendingQuestions w"
      using 2(1) host_sessions[OF step_ok_host[OF s2]] sessions_ok_cong[of s' w] live_frames_cong[of s' w]
      by (auto simp: incrementStatusSignal_def Let_def)
    ultimately show ?thesis unfolding 2(2) using 2(3) by (intro step_ok_post)
  qed
  then show ?thesis by (simp add: same_shapes_step[OF t(1,3)])
qed


section \<open>Connections, surfaces, shutdown, repositories\<close>

named_theorems idle_handlers

lemma conn_idle [idle_handlers]:
  assumes "host_ok s"
  shows "reduceConnOpened s c = (s', effs) \<Longrightarrow> step_ok s s' effs"
    "reduceConnClosed s c = (s', effs) \<Longrightarrow> step_ok s s' effs"
    "reduceSubscribe s c r fs = (s', effs) \<Longrightarrow> step_ok s s' effs"
    "reduceUnsubscribe s c r = (s', effs) \<Longrightarrow> step_ok s s' effs"
  using assms
  by (auto simp: reduceConnOpened_def reduceConnClosed_def reduceSubscribe_def reduceUnsubscribe_def Let_def list_all_iff
      intro!: step_ok_idle split: if_splits)

lemma surface_idle [idle_handlers]:
  assumes "host_ok s"
  shows "reduceSurfaceReadText s c r sid n = (s', effs) \<Longrightarrow> step_ok s s' effs"
    "reduceSurfaceSendText s c r sid txt = (s', effs) \<Longrightarrow> step_ok s s' effs"
    "reduceSurfaceSendKey s c r sid txt = (s', effs) \<Longrightarrow> step_ok s s' effs"
    "reduceDriverList s c r = (s', effs) \<Longrightarrow> step_ok s s' effs"
    "reduceSurfaceSubscribe s c r sid sub w h = (s', effs) \<Longrightarrow> step_ok s s' effs"
    "reduceSurfaceUnsubscribe s c r sid sub = (s', effs) \<Longrightarrow> step_ok s s' effs"
    "reduceSurfaceResize s c r sid w h = (s', effs) \<Longrightarrow> step_ok s s' effs"
    "reduceSurfaceWriteRaw s c r sid d = (s', effs) \<Longrightarrow> step_ok s s' effs"
  using assms
  by (auto simp: reduceSurfaceReadText_def reduceSurfaceSendText_def reduceSurfaceSendKey_def reduceDriverList_def
      reduceSurfaceSubscribe_def reduceSurfaceUnsubscribe_def reduceSurfaceResize_def reduceSurfaceWriteRaw_def Let_def
      intro!: step_ok_idle split: if_splits option.splits)

lemma shutdown_idle [idle_handlers]:
  assumes "host_ok s"
  shows "reduceShutdown s c r = (s', effs) \<Longrightarrow> step_ok s s' effs"
    "reduceShutdownSaveSucceeded s tx = (s', effs) \<Longrightarrow> step_ok s s' effs"
    "reduceShutdownSaveFailed s tx err = (s', effs) \<Longrightarrow> step_ok s s' effs"
    "reduceShutdownCleanupFinished s tx oc = (s', effs) \<Longrightarrow> step_ok s s' effs"
  using assms
  by (auto simp: reduceShutdown_def reduceShutdownSaveSucceeded_def reduceShutdownSaveFailed_def
      reduceShutdownCleanupFinished_def Let_def list_all_iff intro!: step_ok_idle split: if_splits option.splits)

lemma list_idle [idle_handlers]:
  assumes "host_ok s"
  shows "reduceListSessions s c r = (s', effs) \<Longrightarrow> step_ok s s' effs"
    "reduceListSessionMessages s c r p = (s', effs) \<Longrightarrow> step_ok s s' effs"
    "reduceListResumeCapsules s c r = (s', effs) \<Longrightarrow> step_ok s s' effs"
    "reduceRepositoryPreparationEvent s c r i = (s', effs) \<Longrightarrow> step_ok s s' effs"
  using assms
  by (auto simp: reduceListSessions_def reduceListSessionMessages_def reduceListResumeCapsules_def
      reduceRepositoryPreparationEvent_def rejectPrep_def Let_def intro!: step_ok_idle split: if_splits option.splits)

text \<open>What a preparation handler other than the commit leaves alone.\<close>

definition prep_only :: "'ds State \<Rightarrow> 'ds State \<times> 'j Effect list \<Rightarrow> bool" where
  "prep_only s r \<longleftrightarrow>
     h_Sessions (fst r) = h_Sessions s \<and> h_PendingApprovals (fst r) = h_PendingApprovals s \<and>
     h_PendingQuestions (fst r) = h_PendingQuestions s \<and> list_all plain_effect (snd r)"

lemma prep_only_step: "host_ok s \<Longrightarrow> prep_only s r \<Longrightarrow> step_ok s (fst r) (snd r)"
  by (auto simp: prep_only_def intro: step_ok_idle)

lemma put_plain [simp]:
  "h_Sessions (putPreparation s p) = h_Sessions s" "h_PendingApprovals (putPreparation s p) = h_PendingApprovals s"
  "h_PendingQuestions (putPreparation s p) = h_PendingQuestions s"
  "h_Sessions (putCreationIntent s i) = h_Sessions s" "h_PendingApprovals (putCreationIntent s i) = h_PendingApprovals s"
  "h_PendingQuestions (putCreationIntent s i) = h_PendingQuestions s"
  by (simp_all add: putPreparation_def putCreationIntent_def)

lemma prep_only_basic [simp]:
  "prep_only s (s, rejectPrep c r code msg)" "prep_only s (s, illegal p c r)" "prep_only s (s, [okResp c r b])"
  "prep_only s (advancePrep s p st code orig c r)"
  by (simp_all add: prep_only_def rejectPrep_def illegal_def advancePrep_def Let_def)

lemma prep_only_put [simp]:
  "prep_only s (putPreparation s p, effs) = list_all plain_effect effs"
  "prep_only s (putPreparation (putCreationIntent s i) p, effs) = list_all plain_effect effs"
  by (simp_all add: prep_only_def)

lemma fenced_prep_only: "(\<And>p. prep_only s (k p)) \<Longrightarrow> prep_only s (fenced s e k)"
  by (auto simp: fenced_def loadPrepFenced_def prep_only_def rejectPrep_def split: option.splits)

lemma repository_prep_only:
  "prep_only s (reduceRepositoryCreate s e)" "prep_only s (reduceRepositoryCloneStarted s e)"
  "prep_only s (reduceRepositoryCloneReady s e)" "prep_only s (reduceRepositoryFailed s e)"
  "prep_only s (reduceRepositoryCancelled s e)" "prep_only s (reduceRepositoryInterrupted s e)"
  "prep_only s (reduceRepositoryQuarantined s e)" "prep_only s (reduceRepositoryRetry s e)"
  "prep_only s (reduceRepositoryAbandon s e)"
proof -
  note handlers = reduceRepositoryCreate_def reduceRepositoryCloneStarted_def reduceRepositoryCloneReady_def
    reduceRepositoryFailed_def reduceRepositoryCancelled_def reduceRepositoryInterrupted_def
    reduceRepositoryQuarantined_def reduceRepositoryRetry_def
  show "prep_only s (reduceRepositoryCreate s e)" "prep_only s (reduceRepositoryCloneStarted s e)"
    "prep_only s (reduceRepositoryCloneReady s e)" "prep_only s (reduceRepositoryFailed s e)"
    "prep_only s (reduceRepositoryCancelled s e)" "prep_only s (reduceRepositoryInterrupted s e)"
    "prep_only s (reduceRepositoryQuarantined s e)" "prep_only s (reduceRepositoryRetry s e)"
    by (auto simp: handlers Let_def intro!: fenced_prep_only split: option.splits)
  show "prep_only s (reduceRepositoryAbandon s e)"
    by (auto simp: reduceRepositoryAbandon_def Let_def advancePrep_def intro!: fenced_prep_only split: option.splits)
qed

lemma commit_step:
  fixes effs :: "'j Effect list"
  assumes ok: "host_ok s" and c: "reduceRepositoryCommitAvailable s e = (s', effs)"
  shows "step_ok s s' effs"
proof -
  consider "prep_only s (s', effs)"
    | prep where "s' = putSession (putPreparation s prep) (er_SessionID e) (repositorySession prep e)"
        "map_of (h_Sessions s) (er_SessionID e) = None" "list_all plain_effect effs"
    using c unfolding reduceRepositoryCommitAvailable_def fenced_def loadPrepFenced_def
    by (auto simp: SessionIsAvailableProjection_def in_map_def map_of_eq_None_iff Let_def putSession_def prep_only_def
        rejectPrep_def illegal_def
        split: option.splits if_splits)
  then show ?thesis
  proof cases
    case 1 then show ?thesis using prep_only_step[OF ok, of "(s', effs)"] by simp
  next
    case 2
    let ?t = "putPreparation s prep"
    have sh: "sessions_ok ?t" "live_frames ?t = live_frames s"
      using host_sessions[OF ok] sessions_ok_cong[of ?t s] live_frames_cong[of ?t s] by simp_all
    have "shape_ok (er_SessionID e) (shape (repositorySession prep e))" by (simp add: shape_ok_def shape_def repositorySession_def)
    then have "sessions_ok (putSession ?t (er_SessionID e) (repositorySession prep e))" using sh by (intro sessions_ok_put)
    moreover have "live_frames s \<subseteq> live_frames (putSession ?t (er_SessionID e) (repositorySession prep e))"
      using live_put_fresh[of ?t "er_SessionID e"] 2(2) sh by simp
    ultimately show ?thesis using 2(3) unfolding 2(1) by (intro step_ok_same[OF ok]) (auto simp: putSession_def)
  qed
qed

lemma repository_step:
  fixes effs :: "'j Effect list" and s :: "'ds State"
  assumes ok: "host_ok s" and c: "reduceRepository s e = (s', effs)"
  shows "step_ok s s' effs"
proof (cases "er_Kind e = ''commit_available''")
  case True
  then show ?thesis using c commit_step[OF ok, of e] by (simp add: reduceRepository_def)
next
  case False
  have "prep_only s (reduceRepository s e :: 'ds State \<times> 'j Effect list)"
    using False unfolding reduceRepository_def Let_def by (simp add: repository_prep_only)
  then show ?thesis using prep_only_step[OF ok, of "(s', effs)"] c by simp
qed


end
