(* ===== verification/HostInv.thy ===== *)
theory HostInv
  imports HostStep
begin

text \<open>
  The invariant of the whole reducer: whatever \<open>Reduce\<close> returns from a well-formed state is a
  step in the sense of \<open>step_ok\<close>.
\<close>

section \<open>The reducer\<close>

lemma repositoryCreate_step:
  fixes effs :: "'j Effect list"
  assumes ok: "host_ok s" and c: "reduceRepositoryCreateEvent s c r p = (s', effs)"
  shows "step_ok s s' effs"
proof -
  have "prep_only s (s', effs)"
    unfolding c[symmetric] reduceRepositoryCreateEvent_def by (rule repository_prep_only)
  then show ?thesis using prep_only_step[OF ok, of "(s', effs)"] by simp
qed

definition outcome_ok :: "'ds State \<Rightarrow> ('ds, 'j) outcome \<Rightarrow> bool" where
  "outcome_ok s out \<longleftrightarrow> (case out of Panic \<Rightarrow> True | Done s' effs \<Rightarrow> step_ok s s' effs)"

lemma outcome_ok_simps [simp]: "outcome_ok s Panic" "outcome_ok s (Done s' effs) = step_ok s s' effs"
  by (simp_all add: outcome_ok_def)

lemma outcome_ok_ret: "(\<And>s' effs. r = (s', effs) \<Longrightarrow> step_ok s s' effs) \<Longrightarrow> outcome_ok s (ret r)"
  by (cases r) (simp add: ret_def)

lemma outcome_ok_payload:
  assumes "host_ok s" and "\<And>p s' effs. handler p = (s', effs) \<Longrightarrow> step_ok s s' effs"
  shows "outcome_ok s (ret (withPayload decode zero s c r payload handler))"
  using assms by (intro outcome_ok_ret) (auto simp: withPayload_def step_ok_refl split: if_splits sum.splits)

lemma outcome_ok_if: "outcome_ok s x \<Longrightarrow> outcome_ok s y \<Longrightarrow> outcome_ok s (if b then x else y)"
  by simp

lemma reduceEvent_step:
  assumes ok: "host_ok s" and fresh: "fresh_draw env s"
  shows "outcome_ok s (reduceEvent env s c r event payload)"
proof -
  note steps = create_step[OF ok fresh] push_step[OF ok] fork_step[OF ok fresh] stop_step[OF ok] list_idle[OF ok]
    shutdown_idle(1)[OF ok] setHead_step[OF ok] readMessages_step[OF ok] repositoryCreate_step[OF ok] flagCapsule_step[OF ok]
  show ?thesis
    unfolding reduceEvent_def Let_def
    by (intro outcome_ok_if outcome_ok_simps(1) outcome_ok_payload[OF ok]; erule steps)
qed

lemma quiescing_step:
  assumes ok: "host_ok s" and fresh: "fresh_draw env s"
  shows "outcome_ok s (reduceQuiescing env s ev)"
proof -
  note steps = conn_idle[OF ok] surface_idle[OF ok] shutdown_idle[OF ok]
  show ?thesis
    by (cases ev) (simp_all add: shuttingDown_def step_ok_refl[OF ok] reduceEvent_step[OF ok fresh],
        (rule outcome_ok_ret, erule steps)+)
qed

lemma running_step:
  assumes ok: "host_ok s" and d: "drivers_ok env" and fresh: "fresh_draw env s"
  shows "outcome_ok s (reduceRunning env s ev)"
proof -
  note idle = conn_idle[OF ok] surface_idle[OF ok] shutdown_idle[OF ok] approval_commands_step[OF ok] question_commands_step[OF ok]
  note driven = driverHook_step[OF ok d] subsystem_step[OF ok d] spawned_step[OF ok d] commandExited_step[OF ok d]
    tick_step[OF ok d] jobResult_step[OF ok d] fileChanged_step[OF ok d] osc_step[OF ok d] prompt_step[OF ok d]
  note frames = spawnFailed_step[OF ok] vanished_step[OF ok] repository_step[OF ok]
  show ?thesis
    by (cases ev) (simp_all add: reduceEvent_step[OF ok fresh],
        (rule outcome_ok_ret, (erule idle | erule driven | erule frames))+)
qed

theorem Reduce_step:
  assumes "host_ok s" and "drivers_ok env" and "fresh_draw env s" and "Reduce env s ev = Done s' effs"
  shows "step_ok s s' effs"
  using quiescing_step[OF assms(1,3), of ev] running_step[OF assms(1-3), of ev] assms(4)
  by (simp add: Reduce_def split: if_splits)

end
