(* ===== verification/HostSide.thy ===== *)
theory HostSide
  imports HostInv
begin

text \<open>
  Frame rules of the reducer: which events may write the connection, surface, shutdown, repository
  and configuration fields of the host state. Everything else leaves them alone, so the components
  that own them can be verified one handler at a time.
\<close>

definition side where
  "side s = (h_Lifecycle s, h_Shutdown s, h_NextShutdownID s, h_Subscribers s, h_SurfaceSubs s, h_NextConnID s,
     h_Aliases s, h_DefaultCommand s, h_Features s, h_StatusEpoch s, h_CreationIntents s,
     h_RepositoryPreparations s, h_ResumeCapsulesEnabled s)"

lemma side_updates [simp]:
  "side (s\<lparr>h_Sessions := a\<rparr>) = side s" "side (s\<lparr>h_Jobs := b\<rparr>) = side s" "side (s\<lparr>h_NextJobID := c\<rparr>) = side s"
  "side (s\<lparr>h_Now := d\<rparr>) = side s" "side (s\<lparr>h_PendingApprovals := e\<rparr>) = side s"
  "side (s\<lparr>h_PendingQuestions := f\<rparr>) = side s" "side (s\<lparr>h_StatusSignals := g\<rparr>) = side s"
  "side (s\<lparr>h_CapsuleGenerating := h\<rparr>) = side s" "side (s\<lparr>h_RandPos := n\<rparr>) = side s"
  by (simp_all add: side_def)

lemma side_puts [simp]:
  "side (putSession s sid sess) = side s" "side (putFrame s sid sess i fr) = side s"
  "side (putApproval s r) = side s" "side (putQuestion s q) = side s" "side (incrementStatusSignal s sid) = side s"
  by (simp_all add: putSession_def putFrame_def putApproval_def putQuestion_def incrementStatusSignal_def Let_def)

lemma side_core: "core_eq s t \<Longrightarrow> side t = side s"
  by (simp add: core_eq_def side_def)

lemma side_stepDriver: "wf_map (h_Sessions s) \<Longrightarrow> stepDriver env s f ev = (t, effs, b) \<Longrightarrow> side t = side s"
  using stepDriver_frame(1) side_core by blast

lemma side_push:
  "pushDriverInternal env s sid project raw options inp c r = Inr (s', effs) \<Longrightarrow> side s' = side s"
  by (auto simp: pushDriverInternal_def Let_def allocFrameID_def allocSessionID_def split: option.splits sum.splits prod.splits)

lemma side_resolvePush: "resolvePushDriverEffects env s raw = (s', effs) \<Longrightarrow> side s' = side s"
proof (induction env s raw arbitrary: s' effs rule: resolvePushDriverEffects.induct)
  case (2 env s sid command raw)
  show ?case
  proof (cases "pushDriverInternal env s sid '''' command zero_options [] 0 ''''")
    case (Inl err)
    then show ?thesis using 2 by simp
  next
    case (Inr p)
    obtain t pe where p: "p = (t, pe)" by (cases p)
    obtain u effs2 where rest: "resolvePushDriverEffects env t raw = (u, effs2)" by fastforce
    have "side u = side t" using "2.IH"(2)[OF Inr p[symmetric]] rest by simp
    then show ?thesis using side_push[of env s sid] Inr p rest "2.prems" by simp
  qed
qed (auto split: prod.splits)

lemma side_enqueue: "enqueueCapsules env n ses s = (s', effs) \<Longrightarrow> side s' = side s"
proof (induction ses arbitrary: s s' effs)
  case (Cons p ses)
  obtain sid sess where p: "p = (sid, sess)" by (cases p)
  show ?case
  proof (cases "if capsuleCheckDue sid n then maybeEnqueueOneCapsule env s sid sess else None")
    case None
    then have "enqueueCapsules env n ses s = (s', effs)" using Cons.prems p by (simp split: if_splits)
    then show ?thesis by (rule Cons.IH)
  next
    case (Some q)
    obtain t eff where one: "maybeEnqueueOneCapsule env s sid sess = Some (t, eff)" and due: "capsuleCheckDue sid n"
      using Some by (cases q) (simp split: if_splits)
    have "side t = side s"
      using one by (auto simp: maybeEnqueueOneCapsule_def Let_def postProcessEffect_def split: option.splits)
    moreover obtain u effs2 where rest: "enqueueCapsules env n ses t = (u, effs2)" by fastforce
    ultimately show ?thesis using Cons.IH[OF rest] Cons.prems due one p by auto
  qed
qed simp

lemma side_capsules: "maybeEnqueueResumeCapsules env s n = (s', effs) \<Longrightarrow> side s' = side s"
  using side_enqueue[of env n "h_Sessions s" s s' effs] by (auto simp: maybeEnqueueResumeCapsules_def split: if_splits)

lemma side_reaps:
  "cancelApprovalsForSession s sid = (t, effs) \<Longrightarrow> side t = side s"
  "cancelApprovalsForFrame s f = (t, effs) \<Longrightarrow> side t = side s"
  "cancelQuestionsForSession s sid = (t, effs) \<Longrightarrow> side t = side s"
  "cancelQuestionsForFrame s f = (t, effs) \<Longrightarrow> side t = side s"
  "expirePendingApprovals s now = (t, effs) \<Longrightarrow> side t = side s"
  "expirePendingQuestions s now = (t, effs) \<Longrightarrow> side t = side s"
  by (metis side_updates(5) cancelSession_frame, metis side_updates(5) cancelFrame_frame,
      metis side_updates(6) cancelQSession_frame, metis side_updates(6) cancelQFrame_frame,
      metis side_updates(5) expire_frame, metis side_updates(6) expireQ_frame)

lemma side_evict: "evictFrame s f kill disp = (t, effs, b) \<Longrightarrow> side t = side s"
  by (auto simp: evictFrame_def evictRootFrame_def evictChildFrame_def Let_def
      dest!: side_reaps split: option.splits if_splits prod.splits)

section \<open>Handlers\<close>

lemma side_sessions:
  "reduceCreateSession env s c r cp = (s', effs) \<Longrightarrow> side s' = side s"
  "reducePushDriver env s c r pp = (s', effs) \<Longrightarrow> side s' = side s"
  "reduceForkSession env s c r sid = (s', effs) \<Longrightarrow> side s' = side s"
  "reduceStopSession s c r sid = (s', effs) \<Longrightarrow> side s' = side s"
  "reduceSetHeadFrame s c r hp = (s', effs) \<Longrightarrow> side s' = side s"
  "reduceSpawnFailed s f err c r = (s', effs) \<Longrightarrow> side s' = side s"
  "reduceFrameVanished s f = (s', effs) \<Longrightarrow> side s' = side s"
  by (auto simp: reduceCreateSession_def allocFrameID_def allocSessionID_def Let_def split: option.splits sum.splits prod.splits if_splits,
      auto simp: reducePushDriver_def Let_def dest: side_push split: if_splits sum.splits,
      auto simp: reduceForkSession_def resolveForkDrv_def buildForkSession_def spawnForkSession_def
        makeForkSession_def Let_def allocFrameID_def allocSessionID_def split: option.splits sum.splits prod.splits if_splits,
      auto simp: reduceStopSession_def split: option.splits,
      auto simp: reduceSetHeadFrame_def Let_def split: option.splits if_splits,
      auto simp: reduceSpawnFailed_def Let_def dest: side_evict split: prod.splits if_splits,
      auto simp: reduceFrameVanished_def Let_def dest: side_evict split: prod.splits if_splits)

lemma side_lists:
  "reduceListSessions s c r = (s', effs) \<Longrightarrow> side s' = side s"
  "reduceListSessionMessages s c r mp = (s', effs) \<Longrightarrow> side s' = side s"
  "reduceReadSessionMessages s c r mp = (s', effs) \<Longrightarrow> side s' = side s"
  "reduceListResumeCapsules s c r = (s', effs) \<Longrightarrow> side s' = side s"
  "reduceFlagResumeCapsule s c r fp = (s', effs) \<Longrightarrow> side s' = side s"
  "reduceRepositoryPreparationEvent s c r i = (s', effs) \<Longrightarrow> side s' = side s"
  "reduceDriverList s c r = (s', effs) \<Longrightarrow> side s' = side s"
  by (auto simp: reduceListSessions_def,
      auto simp: reduceListSessionMessages_def Let_def split: if_splits,
      auto simp: reduceReadSessionMessages_def Let_def split: if_splits option.splits prod.splits,
      auto simp: reduceListResumeCapsules_def,
      auto simp: reduceFlagResumeCapsule_def Let_def split: if_splits option.splits,
      auto simp: reduceRepositoryPreparationEvent_def split: option.splits,
      auto simp: reduceDriverList_def)

lemma side_surfaces:
  "reduceSurfaceReadText s c r sid n = (s', effs) \<Longrightarrow> side s' = side s"
  "reduceSurfaceSendText s c r sid txt = (s', effs) \<Longrightarrow> side s' = side s"
  "reduceSurfaceSendKey s c r sid txt = (s', effs) \<Longrightarrow> side s' = side s"
  "reduceSurfaceResize s c r sid w h = (s', effs) \<Longrightarrow> side s' = side s"
  "reduceSurfaceWriteRaw s c r sid d = (s', effs) \<Longrightarrow> side s' = side s"
  by (auto simp: reduceSurfaceReadText_def reduceSurfaceSendText_def reduceSurfaceSendKey_def
      reduceSurfaceResize_def reduceSurfaceWriteRaw_def split: if_splits)

lemma side_human:
  "reduceApprovalRespond s c r i d cl = (s', effs) \<Longrightarrow> side s' = side s"
  "reduceApprovalCancel s c r i cl = (s', effs) \<Longrightarrow> side s' = side s"
  "reduceQuestionRespond s c r i a cl = (s', effs) \<Longrightarrow> side s' = side s"
  "reduceQuestionCancel s c r i cl = (s', effs) \<Longrightarrow> side s' = side s"
  by (auto simp: reduceApprovalRespond_def Let_def split: if_splits option.splits,
      auto simp: reduceApprovalCancel_def Let_def split: if_splits option.splits,
      auto simp: reduceQuestionRespond_def Let_def split: if_splits option.splits,
      auto simp: reduceQuestionCancel_def Let_def split: if_splits option.splits)

lemma side_handled:
  "side (fst (handled (\<lambda>s. maybeCreateApprovalFromSubsystem s e) x)) = side (fst x)"
  "side (fst (handled (\<lambda>s. maybeCreateQuestionFromSubsystem s e) x)) = side (fst x)"
  "side (fst (handled (\<lambda>s. maybeResolveHumanInputFromSubsystem s e) x)) = side (fst x)"
  by (auto simp: handled_def maybeCreateApprovalFromSubsystem_def maybeCreateQuestionFromSubsystem_def
      maybeResolveHumanInputFromSubsystem_def Let_def split: option.splits SubsystemEventKind.splits)

lemma side_human_input: "human_input e (s, effs) = (s', effs') \<Longrightarrow> side s' = side s"
  using side_handled unfolding human_input_def by (metis fst_conv)

lemma side_driven:
  assumes "wf_map (h_Sessions s)"
  shows "reduceDriverHook env s c r ev ts f p = (s', effs) \<Longrightarrow> side s' = side s"
    "reduceFrameCommandExited env s f code = (s', effs) \<Longrightarrow> side s' = side s"
    "reduceFileChanged env s f path = (s', effs) \<Longrightarrow> side s' = side s"
    "reduceFrameOsc env s oe = (s', effs) \<Longrightarrow> side s' = side s"
    "reduceFramePrompt env s f ph ec now = (s', effs) \<Longrightarrow> side s' = side s"
    "reduceJobResult env s j res err = (s', effs) \<Longrightarrow> side s' = side s"
proof -
  note st = side_stepDriver[OF assms] side_resolvePush side_evict
  show "reduceDriverHook env s c r ev ts f p = (s', effs) \<Longrightarrow> side s' = side s"
    by (auto simp: reduceDriverHook_def dest!: st split: if_splits prod.splits)
  show "reduceFrameCommandExited env s f code = (s', effs) \<Longrightarrow> side s' = side s"
    by (auto simp: reduceFrameCommandExited_def Let_def dest!: st split: option.splits if_splits prod.splits)
  show "reduceFileChanged env s f path = (s', effs) \<Longrightarrow> side s' = side s"
    by (auto simp: reduceFileChanged_def dest!: st split: if_splits prod.splits)
  show "reduceFrameOsc env s oe = (s', effs) \<Longrightarrow> side s' = side s"
    by (auto simp: reduceFrameOsc_def Let_def dest!: st split: if_splits prod.splits option.splits)
  show "reduceFramePrompt env s f ph ec now = (s', effs) \<Longrightarrow> side s' = side s"
    using side_stepDriver[of "s\<lparr>h_Now := now\<rparr>"] assms
    by (auto simp: reduceFramePrompt_def Let_def split: if_splits prod.splits)
  show "reduceJobResult env s j res err = (s', effs) \<Longrightarrow> side s' = side s"
    using side_stepDriver[of "s\<lparr>h_Jobs := AList.delete j (h_Jobs s)\<rparr>"] assms
    by (auto simp: reduceJobResult_def reduceCapsuleJobResult_def Let_def
        split: if_splits prod.splits option.splits JobResult.splits)
qed


lemma side_subsystem:
  fixes effs :: "'j Effect list"
  assumes "wf_map (h_Sessions s)" and h: "reduceSubsystem env s e = (s', effs)"
  shows "side s' = side s"
proof (cases "es_FrameID e = '''' \<or> findFrame s (es_FrameID e) = None")
  case True
  then show ?thesis using h by (auto simp: reduceSubsystem_def split: if_splits)
next
  case False
  then obtain sid sess n where found: "findFrame s (es_FrameID e) = Some (sid, sess, n)" by auto
  define t where "t = (if sp_TargetID (es_Payload e) \<noteq> '''' \<and> sp_TargetID (es_Payload e) \<noteq> sf_TargetID (se_Frames sess ! n)
    then putFrame s sid sess n ((se_Frames sess ! n)\<lparr>sf_TargetID := sp_TargetID (es_Payload e)\<rparr>) else s)"
  have t: "side t = side s" "wf_map (h_Sessions t)" using assms(1) by (auto simp: t_def)
  obtain u raw b where st: "stepDriver env t (es_FrameID e)
      (DEvSubsystem (es_Source e) (es_Kind e) (es_Timestamp e) (es_Payload e)) = (u, raw :: 'j Effect list, b)" by (metis prod_cases3)
  obtain v ve where rs: "resolvePushDriverEffects env u raw = (v, ve)" by fastforce
  obtain w we where hi: "human_input e (v, ve) = (w, we)" by fastforce
  have "s' = t \<or> s' = w \<or> s' = incrementStatusSignal w sid"
    using h False
    unfolding reduceSubsystem_def found option.case prod.case Let_def t_def[symmetric] st rs
      human_input_def[symmetric] hi
    by (cases b) (auto split: if_splits)
  then show ?thesis
    using t(1) side_stepDriver[OF t(2) st] side_resolvePush[OF rs] side_human_input[OF hi] by auto
qed

lemma side_spawned:
  fixes effs :: "'j Effect list"
  assumes "wf_map (h_Sessions s)" and sp: "reduceFrameSpawned env s e = (s', effs)"
  shows "side s' = side s"
proof -
  have boot: "bootstrapDriverSessionStart env t f = (u, raw, b) \<Longrightarrow> wf_map (h_Sessions t) \<Longrightarrow> side u = side t"
    for t u f b and raw :: "'j Effect list" using bootstrap_frame(1) side_core by blast
  have wt: "wf_map (h_Sessions u)" if "stepDriver env t f ev = (u, raw, b)" "wf_map (h_Sessions t)"
    for t u f ev b and raw :: "'j Effect list" using stepDriver_frame(2) that by blast
  show ?thesis
    using sp assms(1)
    by (auto simp: reduceFrameSpawned_def Let_def dest!: boot split: option.splits if_splits prod.splits
        intro: wt dest: side_stepDriver[rotated])
qed

lemma side_tick:
  fixes effs :: "'j Effect list"
  assumes "wf_map (h_Sessions s)" and tk: "reduceTick env s now n = (s', effs)"
  shows "side s' = side s"
proof -
  define s0 where "s0 = s\<lparr>h_Now := now\<rparr>"
  obtain s1 e1 ch where r1: "stepActiveSessions env s0 (tickEvent now n) = (s1, e1 :: 'j Effect list, ch)" by (metis prod_cases3)
  obtain s2 e2 where r2: "maybeEnqueueResumeCapsules env s1 n = (s2, e2 :: 'j Effect list)" by fastforce
  obtain s3 e3 where r3: "expirePendingApprovals s2 now = (s3, e3 :: 'j Effect list)" by fastforce
  obtain s4 e4 where r4: "expirePendingQuestions s3 now = (s4, e4 :: 'j Effect list)" by fastforce
  have s': "s' = s4" using tk by (auto simp: reduceTick_def Let_def s0_def[symmetric] r1 r2 r3 r4)
  have "driver_run env s0 s1 e1" by (rule stepActiveSessions_run[OF r1]) (simp add: s0_def assms)
  then have "side s1 = side s0" by (simp add: driver_run_def side_core)
  then show ?thesis
    using side_capsules[OF r2] side_reaps(5)[OF r3] side_reaps(6)[OF r4] by (simp add: s' s0_def)
qed

section \<open>Events\<close>

fun owner_event :: "'r Event \<Rightarrow> bool" where
  "owner_event (EvConnOpened _) = True"
| "owner_event (EvConnClosed _) = True"
| "owner_event (EvCmdSubscribe _ _ _) = True"
| "owner_event (EvCmdUnsubscribe _ _) = True"
| "owner_event (EvCmdSurfaceSubscribe _ _ _ _ _ _) = True"
| "owner_event (EvCmdSurfaceUnsubscribe _ _ _ _) = True"
| "owner_event (EvShutdownSaveBarrierFailed _ _) = True"
| "owner_event (EvShutdownCleanupFinished _ _) = True"
| "owner_event (EvRepositoryEvent _) = True"
| "owner_event (EvEvent _ _ event _) = (event = ''shutdown'' \<or> event = ''create-repository-session'')"
| "owner_event _ = False"

definition side_same :: "'ds State \<Rightarrow> ('ds, 'j) outcome \<Rightarrow> bool" where
  "side_same s out \<longleftrightarrow> (case out of Panic \<Rightarrow> True | Done s' effs \<Rightarrow> side s' = side s)"

lemma side_same_simps [simp]: "side_same s Panic" "side_same s (Done s' effs) = (side s' = side s)"
  by (simp_all add: side_same_def)

lemma side_same_ret: "(\<And>s' effs. r = (s', effs) \<Longrightarrow> side s' = side s) \<Longrightarrow> side_same s (ret r)"
  by (cases r) (simp add: ret_def)

lemma side_same_payload:
  "(\<And>p s' effs. handler p = (s', effs) \<Longrightarrow> side s' = side s) \<Longrightarrow>
     side_same s (ret (withPayload decode zero s c r payload handler))"
  by (intro side_same_ret) (auto simp: withPayload_def split: if_splits sum.splits)

lemma side_same_if: "side_same s x \<Longrightarrow> side_same s y \<Longrightarrow> side_same s (if b then x else y)"
  by simp

lemma side_reduceEvent:
  assumes "event \<noteq> ''shutdown''" and "event \<noteq> ''create-repository-session''"
  shows "side_same s (reduceEvent env s c r event payload)"
  unfolding reduceEvent_def Let_def if_not_P[OF assms(1)] if_not_P[OF assms(2)]
  by (intro side_same_if side_same_simps(1) side_same_payload; (erule side_sessions | erule side_lists))

lemma side_Reduce:
  assumes "wf_map (h_Sessions s)" and "\<not> owner_event ev" and "Reduce env s ev = Done s' effs"
  shows "side s' = side s"
proof -
  have "side_same s (reduceQuiescing env s ev)"
    using assms(2)
    by (cases ev) (simp_all add: shuttingDown_def side_reduceEvent,
        (rule side_same_ret, (erule side_lists | erule side_surfaces | simp add: reduceShutdownSaveSucceeded_def split: if_splits))+)
  moreover have "side_same s (reduceRunning env s ev)"
    using assms(2)
    by (cases ev) (simp_all add: side_reduceEvent,
        (rule side_same_ret, (erule side_lists | erule side_surfaces | erule side_human | erule side_sessions
          | erule side_driven[OF assms(1)] | erule side_subsystem[OF assms(1)] | erule side_spawned[OF assms(1)]
          | erule side_tick[OF assms(1)] | simp add: reduceShutdownSaveSucceeded_def split: if_splits))+)
  ultimately show ?thesis using assms(3) by (simp add: Reduce_def split: if_splits)
qed

end
