(* ===== verification/HostRun.thy ===== *)
theory HostRun
  imports HostSide
begin

text \<open>
  Runs of the host's reducer: the event loop feeds events to \<open>Reduce\<close> one at a time and hands the
  effects to the runtime. The last section is a small environment, one driver that logs each step, on
  which the theorems of the development are instantiated.
\<close>

section \<open>Runs\<close>

fun run :: "('ds, 'j, 'r) Env \<Rightarrow> 'ds State \<Rightarrow> 'r Event list \<Rightarrow> ('ds State \<times> 'j Effect list) option" where
  "run env s [] = Some (s, [])"
| "run env s (ev # evs) =
     (case Reduce env s ev of
        Panic \<Rightarrow> None
      | Done s' effs \<Rightarrow> map_option (\<lambda>(t, e). (t, effs @ e)) (run env s' evs))"

text \<open>
  Session identifiers are 12 bytes of \<open>crypto/rand\<close>. The runs considered are those where a draw
  never hits the identifier of an existing session.
\<close>

fun fresh_run :: "('ds, 'j, 'r) Env \<Rightarrow> 'ds State \<Rightarrow> 'r Event list \<Rightarrow> bool" where
  "fresh_run env s [] = True"
| "fresh_run env s (ev # evs) =
     (fresh_draw env s \<and>
      (case Reduce env s ev of Panic \<Rightarrow> True | Done s' effs \<Rightarrow> fresh_run env s' evs))"

lemma run_ok:
  "host_ok s \<Longrightarrow> drivers_ok env \<Longrightarrow> fresh_run env s evs \<Longrightarrow> run env s evs = Some (s', effs) \<Longrightarrow> host_ok s'"
proof (induction evs arbitrary: s effs)
  case (Cons ev evs)
  then obtain t e e2 where one: "Reduce env s ev = Done t e" and rest: "run env t evs = Some (s', e2)"
    by (auto split: outcome.splits)
  have "host_ok t" by (rule step_ok_host[OF Reduce_step[OF Cons.prems(1,2) _ one]]) (use Cons.prems(3) in simp)
  then show ?case using Cons.IH[OF _ Cons.prems(2) _ rest] Cons.prems(3) one by simp
qed simp

text \<open>An invariant that each step keeps holds at the end of a run.\<close>

lemma run_invariant:
  assumes "drivers_ok env"
    and step: "\<And>u ev v e. host_ok u \<Longrightarrow> fresh_draw env u \<Longrightarrow> P u \<Longrightarrow> Reduce env u ev = Done v e \<Longrightarrow> P v"
  shows "run env s evs = Some (t, effs) \<Longrightarrow> host_ok s \<Longrightarrow> fresh_run env s evs \<Longrightarrow> P s \<Longrightarrow> P t"
proof (induction evs arbitrary: s effs)
  case (Cons ev evs)
  then obtain v e e2 where one: "Reduce env s ev = Done v e" and rest: "run env v evs = Some (t, e2)"
    by (auto split: outcome.splits)
  have draw: "fresh_draw env s" using Cons.prems(3) by simp
  show ?case
  proof (rule Cons.IH[OF rest])
    show "host_ok v" by (rule step_ok_host[OF Reduce_step[OF Cons.prems(2) assms(1) draw one]])
    show "fresh_run env v evs" using Cons.prems(3) one by simp
    show "P v" by (rule step[OF Cons.prems(2) draw Cons.prems(4) one])
  qed
qed simp

lemma host_ok_New: "host_ok New"
  by (simp add: host_ok_def sessions_ok_def approvals_ok_def questions_ok_def requests_ok_def New_def shapes_def
      store_ok_def nested_wf_def keyed_nested_def collect_nested_def inner_of_def)

lemma live_frames_alt: "live_frames s = \<Union> (set (map (\<lambda>(sid, _). case shapes s sid of None \<Rightarrow> {} | Some sh \<Rightarrow> set (fst (snd sh))) (h_Sessions s)))"
proof -
  have "shapes s sid = Some sh \<Longrightarrow> sid \<in> fst ` set (h_Sessions s)" for sid sh
    by (auto simp: shapes_def dest: map_of_SomeD intro: rev_image_eqI)
  then show ?thesis by (fastforce simp: live_frames_def live_of_def ran_def split: option.splits)
qed

section \<open>A sample environment\<close>

definition sample_plan :: LaunchPlan where
  "sample_plan =
     \<lparr>lp_Command = ''agent'', lp_Argv = [], lp_PreCommands = [], lp_PreCommandTimeout = 0, lp_StartDir = '''',
      lp_Project = '''', lp_Options = zero_options, lp_Subsystem = LaunchSubsystemCLI,
      lp_Stream = \<lparr>so_DangerouslyBypassPermissions = False, so_ResumeThreadID = '''', so_ResumeRolloutPath = '''',
                   so_ColdStartSessionID = ''''\<rparr>,
      lp_ManagedMCPTools = [], lp_Stdin = []\<rparr>"

definition sample_driver :: "(unit, unit, unit) Driver" where
  "sample_driver =
     \<lparr>dr_Name = '''', dr_NewState = (\<lambda>_. ()),
      dr_Step = (\<lambda>_ _ _. ((), [EffEventLogAppend '''' ''step''])),
      dr_Status = (\<lambda>_. StatusIdle), dr_PrepareLaunch = (\<lambda>_ _ _ _ _. Inr sample_plan),
      dr_PrepareCreate = None, dr_Forkable = None, dr_WithForkSessionID = None, dr_BootstrapSessionStart = None,
      dr_StartDirAware = None,
      dr_CapsuleTurns = Some (\<lambda>_. [\<lparr>ct_Role = ''user'', ct_Text = ''hi''\<rparr>])\<rparr>"

definition sample_codec :: Codec where
  "sample_codec =
     \<lparr>cd_unit = (\<lambda>_. Inr ()),
      cd_CreateSession = (\<lambda>p. Inr \<lparr>cs_Project = p, cs_Command = ''agent'', cs_Options = zero_options\<rparr>),
      cd_PushDriver = (\<lambda>p. Inr \<lparr>pd_SessionID = p, pd_Project = '''', pd_Command = ''agent'',
                                pd_Options = zero_options, pd_Input = []\<rparr>),
      cd_ForkSession = Inr, cd_StopSession = Inr,
      cd_SetHeadFrame = (\<lambda>_. Inl ''not an object''), cd_SessionMessages = (\<lambda>_. Inl ''not an object''),
      cd_RepositoryCreate = (\<lambda>_. Inl ''not an object''), cd_RepositoryPreparation = Inr,
      cd_ResumeCapsuleFlag = (\<lambda>_. Inl ''not an object'')\<rparr>"

definition sample_env :: "(unit, unit, unit) Env" where
  "sample_env =
     \<lparr>env_Registry = \<lparr>rg_drivers = [('''', sample_driver)], rg_default = None\<rparr>,
      env_Codec = sample_codec, env_Rand = (\<lambda>n. replicate 12 (of_nat n))\<rparr>"

lemma sample_drivers: "drivers_ok sample_env"
  by (auto simp: drivers_ok_def sample_env_def GetDriver_def sample_driver_def split: option.splits if_splits)

definition sample_sid :: SessionID where "sample_sid = replicate 24 (CHR ''0'')"
definition sample_fid :: FrameID where "sample_fid = concat (replicate 12 ''01'')"

definition sample_payload :: "SubsystemApproval option \<Rightarrow> SubsystemQuestion option \<Rightarrow> SubsystemPayload" where
  "sample_payload a q =
     \<lparr>sp_SessionID = '''', sp_ColdStartSessionID = '''', sp_TurnID = '''', sp_TargetID = '''',
      sp_RequestedTargetID = '''', sp_ObservedTargetID = '''', sp_ResumePhase = '''', sp_Prompt = '''', sp_Error = '''',
      sp_LastAssistantMessage = '''', sp_StatusLine = '''', sp_Title = '''', sp_Model = '''', sp_ModelSet = False,
      sp_Effort = '''', sp_EffortSet = False, sp_TitleSet = False, sp_Preview = '''', sp_TranscriptPath = '''',
      sp_Tool = None, sp_Approval = a, sp_Question = q, sp_Plan = None, sp_Diff = None, sp_Message = None\<rparr>"

definition sample_approval :: "ApprovalID \<Rightarrow> unit Event" where
  "sample_approval i =
     EvSubsystemEvent \<lparr>es_ConnID = 0, es_ReqID = '''', es_FrameID = sample_fid, es_Source = SubsystemStream,
       es_Kind = SubsystemApprovalRequested, es_Timestamp = 0,
       es_Payload = sample_payload (Some \<lparr>sa_ID = i, sa_Kind = ''exec'', sa_Command = ''ls'', sa_Path = '''',
         sa_Reason = '''', sa_AutoApprove = False, sa_Resolved = False, sa_Denied = False\<rparr>) None\<rparr>"

definition sample_question :: "QuestionID \<Rightarrow> unit Event" where
  "sample_question i =
     EvSubsystemEvent \<lparr>es_ConnID = 0, es_ReqID = '''', es_FrameID = sample_fid, es_Source = SubsystemStream,
       es_Kind = SubsystemQuestionRequested, es_Timestamp = 0,
       es_Payload = sample_payload None (Some \<lparr>sq_ID = i, sq_Prompt = ''why?'', sq_Answer = ''''\<rparr>)\<rparr>"

text \<open>A session with one frame, an approval and a question waiting.\<close>

definition sample_events :: "unit Event list" where
  "sample_events =
     [EvEvent 1 ''r'' ''create-session'' ''proj'', sample_approval ''a'', sample_question ''q'']"

definition sample_frame :: "unit SessionFrame" where
  "sample_frame =
     \<lparr>sf_ID = sample_fid, sf_SubsystemID = '''', sf_TargetID = sample_fid, sf_Project = ''proj'', sf_Command = ''agent'',
      sf_LaunchOptions = zero_options, sf_CreatedAt = zero_time, sf_Driver = Some ()\<rparr>"

definition sample_session :: "unit Session" where
  "sample_session =
     \<lparr>se_ID = sample_sid, se_Project = ''proj'', se_CreatedAt = zero_time, se_Frames = [sample_frame],
      se_HeadFrameID = sample_fid, se_MRUFrameIDs = [], se_Command = ''agent'', se_LaunchOptions = zero_options,
      se_Driver = Some (), se_FrameMessaging = None, se_FrameGeneration = 0, se_ResumeCapsule = None, se_EndedAt = None\<rparr>"

definition sample_state :: "unit State" where
  "sample_state =
     New\<lparr>h_Sessions := [(sample_sid, sample_session)], h_RandPos := 2, h_StatusSignals := [(sample_sid, 2)],
       h_PendingApprovals := [(sample_sid, [(''a'',
         \<lparr>ar_ID = ''a'', ar_SessionID = sample_sid, ar_FrameID = sample_fid, ar_Kind = ''exec'', ar_Command = ''ls'',
          ar_Path = '''', ar_Reason = '''', ar_CreatedAt = 0, ar_ExpiresAt = 30 * second, ar_Status = ApprovalPending,
          ar_DefaultDecision = ApprovalDecisionDeny, ar_Decision = ApprovalDecisionNone,
          ar_ResolvingClientInstanceID = '''', ar_ResolutionReason = ApprovalReasonNone\<rparr>)])],
       h_PendingQuestions := [(sample_sid, [(''q'',
         \<lparr>qr_ID = ''q'', qr_SessionID = sample_sid, qr_FrameID = sample_fid, qr_Prompt = ''why?'', qr_CreatedAt = 0,
          qr_ExpiresAt = 30 * second, qr_Status = QuestionPending, qr_Answer = '''',
          qr_ResolvingClientInstanceID = '''', qr_ResolutionReason = QuestionReasonNone\<rparr>)])]\<rparr>"

lemma sample_run: "run sample_env New sample_events = Some (sample_state, snd (the (run sample_env New sample_events)))"
proof -
  have "map_option fst (run sample_env New sample_events) = Some sample_state" by code_simp
  then show ?thesis by auto
qed

lemma sample_fresh: "fresh_run sample_env New sample_events"
  by code_simp

lemma sample_ok: "host_ok sample_state"
  by (rule run_ok[OF host_ok_New sample_drivers sample_fresh sample_run])


text \<open>One more event on top of the sample state.\<close>

definition sample_next :: "unit Event \<Rightarrow> unit State \<times> unit Effect list" where
  "sample_next ev = (case Reduce sample_env sample_state ev of Panic \<Rightarrow> (sample_state, []) | Done s' effs \<Rightarrow> (s', effs))"

lemma sample_nextI:
  "Reduce sample_env sample_state ev \<noteq> Panic \<Longrightarrow>
     Reduce sample_env sample_state ev = Done (fst (sample_next ev)) (snd (sample_next ev))"
  by (cases "Reduce sample_env sample_state ev") (simp_all add: sample_next_def)

lemma sample_draw: "fresh_draw sample_env sample_state"
  by code_simp

end
