(* ===== verification/HostProps.thy ===== *)
theory HostProps
  imports HostRun
begin

text \<open>
  The theorems about the host's reducer: its invariant over runs, the lifecycle of approvals and
  questions, the teardown of frames, shutdown admission and panics.
\<close>

section \<open>Sessions\<close>

text \<open>C3: Whatever events a fresh host processes, its state stays well-formed: every session is filed
  under its own identifier, its head frame is one of its frames (or empty when it has none), the
  most-recently-used list holds at most 16 distinct frames of the session, and every approval and
  question is filed once, under its session and its own identifier.\<close>

theorem host_invariant:
  assumes "drivers_ok env" and "fresh_run env New evs" and "run env New evs = Some (s, effs)"
  shows "host_ok s"
  by (rule run_ok[OF host_ok_New assms])

theorem host_invariant_witness: "host_ok sample_state"
  by (rule host_invariant[OF sample_drivers sample_fresh sample_run])

text \<open>C10: A frame is only lost with its teardown: whenever an event makes a frame disappear from the
  sessions, the same step releases the frame, unregisters it and stops its file watch.\<close>

theorem teardown_complete:
  assumes "host_ok s" and "drivers_ok env" and "fresh_draw env s" and "Reduce env s ev = Done s' effs"
    and "f \<in> live_frames s" and "f \<notin> live_frames s'"
  shows "EffReleaseFrame f \<in> set effs \<and> EffUnregisterFrame f \<in> set effs \<and> EffUnwatchFile f \<in> set effs"
  using Reduce_step[OF assms(1-4)] assms(5,6) by (auto simp: step_ok_def torn_down_def)

theorem teardown_complete_witness:
  "EffReleaseFrame sample_fid \<in> set (snd (sample_next (EvFrameVanished sample_fid))) \<and>
   EffUnregisterFrame sample_fid \<in> set (snd (sample_next (EvFrameVanished sample_fid))) \<and>
   EffUnwatchFile sample_fid \<in> set (snd (sample_next (EvFrameVanished sample_fid)))"
proof (rule teardown_complete[OF sample_ok sample_drivers sample_draw sample_nextI])
  show "Reduce sample_env sample_state (EvFrameVanished sample_fid) \<noteq> Panic" by code_simp
  show "sample_fid \<in> live_frames sample_state" unfolding live_frames_alt by code_simp
  show "sample_fid \<notin> live_frames (fst (sample_next (EvFrameVanished sample_fid)))" unfolding live_frames_alt by code_simp
qed

section \<open>Human input\<close>

text \<open>One step on one approval.\<close>

lemma approval_forward:
  assumes "host_ok s" and "drivers_ok env" and "fresh_draw env s" and "Reduce env s ev = Done s' effs"
    and "FindApproval s i = Some (r, sid)" and "FindApproval s' i = Some (r', sid')"
  shows "sid' = sid \<and> approval_captured r' = approval_captured r \<and> (ar_Status r \<noteq> ApprovalPending \<longrightarrow> r' = r)"
proof -
  have st: "step_ok s s' effs" by (rule Reduce_step[OF assms(1-4)])
  have "approvals_ok s" "approvals_ok s'" using assms(1) step_ok_host[OF st] by (simp_all add: host_ok_def)
  then have "find_nested (h_PendingApprovals s) i = Some (r, sid)" "find_nested (h_PendingApprovals s') i = Some (r', sid')"
    using assms(5,6) by (simp_all add: FindApproval_eq)
  moreover have "request_step approval_pending approval_captured (find_nested (h_PendingApprovals s) i)
      (find_nested (h_PendingApprovals s') i)"
    using st by (simp add: step_ok_def approvals_evolve_def requests_evolve_def)
  ultimately show ?thesis by auto
qed

text \<open>C5: An approval only moves forward: no event moves it to another session or changes the request,
  its deadline or its default decision, and once it is settled nothing about it ever changes.\<close>

theorem approval_lifecycle:
  assumes "host_ok s" and "drivers_ok env" and "fresh_draw env s" and "Reduce env s ev = Done s' effs"
    and "FindApproval s i = Some (r, sid)" and "FindApproval s' i = Some (r', sid')"
  shows "sid' = sid \<and> approval_captured r' = approval_captured r \<and> (ar_Status r \<noteq> ApprovalPending \<longrightarrow> r' = r)"
  by (rule approval_forward[OF assms])

theorem approval_lifecycle_witness:
  "approval_captured (fst (the (FindApproval (fst (sample_next (EvCmdApprovalRespond 1 ''r'' sample_sid ''a'' ApprovalDecisionAccept ''cl''))) ''a'')))
     = approval_captured (fst (the (FindApproval sample_state ''a'')))"
proof -
  let ?ev = "EvCmdApprovalRespond 1 ''r'' sample_sid ''a'' ApprovalDecisionAccept ''cl''"
  have p: "Reduce sample_env sample_state ?ev \<noteq> Panic" by code_simp
  have "FindApproval sample_state ''a'' \<noteq> None" "FindApproval (fst (sample_next ?ev)) ''a'' \<noteq> None" by code_simp+
  then show ?thesis using approval_lifecycle[OF sample_ok sample_drivers sample_draw sample_nextI[OF p]] by force
qed

text \<open>C11: The agent that holds an approval or a question open gets exactly one reply when the host settles
  it: in every step the replies for an identifier number one if the request left the pending state
  (answered, cancelled, expired, reaped, or created already approved) and zero otherwise; a request the
  agent itself resolved is not answered again.\<close>

theorem held_replies_exact:
  assumes "host_ok s" and "drivers_ok env" and "fresh_draw env s" and "Reduce env s ev = Done s' effs"
  shows "count_replies approval_reply i effs =
      (if owed approval_pending approval_server (FindApproval s i) (FindApproval s' i) then 1 else 0) \<and>
    count_replies question_reply i effs =
      (if owed question_pending question_server (FindQuestion s i) (FindQuestion s' i) then 1 else 0)"
proof -
  have st: "step_ok s s' effs" by (rule Reduce_step[OF assms])
  have "approvals_ok s" "approvals_ok s'" "questions_ok s" "questions_ok s'"
    using assms(1) step_ok_host[OF st] by (simp_all add: host_ok_def)
  then show ?thesis
    using st by (simp add: FindApproval_eq FindQuestion_eq step_ok_def approvals_evolve_def questions_evolve_def
        requests_evolve_def)
qed

theorem held_replies_exact_witness:
  "count_replies approval_reply ''a'' (snd (sample_next (EvTick (1000 * second) 1))) = 1 \<and>
   count_replies question_reply ''q'' (snd (sample_next (EvTick (1000 * second) 1))) = 1"
proof -
  let ?ev = "EvTick (1000 * second) 1"
  have p: "Reduce sample_env sample_state ?ev \<noteq> Panic" by code_simp
  have "owed approval_pending approval_server (FindApproval sample_state ''a'') (FindApproval (fst (sample_next ?ev)) ''a'')"
    "owed question_pending question_server (FindQuestion sample_state ''q'') (FindQuestion (fst (sample_next ?ev)) ''q'')"
    by code_simp+
  then show ?thesis
    using held_replies_exact[OF sample_ok sample_drivers sample_draw sample_nextI[OF p], of "''a''"]
      held_replies_exact[OF sample_ok sample_drivers sample_draw sample_nextI[OF p], of "''q''"] by simp
qed









lemma tick_parts:
  fixes effs :: "'j Effect list"
  assumes ok: "host_ok s" and tk: "reduceTick env s now n = (s', effs)"
  obtains s2 s3 and e3 e4 :: "'j Effect list" where "expirePendingApprovals s2 now = (s3, e3)"
    "expirePendingQuestions s3 now = (s', e4)" "h_PendingApprovals s2 = h_PendingApprovals s"
    "h_PendingQuestions s2 = h_PendingQuestions s"
proof -
  define s0 where "s0 = s\<lparr>h_Now := now\<rparr>"
  obtain s1 e1 ch where r1: "stepActiveSessions env s0 (tickEvent now n) = (s1, e1 :: 'j Effect list, ch)" by (metis prod_cases3)
  obtain s2 e2 where r2: "maybeEnqueueResumeCapsules env s1 n = (s2, e2 :: 'j Effect list)" by fastforce
  obtain s3 e3 where r3: "expirePendingApprovals s2 now = (s3, e3 :: 'j Effect list)" by fastforce
  obtain s4 e4 where r4: "expirePendingQuestions s3 now = (s4, e4 :: 'j Effect list)" by fastforce
  have "s' = s4" using tk by (auto simp: reduceTick_def Let_def s0_def[symmetric] r1 r2 r3 r4)
  moreover have run: "driver_run env s0 s1 e1"
    by (rule stepActiveSessions_run[OF r1]) (simp add: s0_def host_wf[OF ok])
  ultimately show ?thesis
    using that[OF r3] r4 run_shapes[OF run] capsules_frame[OF r2] by (simp add: s0_def)
qed

lemma expireQuestions_find:
  assumes "questions_ok s" and "\<not> is_zero now" and "expirePendingQuestions s now = (s', effs)"
  shows "questions_find s' i =
    (case questions_find s i of None \<Rightarrow> None
     | Some (q, sid) \<Rightarrow> Some (if questionDue now q then questionExpired q else q, sid))"
  using assms question.rewrite_group[of "h_PendingQuestions s" questionExpired "questionDue now" i]
  by (auto simp: expirePendingQuestions_eq questions_ok_def requests_ok_def question_captured_def questionExpired_def)

text \<open>C20: A tick settles exactly the overdue requests: its collect-then-rewrite loops over the nested maps
  amount to rewriting each overdue pending approval to its captured default decision and each overdue
  question to expired, and leave every other request as it was.\<close>

theorem tick_expires_exactly:
  assumes ok: "host_ok s" and now: "\<not> is_zero now" and tk: "reduceTick env s now n = (s', effs :: 'j Effect list)"
  shows "FindApproval s' i = map_option (\<lambda>(r, sid). (if approvalDue now r then approvalExpired r else r, sid)) (FindApproval s i) \<and>
    FindQuestion s' i = map_option (\<lambda>(q, sid). (if questionDue now q then questionExpired q else q, sid)) (FindQuestion s i)"
proof -
  obtain s2 s3 e3 e4 where r3: "expirePendingApprovals s2 now = (s3, e3 :: 'j Effect list)"
    and r4: "expirePendingQuestions s3 now = (s', e4 :: 'j Effect list)"
    and s2: "h_PendingApprovals s2 = h_PendingApprovals s" "h_PendingQuestions s2 = h_PendingQuestions s"
    by (rule tick_parts[OF ok tk])
  have t: "h_PendingQuestions s3 = h_PendingQuestions s2" by (subst expire_frame[OF r3, THEN conjunct1], simp)
  have u: "h_PendingApprovals s' = h_PendingApprovals s3" by (subst expireQ_frame[OF r4, THEN conjunct1], simp)
  have oks: "approvals_ok s2" "questions_ok s3" using ok s2 t by (simp_all add: host_ok_def approvals_ok_def questions_ok_def)
  show ?thesis
    using expire_find[OF oks(1) now r3, of i] expireQuestions_find[OF oks(2) now r4, of i] s2 t u
    by (auto simp: FindApproval_def FindQuestion_def split: option.splits)
qed


theorem tick_expires_exactly_witness:
  "map_option (ar_Status \<circ> fst) (FindApproval (fst (reduceTick sample_env sample_state (30 * second) 1)) ''a'') = Some ApprovalExpired \<and>
   map_option (qr_Status \<circ> fst) (FindQuestion (fst (reduceTick sample_env sample_state (29 * second) 1)) ''q'') = Some QuestionPending"
proof -
  have "\<not> is_zero (30 * second)" "\<not> is_zero (29 * second)" by code_simp+
  note late = tick_expires_exactly[OF sample_ok this(1) surjective_pairing, of sample_env 1 "''a''"]
    and early = tick_expires_exactly[OF sample_ok this(2) surjective_pairing, of sample_env 1 "''q''"]
  have "map_option (ar_Status \<circ> fst) (map_option (\<lambda>(r, sid). (if approvalDue (30 * second) r then approvalExpired r else r, sid))
      (FindApproval sample_state ''a'')) = Some ApprovalExpired"
    "map_option (qr_Status \<circ> fst) (map_option (\<lambda>(q, sid). (if questionDue (29 * second) q then questionExpired q else q, sid))
      (FindQuestion sample_state ''q'')) = Some QuestionPending"
    by code_simp+
  then show ?thesis unfolding late[THEN conjunct1] early[THEN conjunct2] by simp
qed

section \<open>Shutdown\<close>

text \<open>C34: \<open>Reduce\<close> panics exactly on a command of an unregistered name while the host runs, and on a
  repository event while it shuts down.\<close>

theorem panics_exactly:
  "Reduce env s ev = Panic \<longleftrightarrow>
     (case ev of
        EvEvent c r event payload \<Rightarrow> h_Lifecycle s \<noteq> LifecycleQuiescing \<and> \<not> IsRegisteredEvent event
      | EvRepositoryEvent e \<Rightarrow> h_Lifecycle s = LifecycleQuiescing
      | _ \<Rightarrow> False)"
proof -
  have ev: "reduceEvent env s c r event payload = Panic \<longleftrightarrow> \<not> IsRegisteredEvent event" for c r event payload
    by (auto simp: reduceEvent_def IsRegisteredEvent_def ret_def Let_def)
  have q: "reduceQuiescing env s ev = Panic \<longleftrightarrow> (case ev of EvRepositoryEvent e \<Rightarrow> True | _ \<Rightarrow> False)"
    by (cases ev) (auto simp: ret_def shuttingDown_def ev IsRegisteredEvent_def)
  have r: "reduceRunning env s ev = Panic \<longleftrightarrow>
      (case ev of EvEvent c r event payload \<Rightarrow> \<not> IsRegisteredEvent event | _ \<Rightarrow> False)"
    by (cases ev) (auto simp: ret_def ev)
  show ?thesis
    by (cases "h_Lifecycle s = LifecycleQuiescing") (simp_all add: Reduce_def q r split: Event.splits)
qed

text \<open>The effects the host may still emit while it shuts down: replies, the list broadcast, stopping
  surface relays and the shutdown protocol itself.\<close>

fun closing_effect :: "'j Effect \<Rightarrow> bool" where
  "closing_effect (EffSendError _ _ _ _ _) = True"
| "closing_effect (EffSendResponse _ _ _) = True"
| "closing_effect (EffSendResponseSync _ _ _) = True"
| "closing_effect EffBroadcastSessionsChanged = True"
| "closing_effect (EffSurfaceSubscribeStop _ _ _) = True"
| "closing_effect (EffReleaseFrames _) = True"
| "closing_effect (EffCompleteShutdown _) = True"
| "closing_effect EffTerminateRuntime = True"
| "closing_effect _ = False"

lemma closing_resp [simp]: "closing_effect (errResp c r code msg)" "closing_effect (okResp c r b)"
  "closing_effect (sessionNotFound c r sid)"
  by (simp_all add: errResp_def okResp_def sessionNotFound_def)

text \<open>What a closing host keeps, and the effects it may emit, as a property of an outcome.\<close>

definition frozen :: "'ds State \<Rightarrow> ('ds, 'j) outcome \<Rightarrow> bool" where
  "frozen s out \<longleftrightarrow>
     (case out of Panic \<Rightarrow> True
      | Done s' effs \<Rightarrow>
          h_Sessions s' = h_Sessions s \<and> h_Jobs s' = h_Jobs s \<and> h_PendingApprovals s' = h_PendingApprovals s \<and>
          h_PendingQuestions s' = h_PendingQuestions s \<and> h_RepositoryPreparations s' = h_RepositoryPreparations s \<and>
          h_CapsuleGenerating s' = h_CapsuleGenerating s \<and> list_all closing_effect effs)"

lemma frozen_lists:
  "frozen s (ret (reduceListSessions s c r))" "frozen s (ret (reduceListSessionMessages s c r mp))"
  "frozen s (ret (reduceDriverList s c r))" "frozen s (ret (reduceSurfaceReadText s c r sid n))"
  by (auto simp: frozen_def ret_def reduceListSessions_def reduceListSessionMessages_def reduceDriverList_def
      reduceSurfaceReadText_def Let_def)

lemma frozen_conns:
  "frozen s (ret (reduceConnOpened s c))" "frozen s (ret (reduceConnClosed s c))" "frozen s (ret (reduceSubscribe s c r fs))"
  "frozen s (ret (reduceUnsubscribe s c r))" "frozen s (ret (reduceSurfaceUnsubscribe s c r sid sub))"
  by (auto simp: frozen_def ret_def reduceConnOpened_def reduceConnClosed_def reduceSubscribe_def reduceUnsubscribe_def
      reduceSurfaceUnsubscribe_def Let_def list_all_iff)

lemma frozen_shutdown:
  "h_Lifecycle s = LifecycleQuiescing \<Longrightarrow> frozen s (ret (reduceShutdown s c r))"
  "frozen s (ret (reduceShutdownSaveSucceeded s tx))" "frozen s (ret (reduceShutdownSaveFailed s tx err))"
  "frozen s (ret (reduceShutdownCleanupFinished s tx oc))"
  by (auto simp: frozen_def ret_def reduceShutdown_def reduceShutdownSaveSucceeded_def reduceShutdownSaveFailed_def
      reduceShutdownCleanupFinished_def Let_def list_all_iff split: option.splits)

lemma frozen_payload:
  "(\<And>p. frozen s (ret (handler p))) \<Longrightarrow> frozen s (ret (withPayload decode zero s c r payload handler))"
  by (auto simp: withPayload_def ret_def frozen_def split: sum.splits)

text \<open>C23: Once shutdown has begun the host admits no more work: no event changes the sessions, the
  jobs, the human-input requests or the repository preparations, and the effects are only replies,
  the session-list broadcast, surface stops and the shutdown protocol.\<close>

theorem quiescing_freezes:
  assumes "h_Lifecycle s = LifecycleQuiescing" and "Reduce env s ev = Done s' effs"
  shows "h_Sessions s' = h_Sessions s \<and> h_Jobs s' = h_Jobs s \<and> h_PendingApprovals s' = h_PendingApprovals s \<and>
    h_PendingQuestions s' = h_PendingQuestions s \<and> h_RepositoryPreparations s' = h_RepositoryPreparations s \<and>
    h_CapsuleGenerating s' = h_CapsuleGenerating s \<and> list_all closing_effect effs"
proof -
  have same: "frozen s (Done s [])" "frozen s (shuttingDown s c r)" for c r by (simp_all add: frozen_def shuttingDown_def)
  have ev: "frozen s (reduceEvent env s c r event payload)"
    if "event = ''shutdown'' \<or> event = ''list-sessions'' \<or> event = ''list-session-messages''" for c r event payload
    using that
  proof (elim disjE)
    assume "event = ''shutdown''"
    then show ?thesis by (simp add: reduceEvent_def frozen_payload frozen_shutdown assms(1))
  next
    assume "event = ''list-sessions''"
    then show ?thesis by (simp add: reduceEvent_def frozen_payload frozen_lists)
  next
    assume "event = ''list-session-messages''"
    then show ?thesis by (simp add: reduceEvent_def frozen_payload frozen_lists)
  qed
  have "frozen s (reduceQuiescing env s ev)"
    by (cases ev) (simp_all add: same ev frozen_lists frozen_conns frozen_shutdown frozen_def[of s Panic])
  then show ?thesis using assms by (simp add: Reduce_def frozen_def)
qed


definition sample_closing :: "unit Event \<Rightarrow> unit State \<times> unit Effect list" where
  "sample_closing ev =
     (case Reduce sample_env (sample_state\<lparr>h_Lifecycle := LifecycleQuiescing\<rparr>) ev of
        Panic \<Rightarrow> (New, []) | Done s' effs \<Rightarrow> (s', effs))"

lemma panic_tick: "Reduce env s (EvTick t n) \<noteq> Panic"
  by (simp add: Reduce_def ret_def)

theorem quiescing_freezes_witness:
  "h_Sessions (fst (sample_closing (EvTick (100 * second) 5))) = [(sample_sid, sample_session)]"
proof -
  let ?s = "sample_state\<lparr>h_Lifecycle := LifecycleQuiescing\<rparr>"
  have q: "h_Lifecycle ?s = LifecycleQuiescing" by simp
  have "Reduce sample_env ?s (EvTick (100 * second) 5) \<noteq> Panic" by (simp add: panic_tick)
  then have "Reduce sample_env ?s (EvTick (100 * second) 5) =
      Done (fst (sample_closing (EvTick (100 * second) 5))) (snd (sample_closing (EvTick (100 * second) 5)))"
    by (auto simp: sample_closing_def split: outcome.splits)
  from quiescing_freezes[OF q this] show ?thesis by (simp add: sample_state_def)
qed

section \<open>Divergences\<close>

text \<open>C39: A terminated session can run again without losing its terminal mark: pushing a driver onto an
  ended session spawns a frame in it and leaves it marked as ended.\<close>

theorem ended_session_regains_frames:
  assumes "map_of (h_Sessions s) (pd_SessionID p) = Some sess" and "Ended sess"
    and "reducePushDriver env s c r p = (s', effs)" and "s' \<noteq> s"
  shows "\<exists>sess'. map_of (h_Sessions s') (pd_SessionID p) = Some sess' \<and> Ended sess' \<and>
    length (se_Frames sess') = Suc (length (se_Frames sess))"
proof -
  have push: "pushDriverInternal env s (pd_SessionID p) (pd_Project p) (pd_Command p) (pd_Options p) (pd_Input p) c r = Inr (s', effs)"
    using assms(3,4) by (auto simp: reducePushDriver_def Let_def split: if_splits sum.splits)
  obtain frame n where "s' = putSession (s\<lparr>h_RandPos := n\<rparr>) (pd_SessionID p) (pushFrame sess frame)"
    using push assms(1) by (auto simp: pushDriverInternal_def Let_def allocFrameID_def allocSessionID_def
        split: option.splits sum.splits prod.splits)
  then show ?thesis
    using assms(2) by (auto simp: putSession_def pushFrame_def bumpFrameGeneration_def pushMRU_def Ended_def Let_def)
qed

definition sample_ended :: "unit State" where
  "sample_ended = sample_state\<lparr>h_Sessions := [(sample_sid, endSession sample_session 5)]\<rparr>"

definition sample_push :: PushDriverParams where
  "sample_push =
     \<lparr>pd_SessionID = sample_sid, pd_Project = '''', pd_Command = ''agent'', pd_Options = zero_options, pd_Input = []\<rparr>"

theorem ended_session_regains_frames_witness:
  "\<exists>sess'. map_of (h_Sessions (fst (reducePushDriver sample_env sample_ended 1 ''r'' sample_push))) sample_sid = Some sess' \<and>
     Ended sess' \<and> length (se_Frames sess') = 1"
proof -
  have "map_of (h_Sessions sample_ended) (pd_SessionID sample_push) = Some (endSession sample_session 5)"
    "Ended (endSession sample_session 5)" "length (se_Frames (endSession sample_session 5)) = 0" "pd_SessionID sample_push = sample_sid"
    "fst (reducePushDriver sample_env sample_ended 1 ''r'' sample_push) \<noteq> sample_ended"
    by code_simp+
  then show ?thesis
    using ended_session_regains_frames[OF _ _ surjective_pairing, of sample_ended sample_push _ sample_env 1 "''r''"] by simp
qed

text \<open>Stopping a session leaves its pending approvals and questions in place: none is removed from
  the maps and none of the agents that hold them open is answered.\<close>

theorem stop_keeps_requests:
  assumes "reduceStopSession s c r sid = (s', effs)"
  shows "h_PendingApprovals s' = h_PendingApprovals s \<and> h_PendingQuestions s' = h_PendingQuestions s \<and>
    (\<forall>i. count_replies approval_reply i effs = 0 \<and> count_replies question_reply i effs = 0)"
proof -
  have "list_all plain_effect effs" "h_PendingApprovals s' = h_PendingApprovals s" "h_PendingQuestions s' = h_PendingQuestions s"
    using assms teardowns_plain[of True]
    by (auto simp: reduceStopSession_def putSession_def truncateFrames_def split: option.splits)
  then show ?thesis by (simp add: plain_counts)
qed

theorem stop_keeps_requests_witness:
  "map_option (ar_Status \<circ> fst) (FindApproval (fst (reduceStopSession sample_state 1 ''r'' sample_sid :: unit State \<times> unit Effect list)) ''a'')
     = Some ApprovalPending"
proof -
  have "map_option (ar_Status \<circ> fst) (FindApproval sample_state ''a'') = Some ApprovalPending" by code_simp
  moreover obtain s' effs where e: "reduceStopSession sample_state 1 ''r'' sample_sid = (s', effs :: unit Effect list)" by fastforce
  ultimately show ?thesis using stop_keeps_requests[OF e] by (simp add: e FindApproval_def)
qed

end
