(* ===== verification/HostConnProps.thy ===== *)
theory HostConnProps
  imports HostRun
begin

text \<open>
  The theorems about connections, surface relays, size hints and the shutdown transaction.
\<close>

section \<open>Surface relays\<close>

definition relays_ok :: "(SurfaceSubscription, SurfaceGeometry) gomap \<Rightarrow> bool" where
  "relays_ok subs \<longleftrightarrow> subs \<noteq> [] \<and> wf_map subs \<and> length subs \<le> 8"

definition surfaces_ok :: "'ds State \<Rightarrow> bool" where
  "surfaces_ok s \<longleftrightarrow> wf_map (h_SurfaceSubs s) \<and> (\<forall>c. pred_option relays_ok (map_of (h_SurfaceSubs s) c))"

lemma surfaces_ok_cong: "h_SurfaceSubs s' = h_SurfaceSubs s \<Longrightarrow> surfaces_ok s' = surfaces_ok s"
  by (simp add: surfaces_ok_def)

lemma surfaces_of_ok: "surfaces_ok s \<Longrightarrow> wf_map (surfaces_of s c) \<and> length (surfaces_of s c) \<le> 8"
proof (cases "map_of (h_SurfaceSubs s) c")
  case (Some subs)
  assume "surfaces_ok s"
  then have "pred_option relays_ok (map_of (h_SurfaceSubs s) c)" by (simp add: surfaces_ok_def)
  then show ?thesis using Some by (simp add: surfaces_of_def relays_ok_def)
qed (simp add: surfaces_of_def)

lemma connClosed_surfaces: "surfaces_ok s \<Longrightarrow> reduceConnClosed s c = (s', effs) \<Longrightarrow> surfaces_ok s'"
  by (auto simp: reduceConnClosed_def surfaces_ok_def Let_def split: if_splits)

lemma subscribe_surfaces:
  assumes ok: "surfaces_ok s" and sub: "reduceSurfaceSubscribe s c r sid u w h = (s', effs)"
  shows "surfaces_ok s'"
proof (cases "s' = s")
  case False
  then have s': "s' = s\<lparr>h_SurfaceSubs := AList.update c (AList.update (sid, u) (w, h) (surfaces_of s c)) (h_SurfaceSubs s)\<rparr>"
    and room: "\<not> in_map (sid, u) (surfaces_of s c)" "length (surfaces_of s c) < 8"
    using sub by (auto simp: reduceSurfaceSubscribe_def Let_def split: if_splits option.splits)
  have "length (AList.update (sid, u) (w, h) (surfaces_of s c)) \<le> 8"
    using room by (simp add: length_update_notin)
  moreover have "AList.update (sid, u) (w, h) (surfaces_of s c) \<noteq> []" by (cases "surfaces_of s c") auto
  ultimately have "relays_ok (AList.update (sid, u) (w, h) (surfaces_of s c))"
    using surfaces_of_ok[OF ok, of c] by (simp add: relays_ok_def)
  then show ?thesis using ok by (simp add: s' surfaces_ok_def)
qed (use ok in simp)

lemma unsubscribe_surfaces:
  assumes ok: "surfaces_ok s" and un: "reduceSurfaceUnsubscribe s c r sid u = (s', effs)"
  shows "surfaces_ok s'"
proof (cases "s' = s")
  case False
  define inner where "inner = AList.delete (sid, u) (surfaces_of s c)"
  have s': "s' = s\<lparr>h_SurfaceSubs := (if inner = [] then AList.delete c (h_SurfaceSubs s) else AList.update c inner (h_SurfaceSubs s))\<rparr>"
    using un False by (auto simp: reduceSurfaceUnsubscribe_def Let_def inner_def split: if_splits)
  have "inner \<noteq> [] \<Longrightarrow> relays_ok inner"
    using surfaces_of_ok[OF ok, of c] length_delete_le[of "(sid, u)" "surfaces_of s c"] by (simp add: inner_def relays_ok_def)
  then show ?thesis using ok by (simp add: s' surfaces_ok_def)
qed (use ok in simp)

text \<open>The relays are written by three handlers only.\<close>

fun surface_event :: "'r Event \<Rightarrow> bool" where
  "surface_event (EvConnClosed _) = True"
| "surface_event (EvCmdSurfaceSubscribe _ _ _ _ _ _) = True"
| "surface_event (EvCmdSurfaceUnsubscribe _ _ _ _) = True"
| "surface_event _ = False"

text \<open>A repository handler writes neither connections, nor surfaces, nor the shutdown transaction.\<close>

definition outer_same :: "'ds State \<Rightarrow> 'ds State \<times> 'j Effect list \<Rightarrow> bool" where
  "outer_same s r \<longleftrightarrow>
     h_SurfaceSubs (fst r) = h_SurfaceSubs s \<and> h_Subscribers (fst r) = h_Subscribers s \<and>
     h_Shutdown (fst r) = h_Shutdown s \<and> h_Lifecycle (fst r) = h_Lifecycle s"

lemma outer_same_basic [simp]:
  "outer_same s (s, effs)" "outer_same s (putPreparation s p, effs)"
  "outer_same s (putPreparation (putCreationIntent s i) p, effs)"
  "outer_same s (advancePrep s p st code orig c r)"
  "outer_same s ((putPreparation s p)\<lparr>h_Sessions := m\<rparr>, effs)"
  by (simp_all add: outer_same_def putPreparation_def putCreationIntent_def advancePrep_def Let_def)

lemma outer_same_fenced: "(\<And>p. outer_same s (k p)) \<Longrightarrow> outer_same s (fenced s e k)"
  by (auto simp: fenced_def split: sum.splits)

lemma repository_outer:
  "outer_same s (reduceRepositoryCreate s e)" "outer_same s (reduceRepositoryCloneStarted s e)"
  "outer_same s (reduceRepositoryCloneReady s e)" "outer_same s (reduceRepositoryFailed s e)"
  "outer_same s (reduceRepositoryCancelled s e)" "outer_same s (reduceRepositoryInterrupted s e)"
  "outer_same s (reduceRepositoryQuarantined s e)" "outer_same s (reduceRepositoryRetry s e)"
  "outer_same s (reduceRepositoryCommitAvailable s e)" "outer_same s (reduceRepositoryAbandon s e)"
proof -
  note handlers = reduceRepositoryCreate_def reduceRepositoryCloneStarted_def reduceRepositoryCloneReady_def
    reduceRepositoryFailed_def reduceRepositoryCancelled_def reduceRepositoryInterrupted_def
    reduceRepositoryQuarantined_def reduceRepositoryRetry_def
  show "outer_same s (reduceRepositoryCreate s e)" "outer_same s (reduceRepositoryCloneStarted s e)"
    "outer_same s (reduceRepositoryCloneReady s e)" "outer_same s (reduceRepositoryFailed s e)"
    "outer_same s (reduceRepositoryCancelled s e)" "outer_same s (reduceRepositoryInterrupted s e)"
    "outer_same s (reduceRepositoryQuarantined s e)" "outer_same s (reduceRepositoryRetry s e)"
    by (auto simp: handlers Let_def intro!: outer_same_fenced split: option.splits)
  show "outer_same s (reduceRepositoryCommitAvailable s e)"
    by (auto simp: reduceRepositoryCommitAvailable_def Let_def intro!: outer_same_fenced)
  show "outer_same s (reduceRepositoryAbandon s e)"
    by (auto simp: reduceRepositoryAbandon_def Let_def advancePrep_def intro!: outer_same_fenced split: option.splits)
qed

lemma reduceRepository_outer: "outer_same s (reduceRepository s e)"
  unfolding reduceRepository_def Let_def by (simp add: repository_outer)

lemma outer_ret: "outer_same s r \<Longrightarrow> ret r = Done s' effs \<Longrightarrow> h_SurfaceSubs s' = h_SurfaceSubs s"
  by (cases r) (simp add: outer_same_def ret_def)

lemma outer_payload:
  "(\<And>p. outer_same s (handler p)) \<Longrightarrow> outer_same s (withPayload decode zero s c r payload handler)"
  by (auto simp: withPayload_def split: sum.splits)

lemma shutdown_surfaces:
  "h_SurfaceSubs (fst (reduceShutdown s c r)) = h_SurfaceSubs s"
  "h_SurfaceSubs (fst (reduceShutdownSaveFailed s tx err)) = h_SurfaceSubs s"
  "h_SurfaceSubs (fst (reduceShutdownCleanupFinished s tx oc)) = h_SurfaceSubs s"
  by (auto simp: reduceShutdown_def reduceShutdownSaveFailed_def reduceShutdownCleanupFinished_def Let_def split: option.splits)

lemma conn_surfaces:
  "h_SurfaceSubs (fst (reduceConnOpened s c)) = h_SurfaceSubs s"
  "h_SurfaceSubs (fst (reduceSubscribe s c r fs)) = h_SurfaceSubs s"
  "h_SurfaceSubs (fst (reduceUnsubscribe s c r)) = h_SurfaceSubs s"
  by (auto simp: reduceConnOpened_def reduceSubscribe_def reduceUnsubscribe_def)

lemma surfaces_elsewhere:
  assumes "wf_map (h_Sessions s)" and "\<not> surface_event ev" and "Reduce env s ev = Done s' effs"
  shows "h_SurfaceSubs s' = h_SurfaceSubs s"
proof (cases "owner_event ev")
  case False
  then show ?thesis using side_Reduce[OF assms(1) _ assms(3)] by (simp add: side_def)
next
  case True
  show ?thesis
  proof (cases "\<exists>c r event payload. ev = EvEvent c r event payload")
    case False
    then show ?thesis
      using True assms(2,3)
      by (cases ev) (auto simp: Reduce_def ret_def conn_surfaces shutdown_surfaces
          reduceRepository_outer[unfolded outer_same_def] split: if_splits)
  next
    case ev: True
    then obtain c r event payload where ev: "ev = EvEvent c r event payload" by blast
    then consider "event = ''shutdown''" | "event = ''create-repository-session''" using True by auto
    then show ?thesis
      using assms(3) ev
      by cases (auto simp: Reduce_def shuttingDown_def reduceEvent_def Let_def ret_def withPayload_def
          reduceRepositoryCreateEvent_def shutdown_surfaces(1) repository_outer(1)[unfolded outer_same_def]
          split: if_splits sum.splits)
  qed
qed

lemma ret_Done: "ret r = Done s' effs \<longleftrightarrow> r = (s', effs)"
  by (auto simp: ret_def prod_eq_iff)

lemma Reduce_surfaces:
  assumes "wf_map (h_Sessions s)" and "surfaces_ok s" and "Reduce env s ev = Done s' effs"
  shows "surfaces_ok s'"
proof (cases "surface_event ev")
  case False
  then show ?thesis using surfaces_elsewhere[OF assms(1) _ assms(3)] assms(2) surfaces_ok_cong by blast
next
  case True
  then consider c where "reduceConnClosed s c = (s', effs)"
    | c r sid u w h where "reduceSurfaceSubscribe s c r sid u w h = (s', effs)"
    | c r sid u where "reduceSurfaceUnsubscribe s c r sid u = (s', effs)" | "s' = s"
    using assms(3) by (cases ev) (auto simp: Reduce_def ret_Done shuttingDown_def split: if_splits)
  then show ?thesis
    using connClosed_surfaces[OF assms(2)] subscribe_surfaces[OF assms(2)] unsubscribe_surfaces[OF assms(2)] assms(2)
    by cases auto
qed

text \<open>C40: No connection ever holds more than eight surface relays: in every state a fresh host reaches,
  the relays of a connection are distinct and number at most eight.\<close>

theorem surface_cap:
  assumes "drivers_ok env" and "fresh_run env New evs" and "run env New evs = Some (s, effs)"
  shows "distinct (map fst (surfaces_of s c)) \<and> length (surfaces_of s c) \<le> 8"
proof -
  have "surfaces_ok New" by (simp add: surfaces_ok_def New_def)
  with assms have "surfaces_ok s" using Reduce_surfaces[OF host_wf] run_invariant[OF assms(1)] host_ok_New by metis
  then show ?thesis using surfaces_of_ok[of s c] by simp
qed

text \<open>The sample run with a relay on top.\<close>

definition sample_relay :: "unit Event list" where
  "sample_relay = sample_events @ [EvCmdSurfaceSubscribe 1 ''r'' sample_sid ''tab'' 80 24]"

theorem surface_cap_witness:
  "\<exists>s effs. run sample_env New sample_relay = Some (s, effs) \<and> surfaces_of s 1 = [((sample_sid, ''tab''), (80, 24))] \<and>
     distinct (map fst (surfaces_of s 1)) \<and> length (surfaces_of s 1) \<le> 8"
proof -
  have "map_option (\<lambda>(s, effs). surfaces_of s 1) (run sample_env New sample_relay) = Some [((sample_sid, ''tab''), (80, 24))]"
    by code_simp
  then obtain s effs where r: "run sample_env New sample_relay = Some (s, effs)" "surfaces_of s 1 = [((sample_sid, ''tab''), (80, 24))]"
    by auto
  have "fresh_run sample_env New sample_relay" by code_simp
  from surface_cap[OF sample_drivers this r(1), of 1] r show ?thesis by blast
qed

text \<open>A relay is started only for a session that exists and has a head frame, for a connection with
  room, and with both dimensions between 1 and 2000; it is then recorded with that geometry.\<close>

theorem relay_start_admissible:
  assumes "reduceSurfaceSubscribe s c r sid u w h = (s', effs)" and "EffSurfaceSubscribeStart c sid u w h \<in> set effs"
  shows "1 \<le> uint w \<and> uint w \<le> 2000 \<and> 1 \<le> uint h \<and> uint h \<le> 2000 \<and> length (surfaces_of s c) < 8 \<and>
    (\<exists>sess. map_of (h_Sessions s) sid = Some sess \<and> headFrame sess \<noteq> None) \<and>
    map_of (surfaces_of s c) (sid, u) = None \<and> map_of (surfaces_of s' c) (sid, u) = Some (w, h)"
proof -
  have size: "w \<noteq> 0" "h \<noteq> 0" "ValidateSizeHint (uint w) (uint h) = None" "length (surfaces_of s c) < 8"
    and sess: "\<exists>sess. map_of (h_Sessions s) sid = Some sess \<and> headFrame sess \<noteq> None"
    and new: "\<not> in_map (sid, u) (surfaces_of s c)"
    and s': "s' = s\<lparr>h_SurfaceSubs := AList.update c (AList.update (sid, u) (w, h) (surfaces_of s c)) (h_SurfaceSubs s)\<rparr>"
    using assms by (auto simp: reduceSurfaceSubscribe_def errResp_def okResp_def sessionNotFound_def Let_def
        split: if_splits option.splits)
  have "uint w \<noteq> 0" "uint h \<noteq> 0" using size(1,2) by (simp_all add: uint_0_iff)
  then have "1 \<le> uint w \<and> uint w \<le> 2000 \<and> 1 \<le> uint h \<and> uint h \<le> 2000"
    using size(3) by (auto simp: ValidateSizeHint_def MaxDim_def split: if_splits)
  then show ?thesis using size(4) sess new by (simp add: s' surfaces_of_def map_of_None_iff)
qed

theorem relay_start_admissible_witness:
  "map_of (surfaces_of (fst (reduceSurfaceSubscribe sample_state 1 ''r'' sample_sid ''tab'' 80 24 :: unit State \<times> unit Effect list)) 1)
     (sample_sid, ''tab'') = Some (80, 24)"
proof -
  obtain s' and effs :: "unit Effect list" where e: "reduceSurfaceSubscribe sample_state 1 ''r'' sample_sid ''tab'' 80 24 = (s', effs)" by fastforce
  have "EffSurfaceSubscribeStart 1 sample_sid ''tab'' 80 24 \<in>
      set (snd (reduceSurfaceSubscribe sample_state 1 ''r'' sample_sid ''tab'' 80 24 :: unit State \<times> unit Effect list))" by code_simp
  then have "EffSurfaceSubscribeStart 1 sample_sid ''tab'' 80 24 \<in> set effs" by (simp add: e)
  then show ?thesis using relay_start_admissible[OF e] by (simp add: e)
qed

text \<open>Closing a connection stops each of its relays exactly once, forgets the connection's relays and
  subscription, and touches no other connection.\<close>

theorem close_stops_relays:
  assumes "surfaces_ok s" and "reduceConnClosed s c = (s', effs)"
  shows "effs = map (\<lambda>((sid, u), _). EffSurfaceSubscribeStop c sid u) (surfaces_of s c) \<and> distinct effs \<and>
    surfaces_of s' c = [] \<and> \<not> in_map c (h_Subscribers s') \<and>
    (\<forall>c'. c' \<noteq> c \<longrightarrow> surfaces_of s' c' = surfaces_of s c' \<and>
       map_of (h_Subscribers s') c' = map_of (h_Subscribers s) c')"
proof -
  have effs: "effs = map (\<lambda>((sid, u), _). EffSurfaceSubscribeStop c sid u) (surfaces_of s c)"
    using assms(2) by (auto simp: reduceConnClosed_def surfaces_of_def Let_def in_map_iff case_prod_unfold split: option.splits if_splits)
  have "distinct (map fst (surfaces_of s c))" using surfaces_of_ok[OF assms(1), of c] by simp
  then have "distinct (map (\<lambda>k. EffSurfaceSubscribeStop c (fst k) (snd k)) (map fst (surfaces_of s c)))"
    by (subst distinct_map) (auto simp: inj_on_def)
  then have "distinct effs" by (simp add: effs comp_def case_prod_unfold)
  moreover have "map_of (h_SurfaceSubs s') c' = (if c' = c then None else map_of (h_SurfaceSubs s) c')"
    "map_of (h_Subscribers s') c' = (if c' = c then None else map_of (h_Subscribers s) c')" for c'
    using assms(2) by (auto simp: reduceConnClosed_def Let_def map_of_None_iff split: if_splits)
  ultimately show ?thesis using effs by (simp add: surfaces_of_def in_map_iff)
qed

definition sample_surfaces :: "unit State" where
  "sample_surfaces = sample_state\<lparr>h_SurfaceSubs := [(1, [((sample_sid, ''tab''), (80, 24))])]\<rparr>"

theorem close_stops_relays_witness:
  "snd (reduceConnClosed sample_surfaces 1 :: unit State \<times> unit Effect list) = [EffSurfaceSubscribeStop 1 sample_sid ''tab'']"
proof -
  have "surfaces_ok sample_surfaces" by (simp add: surfaces_ok_def sample_surfaces_def relays_ok_def)
  moreover obtain s' and effs :: "unit Effect list" where e: "reduceConnClosed sample_surfaces 1 = (s', effs)" by fastforce
  ultimately have "effs = map (\<lambda>((sid, u), _). EffSurfaceSubscribeStop 1 sid u) (surfaces_of sample_surfaces 1)"
    using close_stops_relays[OF _ e] by blast
  then have "effs = [EffSurfaceSubscribeStop 1 sample_sid ''tab'']" by (simp add: surfaces_of_def sample_surfaces_def)
  then show ?thesis by (simp add: e)
qed

section \<open>Shutdown\<close>

definition reply_target :: "'j Effect \<Rightarrow> (ConnID \<times> string) option" where
  "reply_target e =
     (case e of EffSendError c r _ _ _ \<Rightarrow> Some (c, r) | EffSendResponseSync c r _ \<Rightarrow> Some (c, r)
      | EffSendResponse c r _ \<Rightarrow> Some (c, r) | _ \<Rightarrow> None)"

lemma reply_target_simps [simp]:
  "reply_target (errResp c r code msg) = Some (c, r)" "reply_target (okResp c r b) = Some (c, r)"
  "reply_target (EffSendResponseSync c r b) = Some (c, r)"
  "reply_target (EffCompleteShutdown res) = None" "reply_target EffTerminateRuntime = None"
  by (simp_all add: reply_target_def errResp_def okResp_def)

lemma targets_map:
  "(\<And>w. reply_target (g w) = Some (sw_ConnID w, sw_ReqID w)) \<Longrightarrow>
     List.map_filter reply_target (map g ws) = map (\<lambda>w. (sw_ConnID w, sw_ReqID w)) ws"
  by (induction ws) simp_all

lemma map_filter_append: "List.map_filter f (xs @ ys) = List.map_filter f xs @ List.map_filter f ys"
  by (simp add: List.map_filter_def)

text \<open>The end of a shutdown answers every client that asked for it exactly once, in the order they
  asked, and clears the transaction, so a later report for the same transaction is ignored; when the
  save failed the host is running again.\<close>

theorem shutdown_answers_once:
  assumes cur: "currentShutdown s tx = Some t"
    and fin: "reduceShutdownCleanupFinished s tx oc = (s', effs) \<or> reduceShutdownSaveFailed s tx err = (s', effs)"
  shows "List.map_filter reply_target effs = map (\<lambda>w. (sw_ConnID w, sw_ReqID w)) (sx_Waiters t) \<and>
    h_Shutdown s' = None \<and>
    reduceShutdownCleanupFinished s' tx oc2 = (s', []) \<and> reduceShutdownSaveFailed s' tx err2 = (s', []) \<and>
    (reduceShutdownSaveFailed s tx err = (s', effs) \<longrightarrow> h_Lifecycle s' = LifecycleRunning)"
proof -
  have none: "h_Shutdown s' = None"
    using fin cur by (auto simp: reduceShutdownCleanupFinished_def reduceShutdownSaveFailed_def Let_def)
  then have "currentShutdown s' tx = None" by (simp add: currentShutdown_def)
  then have again: "reduceShutdownCleanupFinished s' tx oc2 = (s', [])" "reduceShutdownSaveFailed s' tx err2 = (s', [])"
    by (simp_all add: reduceShutdownCleanupFinished_def reduceShutdownSaveFailed_def)
  have "List.map_filter reply_target effs = map (\<lambda>w. (sw_ConnID w, sw_ReqID w)) (sx_Waiters t)"
    using fin
  proof
    assume "reduceShutdownCleanupFinished s tx oc = (s', effs)"
    then show ?thesis
      using cur by (auto simp: reduceShutdownCleanupFinished_def Let_def map_filter_append targets_map)
  next
    assume "reduceShutdownSaveFailed s tx err = (s', effs)"
    then show ?thesis
      using cur by (auto simp: reduceShutdownSaveFailed_def map_filter_append targets_map)
  qed
  moreover have "reduceShutdownSaveFailed s tx err = (s', effs) \<Longrightarrow> h_Lifecycle s' = LifecycleRunning"
    using cur by (auto simp: reduceShutdownSaveFailed_def)
  ultimately show ?thesis using none again by simp
qed

definition sample_shutdown :: "unit State" where
  "sample_shutdown = fst (reduceShutdown sample_state 7 ''r7'' :: unit State \<times> unit Effect list)"

theorem shutdown_answers_once_witness:
  "List.map_filter reply_target (snd (reduceShutdownCleanupFinished sample_shutdown 1 ShutdownCleanupCompleted :: unit State \<times> unit Effect list))
     = [(7, ''r7'')]"
proof -
  obtain s' and effs :: "unit Effect list"
    where e: "reduceShutdownCleanupFinished sample_shutdown 1 ShutdownCleanupCompleted = (s', effs)" by fastforce
  have "currentShutdown sample_shutdown 1 = Some \<lparr>sx_ID = 1, sx_Waiters = [\<lparr>sw_ConnID = 7, sw_ReqID = ''r7''\<rparr>]\<rparr>" by code_simp
  from shutdown_answers_once[OF this disjI1[OF e], THEN conjunct1] show ?thesis by (simp add: e)
qed

end
