(* ===== verification/HostRepoProps.thy ===== *)
theory HostRepoProps
  imports HostRun
begin

text \<open>
  The theorems about repository preparations. The handlers of \<open>repository_reduce.go\<close> are refined
  against an abstract machine over the stage, the retry origin and the revision of one preparation.
\<close>

section \<open>The abstract machine\<close>

text \<open>One preparation as the protocol sees it. Every move raises the revision by one; only a preparation
  that never became available moves on.\<close>

inductive prep_step ::
    "(PreparationStage \<times> RetryOrigin \<times> uint64) option \<Rightarrow> (PreparationStage \<times> RetryOrigin \<times> uint64) option \<Rightarrow> bool" where
  confirm: "prep_step None (Some (PrepStageConfirmed, RetryOriginNone, 1))"
| clone_start:
    "st \<in> {PrepStageConfirmed, PrepStageFailed, PrepStageCancelled, PrepStageInterrupted} \<Longrightarrow> ori \<noteq> RetryOriginLaunch \<Longrightarrow>
     prep_step (Some (st, ori, n)) (Some (PrepStageCloneInProgress, RetryOriginNone, n + 1))"
| clone_ready:
    "prep_step (Some (PrepStageCloneInProgress, ori, n)) (Some (PrepStageCloneReady, RetryOriginNone, n + 1))"
| fail:
    "\<not> stage_IsTerminal st \<Longrightarrow> st' \<in> {PrepStageFailed, PrepStageCancelled, PrepStageInterrupted} \<Longrightarrow>
     ori' = (if st = PrepStageCloneReady then RetryOriginLaunch else RetryOriginClone) \<Longrightarrow>
     prep_step (Some (st, ori, n)) (Some (st', ori', n + 1))"
| retry_launch:
    "st \<in> {PrepStageFailed, PrepStageCancelled, PrepStageInterrupted} \<Longrightarrow>
     prep_step (Some (st, RetryOriginLaunch, n)) (Some (PrepStageCloneReady, RetryOriginNone, n + 1))"
| retry_clone:
    "st \<in> {PrepStageFailed, PrepStageCancelled, PrepStageInterrupted} \<Longrightarrow> ori \<noteq> RetryOriginLaunch \<Longrightarrow>
     prep_step (Some (st, ori, n)) (Some (PrepStageConfirmed, RetryOriginNone, n + 1))"
| commit:
    "prep_step (Some (PrepStageCloneReady, ori, n)) (Some (PrepStageAvailable, RetryOriginNone, n + 1))"
| quarantine:
    "st \<noteq> PrepStageAvailable \<Longrightarrow>
     prep_step (Some (st, ori, n)) (Some (PrepStageInternalCorruption, RetryOriginNone, n + 1))"
| abandon:
    "st \<noteq> PrepStageAvailable \<Longrightarrow> prep_step (Some (st, ori, n)) (Some (PrepStageAbandoned, ori, n + 1))"

inductive_simps prep_step_from_None: "prep_step None x"
inductive_simps prep_step_from_Some: "prep_step (Some (st, ori, n)) x"

definition prep_abs :: "RepositoryPreparation \<Rightarrow> PreparationStage \<times> RetryOrigin \<times> uint64" where
  "prep_abs p = (rp_Stage p, rp_RetryOrigin p, rp_Revision p)"

section \<open>Evidence\<close>

text \<open>What a preparation must carry: a finished clone before a launch, and both proofs once available.\<close>

definition prep_ok :: "RepositoryPreparation \<Rightarrow> bool" where
  "prep_ok p \<longleftrightarrow>
     (rp_Stage p = PrepStageAvailable \<longrightarrow>
        rp_SessionID p \<noteq> '''' \<and> rp_CloneDurable p \<and> rp_LaunchSucceeded p \<and> rp_ClonePath p \<noteq> '''') \<and>
     (rp_Stage p = PrepStageCloneReady \<or> rp_RetryOrigin p = RetryOriginLaunch \<longrightarrow>
        rp_CloneDurable p \<and> rp_ClonePath p \<noteq> '''')"

definition preps_ok :: "'ds State \<Rightarrow> bool" where
  "preps_ok s \<longleftrightarrow> (\<forall>i. pred_option (\<lambda>p. rp_ID p = i \<and> prep_ok p) (map_of (h_RepositoryPreparations s) i))"

lemma preps_okD: "preps_ok s \<Longrightarrow> map_of (h_RepositoryPreparations s) i = Some p \<Longrightarrow> rp_ID p = i \<and> prep_ok p"
  by (drule preps_ok_def[THEN iffD1, THEN spec, of _ i]) simp

section \<open>What a handler does to the preparations\<close>

text \<open>A handler leaves the preparations alone or advances the one it names.\<close>

definition advances :: "RepositoryPreparation option \<Rightarrow> RepositoryPreparation \<Rightarrow> bool" where
  "advances old p \<longleftrightarrow> prep_ok p \<and> prep_step (map_option prep_abs old) (Some (prep_abs p))"

definition prep_move :: "string \<Rightarrow> 'ds State \<Rightarrow> 'ds State \<times> 'j Effect list \<Rightarrow> bool" where
  "prep_move i s r \<longleftrightarrow>
     h_RepositoryPreparations (fst r) = h_RepositoryPreparations s \<or>
     (\<exists>p. rp_ID p = i \<and> advances (map_of (h_RepositoryPreparations s) i) p \<and>
          h_RepositoryPreparations (fst r) = AList.update i p (h_RepositoryPreparations s))"

lemma prep_move_same [simp]: "prep_move i s (s, effs)"
  by (simp add: prep_move_def)

lemma prep_move_put:
  "rp_ID p = i \<Longrightarrow> advances (map_of (h_RepositoryPreparations s) i) p \<Longrightarrow> prep_move i s (putPreparation s p, effs)"
  unfolding prep_move_def by (intro disjI2 exI[of _ p]) (simp add: putPreparation_def)

lemma prep_move_sessions: "prep_move i s (t, effs) \<Longrightarrow> prep_move i s (t\<lparr>h_Sessions := ss\<rparr>, effs)"
  by (simp add: prep_move_def)

lemma fenced_move:
  assumes ok: "preps_ok s"
    and k: "\<And>p. map_of (h_RepositoryPreparations s) (er_PreparationID e) = Some p \<Longrightarrow> rp_ID p = er_PreparationID e \<Longrightarrow>
       prep_ok p \<Longrightarrow> prep_move (er_PreparationID e) s (k p)"
  shows "prep_move (er_PreparationID e) s (fenced s e k)"
  using preps_okD[OF ok] k
  by (auto simp: fenced_def loadPrepFenced_def FindPreparation_def split: option.splits)

lemma advancePrep_move:
  assumes "rp_ID p = i" and "advances (map_of (h_RepositoryPreparations s) i)
      (p\<lparr>rp_Stage := st, rp_FailureCode := code, rp_RetryOrigin := ori, rp_Revision := rp_Revision p + 1\<rparr>)"
  shows "prep_move i s (advancePrep s p st code ori c r)"
  using assms by (auto simp: advancePrep_def Let_def intro!: prep_move_put)

lemmas prep_defs = advances_def prep_abs_def prep_ok_def prep_step_from_Some prep_step_from_None stage_IsTerminal_def

lemma create_put_move:
  assumes "rp_ID p = i" and "\<not> in_map i (h_RepositoryPreparations s)"
    and "rp_Stage p = PrepStageConfirmed" and "rp_RetryOrigin p = RetryOriginNone" and "rp_Revision p = 1"
  shows "prep_move i s (putPreparation (putCreationIntent s c) p, effs)"
proof -
  have "map_of (h_RepositoryPreparations s) i = None" using assms(2) by (simp add: in_map_def map_of_eq_None_iff)
  then have "advances (map_of (h_RepositoryPreparations s) i) p" using assms(3-) by (simp add: prep_defs)
  then show ?thesis unfolding prep_move_def using assms(1)
    by (intro disjI2 exI[of _ p]) (simp add: putPreparation_def putCreationIntent_def)
qed

lemma create_move: "prep_move (er_PreparationID e) s (reduceRepositoryCreate s e)"
  by (auto simp: reduceRepositoryCreate_def Let_def create_put_move split: option.splits)

text \<open>The moves of one preparation, on the record.\<close>

lemma advances_start:
  assumes "rp_Stage p \<in> {PrepStageConfirmed, PrepStageFailed, PrepStageCancelled, PrepStageInterrupted}"
    and "rp_RetryOrigin p \<noteq> RetryOriginLaunch"
  shows "advances (Some p) (p\<lparr>rp_Stage := PrepStageCloneInProgress, rp_FailureCode := c, rp_RetryOrigin := RetryOriginNone,
    rp_Revision := rp_Revision p + 1\<rparr>)"
  using assms by (simp add: advances_def prep_abs_def prep_ok_def prep_step.clone_start)

lemma advances_ready:
  assumes "rp_Stage p = PrepStageCloneInProgress" and "path \<noteq> ''''"
  shows "advances (Some p) (p\<lparr>rp_ClonePath := path, rp_CloneDurable := True, rp_Stage := PrepStageCloneReady,
    rp_FailureCode := c, rp_RetryOrigin := RetryOriginNone, rp_Revision := rp_Revision p + 1\<rparr>)"
  using assms by (simp add: advances_def prep_abs_def prep_ok_def prep_step.clone_ready)

lemma advances_fail:
  assumes "\<not> stage_IsTerminal (rp_Stage p)" and "prep_ok p"
    and "st \<in> {PrepStageFailed, PrepStageCancelled, PrepStageInterrupted}"
    and "ori = (if rp_Stage p = PrepStageCloneReady then RetryOriginLaunch else RetryOriginClone)"
  shows "advances (Some p) (p\<lparr>rp_Stage := st, rp_FailureCode := c, rp_RetryOrigin := ori,
    rp_Revision := rp_Revision p + 1\<rparr>)"
  using prep_step.fail[OF assms(1,3,4)] assms by (auto simp: advances_def prep_abs_def prep_ok_def)

lemma advances_quarantine:
  assumes "rp_Stage p \<noteq> PrepStageAvailable"
  shows "advances (Some p) (p\<lparr>rp_Stage := PrepStageInternalCorruption, rp_FailureCode := c,
    rp_RetryOrigin := RetryOriginNone, rp_Revision := rp_Revision p + 1\<rparr>)"
  using assms by (simp add: advances_def prep_abs_def prep_ok_def prep_step.quarantine)

lemma advances_abandon:
  assumes "rp_Stage p \<noteq> PrepStageAvailable" and "prep_ok p"
  shows "advances (Some p) (p\<lparr>rp_Stage := PrepStageAbandoned, rp_Revision := rp_Revision p + 1\<rparr>)"
  using assms by (simp add: advances_def prep_abs_def prep_ok_def prep_step.abandon)

lemma advances_retry:
  assumes "rp_Stage p \<in> {PrepStageFailed, PrepStageCancelled, PrepStageInterrupted}" and "prep_ok p"
  shows "rp_RetryOrigin p = RetryOriginLaunch \<Longrightarrow> advances (Some p) (p\<lparr>rp_LastOwnedWorkerGeneration := g,
      rp_FailureCode := c, rp_Revision := rp_Revision p + 1, rp_Stage := PrepStageCloneReady, rp_RetryOrigin := RetryOriginNone\<rparr>)"
    "rp_RetryOrigin p \<noteq> RetryOriginLaunch \<Longrightarrow> advances (Some p) (p\<lparr>rp_LastOwnedWorkerGeneration := g,
      rp_FailureCode := c, rp_Revision := rp_Revision p + 1, rp_Stage := PrepStageConfirmed, rp_CloneDurable := d,
      rp_ClonePath := path, rp_RetryOrigin := RetryOriginNone\<rparr>)"
  using assms prep_step.retry_launch[OF assms(1)] prep_step.retry_clone[OF assms(1)]
  by (auto simp: advances_def prep_abs_def prep_ok_def)

lemma advances_commit:
  assumes "rp_Stage p = PrepStageCloneReady" and "sid \<noteq> ''''" and "path \<noteq> ''''"
  shows "advances (Some p) (p\<lparr>rp_Stage := PrepStageAvailable, rp_SessionID := sid, rp_ClonePath := path,
    rp_CloneDurable := True, rp_LaunchSucceeded := True, rp_FailureCode := c, rp_RetryOrigin := RetryOriginNone,
    rp_Revision := rp_Revision p + 1\<rparr>)"
  using assms by (simp add: advances_def prep_abs_def prep_ok_def prep_step.commit)

lemma moves_forward:
  assumes "preps_ok s"
  shows "prep_move (er_PreparationID e) s (reduceRepositoryCloneStarted s e)"
    "prep_move (er_PreparationID e) s (reduceRepositoryCloneReady s e)"
    "prep_move (er_PreparationID e) s (reduceRepositoryCommitAvailable s e)"
proof -
  show "prep_move (er_PreparationID e) s (reduceRepositoryCloneStarted s e)"
    unfolding reduceRepositoryCloneStarted_def
    by (intro fenced_move[OF assms]) (auto intro!: advancePrep_move advances_start)
  show "prep_move (er_PreparationID e) s (reduceRepositoryCloneReady s e)"
    unfolding reduceRepositoryCloneReady_def Let_def
    by (intro fenced_move[OF assms]) (auto intro!: prep_move_put advances_ready)
  show "prep_move (er_PreparationID e) s (reduceRepositoryCommitAvailable s e)"
    unfolding reduceRepositoryCommitAvailable_def Let_def
    by (intro fenced_move[OF assms]) (auto intro!: prep_move_sessions prep_move_put advances_commit)
qed

lemma moves_back:
  assumes "preps_ok s"
  shows "prep_move (er_PreparationID e) s (reduceRepositoryFailed s e)"
    "prep_move (er_PreparationID e) s (reduceRepositoryCancelled s e)"
    "prep_move (er_PreparationID e) s (reduceRepositoryInterrupted s e)"
proof -
  show "prep_move (er_PreparationID e) s (reduceRepositoryFailed s e)"
    unfolding reduceRepositoryFailed_def Let_def
    by (intro fenced_move[OF assms]) (auto intro!: advancePrep_move advances_fail)
  show "prep_move (er_PreparationID e) s (reduceRepositoryCancelled s e)"
    unfolding reduceRepositoryCancelled_def Let_def
    by (intro fenced_move[OF assms]) (auto intro!: prep_move_put advances_fail)
  show "prep_move (er_PreparationID e) s (reduceRepositoryInterrupted s e)"
    unfolding reduceRepositoryInterrupted_def Let_def FindPreparation_def
    using preps_okD[OF assms]
    by (auto intro!: advancePrep_move advances_fail simp: stage_IsTerminal_def split: option.splits)
qed

lemma moves_out:
  assumes "preps_ok s"
  shows "prep_move (er_PreparationID e) s (reduceRepositoryQuarantined s e)"
    "prep_move (er_PreparationID e) s (reduceRepositoryAbandon s e)"
    "prep_move (er_PreparationID e) s (reduceRepositoryRetry s e)"
proof -
  have "prep_ok p \<Longrightarrow> \<not> IsSessionAvailable p \<Longrightarrow> rp_Stage p \<noteq> PrepStageAvailable" for p
    by (auto simp: prep_ok_def IsSessionAvailable_def)
  then show "prep_move (er_PreparationID e) s (reduceRepositoryQuarantined s e)"
    unfolding reduceRepositoryQuarantined_def
    by (intro fenced_move[OF assms]) (auto intro!: advancePrep_move advances_quarantine)
  show "prep_move (er_PreparationID e) s (reduceRepositoryAbandon s e)"
    unfolding reduceRepositoryAbandon_def advancePrep_def Let_def
    by (intro fenced_move[OF assms]) (auto intro!: prep_move_put advances_abandon split: option.splits)
  show "prep_move (er_PreparationID e) s (reduceRepositoryRetry s e)"
    unfolding reduceRepositoryRetry_def Let_def
    by (intro fenced_move[OF assms]) (auto intro!: prep_move_put advances_retry)
qed

lemma reduceRepository_move: "preps_ok s \<Longrightarrow> prep_move (er_PreparationID e) s (reduceRepository s e)"
  unfolding reduceRepository_def Let_def by (simp add: create_move moves_forward moves_back moves_out)


section \<open>The reducer as a whole\<close>

lemma side_preparations: "side s' = side s \<Longrightarrow> h_RepositoryPreparations s' = h_RepositoryPreparations s"
  by (simp add: side_def)

lemma shutdown_preparations:
  "h_RepositoryPreparations (fst (reduceShutdown s c r)) = h_RepositoryPreparations s"
  "h_RepositoryPreparations (fst (reduceShutdownSaveFailed s tx err)) = h_RepositoryPreparations s"
  "h_RepositoryPreparations (fst (reduceShutdownCleanupFinished s tx oc)) = h_RepositoryPreparations s"
  by (auto simp: reduceShutdown_def reduceShutdownSaveFailed_def reduceShutdownCleanupFinished_def Let_def split: option.splits)

lemma conn_preparations:
  "h_RepositoryPreparations (fst (reduceConnOpened s c)) = h_RepositoryPreparations s"
  "h_RepositoryPreparations (fst (reduceConnClosed s c)) = h_RepositoryPreparations s"
  "h_RepositoryPreparations (fst (reduceSubscribe s c r fs)) = h_RepositoryPreparations s"
  "h_RepositoryPreparations (fst (reduceUnsubscribe s c r)) = h_RepositoryPreparations s"
  "h_RepositoryPreparations (fst (reduceSurfaceSubscribe s c r sid u w h)) = h_RepositoryPreparations s"
  "h_RepositoryPreparations (fst (reduceSurfaceUnsubscribe s c r sid u)) = h_RepositoryPreparations s"
  by (auto simp: reduceConnOpened_def reduceConnClosed_def reduceSubscribe_def reduceUnsubscribe_def
      reduceSurfaceSubscribe_def reduceSurfaceUnsubscribe_def Let_def split: option.splits prod.splits if_splits)

lemma create_event_move: "\<exists>i. prep_move i s (withPayload decode zero s c r payload (reduceRepositoryCreateEvent s c r))"
  by (auto simp: withPayload_def reduceRepositoryCreateEvent_def split: sum.splits intro: create_move prep_move_same)

lemma Reduce_move:
  fixes effs :: "'j Effect list"
  assumes "wf_map (h_Sessions s)" and "preps_ok s" and "Reduce env s ev = Done s' effs"
  shows "\<exists>i. prep_move i s (s', effs)"
proof (cases "owner_event ev")
  case False
  then show ?thesis
    using side_Reduce[OF assms(1) _ assms(3)] side_preparations by (auto simp: prep_move_def)
next
  case True
  show ?thesis
  proof (cases "\<exists>c r event payload. ev = EvEvent c r event payload")
    case False
    then have "h_RepositoryPreparations s' = h_RepositoryPreparations s \<or> (\<exists>e. reduceRepository s e = (s', effs))"
      using True assms(3)
      by (cases ev) (auto simp: Reduce_def ret_def shuttingDown_def conn_preparations shutdown_preparations split: if_splits)
    then show ?thesis using reduceRepository_move[OF assms(2)] by (metis fst_conv prep_move_def)
  next
    case ev: True
    then obtain c r event payload where ev: "ev = EvEvent c r event payload" by blast
    then consider "event = ''shutdown''" | "event = ''create-repository-session''" using True by auto
    then show ?thesis
    proof cases
      case 1
      then show ?thesis
        using assms(3) ev
        by (auto simp: Reduce_def shuttingDown_def reduceEvent_def Let_def ret_def withPayload_def prep_move_def
            shutdown_preparations(1) split: if_splits sum.splits)
    next
      case 2
      then show ?thesis
        using assms(3) ev create_event_move
        by (auto simp: Reduce_def shuttingDown_def reduceEvent_def Let_def ret_def split: if_splits)
    qed
  qed
qed


lemma move_keeps:
  assumes "preps_ok s" and "prep_move i s (s', effs)"
  shows "preps_ok s'"
  using assms unfolding preps_ok_def prep_move_def advances_def by auto

lemma preps_ok_New: "preps_ok New"
  by (simp add: preps_ok_def New_def)

lemma Reduce_preps:
  "host_ok u \<Longrightarrow> preps_ok u \<Longrightarrow> Reduce env u ev = Done v e \<Longrightarrow> preps_ok v"
  using Reduce_move[OF host_wf] move_keeps by blast

lemma run_preps:
  assumes "drivers_ok env" and "fresh_run env New evs" and "run env New evs = Some (s, effs)"
  shows "preps_ok s" "host_ok s"
proof -
  show "preps_ok s"
    by (rule run_invariant[where P = preps_ok, OF assms(1) _ assms(3) host_ok_New assms(2) preps_ok_New]) (rule Reduce_preps)
  show "host_ok s" by (rule run_ok[OF host_ok_New assms(1,2,3)])
qed

definition prep_view :: "'ds State \<Rightarrow> string \<Rightarrow> (PreparationStage \<times> RetryOrigin \<times> uint64) option" where
  "prep_view s i = map_option prep_abs (map_of (h_RepositoryPreparations s) i)"

lemma available_stuck: "rp_Stage p = PrepStageAvailable \<Longrightarrow> \<not> advances (Some p) q"
  by (simp add: advances_def prep_abs_def prep_step_from_Some stage_IsTerminal_def)

lemma available_kept:
  assumes "preps_ok s" and "map_of (h_RepositoryPreparations s) i = Some p" and "rp_Stage p = PrepStageAvailable"
    and "prep_move j s (s', effs)"
  shows "map_of (h_RepositoryPreparations s') i = Some p"
  using assms available_stuck unfolding prep_move_def by auto

section \<open>A sample preparation\<close>

text \<open>A preparation from its creation to the session it becomes.\<close>

definition sample_repository :: "string \<Rightarrow> uint64 \<Rightarrow> unit Event" where
  "sample_repository kind observed = EvRepositoryEvent
     \<lparr>er_ConnID = 1, er_ReqID = ''q'', er_Kind = kind, er_IntentID = ''i'', er_PreparationID = ''p'', er_ServerID = ''h'',
      er_Repository = \<lparr>gr_ID = ''7'', gr_Owner = ''o'', gr_Name = ''n''\<rparr>, er_Fingerprint = ''f'',
      er_ObservedRevision = observed, er_ClonePath = ''/c'', er_Code = PrepFailureNone, er_SessionID = ''s'',
      er_Command = ''agent'', er_CloneDurable = True, er_LaunchSucceeded = True\<rparr>"

definition sample_preparation :: "PreparationStage \<Rightarrow> uint64 \<Rightarrow> RepositoryPreparation" where
  "sample_preparation st n =
     \<lparr>rp_ID = ''p'', rp_IntentID = ''i'', rp_ServerID = ''h'', rp_Repository = \<lparr>gr_ID = ''7'', gr_Owner = ''o'', gr_Name = ''n''\<rparr>,
      rp_Stage = st, rp_FailureCode = PrepFailureNone, rp_RetryOrigin = RetryOriginNone, rp_Revision = n,
      rp_LastOwnedWorkerGeneration = 1, rp_ClonePath = ''/c'', rp_SessionID = ''s'', rp_CloneDurable = True,
      rp_LaunchSucceeded = True\<rparr>"

definition sample_commit :: "unit Event list" where
  "sample_commit = [sample_repository ''create'' 0, sample_repository ''clone_started'' 1,
     sample_repository ''clone_ready'' 2, sample_repository ''commit_available'' 3]"

definition sample_published :: "unit State" where
  "sample_published = fst (the (run sample_env New sample_commit))"

lemma sample_published_facts:
  "run sample_env New sample_commit = Some (sample_published, snd (the (run sample_env New sample_commit)))"
  "fresh_run sample_env New sample_commit"
  "map_of (h_RepositoryPreparations sample_published) ''p'' = Some (sample_preparation PrepStageAvailable 4)"
proof -
  have "run sample_env New sample_commit \<noteq> None" by code_simp
  then show "run sample_env New sample_commit = Some (sample_published, snd (the (run sample_env New sample_commit)))"
    by (auto simp: sample_published_def)
  show "fresh_run sample_env New sample_commit" by code_simp
  show "map_of (h_RepositoryPreparations sample_published) ''p'' = Some (sample_preparation PrepStageAvailable 4)" by code_simp
qed

definition sample_after :: "unit Event list \<Rightarrow> unit State \<Rightarrow> unit State \<times> unit Effect list" where
  "sample_after evs s = the (run sample_env s evs)"

lemma sample_afterI: "run sample_env s evs \<noteq> None \<Longrightarrow> run sample_env s evs = Some (fst (sample_after evs s), snd (sample_after evs s))"
  by (auto simp: sample_after_def)

section \<open>Stale observers\<close>




section \<open>The properties\<close>

text \<open>C8: The repository handlers implement the preparation machine: in every state a fresh host reaches,
  a step of the reducer changes the record of at most one preparation, and what it does to the stage,
  the retry origin and the revision of that one is nothing or one move of the machine.\<close>

theorem repository_refines:
  assumes "drivers_ok env" and "fresh_run env New evs" and "run env New evs = Some (s, effs)"
    and "Reduce env s ev = Done s' effs'"
  shows "\<exists>j. \<forall>i. if i = j then prep_view s' i = prep_view s i \<or> prep_step (prep_view s i) (prep_view s' i)
    else map_of (h_RepositoryPreparations s') i = map_of (h_RepositoryPreparations s) i"
proof -
  note ok = run_preps[OF assms(1-3)]
  obtain j where "prep_move j s (s', effs')" using Reduce_move[OF host_wf[OF ok(2)] ok(1) assms(4)] by blast
  then show ?thesis
    unfolding prep_move_def by (intro exI[of _ j]) (auto simp: prep_view_def advances_def)
qed

text \<open>C21: A preparation that became available is never touched again, whatever events follow, and it carries
  its evidence: a session, a clone path, a durable clone and a successful launch.\<close>

theorem available_is_permanent:
  assumes "drivers_ok env" and "fresh_run env New evs" and "run env New evs = Some (s, effs)"
    and "map_of (h_RepositoryPreparations s) i = Some p" and "rp_Stage p = PrepStageAvailable"
    and "fresh_run env s more_evs" and "run env s more_evs = Some (t, effs')"
  shows "map_of (h_RepositoryPreparations t) i = Some p \<and> rp_SessionID p \<noteq> '''' \<and> rp_ClonePath p \<noteq> '''' \<and>
    rp_CloneDurable p \<and> rp_LaunchSucceeded p"
proof -
  note ok = run_preps[OF assms(1-3)]
  let ?P = "\<lambda>u. preps_ok u \<and> map_of (h_RepositoryPreparations u) i = Some p"
  have "?P v" if "host_ok u" "?P u" "Reduce env u ev = Done v e" for u ev v e
    using that Reduce_move[OF host_wf[OF that(1)] _ that(3)] available_kept[OF _ _ assms(5)] move_keeps by blast
  then have "?P t" using run_invariant[OF assms(1), of ?P, OF _ assms(7) ok(2) assms(6)] ok(1) assms(4) by blast
  then show ?thesis using preps_okD[OF ok(1) assms(4)] assms(5) by (simp add: prep_ok_def)
qed



section \<open>Witnesses\<close>

theorem repository_refines_witness:
  "\<exists>j. \<forall>i. if i = j then prep_view (fst (sample_after [sample_repository ''create'' 0] New)) i = prep_view (New :: unit State) i \<or>
      prep_step (prep_view (New :: unit State) i) (prep_view (fst (sample_after [sample_repository ''create'' 0] New)) i)
    else map_of (h_RepositoryPreparations (fst (sample_after [sample_repository ''create'' 0] New))) i =
      map_of (h_RepositoryPreparations (New :: unit State)) i"
proof -
  have r: "run sample_env New [sample_repository ''create'' 0] \<noteq> None" by code_simp
  obtain s' and effs :: "unit Effect list" where one: "Reduce sample_env New (sample_repository ''create'' 0) = Done s' effs"
    using r by (auto split: outcome.splits)
  have eq: "fst (sample_after [sample_repository ''create'' 0] New) = s'" using one by (simp add: sample_after_def)
  have start: "fresh_run sample_env New []" "run sample_env New [] = Some (New, [])" by simp_all
  show ?thesis unfolding eq by (rule repository_refines[OF sample_drivers start one])
qed

theorem available_is_permanent_witness:
  "map_of (h_RepositoryPreparations (fst (sample_after [sample_repository ''abandon'' 4] sample_published))) ''p'' =
     Some (sample_preparation PrepStageAvailable 4)"
proof -
  have "run sample_env sample_published [sample_repository ''abandon'' 4] \<noteq> None"
    "fresh_run sample_env sample_published [sample_repository ''abandon'' 4]" by code_simp+
  then show ?thesis
    using available_is_permanent[OF sample_drivers sample_published_facts(2,1,3) _ _ sample_afterI]
    by (simp add: sample_preparation_def)
qed



end
