(* ===== verification/HostCapsuleProps.thy ===== *)
theory HostCapsuleProps
  imports HostRun
begin

text \<open>
  Resume capsules after a failed generation (\<open>resumecapsule.go\<close>, \<open>reduce_resumecapsule.go\<close>): the
  back-off that keeps a failing generator from being called again and again.
\<close>

lemma candidate_backoff:
  assumes "se_ResumeCapsule sess = Some c" and "rc_LastError c \<noteq> ''''"
    and "time_sub (h_Now s) (rc_LastErrorAt c) < capsuleErrorBackoff"
  shows "capsuleCandidate env s sid sess = None"
  using assms by (auto simp: capsuleCandidate_def Let_def split: option.splits)

lemma candidate_free:
  assumes "se_ResumeCapsule sess = None"
  shows "capsuleCandidate env (s\<lparr>h_Now := t\<rparr>) sid sess = capsuleCandidate env s sid sess"
  using assms by (simp add: capsuleCandidate_def Let_def split: option.split)

text \<open>A failed generation backs off only when the session already has a capsule: then the error is
  recorded and no generation is tried again for five minutes; without one nothing is recorded, and a
  session that asked for a generation asks for it again at its next check.\<close>

theorem capsule_failure_backoff:
  assumes "map_of (h_Sessions s) sid = Some sess" and "jm_SessionID meta = sid" and "err \<noteq> ''''"
    and "reduceCapsuleJobResult s meta result (Some err) = (s', effs)"
  shows "\<exists>sess'. map_of (h_Sessions s') sid = Some sess' \<and>
    (se_ResumeCapsule sess \<noteq> None \<longrightarrow>
       (\<forall>now. time_sub now (h_Now s) < capsuleErrorBackoff \<longrightarrow> capsuleCandidate env (s'\<lparr>h_Now := now\<rparr>) sid sess' = None)) \<and>
    (se_ResumeCapsule sess = None \<longrightarrow> sess' = sess \<and> effs = [] \<and>
       (\<forall>now. capsuleCandidate env (s'\<lparr>h_Now := now\<rparr>) sid sess =
          capsuleCandidate env (s\<lparr>h_CapsuleGenerating := AList.delete sid (h_CapsuleGenerating s)\<rparr>) sid sess))"
proof (cases "se_ResumeCapsule sess")
  case None
  then have "s' = s\<lparr>h_CapsuleGenerating := AList.delete sid (h_CapsuleGenerating s)\<rparr>" "effs = []"
    using assms by (auto simp: reduceCapsuleJobResult_def Let_def)
  then show ?thesis using None assms(1) by (simp add: candidate_free[OF None])
next
  case (Some c)
  let ?sess = "sess\<lparr>se_ResumeCapsule := Some (c\<lparr>rc_LastError := err, rc_LastErrorAt := h_Now s\<rparr>)\<rparr>"
  have "map_of (h_Sessions s') sid = Some ?sess"
    using Some assms by (auto simp: reduceCapsuleJobResult_def Let_def putSession_def)
  moreover have "capsuleCandidate env (s'\<lparr>h_Now := now\<rparr>) sid ?sess = None"
    if "time_sub now (h_Now s) < capsuleErrorBackoff" for now
    using that assms(3) by (intro candidate_backoff) auto
  ultimately show ?thesis using Some by (intro exI[of _ ?sess]) simp
qed

definition sample_failed_job :: "unit State \<times> unit Effect list" where
  "sample_failed_job =
     reduceCapsuleJobResult (sample_state\<lparr>h_CapsuleGenerating := [(sample_sid, ''d'')]\<rparr>)
       \<lparr>jm_SessionID = sample_sid, jm_FrameID = sample_fid, jm_StartedAt = 0\<rparr>
       \<lparr>cr_Objective = '''', cr_CurrentState = '''', cr_NextAction = '''', cr_Unresolved = [], cr_Changed = [],
        cr_Verified = [], cr_Remaining = [], cr_Attention = '''', cr_SourceDigest = '''', cr_SourceTurns = 0\<rparr>
       (Some ''exit status 1'')"

lemma sample_candidate:
  "capsuleCandidate sample_env (sample_state\<lparr>h_CapsuleGenerating := []\<rparr>) sample_sid sample_session \<noteq> None"
  by (simp add: capsuleCandidate_def sample_session_def sample_frame_def rootFrame_def sample_env_def sample_driver_def
      GetDriver_def Let_def split: option.split)

theorem capsule_failure_backoff_witness:
  "capsuleCandidate sample_env ((fst sample_failed_job)\<lparr>h_Now := second\<rparr>) sample_sid sample_session \<noteq> None"
proof -
  let ?s = "sample_state\<lparr>h_CapsuleGenerating := [(sample_sid, ''d'')]\<rparr>"
  have m: "map_of (h_Sessions ?s) sample_sid = Some sample_session" by (simp add: sample_state_def)
  obtain s' and effs :: "unit Effect list" where r: "sample_failed_job = (s', effs)" by fastforce
  have none: "se_ResumeCapsule sample_session = None" by (simp add: sample_session_def)
  have e: "''exit status 1'' \<noteq> ''''" by simp
  have "capsuleCandidate sample_env (s'\<lparr>h_Now := second\<rparr>) sample_sid sample_session =
      capsuleCandidate sample_env (?s\<lparr>h_CapsuleGenerating := AList.delete sample_sid (h_CapsuleGenerating ?s)\<rparr>) sample_sid sample_session"
    using capsule_failure_backoff[OF m _ e r[unfolded sample_failed_job_def], of sample_env] none by auto
  then show ?thesis using sample_candidate unfolding r fst_conv by simp
qed

end
