(* ===== verification/ArgLex.thy ===== *)
theory ArgLex
  imports GoText GoHash
begin

text \<open>
  The command lines of \<open>services/platform/agentlaunch\<close>: the two-pass tokenizer of
  \<open>splitargs.go\<close>, its inverse in \<open>joinargs.go\<close>, and the choice of the main command in
  \<open>mainargv.go\<close>. A command is a byte string; an index out of range in the second pass, which panics
  in the source, is the value \<open>None\<close>.
\<close>

section \<open>Tokens\<close>

record ArgToken =
  at_Raw :: string
  at_Value :: string

datatype lex_mode = stateBare | stateSingle | stateDouble

datatype lex_error = UnterminatedEscape | UnterminatedSingleQuote | UnterminatedDoubleQuote

section \<open>First pass\<close>

fun cook :: "string \<Rightarrow> string list \<Rightarrow> string \<Rightarrow> bool \<Rightarrow> lex_mode \<Rightarrow> lex_error + string list" where
  "cook [] args cur inToken mode =
     (if mode = stateSingle then Inl UnterminatedSingleQuote
      else if mode = stateDouble then Inl UnterminatedDoubleQuote
      else Inr (if inToken then args @ [cur] else args))"
| "cook (c # cs) args cur inToken stateSingle =
     (if c = CHR 0x27 then cook cs args cur inToken stateBare
      else cook cs args (cur @ [c]) inToken stateSingle)"
| "cook (c # cs) args cur inToken stateDouble =
     (if c = CHR 0x22 then cook cs args cur inToken stateBare
      else if c = CHR 0x5C then
        (case cs of
           [] \<Rightarrow> Inl UnterminatedEscape
         | d # ds \<Rightarrow> cook ds args (cur @ [d]) inToken stateDouble)
      else cook cs args (cur @ [c]) inToken stateDouble)"
| "cook (c # cs) args cur inToken stateBare =
     (if c = CHR '' '' \<or> c = CHR 0x09 \<or> c = CHR 0x0A then
        (if inToken then cook cs (args @ [cur]) '''' False stateBare
         else cook cs args cur inToken stateBare)
      else if c = CHR 0x27 then cook cs args cur True stateSingle
      else if c = CHR 0x22 then cook cs args cur True stateDouble
      else if c = CHR 0x5C then
        (case cs of
           [] \<Rightarrow> Inl UnterminatedEscape
         | d # ds \<Rightarrow> cook ds args (cur @ [d]) True stateBare)
      else cook cs args (cur @ [c]) True stateBare)"

definition lexCookedArgs :: "string \<Rightarrow> lex_error + string list" where
  "lexCookedArgs command = cook command [] '''' False stateBare"

section \<open>Second pass\<close>

definition substr :: "string \<Rightarrow> nat \<Rightarrow> nat \<Rightarrow> string" where
  "substr s i j = take (j - i) (drop i s)"

text \<open>The token that ends at \<open>j\<close>, with the value the first pass found for it.\<close>

definition emit :: "string \<Rightarrow> string list \<Rightarrow> nat \<Rightarrow> nat \<Rightarrow> nat \<Rightarrow> ArgToken option" where
  "emit command args start j valueIdx =
     (if valueIdx < length args then Some \<lparr>at_Raw = substr command start j, at_Value = args ! valueIdx\<rparr> else None)"

text \<open>The loop walks the rest of \<open>command\<close> from position \<open>i\<close>.\<close>

fun spans ::
    "string \<Rightarrow> string list \<Rightarrow> string \<Rightarrow> nat \<Rightarrow> bool \<Rightarrow> lex_mode \<Rightarrow> nat \<Rightarrow> nat \<Rightarrow> ArgToken list option" where
  "spans command args [] i inToken mode start valueIdx =
     (if inToken then map_option (\<lambda>t. [t]) (emit command args start (length command) valueIdx) else Some [])"
| "spans command args (c # cs) i inToken stateSingle start valueIdx =
     spans command args cs (i + 1) inToken (if c = CHR 0x27 then stateBare else stateSingle) start valueIdx"
| "spans command args (c # cs) i inToken stateDouble start valueIdx =
     (if c = CHR 0x22 then spans command args cs (i + 1) inToken stateBare start valueIdx
      else if c = CHR 0x5C then
        (case cs of
           [] \<Rightarrow> spans command args cs (i + 1) inToken stateDouble start valueIdx
         | d # ds \<Rightarrow> spans command args ds (i + 2) inToken stateDouble start valueIdx)
      else spans command args cs (i + 1) inToken stateDouble start valueIdx)"
| "spans command args (c # cs) i inToken stateBare start valueIdx =
     (let start' = (if inToken then start else i)
      in if c = CHR '' '' \<or> c = CHR 0x09 \<or> c = CHR 0x0A then
           (if inToken then
              (case emit command args start i valueIdx of
                 None \<Rightarrow> None
               | Some t \<Rightarrow> map_option ((#) t) (spans command args cs (i + 1) False stateBare start (valueIdx + 1)))
            else spans command args cs (i + 1) inToken stateBare start valueIdx)
         else if c = CHR 0x27 then spans command args cs (i + 1) True stateSingle start' valueIdx
         else if c = CHR 0x22 then spans command args cs (i + 1) True stateDouble start' valueIdx
         else if c = CHR 0x5C then
           (case cs of
              [] \<Rightarrow> spans command args cs (i + 1) True stateBare start' valueIdx
            | d # ds \<Rightarrow> spans command args ds (i + 2) True stateBare start' valueIdx)
         else spans command args cs (i + 1) True stateBare start' valueIdx)"

definition lexRawSpans :: "string \<Rightarrow> string list \<Rightarrow> ArgToken list option" where
  "lexRawSpans command args = spans command args command 0 False stateBare 0 0"

text \<open>\<open>None\<close> is a panic, \<open>Some (Inl e)\<close> a returned error.\<close>

definition LexArgs :: "string \<Rightarrow> (lex_error + ArgToken list) option" where
  "LexArgs command =
     (case lexCookedArgs command of
        Inl err \<Rightarrow> Some (Inl err)
      | Inr args \<Rightarrow> map_option Inr (lexRawSpans command args))"

definition SplitArgs :: "string \<Rightarrow> (lex_error + string list) option" where
  "SplitArgs command = map_option (map_sum id (map at_Value)) (LexArgs command)"

section \<open>Joining\<close>

definition isSafeArg :: "string \<Rightarrow> bool" where
  "isSafeArg arg = list_all
     (\<lambda>r. (97 \<le> r \<and> r \<le> 122) \<or> (65 \<le> r \<and> r \<le> 90) \<or> (48 \<le> r \<and> r \<le> 57) \<or> r \<in> set (to_runes ''@%_+=:,./-''))
     (to_runes arg)"

text \<open>\<open>strings.ReplaceAll\<close>: each single quote becomes quote, backslash, quote, quote.\<close>

definition escapeQuotes :: "string \<Rightarrow> string" where
  "escapeQuotes s = concat (map (\<lambda>c. if c = CHR 0x27 then [CHR 0x27, CHR 0x5C, CHR 0x27, CHR 0x27] else [c]) s)"

definition quoteArg :: "string \<Rightarrow> string" where
  "quoteArg arg =
     (if arg = '''' then [CHR 0x27, CHR 0x27]
      else if isSafeArg arg then arg
      else [CHR 0x27] @ escapeQuotes arg @ [CHR 0x27])"

definition JoinArgs :: "string list \<Rightarrow> string" where
  "JoinArgs argv = (if argv = [] then '''' else join_text '' '' (map quoteArg argv))"

end
