(* ===== verification/ArgLexProps.thy ===== *)
theory ArgLexProps
  imports ArgLex "HOL-Library.Sublist"
begin

text \<open>
  The theorems about the command lines of \<open>agentlaunch\<close>: the two passes of the tokenizer agree, and
  it undoes the joiner.
\<close>

section \<open>Quoting\<close>

definition plain_char :: "char \<Rightarrow> bool" where
  "plain_char c \<longleftrightarrow> c \<notin> {CHR '' '', CHR 0x09, CHR 0x0A, CHR 0x27, CHR 0x22, CHR 0x5C}"

lemma cook_plain:
  "list_all plain_char a \<Longrightarrow> a \<noteq> [] \<Longrightarrow> cook (a @ rest) args cur b stateBare = cook rest args (cur @ a) True stateBare"
proof (induction a arbitrary: cur b)
  case (Cons c a)
  then show ?case by (cases "a = []") (simp_all add: plain_char_def)
qed simp

lemma cook_escaped:
  "cook (escapeQuotes a @ CHR 0x27 # rest) args cur True stateSingle = cook rest args (cur @ a) True stateBare"
  by (induction a arbitrary: cur) (simp_all add: escapeQuotes_def)

text \<open>A rune of more than one byte lies above the ASCII range.\<close>

lemma two_bytes: "0xC2 \<le> b0 \<Longrightarrow> 128 \<le> (b0 - 0xC0) * 64 + (x :: nat)"
  by simp

lemma three_bytes:
  assumes "(0xE0 :: nat) \<le> b0" and "(if b0 = 0xE0 then 0xA0 else 0x80) \<le> b1"
  shows "128 \<le> (b0 - 0xE0) * 4096 + (b1 - 0x80) * 64 + x"
proof (cases "b0 = 0xE0")
  case False
  then have "1 \<le> b0 - 0xE0" using assms by simp
  then show ?thesis by simp
qed (use assms in simp)

lemma four_bytes:
  assumes "(0xF0 :: nat) \<le> b0" and "(if b0 = 0xF0 then 0x90 else 0x80) \<le> b1"
  shows "128 \<le> (b0 - 0xF0) * 262144 + (b1 - 0x80) * 4096 + x + y"
proof (cases "b0 = 0xF0")
  case False
  then have "1 \<le> b0 - 0xF0" using assms by simp
  then show ?thesis by simp
qed (use assms in simp)

lemma high_if: "(c \<Longrightarrow> 128 \<le> fst x) \<Longrightarrow> (\<not> c \<Longrightarrow> 128 \<le> fst y) \<Longrightarrow> 128 \<le> fst (if c then x else y)" for x y :: "nat \<times> nat"
  by simp

lemma high_case:
  "128 \<le> fst x \<Longrightarrow> (\<And>b bs. 128 \<le> fst (f b bs)) \<Longrightarrow> 128 \<le> fst (case xs of [] \<Rightarrow> x | b # bs \<Rightarrow> f b bs)" for x :: "nat \<times> nat"
  by (simp split: list.split)

lemma decode_rune_high: "128 \<le> b \<Longrightarrow> 128 \<le> fst (decode_rune (b # bs))"
  unfolding decode_rune_def list.case
  by (intro high_if high_case; simp only: fst_conv rune_error_def)
    (blast intro: two_bytes three_bytes four_bytes | linarith)+

lemma runes_low: "list_all (\<lambda>r. r < 128) (runes_of bs) \<Longrightarrow> runes_of bs = bs"
proof (induction bs)
  case (Cons b rest)
  have "fst (decode_rune (b # rest)) < 128" using Cons.prems by (subst (asm) runes_of.simps) simp
  then have "b < 128" using decode_rune_high[of b rest] by (cases "b < 128") auto
  then show ?case using Cons by (simp add: runes_of_ascii)
qed (simp add: runes_of.simps)

text \<open>A safe argument is plain ASCII.\<close>

definition safe_char :: "char \<Rightarrow> bool" where
  "safe_char c \<longleftrightarrow> (let r = (of_char c :: nat)
     in (97 \<le> r \<and> r \<le> 122) \<or> (65 \<le> r \<and> r \<le> 90) \<or> (48 \<le> r \<and> r \<le> 57) \<or> r \<in> set (map of_char ''@%_+=:,./-''))"

lemma safe_bytes:
  assumes "isSafeArg a"
  shows "list_all safe_char a"
proof -
  have low: "to_runes ''@%_+=:,./-'' = map of_char ''@%_+=:,./-''" unfolding to_runes_def by code_simp
  have "list_all (\<lambda>r. r < 128) (to_runes a)"
    using assms(1) unfolding isSafeArg_def low by (auto simp: list_all_iff)
  then have "to_runes a = map of_char a" using runes_low by (simp add: to_runes_def)
  then show ?thesis using assms unfolding isSafeArg_def low by (auto simp: list_all_iff safe_char_def Let_def)
qed

lemma safe_char_plain: "safe_char c \<Longrightarrow> plain_char c"
proof (rule ccontr)
  assume "safe_char c" "\<not> plain_char c"
  then have "c \<in> set [CHR '' '', CHR 0x09, CHR 0x0A, CHR 0x27, CHR 0x22, CHR 0x5C]" by (simp add: plain_char_def)
  moreover have "list_all (\<lambda>c. \<not> safe_char c) [CHR '' '', CHR 0x09, CHR 0x0A, CHR 0x27, CHR 0x22, CHR 0x5C]" by code_simp
  ultimately show False using \<open>safe_char c\<close> by (auto simp: list_all_iff)
qed

lemma safe_plain: "isSafeArg a \<Longrightarrow> list_all plain_char a"
  using safe_bytes[of a] safe_char_plain by (auto simp: list_all_iff)

lemma cook_quoted: "cook (quoteArg a @ rest) args [] False stateBare = cook rest args a True stateBare"
  using cook_plain[OF safe_plain, of a rest args "[]" False] cook_escaped[of a rest args "[]"]
  by (auto simp: quoteArg_def)

lemma cook_joined: "argv \<noteq> [] \<Longrightarrow> cook (join_text '' '' (map quoteArg argv)) args [] False stateBare = Inr (args @ argv)"
proof (induction argv arbitrary: args)
  case (Cons a argv)
  show ?case
  proof (cases argv)
    case Nil
    then show ?thesis using cook_quoted[of a "[]" args] by simp
  next
    case (Cons b rest)
    then show ?thesis using Cons.IH[of "args @ [a]"] cook_quoted[of a _ args] by simp
  qed
qed simp

section \<open>The two passes\<close>

text \<open>The bytes of a token so far, read from the start state, lead to the state the lexer is in.\<close>

definition leads :: "string \<Rightarrow> string \<Rightarrow> lex_mode \<Rightarrow> bool" where
  "leads raw cur mode \<longleftrightarrow> (\<forall>rest args. cook (raw @ rest) args [] False stateBare = cook rest args cur True mode)"

lemma leads_step:
  assumes "leads raw cur mode" and "\<And>rest args. cook (xs @ rest) args cur True mode = cook rest args cur' True mode'"
  shows "leads (raw @ xs) cur' mode'"
  using assms by (simp add: leads_def)

lemma leads_first:
  assumes "\<And>rest args. cook (xs @ rest) args [] False stateBare = cook rest args cur True mode"
  shows "leads xs cur mode"
  using assms by (simp add: leads_def)

lemma leads_alone: "leads raw cur stateBare \<Longrightarrow> lexCookedArgs raw = Inr [cur]"
  using leads_def[of raw cur stateBare] by (simp add: lexCookedArgs_def) (metis append_Nil append_Nil2 cook.simps(1) lex_mode.distinct(1,3))

lemma cook_extends: "cook cs args cur b mode = Inr out \<Longrightarrow> prefix args out"
proof (induction cs args cur b mode arbitrary: out rule: cook.induct)
  case (2 c cs args cur b)
  then show ?case by (simp split: if_splits)
next
  case (3 c cs args cur b)
  consider "c = CHR 0x22" | "c = CHR 0x5C" | "c \<noteq> CHR 0x22" "c \<noteq> CHR 0x5C" by blast
  then show ?case using 3 by cases (simp, cases cs, simp, simp, simp)
next
  case (4 c cs args cur b)
  consider "c = CHR '' '' \<or> c = CHR 0x09 \<or> c = CHR 0x0A" b | "c = CHR '' '' \<or> c = CHR 0x09 \<or> c = CHR 0x0A" "\<not> b"
    | "c = CHR 0x27" | "c = CHR 0x22" | "c = CHR 0x5C" | "plain_char c"
    by (auto simp: plain_char_def)
  then show ?case
  proof cases
    case 1
    then have "prefix (args @ [cur]) out" using 4(1)[OF 1] 4(7) by simp
    then show ?thesis by (rule append_prefixD)
  next
    case 2
    then show ?thesis using 4(2)[OF 2] 4(7) by simp
  next
    case 5
    then show ?thesis using 4(5,7) by (cases cs) simp_all
  qed (use 4(3,4,6,7) in \<open>simp_all add: plain_char_def\<close>)
qed (auto split: if_splits)

lemma drop_next: "drop i s = c # cs \<Longrightarrow> drop (i + 1) s = cs"
  using drop_drop[of 1 i s] by simp

lemma substr_append:
  assumes "start \<le> i" and "drop i s = xs @ cs"
  shows "substr s start (i + length xs) = substr s start i @ xs"
proof -
  have "i + length xs - start = (i - start) + length xs" using assms(1) by simp
  then have "substr s start (i + length xs) = substr s start i @ take (length xs) (drop i s)"
    using assms(1) by (simp only: substr_def take_add drop_drop) simp
  then show ?thesis using assms(2) by simp
qed

text \<open>The second pass stands at \<open>i\<close> in the state of the first one, with the bytes of the current token behind it.\<close>

definition tracks :: "string \<Rightarrow> string \<Rightarrow> nat \<Rightarrow> bool \<Rightarrow> lex_mode \<Rightarrow> nat \<Rightarrow> string \<Rightarrow> bool" where
  "tracks command cs i b mode start cur \<longleftrightarrow>
     drop i command = cs \<and>
     (if b then start \<le> i \<and> leads (substr command start i) cur mode else mode = stateBare \<and> cur = [])"

lemma tracks_step:
  assumes "tracks command (xs @ cs) i b mode start cur"
    and "\<And>rest args. cook (xs @ rest) args cur b mode = cook rest args cur' True mode'"
  shows "tracks command cs (i + length xs) True mode' (if b then start else i) cur'"
proof -
  have "drop (length xs) (drop i command) = cs" using assms(1) by (simp add: tracks_def)
  then have d: "drop (i + length xs) command = cs" by (simp add: add.commute)
  show ?thesis
  proof (cases b)
    case True
    then show ?thesis
      using assms d substr_append[of start i command xs cs] leads_step[of "substr command start i" cur mode xs]
      by (simp add: tracks_def)
  next
    case False
    then have "substr command i (i + length xs) = xs" using assms(1) by (simp add: tracks_def substr_def)
    then show ?thesis using False assms d leads_first[of xs] by (simp add: tracks_def)
  qed
qed

lemma tracks_space:
  assumes "tracks command (c # cs) i b stateBare start cur"
  shows "tracks command cs (i + 1) False stateBare start []"
  using assms drop_next[of i command c cs] by (simp add: tracks_def)

text \<open>The tokens from the \<open>k\<close>-th on carry the values of the first pass, and its bytes lead the lexer to it.\<close>

definition alone :: "ArgToken \<Rightarrow> bool" where
  "alone t \<longleftrightarrow> leads (at_Raw t) (at_Value t) stateBare"

definition sound :: "string list \<Rightarrow> nat \<Rightarrow> ArgToken list option \<Rightarrow> bool" where
  "sound out k res \<longleftrightarrow> (case res of None \<Rightarrow> False | Some toks \<Rightarrow> map at_Value toks = drop k out \<and> list_all alone toks)"

lemma emit_sound:
  assumes "prefix (args @ [cur]) out" and "leads (substr command start j) cur stateBare"
  shows "\<exists>t. emit command out start j (length args) = Some t \<and> at_Value t = cur \<and> alone t"
  using assms by (auto simp: emit_def alone_def prefix_def)

lemma drop_value: "prefix (args @ [cur]) out \<Longrightarrow> drop (length args) out = cur # drop (Suc (length args)) out"
  by (auto simp: prefix_def)

lemma sound_emit:
  assumes pre: "prefix (args @ [cur]) out" and "leads (substr command start i) cur stateBare"
    and "sound out (Suc (length args)) rest"
  shows "sound out (length args)
    (case emit command out start i (length args) of None \<Rightarrow> None | Some t \<Rightarrow> map_option ((#) t) rest)"
  using emit_sound[OF assms(1,2)] assms(3) drop_value[OF pre] by (auto simp: sound_def split: option.splits)

lemma spans_sound:
  assumes "cook cs args cur b mode = Inr out" and "tracks command cs i b mode start cur"
  shows "sound out (length args) (spans command out cs i b mode start (length args))"
  using assms
proof (induction cs args cur b mode arbitrary: i start rule: cook.induct)
  case (1 args cur b mode)
  then show ?case
  proof (cases b)
    case True
    then have m: "mode = stateBare" "out = args @ [cur]" using 1(1) by (cases mode; simp)+
    have "length command \<le> i" using 1(2) by (simp add: tracks_def)
    then have "substr command start (length command) = substr command start i" by (simp add: substr_def)
    then show ?thesis
      using 1(2) True m emit_sound[of args cur out command start "length command"]
      by (auto simp: tracks_def sound_def)
  next
    case False
    then show ?thesis using 1 by (auto simp: sound_def split: if_splits)
  qed
next
  case (2 c cs args cur b)
  have b using 2(4) by (cases b) (simp_all add: tracks_def)
  then show ?case
    using 2 tracks_step[of command "[c]" cs i b stateSingle start cur]
    by (cases "c = CHR 0x27") simp_all
next
  case (3 c cs args cur b)
  have b using 3(5) by (cases b) (simp_all add: tracks_def)
  note step = tracks_step[of command "[c]" cs i b stateDouble start cur]
  consider "c = CHR 0x22" | d ds where "c = CHR 0x5C" "cs = d # ds" | "c = CHR 0x5C" "cs = []" | "c \<noteq> CHR 0x22" "c \<noteq> CHR 0x5C"
    by (cases cs) blast+
  then show ?case
  proof cases
    case 2
    then show ?thesis
      using 3(2)[of d ds "i + 2" start] 3(4,5) \<open>b\<close> tracks_step[of command "[c, d]" ds i b stateDouble start cur] by simp
  qed (use 3 \<open>b\<close> step in simp_all)
next
  case (4 c cs args cur b)
  let ?start = "if b then start else i"
  have step: "tracks command cs (i + 1) True m ?start cur'"
    if "\<And>rest args. cook (c # rest) args cur b stateBare = cook rest args cur' True m" for cur' m
    using tracks_step[of command "[c]" cs i b stateBare start cur cur' m] 4(8) that by simp
  show ?case
  proof (cases "c = CHR '' '' \<or> c = CHR 0x09 \<or> c = CHR 0x0A")
    case sp: True
    show ?thesis
    proof (cases b)
      case True
      then have rest: "cook cs (args @ [cur]) [] False stateBare = Inr out" using sp 4(7) by simp
      have "sound out (Suc (length args)) (spans command out cs (i + 1) False stateBare start (Suc (length args)))"
        using 4(1)[OF sp True rest tracks_space[OF 4(8)]] by simp
      then show ?thesis using True sp sound_emit[OF cook_extends[OF rest]] 4(8) by (simp add: tracks_def)
    next
      case False
      then show ?thesis using 4(2)[OF sp False] 4(7,8) tracks_space[OF 4(8)] sp by (simp add: tracks_def)
    qed
  next
    case ns: False
    consider "c = CHR 0x27" | "c = CHR 0x22" | d ds where "c = CHR 0x5C" "cs = d # ds" | "c = CHR 0x5C" "cs = []" | "plain_char c"
      using ns by (cases cs) (auto simp: plain_char_def)
    then show ?thesis
    proof cases
      case 1
      then show ?thesis using 4(3)[OF ns 1 _ step] 4(7) ns by simp
    next
      case 2
      then show ?thesis using 4(4)[OF ns _ 2 _ step] 4(7) ns by simp
    next
      case 3
      then show ?thesis
        using 4(5)[OF ns _ _ 3(1,2), of "i + 2"] 4(7,8) ns tracks_step[of command "[c, d]" ds i b stateBare start cur] by simp
    next
      case 4
      then show ?thesis using \<open>cook (c # cs) args cur b stateBare = Inr out\<close> by simp
    next
      case 5
      then show ?thesis using 4(6)[OF ns _ _ _ _ step] 4(7) ns by (simp add: plain_char_def)
    qed
  qed
qed

lemma LexArgs_sound:
  assumes "lexCookedArgs command = Inr args"
  shows "\<exists>toks. LexArgs command = Some (Inr toks) \<and> map at_Value toks = args \<and> list_all alone toks"
proof -
  have "tracks command command 0 False stateBare 0 []" by (simp add: tracks_def)
  then have "sound args 0 (lexRawSpans command args)"
    using spans_sound[of command "[]" "[]" False stateBare args command 0 0] assms
    by (simp add: lexCookedArgs_def lexRawSpans_def)
  then show ?thesis using assms by (auto simp: sound_def LexArgs_def split: option.splits)
qed

lemma split_joined: "SplitArgs (JoinArgs argv) = Some (Inr argv)"
proof (cases "argv = []")
  case True
  then show ?thesis by (simp add: JoinArgs_def SplitArgs_def LexArgs_def lexCookedArgs_def lexRawSpans_def)
next
  case False
  then have "lexCookedArgs (JoinArgs argv) = Inr argv"
    using cook_joined[of argv "[]"] by (simp add: JoinArgs_def lexCookedArgs_def)
  then show ?thesis using LexArgs_sound[of "JoinArgs argv" argv] by (auto simp: SplitArgs_def)
qed

section \<open>The properties\<close>

text \<open>C27: Splitting undoes joining: for every argument vector, whatever bytes its arguments hold, the command
  line that \<open>JoinArgs\<close> renders is tokenized by \<open>SplitArgs\<close> into the same vector.\<close>

theorem split_join: "SplitArgs (JoinArgs argv) = Some (Inr argv)"
  by (rule split_joined)

text \<open>C28: The two passes of the tokenizer agree on every command line: the second pass never indexes past the
  values of the first and fails exactly when the first does, and each raw token it cuts out, lexed on its
  own, is one argument with the value it was paired with.\<close>

theorem lex_passes_agree:
  "(case lexCookedArgs command of
      Inl err \<Rightarrow> LexArgs command = Some (Inl err)
    | Inr args \<Rightarrow> \<exists>toks. LexArgs command = Some (Inr toks) \<and> map at_Value toks = args \<and>
        list_all (\<lambda>t. lexCookedArgs (at_Raw t) = Inr [at_Value t]) toks)"
  using LexArgs_sound[of command] leads_alone
  by (auto simp: LexArgs_def alone_def list_all_iff split: sum.split)

end
