(* ===== verification/ArgCommands.thy ===== *)
theory ArgCommands
  imports ArgLex
begin

text \<open>
  What the host does with command lines: the choice of the main command (\<open>agentlaunch/mainargv.go\<close>),
  the flag rewriting of \<open>host/driver/worktree.go\<close>, and the command builders and parsers of
  \<open>platform/lib/claude/cli\<close>, \<open>platform/lib/codex\<close> and \<open>platform/lib/grok\<close>.
\<close>

section \<open>The main command\<close>

datatype argv_error = EmptyMainCommand | TokenizeCommand lex_error | EmptyArgv

definition LoginShellCommand :: string where
  "LoginShellCommand =
     [CHR 0x22] @ ''$(getent passwd '' @ [CHR 0x22] @ ''$(id -un)'' @ [CHR 0x22] @ '' | cut -d: -f7)'' @ [CHR 0x22]"

text \<open>\<open>None\<close> is a panic of the tokenizer.\<close>

definition ResolveMainArgv :: "string list \<Rightarrow> string \<Rightarrow> (argv_error + string list) option" where
  "ResolveMainArgv argv command =
     (if argv \<noteq> [] then Some (Inr argv)
      else
        (let command = trim_space command
         in if command = '''' then Some (Inl EmptyMainCommand)
            else if command = ''shell'' then Some (Inr [''sh'', ''-c'', ''exec '' @ LoginShellCommand @ '' -l''])
            else
              (case SplitArgs command of
                 None \<Rightarrow> None
               | Some (Inl err) \<Rightarrow> Some (Inl (TokenizeCommand err))
               | Some (Inr args) \<Rightarrow> if args = [] then Some (Inl EmptyArgv) else Some (Inr args))))"

section \<open>Tokens of a command\<close>

definition splitCommandTokens :: "string \<Rightarrow> (lex_error + ArgToken list) option" where
  "splitCommandTokens command = LexArgs (trim_space command)"

definition joinCommandText :: "string list \<Rightarrow> string" where
  "joinCommandText parts = trim_space (join_text '' '' parts)"

definition renderCommandArgs :: "string list \<Rightarrow> string" where
  "renderCommandArgs args = trim_space (JoinArgs args)"

text \<open>An argument that is one of the flags, alone or with a value after an equals sign.\<close>

definition isFlag :: "string list \<Rightarrow> string \<Rightarrow> bool" where
  "isFlag flags arg \<longleftrightarrow> list_ex (\<lambda>flag. arg = flag \<or> has_prefix arg (flag @ ''='')) flags"

text \<open>The tokens after a flag given as a token of its own, without its value if it has one.\<close>

definition skipValue :: "string list \<Rightarrow> string \<Rightarrow> ArgToken list \<Rightarrow> ArgToken list" where
  "skipValue flags arg rest =
     (if arg \<in> set flags \<and> rest \<noteq> [] \<and> \<not> has_prefix (at_Value (hd rest)) ''-'' then tl rest else rest)"

lemma skipValue_length [simp]: "length (skipValue flags arg rest) \<le> length rest"
  by (simp add: skipValue_def)

section \<open>Flag rewriting\<close>

definition appendFlagValue :: "string \<Rightarrow> string \<Rightarrow> string \<Rightarrow> string option" where
  "appendFlagValue command flag value =
     (let command = trim_space command; value = trim_space value
      in if command = '''' \<or> value = '''' then Some command
         else
           (case splitCommandTokens command of
              None \<Rightarrow> None
            | Some (Inr tokens) \<Rightarrow> Some (joinCommandText (map at_Raw tokens @ [renderCommandArgs [flag, value]]))
            | Some (Inl err) \<Rightarrow> Some (trim_space (command @ '' '' @ flag @ '' '' @ value))))"

text \<open>The loop of \<open>replaceFlagValue\<close>: the first flag is rendered anew, the others are dropped.\<close>

function replaceLoop :: "string list \<Rightarrow> string \<Rightarrow> ArgToken list \<Rightarrow> bool \<Rightarrow> string list" where
  "replaceLoop flags value [] replaced = (if replaced then [] else [renderCommandArgs [hd flags, value]])"
| "replaceLoop flags value (t # ts) replaced =
     (if isFlag flags (at_Value t) then
        (if replaced then [] else [renderCommandArgs [hd flags, value]]) @
        replaceLoop flags value (skipValue flags (at_Value t) ts) True
      else at_Raw t # replaceLoop flags value ts replaced)"
  by pat_completeness auto
termination
  by (relation "measure (\<lambda>(flags, value, ts, replaced). length ts)") (auto simp: less_Suc_eq_le)

definition replaceFlagValue :: "string \<Rightarrow> string list \<Rightarrow> string \<Rightarrow> string option" where
  "replaceFlagValue command flags value =
     (let value = trim_space value
      in if value = '''' then Some (trim_space command)
         else
           (case splitCommandTokens command of
              None \<Rightarrow> None
            | Some (Inl err) \<Rightarrow> appendFlagValue command (hd flags) value
            | Some (Inr tokens) \<Rightarrow>
                if tokens = [] then appendFlagValue command (hd flags) value
                else Some (joinCommandText (replaceLoop flags value tokens False))))"

function stripLoop :: "string list \<Rightarrow> ArgToken list \<Rightarrow> string list" where
  "stripLoop flags [] = []"
| "stripLoop flags (t # ts) =
     (if isFlag flags (at_Value t) then stripLoop flags (skipValue flags (at_Value t) ts)
      else at_Raw t # stripLoop flags ts)"
  by pat_completeness auto
termination
  by (relation "measure (\<lambda>(flags, ts). length ts)") (auto simp: less_Suc_eq_le)

definition stripFlagValues :: "string \<Rightarrow> string list \<Rightarrow> string option" where
  "stripFlagValues command flags =
     (case splitCommandTokens command of
        None \<Rightarrow> None
      | Some (Inl err) \<Rightarrow> Some (trim_space command)
      | Some (Inr tokens) \<Rightarrow>
          if tokens = [] then Some (trim_space command) else Some (joinCommandText (stripLoop flags tokens)))"

record worktreeRequest =
  wr_Enabled :: bool
  wr_Name :: string

text \<open>The flag of the list that an argument matches first, and the name it carries.\<close>

fun worktreeMatch :: "string list \<Rightarrow> string \<Rightarrow> ArgToken list \<Rightarrow> (string option \<times> ArgToken list) option" where
  "worktreeMatch [] p rest = None"
| "worktreeMatch (flag # flags) p rest =
     (if p = flag then
        (if rest \<noteq> [] \<and> \<not> has_prefix (at_Value (hd rest)) ''-'' then Some (Some (at_Value (hd rest)), tl rest)
         else Some (None, rest))
      else if has_prefix p (flag @ ''='') then Some (Some (trim_prefix p (flag @ ''='')), rest)
      else worktreeMatch flags p rest)"

lemma worktreeMatch_length: "worktreeMatch flags p rest = Some (name, rest') \<Longrightarrow> length rest' \<le> length rest"
  by (induction flags) (auto split: if_splits)

function worktreeLoop ::
    "string list \<Rightarrow> ArgToken list \<Rightarrow> worktreeRequest \<Rightarrow> worktreeRequest \<times> string list" where
  "worktreeLoop flags [] req = (req, [])"
| "worktreeLoop flags (t # ts) req =
     (case worktreeMatch flags (at_Value t) ts of
        None \<Rightarrow> (let (req', out) = worktreeLoop flags ts req in (req', at_Raw t # out))
      | Some (name, rest) \<Rightarrow>
          worktreeLoop flags rest
            (req\<lparr>wr_Enabled := True, wr_Name := (case name of None \<Rightarrow> wr_Name req | Some n \<Rightarrow> n)\<rparr>))"
  by pat_completeness auto
termination
  by (relation "measure (\<lambda>(flags, ts, req). length ts)")
    (auto simp: less_Suc_eq_le dest: worktreeMatch_length)

definition parseWorktreeFlags :: "string \<Rightarrow> string list \<Rightarrow> (worktreeRequest \<times> string) option" where
  "parseWorktreeFlags command flags =
     (let none = \<lparr>wr_Enabled = False, wr_Name = ''''\<rparr>
      in case splitCommandTokens command of
           None \<Rightarrow> None
         | Some (Inl err) \<Rightarrow> Some (none, trim_space command)
         | Some (Inr parts) \<Rightarrow> (let (req, out) = worktreeLoop flags parts none in Some (req, joinCommandText out)))"

text \<open>\<open>worktreeOption\<close> is the worktree switch of the launch options.\<close>

definition resolveWorktreeRequest :: "string \<Rightarrow> bool \<Rightarrow> string list \<Rightarrow> (worktreeRequest \<times> string) option" where
  "resolveWorktreeRequest command worktreeOption flags =
     map_option
       (\<lambda>(req, stripped). (if worktreeOption then req\<lparr>wr_Enabled := True\<rparr> else req, trim_space stripped))
       (parseWorktreeFlags command flags)"

section \<open>Claude\<close>

record ClaudeCommand =
  cc_CommandBin :: string
  cc_Model :: string
  cc_Effort :: string

text \<open>The loop of \<open>claude/cli.ParseCommand\<close> over the arguments after the first.\<close>

fun claudeLoop :: "string list \<Rightarrow> ClaudeCommand \<Rightarrow> ClaudeCommand" where
  "claudeLoop [] cfg = cfg"
| "claudeLoop (a # rest) cfg =
     (if a = ''--model'' then
        (case rest of [] \<Rightarrow> cfg | v # rest \<Rightarrow> claudeLoop rest (cfg\<lparr>cc_Model := v\<rparr>))
      else if a = ''--effort'' then
        (case rest of [] \<Rightarrow> cfg | v # rest \<Rightarrow> claudeLoop rest (cfg\<lparr>cc_Effort := v\<rparr>))
      else if has_prefix a ''--model='' then
        claudeLoop rest (cfg\<lparr>cc_Model := trim_space (trim_prefix a ''--model='')\<rparr>)
      else if has_prefix a ''--effort='' then
        claudeLoop rest (cfg\<lparr>cc_Effort := trim_space (trim_prefix a ''--effort='')\<rparr>)
      else claudeLoop rest cfg)"

text \<open>\<open>None\<close> is the unsupported-command error.\<close>

definition claudeParseCommand :: "string list \<Rightarrow> ClaudeCommand option" where
  "claudeParseCommand argv =
     (if argv = [] \<or> hd argv \<noteq> ''claude'' then None
      else Some (claudeLoop (tl argv) \<lparr>cc_CommandBin = ''claude'', cc_Model = '''', cc_Effort = ''''\<rparr>))"

fun stripWorktreeLoop :: "ArgToken list \<Rightarrow> string list" where
  "stripWorktreeLoop [] = []"
| "stripWorktreeLoop (p # rest) =
     (if at_Value p = ''--worktree'' then
        (case rest of
           [] \<Rightarrow> []
         | q # rest' \<Rightarrow> if has_prefix (at_Value q) ''-'' then stripWorktreeLoop rest else stripWorktreeLoop rest')
      else if has_prefix (at_Value p) ''--worktree='' then stripWorktreeLoop rest
      else at_Raw p # stripWorktreeLoop rest)"

definition StripWorktreeFlag :: "string \<Rightarrow> string option" where
  "StripWorktreeFlag command =
     (case LexArgs (trim_space command) of
        None \<Rightarrow> None
      | Some (Inl err) \<Rightarrow> Some (trim_space command)
      | Some (Inr parts) \<Rightarrow> Some (trim_space (join_text '' '' (stripWorktreeLoop parts))))"

definition ResumeCommand :: "string \<Rightarrow> string \<Rightarrow> string option" where
  "ResumeCommand baseCommand sessionID =
     (if sessionID = '''' then Some baseCommand
      else map_option (\<lambda>s. s @ '' --resume '' @ sessionID) (StripWorktreeFlag baseCommand))"

definition ForkCommand :: "string \<Rightarrow> string \<Rightarrow> string option" where
  "ForkCommand baseCommand parentID =
     (if parentID = '''' then Some baseCommand
      else map_option (\<lambda>s. s @ '' --fork-session'') (ResumeCommand baseCommand parentID))"

definition claudeAppServerArgs :: "string \<Rightarrow> string \<Rightarrow> string \<Rightarrow> string list" where
  "claudeAppServerArgs resumeSessionID appendSystemPrompt prompt =
     [''-p'', ''--output-format'', ''stream-json'', ''--verbose''] @
     (if appendSystemPrompt \<noteq> '''' then [''--append-system-prompt'', appendSystemPrompt] else []) @
     (if resumeSessionID \<noteq> '''' then [''--resume'', resumeSessionID] else []) @ [prompt]"

section \<open>Codex\<close>

record CodexCommand =
  cx_ServerBin :: string
  cx_ConfigArgs :: "string list"
  cx_Model :: string
  cx_Effort :: string
  cx_DangerouslyBypassPermissions :: bool

fun codexLoop :: "string list \<Rightarrow> CodexCommand \<Rightarrow> CodexCommand" where
  "codexLoop [] cfg = cfg"
| "codexLoop (a # rest) cfg =
     (if a = ''resume'' then (case rest of [] \<Rightarrow> cfg | _ # rest \<Rightarrow> codexLoop rest cfg)
      else if a = ''-m'' \<or> a = ''--model'' then
        (case rest of [] \<Rightarrow> cfg | v # rest \<Rightarrow> codexLoop rest (cfg\<lparr>cx_Model := v\<rparr>))
      else if a = ''--effort'' then
        (case rest of [] \<Rightarrow> cfg | v # rest \<Rightarrow> codexLoop rest (cfg\<lparr>cx_Effort := v\<rparr>))
      else if a = ''--dangerously-bypass-approvals-and-sandbox'' then
        codexLoop rest (cfg\<lparr>cx_DangerouslyBypassPermissions := True\<rparr>)
      else if a \<in> {''-c'', ''--config'', ''--enable'', ''--disable''} then
        (case rest of [] \<Rightarrow> cfg | v # rest \<Rightarrow> codexLoop rest (cfg\<lparr>cx_ConfigArgs := cx_ConfigArgs cfg @ [a, v]\<rparr>))
      else if has_prefix a ''--model='' then
        codexLoop rest (cfg\<lparr>cx_Model := trim_space (trim_prefix a ''--model='')\<rparr>)
      else if has_prefix a ''--effort='' then
        codexLoop rest (cfg\<lparr>cx_Effort := trim_space (trim_prefix a ''--effort='')\<rparr>)
      else if has_prefix a ''--config='' \<or> has_prefix a ''--enable='' \<or> has_prefix a ''--disable='' then
        codexLoop rest (cfg\<lparr>cx_ConfigArgs := cx_ConfigArgs cfg @ [a]\<rparr>)
      else codexLoop rest cfg)"

definition codexParseCommand :: "string list \<Rightarrow> CodexCommand option" where
  "codexParseCommand argv =
     (if argv = [] \<or> hd argv \<noteq> ''codex'' then None
      else Some (codexLoop (tl argv)
             \<lparr>cx_ServerBin = ''codex'', cx_ConfigArgs = [], cx_Model = '''', cx_Effort = '''',
              cx_DangerouslyBypassPermissions = False\<rparr>))"

definition AppServerListenArgs :: "string \<Rightarrow> string \<Rightarrow> string list \<Rightarrow> string list" where
  "AppServerListenArgs serverBin sock extra = [serverBin, ''app-server'', ''--listen'', ''unix://'' @ sock] @ extra"

definition AppServerStdioArgs :: "string list \<Rightarrow> string list" where
  "AppServerStdioArgs extra = [''codex'', ''app-server''] @ extra"

definition RemoteAttachArgs :: "string \<Rightarrow> string \<Rightarrow> string \<Rightarrow> string list \<Rightarrow> string \<Rightarrow> bool \<Rightarrow> string list" where
  "RemoteAttachArgs sock threadID startDir configArgs model bypass =
     [''codex''] @ configArgs @
     (if threadID \<noteq> '''' then [''resume'', threadID] else []) @
     (if model \<noteq> '''' then [''--model'', model] else []) @
     [''--remote'', ''unix://'' @ sock] @
     (if bypass then [''--dangerously-bypass-approvals-and-sandbox''] else []) @
     (if startDir \<noteq> '''' then [''-C'', startDir] else [])"

definition ShellJoinArgv :: "string list \<Rightarrow> string" where
  "ShellJoinArgv args = join_text '' '' (map (\<lambda>a. [CHR 0x27] @ escapeQuotes a @ [CHR 0x27]) args)"


section \<open>Grok\<close>

text \<open>The Go type is a \<open>uint8\<close> with four named values; \<open>LifecycleOther\<close> stands for the rest.\<close>

datatype Lifecycle = LifecycleFresh | LifecycleContinue | LifecycleResume | LifecycleFork | LifecycleOther "8 word"

datatype grok_error = GrokLex lex_error | GrokUnsupported | GrokSessionFlag | GrokSessionID | GrokForkIDs | GrokUnknownLifecycle

record GrokCommand =
  gk_Model :: string
  gk_Effort :: string

definition hasFlag :: "string list \<Rightarrow> string list \<Rightarrow> bool" where
  "hasFlag argv flags \<longleftrightarrow> list_ex (\<lambda>arg. list_ex (\<lambda>flag. arg = flag \<or> has_prefix arg (flag @ ''='')) flags) argv"

definition hasSessionFlag :: "string list \<Rightarrow> bool" where
  "hasSessionFlag argv \<longleftrightarrow>
     hasFlag argv [''--session-id'', ''-s''] \<or> hasFlag argv [''--resume'', ''-r''] \<or>
     hasFlag argv [''--continue''] \<or> hasFlag argv [''--fork-session'']"

fun grokLoop :: "string list \<Rightarrow> GrokCommand \<Rightarrow> GrokCommand" where
  "grokLoop [] cfg = cfg"
| "grokLoop (a # rest) cfg =
     (if a = ''-m'' \<or> a = ''--model'' then
        (case rest of [] \<Rightarrow> cfg | v # rest \<Rightarrow> grokLoop rest (cfg\<lparr>gk_Model := v\<rparr>))
      else if a = ''--effort'' \<or> a = ''--reasoning-effort'' then
        (case rest of [] \<Rightarrow> cfg | v # rest \<Rightarrow> grokLoop rest (cfg\<lparr>gk_Effort := v\<rparr>))
      else
        (let cfg = (if has_prefix a ''--model='' then cfg\<lparr>gk_Model := trim_prefix a ''--model=''\<rparr> else cfg);
             cfg = (if has_prefix a ''--effort='' then cfg\<lparr>gk_Effort := trim_prefix a ''--effort=''\<rparr> else cfg)
         in grokLoop rest cfg))"

text \<open>The common start of the three functions: the argument vector of a grok command.\<close>

definition grokArgv :: "string \<Rightarrow> (grok_error + string list) option" where
  "grokArgv command =
     (case SplitArgs (trim_space command) of
        None \<Rightarrow> None
      | Some (Inl err) \<Rightarrow> Some (Inl (GrokLex err))
      | Some (Inr argv) \<Rightarrow> if argv = [] \<or> hd argv \<noteq> ''grok'' then Some (Inl GrokUnsupported) else Some (Inr argv))"

definition grokParseCommand :: "string \<Rightarrow> (grok_error + GrokCommand) option" where
  "grokParseCommand command =
     map_option (map_sum id (\<lambda>argv. grokLoop (tl argv) \<lparr>gk_Model = '''', gk_Effort = ''''\<rparr>)) (grokArgv command)"

fun lifecycleArgs :: "Lifecycle \<Rightarrow> string \<Rightarrow> string list" where
  "lifecycleArgs LifecycleFresh sessionID = [''--session-id'', sessionID]"
| "lifecycleArgs LifecycleContinue sessionID = [''--continue'']"
| "lifecycleArgs LifecycleResume sessionID = [''--resume'', sessionID]"
| "lifecycleArgs LifecycleFork sessionID = [''--resume'', sessionID, ''--fork-session'']"
| "lifecycleArgs (LifecycleOther n) sessionID = []"

fun known_lifecycle :: "Lifecycle \<Rightarrow> bool" where
  "known_lifecycle (LifecycleOther n) = False"
| "known_lifecycle _ = True"

text \<open>The model and effort of the session, unless the command already names them.\<close>

definition withModelEffort :: "string list \<Rightarrow> string \<Rightarrow> string \<Rightarrow> string list" where
  "withModelEffort argv model effort =
     (let argv = (if model \<noteq> '''' \<and> \<not> hasFlag argv [''--model'', ''-m''] then argv @ [''--model'', model] else argv)
      in if effort \<noteq> '''' \<and> \<not> hasFlag argv [''--effort'', ''--reasoning-effort'']
         then argv @ [''--effort'', effort] else argv)"

definition BuildCommand ::
    "string \<Rightarrow> Lifecycle \<Rightarrow> string \<Rightarrow> string \<Rightarrow> string \<Rightarrow> (grok_error + string) option" where
  "BuildCommand command lifecycle sessionID model effort =
     (case grokArgv command of
        None \<Rightarrow> None
      | Some (Inl err) \<Rightarrow> Some (Inl err)
      | Some (Inr argv) \<Rightarrow>
          if hasSessionFlag argv then Some (Inl GrokSessionFlag)
          else if lifecycle \<noteq> LifecycleContinue \<and> sessionID = '''' then Some (Inl GrokSessionID)
          else if \<not> known_lifecycle lifecycle then Some (Inl GrokUnknownLifecycle)
          else
            (let argv = argv @ [''--no-auto-update''] @ lifecycleArgs lifecycle sessionID
             in Some (Inr (JoinArgs (withModelEffort argv model effort)))))"

definition BuildForkCommand ::
    "string \<Rightarrow> string \<Rightarrow> string \<Rightarrow> string \<Rightarrow> string \<Rightarrow> (grok_error + string) option" where
  "BuildForkCommand command parentSessionID childSessionID model effort =
     (if parentSessionID = '''' \<or> childSessionID = '''' then Some (Inl GrokForkIDs)
      else
        (case grokArgv command of
           None \<Rightarrow> None
         | Some (Inl err) \<Rightarrow> Some (Inl err)
         | Some (Inr argv) \<Rightarrow>
             if hasSessionFlag argv then Some (Inl GrokSessionFlag)
             else
               (let argv = argv @ [''--no-auto-update'', ''--resume'', parentSessionID, ''--fork-session'',
                                   ''--session-id'', childSessionID]
                in Some (Inr (JoinArgs (withModelEffort argv model effort))))))"


end
