(* ===== verification/ArgCommandProps.thy ===== *)
theory ArgCommandProps
  imports ArgLexProps ArgCommands
begin

text \<open>
  The theorems about command rewriting: what \<open>strings.TrimSpace\<close> leaves alone, what the rewritten
  command lines tokenize to, and that the parsers read back what the builders wrote.
\<close>

section \<open>Trimming\<close>

definition ws_free :: "string \<Rightarrow> bool" where
  "ws_free s \<longleftrightarrow> (\<forall>q\<in>set white_space. \<not> prefix q s \<and> \<not> suffix q s)"

lemma has_prefix_iff: "has_prefix s p \<longleftrightarrow> prefix p s"
  by (auto simp: has_prefix_def prefix_def) (metis append_take_drop_id)

lemma trim_by_inert:
  assumes "\<And>q. q \<in> set seqs \<Longrightarrow> \<not> prefix q s"
  shows "trim_by seqs s = s"
proof -
  have "find (\<lambda>q. q \<noteq> [] \<and> has_prefix s q) seqs = None" using assms by (auto simp: find_None_iff has_prefix_iff)
  then show ?thesis by (subst trim_by.simps) simp
qed

lemma trim_inert:
  assumes "ws_free s"
  shows "trim_space s = s"
proof -
  have "trim_by white_space s = s" using assms by (intro trim_by_inert) (simp add: ws_free_def)
  moreover have "trim_by (map rev white_space) (rev s) = rev s"
    using assms by (intro trim_by_inert) (auto simp: ws_free_def suffix_to_prefix)
  ultimately show ?thesis by (simp add: trim_space_def)
qed

lemma white_space_facts:
  assumes "q \<in> set white_space"
  shows "q \<noteq> []" and "CHR '' '' \<in> set q \<Longrightarrow> q = '' ''"
proof -
  have "list_all (\<lambda>q. q \<noteq> [] \<and> (CHR '' '' \<in> set q \<longrightarrow> q = '' '')) white_space" by code_simp
  then show "q \<noteq> []" "CHR '' '' \<in> set q \<Longrightarrow> q = '' ''" using assms by (auto simp: list_all_iff)
qed

definition ascii_space :: string where
  "ascii_space = [CHR 0x09, CHR 0x0A, CHR 0x0B, CHR 0x0C, CHR 0x0D, CHR 0x20]"

lemma white_space_ends:
  assumes "q \<in> set white_space"
  shows "hd q \<in> set ascii_space \<or> 128 \<le> (of_char (hd q) :: nat)"
    and "last q \<in> set ascii_space \<or> 128 \<le> (of_char (last q) :: nat)"
proof -
  have "list_all (\<lambda>q. hd q \<in> set ascii_space \<or> 128 \<le> (of_char (hd q) :: nat)) white_space"
    "list_all (\<lambda>q. last q \<in> set ascii_space \<or> 128 \<le> (of_char (last q) :: nat)) white_space"
    by code_simp+
  then show "hd q \<in> set ascii_space \<or> 128 \<le> (of_char (hd q) :: nat)"
    "last q \<in> set ascii_space \<or> 128 \<le> (of_char (last q) :: nat)"
    using assms by (auto simp only: list_all_iff)
qed

lemma prefix_cut: "prefix q (p @ c # r) \<Longrightarrow> \<not> prefix q p \<Longrightarrow> prefix (p @ [c]) q"
  by (metis append_Cons append_Nil prefix_append prefix_snoc same_prefix_prefix append.assoc prefix_order.order_refl prefix_same_cases prefixI)

lemma ws_free_join:
  assumes "ws_free p" and "p \<noteq> []" and "ws_free r" and "r \<noteq> []"
  shows "ws_free (p @ '' '' @ r)"
proof -
  have "\<not> prefix q (p @ CHR '' '' # r) \<and> \<not> suffix q (p @ CHR '' '' # r)" if "q \<in> set white_space" for q
  proof
    show "\<not> prefix q (p @ CHR '' '' # r)"
    proof
      assume "prefix q (p @ CHR '' '' # r)"
      then have "prefix (p @ '' '') q" using prefix_cut[of q p] assms(1) that by (simp add: ws_free_def)
      then have "CHR '' '' \<in> set q" by (auto simp: prefix_def)
      then have "q = '' ''" using white_space_facts(2)[OF that] by blast
      then show False using \<open>prefix (p @ '' '') q\<close> assms(2) prefix_length_le by fastforce
    qed
    show "\<not> suffix q (p @ CHR '' '' # r)"
    proof
      assume "suffix q (p @ CHR '' '' # r)"
      then have "suffix ('' '' @ r) q" using assms(3) that
        by (auto simp: ws_free_def suffix_append suffix_Cons) 
      then have "CHR '' '' \<in> set q" by (auto simp: suffix_def)
      then have "q = '' ''" using white_space_facts(2)[OF that] by blast
      then show False using \<open>suffix ('' '' @ r) q\<close> assms(4) suffix_length_le by fastforce
    qed
  qed
  then show ?thesis by (simp add: ws_free_def)
qed

lemma ws_free_parts: "parts \<noteq> [] \<Longrightarrow> list_all (\<lambda>p. ws_free p \<and> p \<noteq> []) parts \<Longrightarrow>
    ws_free (join_text '' '' parts) \<and> join_text '' '' parts \<noteq> []"
proof (induction parts rule: list_nonempty_induct)
  case (cons p parts)
  then obtain q rest where "parts = q # rest" by (cases parts) auto
  then show ?case using cons ws_free_join[of p "join_text '' '' parts"] by simp
qed simp

text \<open>An ASCII byte that is no white space, as at both ends of a quoted argument.\<close>

definition solid :: "char \<Rightarrow> bool" where
  "solid c \<longleftrightarrow> (of_char c :: nat) < 128 \<and> c \<notin> set ascii_space"

lemma ws_free_solid:
  assumes "s \<noteq> []" and "solid (hd s)" and "solid (last s)"
  shows "ws_free s"
proof -
  have "\<not> prefix q s \<and> \<not> suffix q s" if "q \<in> set white_space" for q
  proof -
    note q = white_space_facts(1)[OF that] white_space_ends[OF that]
    have "prefix q s \<Longrightarrow> hd q = hd s" using q(1) by (auto simp: prefix_def)
    moreover have "suffix q s \<Longrightarrow> last q = last s" using q(1) by (auto simp: suffix_def)
    ultimately show ?thesis using assms(2,3) q(2,3) unfolding solid_def by (metis not_le)
  qed
  then show ?thesis by (simp add: ws_free_def)
qed

lemma safe_solid: "safe_char c \<Longrightarrow> solid c"
proof -
  assume safe: "safe_char c"
  have "list_all (\<lambda>c. \<not> safe_char c) ascii_space" by code_simp
  moreover have "(of_char c :: nat) < 128" using safe by (auto simp: safe_char_def Let_def)
  ultimately show ?thesis using safe by (auto simp: solid_def list_all_iff)
qed

lemma quote_solid: "solid (CHR 0x27)"
  by code_simp

lemma quoteArg_free: "ws_free (quoteArg a) \<and> quoteArg a \<noteq> []"
proof (cases "a \<noteq> [] \<and> isSafeArg a")
  case True
  then have "list_all solid a" "a \<noteq> []" using safe_solid safe_bytes[of a] by (auto simp: list_all_iff)
  then have "ws_free a" using ws_free_solid[of a] by (simp add: list_all_iff)
  then show ?thesis using True by (simp add: quoteArg_def)
next
  case False
  then have "hd (quoteArg a) = CHR 0x27" "last (quoteArg a) = CHR 0x27" "quoteArg a \<noteq> []"
    by (auto simp: quoteArg_def)
  then show ?thesis using ws_free_solid[of "quoteArg a"] quote_solid by simp
qed

lemma JoinArgs_free: "argv \<noteq> [] \<Longrightarrow> ws_free (JoinArgs argv) \<and> JoinArgs argv \<noteq> []"
  using ws_free_parts[of "map quoteArg argv"] quoteArg_free by (simp add: JoinArgs_def list_all_iff)

lemma trim_JoinArgs: "trim_space (JoinArgs argv) = JoinArgs argv"
proof (cases "argv = []")
  case True
  have "trim_space [] = []" by code_simp
  then show ?thesis using True by (simp add: JoinArgs_def)
qed (simp add: trim_inert JoinArgs_free)

section \<open>Rewritten command lines\<close>

text \<open>A part of a command line that stands for the arguments \<open>vals\<close>.\<close>

definition cooks :: "string \<Rightarrow> string list \<Rightarrow> bool" where
  "cooks part vals \<longleftrightarrow> vals \<noteq> [] \<and>
     (\<forall>rest args. cook (part @ rest) args [] False stateBare = cook rest (args @ butlast vals) (last vals) True stateBare)"

lemma cooks_token: "alone t \<Longrightarrow> cooks (at_Raw t) [at_Value t]"
  by (simp add: cooks_def alone_def leads_def)

lemma cooks_rendered: "cooks (renderCommandArgs [flag, v]) [flag, v]"
  using cook_quoted by (simp add: cooks_def renderCommandArgs_def trim_JoinArgs) (simp add: JoinArgs_def)

lemma cooks_join:
  "list_all2 cooks parts valss \<Longrightarrow> parts \<noteq> [] \<Longrightarrow>
     cook (join_text '' '' parts) args [] False stateBare = Inr (args @ concat valss)"
proof (induction parts arbitrary: args valss)
  case (Cons p parts)
  then obtain vals valss' where v: "valss = vals # valss'" "cooks p vals" "list_all2 cooks parts valss'"
    by (auto simp: list_all2_Cons1)
  have all: "butlast vals @ last vals # xs = vals @ xs" for xs
    using v(2) by (metis append.assoc append_Cons append_Nil append_butlast_last_id cooks_def)
  show ?case
  proof (cases parts)
    case Nil
    have "cook (p @ []) args [] False stateBare = cook [] (args @ butlast vals) (last vals) True stateBare"
      using v(2) unfolding cooks_def by blast
    then show ?thesis using Nil v all[of "[]"] by simp
  next
    case (Cons q rest)
    have "cook (p @ '' '' @ join_text '' '' parts) args [] False stateBare =
        cook ('' '' @ join_text '' '' parts) (args @ butlast vals) (last vals) True stateBare"
      using v(2) unfolding cooks_def by blast
    then show ?thesis using Cons.IH[OF v(3), of "args @ vals"] Cons v(1) all[of "[]"] by simp
  qed
qed simp

lemma alone_raw: "alone t \<Longrightarrow> at_Raw t \<noteq> []"
proof
  assume "alone t" "at_Raw t = []"
  then have "cook [] [] [] False stateBare = cook [] [] (at_Value t) True stateBare"
    unfolding alone_def leads_def by (metis append_Nil)
  then show False by simp
qed

text \<open>What replacing a flag means on the argument vector.\<close>

definition skipArg :: "string list \<Rightarrow> string \<Rightarrow> string list \<Rightarrow> string list" where
  "skipArg flags arg rest = (if arg \<in> set flags \<and> rest \<noteq> [] \<and> \<not> has_prefix (hd rest) ''-'' then tl rest else rest)"

function replaceArgs :: "string list \<Rightarrow> string \<Rightarrow> string list \<Rightarrow> bool \<Rightarrow> string list" where
  "replaceArgs flags value [] replaced = (if replaced then [] else [hd flags, value])"
| "replaceArgs flags value (a # rest) replaced =
     (if isFlag flags a then
        (if replaced then [] else [hd flags, value]) @ replaceArgs flags value (skipArg flags a rest) True
      else a # replaceArgs flags value rest replaced)"
  by pat_completeness auto
termination
  by (relation "measure (\<lambda>(flags, value, argv, replaced). length argv)") (auto simp: skipArg_def less_Suc_eq_le)

lemma skipValue_values: "map at_Value (skipValue flags a ts) = skipArg flags a (map at_Value ts)"
  by (cases ts) (auto simp: skipValue_def skipArg_def)

lemma skipValue_all: "list_all P ts \<Longrightarrow> list_all P (skipValue flags a ts)"
  by (cases ts) (auto simp: skipValue_def)

lemma replaceLoop_cooks:
  "list_all alone ts \<Longrightarrow>
     \<exists>valss. list_all2 cooks (replaceLoop flags v ts b) valss \<and> concat valss = replaceArgs flags v (map at_Value ts) b"
proof (induction flags v ts b rule: replaceLoop.induct)
  case (1 flags v b)
  show ?case
    using cooks_rendered by (cases b) (auto intro: exI[of _ "[]"] exI[of _ "[[hd flags, v]]"])
next
  case (2 flags v t ts b)
  show ?case
  proof (cases "isFlag flags (at_Value t)")
    case True
    then obtain valss where "list_all2 cooks (replaceLoop flags v (skipValue flags (at_Value t) ts) True) valss"
      "concat valss = replaceArgs flags v (skipArg flags (at_Value t) (map at_Value ts)) True"
      using 2 skipValue_all[of alone ts] by (auto simp: skipValue_values)
    then show ?thesis
      using True cooks_rendered by (cases b) (auto intro: exI[of _ valss] exI[of _ "[hd flags, v] # valss"])
  next
    case False
    then obtain valss where "list_all2 cooks (replaceLoop flags v ts b) valss"
      "concat valss = replaceArgs flags v (map at_Value ts) b"
      using 2 by auto
    then show ?thesis
      using False 2(3) cooks_token by (auto intro!: exI[of _ "[at_Value t] # valss"])
  qed
qed

lemma rendered_free: "ws_free (renderCommandArgs [flag, v]) \<and> renderCommandArgs [flag, v] \<noteq> []"
  using JoinArgs_free[of "[flag, v]"] by (simp add: renderCommandArgs_def trim_JoinArgs)

lemma replaceLoop_free:
  "list_all (\<lambda>t. alone t \<and> ws_free (at_Raw t)) ts \<Longrightarrow>
     list_all (\<lambda>p. ws_free p \<and> p \<noteq> []) (replaceLoop flags v ts b)"
  by (induction flags v ts b rule: replaceLoop.induct) (auto simp: rendered_free alone_raw skipValue_all)

lemma replaceLoop_nonempty: "replaceLoop flags v ts False \<noteq> []"
  by (cases ts) auto


lemma LexArgs_alone: "LexArgs command = Some (Inr toks) \<Longrightarrow> list_all alone toks"
  using LexArgs_sound[of command] by (cases "lexCookedArgs command") (auto simp: LexArgs_def)

lemma SplitArgs_cooked: "lexCookedArgs command = Inr args \<Longrightarrow> SplitArgs command = Some (Inr args)"
  using LexArgs_sound[of command args] by (auto simp: SplitArgs_def)

lemma replaced_splits:
  assumes toks: "splitCommandTokens command = Some (Inr toks)" "toks \<noteq> []"
    and free: "list_all (\<lambda>t. ws_free (at_Raw t)) toks" and v: "trim_space value = v" "v \<noteq> ''''"
  shows "\<exists>c. replaceFlagValue command flags value = Some c \<and>
    SplitArgs c = Some (Inr (replaceArgs flags v (map at_Value toks) False))"
proof -
  let ?parts = "replaceLoop flags v toks False"
  have al: "list_all alone toks" using LexArgs_alone toks(1) by (simp add: splitCommandTokens_def)
  have "list_all (\<lambda>p. ws_free p \<and> p \<noteq> []) ?parts" using replaceLoop_free[of toks flags v False] al free by (simp add: list_all_iff)
  then have "joinCommandText ?parts = join_text '' '' ?parts"
    using ws_free_parts[OF replaceLoop_nonempty] trim_inert by (simp add: joinCommandText_def)
  moreover obtain valss where "list_all2 cooks ?parts valss" "concat valss = replaceArgs flags v (map at_Value toks) False"
    using replaceLoop_cooks[OF al] by blast
  ultimately have "lexCookedArgs (joinCommandText ?parts) = Inr (replaceArgs flags v (map at_Value toks) False)"
    using cooks_join[OF _ replaceLoop_nonempty, of flags v toks valss "[]"] by (simp add: lexCookedArgs_def)
  then show ?thesis using toks v SplitArgs_cooked by (simp add: replaceFlagValue_def Let_def)
qed

section \<open>The model flag of a Claude command\<close>

lemma model_flag: "isFlag [''--model''] a \<longleftrightarrow> a = ''--model'' \<or> has_prefix a ''--model=''"
  by (simp add: isFlag_def)

lemma claudeLoop_keeps: "list_all (\<lambda>a. \<not> isFlag [''--model''] a) xs \<Longrightarrow> cc_Model (claudeLoop xs cfg) = cc_Model cfg"
  by (induction xs cfg rule: claudeLoop.induct) (auto simp: model_flag split: list.splits)

lemma replaceArgs_clean: "list_all (\<lambda>a. \<not> isFlag flags a) (replaceArgs flags v argv True)"
  by (induction flags v argv True rule: replaceArgs.induct) auto

text \<open>Every \<open>--effort\<close> is followed by a value that is not itself the model flag.\<close>

fun efforts_ok :: "string list \<Rightarrow> bool" where
  "efforts_ok [] = True"
| "efforts_ok [a] = (a \<noteq> ''--effort'')"
| "efforts_ok (a # b # rest) = ((a = ''--effort'' \<longrightarrow> \<not> isFlag [''--model''] b) \<and> efforts_ok (b # rest))"

lemma efforts_ok_tl: "efforts_ok (a # rest) \<Longrightarrow> efforts_ok rest"
  by (cases rest) auto

lemma claudeLoop_model: "efforts_ok argv \<Longrightarrow> cc_Model (claudeLoop (replaceArgs [''--model''] v argv False) cfg) = v"
proof (induction argv arbitrary: cfg rule: length_induct)
  case (1 argv)
  note IH = 1(1)[rule_format]
  show ?case
  proof (cases argv)
    case (Cons a rest)
    consider "isFlag [''--model''] a" | b r where "a = ''--effort''" "rest = b # r" "\<not> isFlag [''--model''] b"
      | "\<not> isFlag [''--model''] a" "a \<noteq> ''--effort''"
      using 1(2) Cons by (cases rest) auto
    then show ?thesis
    proof cases
      case 1
      then show ?thesis using Cons claudeLoop_keeps[OF replaceArgs_clean] by simp
    next
      case 2
      then have "efforts_ok r" using 1(2) Cons efforts_ok_tl by blast
      moreover have "\<not> isFlag [''--model''] ''--effort''" by code_simp
      ultimately show ?thesis using 2 Cons IH[of r] by simp
    next
      case 3
      then show ?thesis
        using Cons IH[of rest] 1(2) efforts_ok_tl[of a rest] by (auto simp: model_flag)
    qed
  qed simp
qed

section \<open>Grok flags\<close>

lemma hasFlag_append [simp]: "hasFlag (xs @ ys) flags \<longleftrightarrow> hasFlag xs flags \<or> hasFlag ys flags"
  by (simp add: hasFlag_def)

lemma grokLoop_skip:
  "\<not> hasFlag xs [''--model'', ''-m''] \<Longrightarrow> \<not> hasFlag xs [''--effort'', ''--reasoning-effort''] \<Longrightarrow>
     grokLoop (xs @ ys) cfg = grokLoop ys cfg"
  by (induction xs) (auto simp: hasFlag_def)

lemma withModelEffort_appends:
  assumes "\<not> hasFlag argv [''--model'', ''-m'']" and "\<not> hasFlag argv [''--effort'', ''--reasoning-effort'']"
    and "\<not> hasFlag [''--model'', model] [''--effort'', ''--reasoning-effort'']" and "model \<noteq> ''''" and "effort \<noteq> ''''"
  shows "withModelEffort argv model effort = argv @ [''--model'', model, ''--effort'', effort]"
  using assms by (simp add: withModelEffort_def Let_def)

lemma lifecycle_plain:
  assumes "\<not> hasFlag [sessionID] flags" and "flags = [''--model'', ''-m''] \<or> flags = [''--effort'', ''--reasoning-effort'']"
  shows "\<not> hasFlag ([''--no-auto-update''] @ lifecycleArgs lc sessionID) flags"
  using assms by (cases lc) (auto simp: hasFlag_def has_prefix_def)


section \<open>The properties\<close>

text \<open>C31: The model a session remembers wins over the one on its command line: when \<open>replaceFlagValue\<close> puts
  a model into a Claude command, the result tokenizes to the old arguments with the first model flag
  replaced and the others dropped, and \<open>ParseCommand\<close> reads exactly the new model from it. The command may
  not end in white space that is part of a token, and its effort flags must have values.\<close>

theorem model_override_wins:
  assumes "splitCommandTokens command = Some (Inr toks)" and "map at_Value toks = ''claude'' # rest"
    and "list_all (\<lambda>t. ws_free (at_Raw t)) toks" and "efforts_ok rest"
    and "trim_space value = v" and "v \<noteq> ''''"
  shows "\<exists>c argv cfg. replaceFlagValue command [''--model''] value = Some c \<and> SplitArgs c = Some (Inr argv) \<and>
    argv = ''claude'' # replaceArgs [''--model''] v rest False \<and> claudeParseCommand argv = Some cfg \<and> cc_Model cfg = v"
proof -
  have ne: "toks \<noteq> []" using assms(2) by auto
  obtain c where c: "replaceFlagValue command [''--model''] value = Some c"
    "SplitArgs c = Some (Inr (replaceArgs [''--model''] v (''claude'' # rest) False))"
    using replaced_splits[OF assms(1) ne assms(3,5,6)] assms(2) by metis
  have "\<not> isFlag [''--model''] ''claude''" by code_simp
  then have "replaceArgs [''--model''] v (''claude'' # rest) False = ''claude'' # replaceArgs [''--model''] v rest False" by simp
  then show ?thesis using c claudeLoop_model[OF assms(4)] by (simp add: claudeParseCommand_def)
qed

theorem model_override_wins_witness:
  "\<exists>c. replaceFlagValue ''claude --model=old -p --effort high'' [''--model''] '' opus '' = Some c \<and>
     SplitArgs c = Some (Inr [''claude'', ''--model'', ''opus'', ''-p'', ''--effort'', ''high''])"
proof -
  let ?toks = "map (\<lambda>s. \<lparr>at_Raw = s, at_Value = s\<rparr>) [''claude'', ''--model=old'', ''-p'', ''--effort'', ''high'']"
  let ?rest = "[''--model=old'', ''-p'', ''--effort'', ''high'']"
  have t: "splitCommandTokens ''claude --model=old -p --effort high'' = Some (Inr ?toks)" by code_simp
  have v: "map at_Value ?toks = ''claude'' # ?rest" by simp
  have f: "list_all (\<lambda>t. ws_free (at_Raw t)) ?toks" unfolding ws_free_def by code_simp
  have e: "efforts_ok ?rest" by code_simp
  have o: "trim_space '' opus '' = ''opus''" by code_simp
  have r: "replaceArgs [''--model''] ''opus'' ?rest False = [''--model'', ''opus'', ''-p'', ''--effort'', ''high'']" by code_simp
  show ?thesis using model_override_wins[OF t v f e o] unfolding r by auto
qed

text \<open>C32: What the Grok builder writes, the Grok parser reads back: for a Grok command without lifecycle, model
  or effort flags, one of the four named lifecycles, a model and an effort that are not empty, and a session identifier
  (not empty unless the session is continued) and a model that do not look like model or effort flags, \<open>BuildCommand\<close> appends the lifecycle flags, the model and the effort, the result
  tokenizes to exactly these arguments, and \<open>ParseCommand\<close> of it returns the model and the effort.\<close>

theorem grok_build_parse:
  assumes "grokArgv command = Some (Inr argv)" and "\<not> hasSessionFlag argv" and "lc = LifecycleContinue \<or> sid \<noteq> ''''"
    and plain: "\<not> hasFlag (argv @ [sid]) [''--model'', ''-m'']" "\<not> hasFlag (argv @ [sid, model]) [''--effort'', ''--reasoning-effort'']"
    and "model \<noteq> ''''" and "effort \<noteq> ''''" and "known_lifecycle lc"
  shows "\<exists>out. BuildCommand command lc sid model effort = Some (Inr out) \<and>
    SplitArgs out = Some (Inr (argv @ [''--no-auto-update''] @ lifecycleArgs lc sid @ [''--model'', model, ''--effort'', effort])) \<and>
    grokParseCommand out = Some (Inr \<lparr>gk_Model = model, gk_Effort = effort\<rparr>)"
proof -
  let ?base = "argv @ [''--no-auto-update''] @ lifecycleArgs lc sid"
  let ?all = "?base @ [''--model'', model, ''--effort'', effort]"
  have sid: "\<not> hasFlag argv [''--model'', ''-m'']" "\<not> hasFlag [sid] [''--model'', ''-m'']"
    "\<not> hasFlag argv [''--effort'', ''--reasoning-effort'']" "\<not> hasFlag [sid] [''--effort'', ''--reasoning-effort'']"
    using plain by (auto simp: hasFlag_def)
  have no: "\<not> hasFlag ?base [''--model'', ''-m'']" "\<not> hasFlag ?base [''--effort'', ''--reasoning-effort'']"
    using sid lifecycle_plain[OF sid(2), of lc] lifecycle_plain[OF sid(4), of lc] by (simp_all only: hasFlag_append simp_thms)
  have "\<not> hasFlag [''--model'', model] [''--effort'', ''--reasoning-effort'']"
    using plain(2) by (simp add: hasFlag_def has_prefix_def)
  note appended = withModelEffort_appends[OF no this assms(6,7)]
  then have b: "BuildCommand command lc sid model effort = Some (Inr (JoinArgs ?all))"
    using assms(1-3,8) by (auto simp: BuildCommand_def Let_def)
  have hd: "argv \<noteq> []" "hd argv = ''grok''" using assms(1) by (auto simp: grokArgv_def split: option.splits sum.splits if_splits)
  then have a: "grokArgv (JoinArgs ?all) = Some (Inr ?all)" by (simp add: grokArgv_def trim_JoinArgs split_joined)
  have tl: "tl ?all = tl ?base @ [''--model'', model, ''--effort'', effort]" using hd(1) by (simp add: tl_append2)
  have "\<not> hasFlag (tl ?base) flags" if "\<not> hasFlag ?base flags" for flags
    using that hd(1) by (cases argv) (auto simp: hasFlag_def)
  then have "grokLoop (tl ?all) \<lparr>gk_Model = '''', gk_Effort = ''''\<rparr> = \<lparr>gk_Model = model, gk_Effort = effort\<rparr>"
    unfolding tl using no grokLoop_skip[of "tl ?base"] by simp
  then show ?thesis using a b by (simp add: grokParseCommand_def split_joined)
qed

theorem grok_build_parse_witness:
  "\<exists>out. BuildCommand ''grok -p'' LifecycleResume ''id'' ''g4'' ''high'' = Some (Inr out) \<and>
     grokParseCommand out = Some (Inr \<lparr>gk_Model = ''g4'', gk_Effort = ''high''\<rparr>)"
proof -
  have "grokArgv ''grok -p'' = Some (Inr [''grok'', ''-p''])" "\<not> hasSessionFlag [''grok'', ''-p'']"
    "\<not> hasFlag ([''grok'', ''-p''] @ [''id'']) [''--model'', ''-m'']"
    "\<not> hasFlag ([''grok'', ''-p''] @ [''id'', ''g4'']) [''--effort'', ''--reasoning-effort'']" by code_simp+
  then show ?thesis using grok_build_parse[of "''grok -p''" "[''grok'', ''-p'']" LifecycleResume "''id''" "''g4''" "''high''"]
    by auto
qed


end
