(* ===== verification/GoPath.thy ===== *)
theory GoPath
  imports GoText
begin

text \<open>
  The functions of Go's \<open>path/filepath\<close> that the sources use, on slash-separated paths: \<open>Clean\<close>,
  \<open>Join\<close> of two elements, \<open>IsAbs\<close> and \<open>Rel\<close>, and what they do to the elements of a path.
\<close>

section \<open>Elements\<close>

abbreviation split_slash :: "string \<Rightarrow> string list" where
  "split_slash \<equiv> split_on (CHR ''/'')"

definition IsAbs :: "string \<Rightarrow> bool" where
  "IsAbs p \<longleftrightarrow> has_prefix p ''/''"

text \<open>One element of a path, against the elements already kept.\<close>

definition clean_step :: "bool \<Rightarrow> string list \<Rightarrow> string \<Rightarrow> string list" where
  "clean_step rooted out e =
     (if e = '''' \<or> e = ''.'' then out
      else if e = ''..'' then
        (if out \<noteq> [] \<and> last out \<noteq> ''..'' then butlast out
         else if rooted then out else out @ [''..''])
      else out @ [e])"

definition elements :: "string \<Rightarrow> string list" where
  "elements p = foldl (clean_step (IsAbs p)) [] (split_slash p)"

definition render :: "bool \<Rightarrow> string list \<Rightarrow> string" where
  "render rooted es = (let p = (if rooted then ''/'' else '''') @ join_text ''/'' es in if p = '''' then ''.'' else p)"

definition Clean :: "string \<Rightarrow> string" where
  "Clean p = render (IsAbs p) (elements p)"

definition Join2 :: "string \<Rightarrow> string \<Rightarrow> string" where
  "Join2 a b =
     (if a \<noteq> '''' then Clean (a @ ''/'' @ b)
      else if b \<noteq> '''' then Clean b else '''')"

fun strip_common :: "string list \<Rightarrow> string list \<Rightarrow> string list \<times> string list" where
  "strip_common (b # bs) (t # ts) = (if b = t then strip_common bs ts else (b # bs, t # ts))"
| "strip_common bs ts = (bs, ts)"

text \<open>
  The path from \<open>base\<close> to \<open>targ\<close>; \<open>None\<close> when there is none. Go reads a base of \<open>"."\<close> as empty, but
  keeps a target of \<open>"."\<close> as an element of its own.
\<close>

definition targ_elements :: "string \<Rightarrow> string list" where
  "targ_elements p = (if Clean p = ''.'' then [''.''] else elements p)"

definition Rel :: "string \<Rightarrow> string \<Rightarrow> string option" where
  "Rel base targ =
     (if Clean base = Clean targ then Some ''.''
      else if IsAbs base \<noteq> IsAbs targ then None
      else
        (let (bs, ts) = strip_common (elements base) (targ_elements targ)
         in if bs \<noteq> [] \<and> ts \<noteq> [] \<and> hd bs = ''..'' then None
            else Some (join_text ''/'' (replicate (length bs) ''..'' @ ts))))"

section \<open>Normal forms\<close>

definition element :: "string \<Rightarrow> bool" where
  "element e \<longleftrightarrow> e \<noteq> '''' \<and> e \<noteq> ''.'' \<and> CHR ''/'' \<notin> set e"

text \<open>Cleaned elements: proper ones, with the dotted pairs at the front and only in a relative path.\<close>

definition normal :: "bool \<Rightarrow> string list \<Rightarrow> bool" where
  "normal rooted es \<longleftrightarrow> list_all element es \<and>
     (\<exists>n rest. es = replicate n ''..'' @ rest \<and> ''..'' \<notin> set rest \<and> (rooted \<longrightarrow> n = 0))"

lemma normalI:
  assumes "list_all element (replicate n ''..'' @ rest)" and "''..'' \<notin> set rest" and "rooted \<longrightarrow> n = 0"
  shows "normal rooted (replicate n ''..'' @ rest)"
  unfolding normal_def using assms by (intro conjI exI[of _ n] exI[of _ rest]) simp_all

lemma clean_step_dots: "clean_step False (replicate n ''..'') ''..'' = replicate (Suc n) ''..''"
  by (cases n) (auto simp: clean_step_def replicate_append_same)

lemma clean_step_normal:
  assumes "normal rooted out" and "CHR ''/'' \<notin> set e"
  shows "normal rooted (clean_step rooted out e)"
proof -
  obtain n rest where o: "out = replicate n ''..'' @ rest" "''..'' \<notin> set rest" "rooted \<longrightarrow> n = 0" "list_all element out"
    using assms(1) unfolding normal_def by blast
  consider "e = '''' \<or> e = ''.''" | "e = ''..''" "rest \<noteq> []" | "e = ''..''" "rest = []" | "element e" "e \<noteq> ''..''"
    using assms(2) by (auto simp: element_def)
  then show ?thesis
  proof cases
    case 2
    then have "last out \<in> set rest" using o(1) by simp
    then have "last out \<noteq> ''..''" using o(2) by (metis (no_types))
    then have "clean_step rooted out e = replicate n ''..'' @ butlast rest"
      using 2 o(1) by (simp add: clean_step_def butlast_append)
    moreover have "''..'' \<notin> set (butlast rest)" using o(2) in_set_butlastD by fast
    moreover have "list_all element (replicate n ''..'' @ butlast rest)"
      using o(1,4) by (auto simp: list_all_iff dest: in_set_butlastD)
    ultimately show ?thesis using o(3) by (simp add: normalI)
  next
    case 3
    show ?thesis
    proof (cases rooted)
      case True
      then show ?thesis using 3 o by (simp add: clean_step_def normal_def)
    next
      case False
      then have "clean_step rooted out e = replicate (Suc n) ''..'' @ []"
        using 3 o(1) clean_step_dots[of n] by simp
      moreover have "list_all element (replicate (Suc n) ''..'' @ [])" by (simp add: element_def list_all_iff)
      ultimately show ?thesis using False normalI[of "Suc n" "[]" rooted] by simp
    qed
  next
    case 4
    then have "clean_step rooted out e = replicate n ''..'' @ (rest @ [e])"
      using o(1) by (auto simp: clean_step_def element_def)
    moreover have "''..'' \<notin> set (rest @ [e])" using 4 o(2) by auto
    moreover have "list_all element (replicate n ''..'' @ (rest @ [e]))" using 4 o(1,4) by auto
    ultimately show ?thesis using o(3) by (simp add: normalI)
  qed (use assms in \<open>simp add: clean_step_def\<close>)
qed

lemma foldl_clean_normal:
  assumes "normal rooted out" and "\<forall>e \<in> set es. CHR ''/'' \<notin> set e"
  shows "normal rooted (foldl (clean_step rooted) out es)"
  using assms by (induction es arbitrary: out) (auto intro: clean_step_normal)

lemma normal_Nil [simp]: "normal rooted []"
  by (simp add: normal_def)

lemma elements_normal: "normal (IsAbs p) (elements p)"
  unfolding elements_def by (rule foldl_clean_normal) (auto dest: split_on_pieces)

lemma foldl_clean_dots: "foldl (clean_step False) (replicate m ''..'') (replicate n ''..'') = replicate (m + n) ''..''"
proof (induction n arbitrary: m)
  case (Suc n)
  then show ?case using clean_step_dots[of m] Suc.IH[of "Suc m"] by simp
qed simp

lemma foldl_clean_plain:
  "list_all element es \<Longrightarrow> ''..'' \<notin> set es \<Longrightarrow> foldl (clean_step rooted) out es = out @ es"
  by (induction es arbitrary: out) (auto simp: clean_step_def element_def)

text \<open>Cleaning changes nothing in elements that are already clean.\<close>

lemma foldl_clean_id:
  assumes "normal rooted es"
  shows "foldl (clean_step rooted) [] es = es"
proof -
  obtain n rest where o: "es = replicate n ''..'' @ rest" "''..'' \<notin> set rest" "rooted \<longrightarrow> n = 0" "list_all element es"
    using assms unfolding normal_def by blast
  have "foldl (clean_step rooted) [] (replicate n ''..'') = replicate n ''..''"
    using foldl_clean_dots[of 0 n] o(3) by (cases rooted) auto
  then show ?thesis using o by (simp add: foldl_clean_plain)
qed

section \<open>Rendering\<close>

lemma join_text_head:
  "es \<noteq> [] \<Longrightarrow> list_all element es \<Longrightarrow> join_text ''/'' es \<noteq> '''' \<and> hd (join_text ''/'' es) \<noteq> CHR ''/''"
  by (cases "(''/'', es)" rule: join_text.cases) (auto simp: element_def hd_append dest: hd_in_set)

lemma IsAbs_Nil [simp]: "\<not> IsAbs ''''"
  by (simp add: IsAbs_def has_prefix_def)

lemma IsAbs_Cons [simp]: "IsAbs (c # s) \<longleftrightarrow> c = CHR ''/''"
  by (simp add: IsAbs_def has_prefix_def)

lemma IsAbs_hd: "s \<noteq> '''' \<Longrightarrow> IsAbs s \<longleftrightarrow> hd s = CHR ''/''"
  by (cases s) auto

lemma IsAbs_render:
  assumes "normal rooted es"
  shows "IsAbs (render rooted es) = rooted"
proof (cases "es = []")
  case False
  then show ?thesis
    using assms join_text_head[of es] by (auto simp: render_def normal_def IsAbs_hd)
qed (simp add: render_def)

lemma elements_render:
  assumes n: "normal rooted es"
  shows "elements (render rooted es) = es"
proof (cases "es = []")
  case False
  have "list_all (\<lambda>e. CHR ''/'' \<notin> set e) es"
    using n by (auto simp: normal_def element_def list_all_iff)
  then have "split_slash (render rooted es) = (if rooted then '''' # es else es)"
    using False n join_text_head[of es] split_join_text[of es] by (auto simp: render_def normal_def)
  then have "elements (render rooted es) = foldl (clean_step rooted) [] es"
    by (simp add: elements_def IsAbs_render[OF n] clean_step_def)
  then show ?thesis by (simp add: foldl_clean_id n)
qed (auto simp: render_def elements_def clean_step_def)

lemma IsAbs_Clean [simp]: "IsAbs (Clean p) = IsAbs p"
  by (simp add: Clean_def IsAbs_render elements_normal)

lemma elements_Clean [simp]: "elements (Clean p) = elements p"
  by (simp add: Clean_def elements_render elements_normal)

lemma Clean_Clean [simp]: "Clean (Clean p) = Clean p"
  by (subst (1) Clean_def) (simp add: Clean_def[of p, symmetric])

lemma Clean_eq_iff: "Clean p = Clean q \<longleftrightarrow> IsAbs p = IsAbs q \<and> elements p = elements q"
proof
  assume c: "Clean p = Clean q"
  show "IsAbs p = IsAbs q \<and> elements p = elements q"
    using arg_cong[OF c, of IsAbs] arg_cong[OF c, of elements] by simp
qed (simp add: Clean_def)

lemma Clean_dot_iff: "Clean p = ''.'' \<longleftrightarrow> \<not> IsAbs p \<and> elements p = []"
proof -
  have "Clean ''.'' = ''.''" by code_simp
  then show ?thesis using Clean_eq_iff[of p "''.''"] by (auto simp: elements_def clean_step_def)
qed

lemma Clean_nonempty [simp]: "Clean p \<noteq> ''''"
  by (simp add: Clean_def render_def Let_def)

section \<open>Joining\<close>

lemma IsAbs_append: "a \<noteq> '''' \<Longrightarrow> IsAbs (a @ b) = IsAbs a"
  by (cases a) auto

lemma IsAbs_Join2: "a \<noteq> '''' \<Longrightarrow> IsAbs (Join2 a b) = IsAbs a"
  by (simp add: Join2_def IsAbs_append)

lemma elements_Join2:
  "a \<noteq> '''' \<Longrightarrow> elements (Join2 a b) = foldl (clean_step (IsAbs a)) (elements a) (split_slash b)"
  by (simp add: Join2_def elements_def[of "a @ _"] elements_def[of a] IsAbs_append split_on_append)

lemma Clean_Join2 [simp]: "a \<noteq> '''' \<Longrightarrow> Clean (Join2 a b) = Join2 a b"
  by (simp add: Join2_def)

lemma elements_Join2_plain:
  assumes "a \<noteq> ''''" and "CHR ''/'' \<notin> set k" and "k \<notin> {'''', ''.'', ''..''}"
  shows "elements (Join2 a k) = elements a @ [k]"
  using assms by (simp add: elements_Join2 split_on_plain clean_step_def)

section \<open>Containment\<close>

text \<open>\<open>targ\<close> names something strictly below \<open>base\<close>, element by element.\<close>

definition inside :: "string \<Rightarrow> string \<Rightarrow> bool" where
  "inside base targ \<longleftrightarrow> IsAbs base = IsAbs targ \<and>
     take (length (elements base)) (elements targ) = elements base \<and>
     drop (length (elements base)) (elements targ) \<noteq> [] \<and>
     ''..'' \<notin> set (drop (length (elements base)) (elements targ))"

text \<open>The test the sources put on the result of \<open>Rel\<close> to reject a path.\<close>

definition escapes :: "string option \<Rightarrow> bool" where
  "escapes rel = (case rel of None \<Rightarrow> True | Some r \<Rightarrow> r = ''.'' \<or> r = ''..'' \<or> has_prefix r ''../'')"

lemma strip_common_spec:
  assumes "strip_common b t = (bs, ts)"
  shows "\<exists>c. b = c @ bs \<and> t = c @ ts \<and> (bs = [] \<or> ts = [] \<or> hd bs \<noteq> hd ts)"
  using assms
proof (induction b t rule: strip_common.induct)
  case (1 b bs' t ts')
  then show ?case
  proof (cases "b = t")
    case True
    with 1 obtain c where "bs' = c @ bs \<and> ts' = c @ ts \<and> (bs = [] \<or> ts = [] \<or> hd bs \<noteq> hd ts)" by auto
    with True show ?thesis by (intro exI[of _ "t # c"]) simp
  qed auto
qed auto

lemma strip_common_prefix: "strip_common b (b @ ts) = ([], ts)"
  by (induction b) auto

lemma has_prefix_split: "has_prefix s p \<Longrightarrow> \<exists>r. s = p @ r"
  unfolding has_prefix_def by (metis append_take_drop_id)

lemma takeWhile_plain: "CHR ''/'' \<notin> set x \<Longrightarrow> takeWhile (\<lambda>c. c \<noteq> CHR ''/'') (x @ CHR ''/'' # r) = x"
  by (induction x) auto

lemma join_text_takeWhile:
  "ts \<noteq> [] \<Longrightarrow> CHR ''/'' \<notin> set (hd ts) \<Longrightarrow> takeWhile (\<lambda>c. c \<noteq> CHR ''/'') (join_text ''/'' ts) = hd ts"
  by (cases "(''/'', ts)" rule: join_text.cases) (auto simp: takeWhile_eq_all_conv takeWhile_plain)

lemma join_text_hd: "ts \<noteq> [] \<Longrightarrow> join_text ''/'' ts = hd ts \<or> (\<exists>r. join_text ''/'' ts = hd ts @ ''/'' @ r)"
  by (cases "(''/'', ts)" rule: join_text.cases) auto

lemma climbs_iff:
  assumes "ts \<noteq> []" and "CHR ''/'' \<notin> set (hd ts)"
  shows "(join_text ''/'' ts = ''..'' \<or> has_prefix (join_text ''/'' ts) ''../'') \<longleftrightarrow> hd ts = ''..''"
proof
  assume j: "join_text ''/'' ts = ''..'' \<or> has_prefix (join_text ''/'' ts) ''../''"
  have "takeWhile (\<lambda>c. c \<noteq> CHR ''/'') (join_text ''/'' ts) = ''..''"
  proof (cases "join_text ''/'' ts = ''..''")
    case False
    then obtain r where "join_text ''/'' ts = ''../'' @ r" using j has_prefix_split by metis
    then show ?thesis by simp
  qed simp
  then show "hd ts = ''..''" using join_text_takeWhile[OF assms] by simp
next
  assume "hd ts = ''..''"
  then show "join_text ''/'' ts = ''..'' \<or> has_prefix (join_text ''/'' ts) ''../''"
    using join_text_hd[OF assms(1)] by (auto simp: has_prefix_def)
qed

lemma normal_tail_dots:
  assumes n: "normal rooted (b @ ts)" and "ts \<noteq> []"
  shows "''..'' \<in> set ts \<longleftrightarrow> hd ts = ''..''"
proof
  obtain n rest where o: "b @ ts = replicate n ''..'' @ rest" "''..'' \<notin> set rest"
    using n unfolding normal_def by metis
  assume d: "''..'' \<in> set ts"
  have "ts = drop (length b) (replicate n ''..'' @ rest)" using o(1) by (metis append_eq_conv_conj)
  then have ts: "ts = replicate (n - length b) ''..'' @ drop (length b - n) rest" by simp
  moreover have "''..'' \<notin> set (drop (length b - n) rest)" using o(2) by (metis in_set_dropD)
  ultimately have "n - length b \<noteq> 0" using d by (metis append_Nil replicate_0)
  then show "hd ts = ''..''" using ts by (cases "n - length b") auto
qed (use assms(2) in \<open>metis hd_in_set\<close>)


lemma elements_list_all: "list_all element (elements p)"
  using elements_normal[of p] by (simp add: normal_def)

lemma targ_elements_plain:
  assumes "Clean base \<noteq> Clean targ" and "IsAbs base = IsAbs targ" and "targ_elements targ = elements base @ ts"
  shows "targ_elements targ = elements targ \<and> ts \<noteq> []"
proof -
  have "Clean targ \<noteq> ''.''"
  proof
    assume t: "Clean targ = ''.''"
    then have "elements base @ ts = [''.'']" using assms(3) by (simp add: targ_elements_def)
    moreover have "elements base \<noteq> [''.'']" using elements_list_all[of base] by (auto simp: element_def)
    ultimately have "elements base = []" by (cases "elements base") auto
    then show False using assms(1,2) t by (simp add: Clean_dot_iff)
  qed
  then have "targ_elements targ = elements targ" by (simp add: targ_elements_def)
  then show ?thesis using assms by (auto simp: Clean_eq_iff)
qed

lemma escapes_up: "bs \<noteq> [] \<Longrightarrow> escapes (Some (join_text ''/'' (replicate (length bs) ''..'' @ ts)))"
  using climbs_iff[of "replicate (length bs) ''..'' @ ts"] by (cases bs) (auto simp: escapes_def)

lemma escapes_down:
  assumes "normal rooted (b @ ts)" and "ts \<noteq> []"
  shows "escapes (Some (join_text ''/'' ts)) \<longleftrightarrow> ''..'' \<in> set ts"
proof -
  have el: "element (hd ts)" using assms by (cases ts) (auto simp: normal_def)
  then have "join_text ''/'' ts \<noteq> ''.''"
    using join_text_takeWhile[OF assms(2)] by (auto simp: element_def)
  then show ?thesis
    using climbs_iff[OF assms(2)] normal_tail_dots[OF assms] el by (simp add: escapes_def element_def)
qed

text \<open>The test on \<open>Rel\<close> accepts exactly the paths below the base.\<close>

lemma escapes_Rel: "escapes (Rel base targ) \<longleftrightarrow> \<not> inside base targ"
proof (cases "Clean base = Clean targ \<or> IsAbs base \<noteq> IsAbs targ")
  case True
  then show ?thesis by (auto simp: Rel_def escapes_def inside_def Clean_eq_iff)
next
  case False
  then have ne: "Clean base \<noteq> Clean targ" and ab: "IsAbs base = IsAbs targ" by auto
  obtain bs ts where st: "strip_common (elements base) (targ_elements targ) = (bs, ts)" by fastforce
  show ?thesis
  proof (cases "bs = []")
    case True
    then have t: "targ_elements targ = elements base @ ts" using strip_common_spec[OF st] by auto
    then have e: "elements targ = elements base @ ts" and ts: "ts \<noteq> []"
      using targ_elements_plain[OF ne ab t] by auto
    have "Rel base targ = Some (join_text ''/'' ts)" using ne ab st True by (simp add: Rel_def)
    then show ?thesis
      using escapes_down[of "IsAbs targ" "elements base" ts] elements_normal[of targ] e ts ab
      by (simp add: inside_def)
  next
    case bs: False
    have "escapes (Rel base targ)"
      using ne ab st escapes_up[OF bs, of ts] by (auto simp: Rel_def escapes_def[of None])
    moreover have "\<not> inside base targ"
    proof
      assume i: "inside base targ"
      then obtain r where r: "elements targ = elements base @ r" "r \<noteq> []"
        unfolding inside_def by (metis append_take_drop_id)
      then have "targ_elements targ = elements base @ r" by (simp add: targ_elements_def Clean_dot_iff)
      then show False using st bs by (simp add: strip_common_prefix)
    qed
    ultimately show ?thesis by simp
  qed
qed

end
