(* ===== verification/Workspace.thy ===== *)
theory Workspace
  imports GoPath GoHash WfConfig
begin

text \<open>
  The per-issue workspaces of the orchestrator (\<open>services/orchestrator/workspace\<close>): the directory of an
  identifier, the check on the working directory of an agent, and the lifecycle hooks. The file system
  and the shell are a state \<open>'w\<close> behind the operations of \<open>Os\<close>.
\<close>

section \<open>State and errors\<close>

datatype ws_error =
    ErrPathEscapesRoot string
  | ErrNotDirectory string
  | ErrCWDMismatch string
  | ErrHookFailed string string
  | ErrSymlinkEscapesRoot string
  | AfterCreateHook ws_error
  | OsError string

record Manager =
  m_root :: string
  m_hooks :: HooksConfig

text \<open>What \<open>os.Stat\<close> tells of a path.\<close>

datatype stat_result = StatDir | StatFile | StatNotExist | StatError string

text \<open>One shell command: the script, its directory, the variables added to the environment, its time limit.\<close>

record hook_call =
  hk_script :: string
  hk_Dir :: string
  hk_extraEnv :: "string list"
  hk_timeout :: duration

text \<open>Its combined output, its error, and whether the deadline of its context passed.\<close>

record hook_result =
  hr_out :: string
  hr_err :: "string option"
  hr_deadline :: bool

record 'w Os =
  os_Stat :: "'w \<Rightarrow> string \<Rightarrow> stat_result"
  os_MkdirAll :: "'w \<Rightarrow> string \<Rightarrow> 'w \<times> string option"
  os_RemoveAll :: "'w \<Rightarrow> string \<Rightarrow> 'w \<times> string option"
  os_Run :: "'w \<Rightarrow> hook_call \<Rightarrow> 'w \<times> hook_result"
  os_Abs :: "'w \<Rightarrow> string \<Rightarrow> string + string"
  os_EvalSymlinks :: "'w \<Rightarrow> string \<Rightarrow> string + string"

datatype log_entry =
    HookStart string string
  | HookTimeout string int string
  | HookFailed string string string
  | HookOutput string string
  | AfterRunPathError string ws_error

record 'w Ws =
  ws_world :: 'w
  ws_log :: "log_entry list"

section \<open>Paths\<close>

definition New :: "Config \<Rightarrow> Manager" where
  "New cfg = \<lparr>m_root = Clean (wc_Root (cfg_Workspace cfg)), m_hooks = cfg_Hooks cfg\<rparr>"

definition Root :: "Manager \<Rightarrow> string" where
  "Root m = m_root m"

definition key_rune :: "nat \<Rightarrow> nat" where
  "key_rune r =
     (if (65 \<le> r \<and> r \<le> 90) \<or> (97 \<le> r \<and> r \<le> 122) \<or> (48 \<le> r \<and> r \<le> 57) then r
      else if r = 46 \<or> r = 95 \<or> r = 45 then r
      else 95)"

definition sanitizeKey :: "string \<Rightarrow> string" where
  "sanitizeKey s = from_runes (map key_rune (to_runes s))"

definition Path :: "Manager \<Rightarrow> string \<Rightarrow> ws_error + string" where
  "Path m identifier =
     (let key = sanitizeKey identifier;
          p = Clean (Join2 (m_root m) key);
          rel = Rel (m_root m) p
      in if escapes rel then Inl (ErrPathEscapesRoot identifier) else Inr p)"

definition VerifyCWD :: "'w Os \<Rightarrow> 'w \<Rightarrow> Manager \<Rightarrow> string \<Rightarrow> string \<Rightarrow> ws_error option" where
  "VerifyCWD os w m identifier cwd =
     (case Path m identifier of
        Inl e \<Rightarrow> Some e
      | Inr expected \<Rightarrow>
          (case os_Abs os w cwd of
             Inl e \<Rightarrow> Some (ErrCWDMismatch e)
           | Inr absolute \<Rightarrow>
               if Clean absolute \<noteq> expected then Some (ErrCWDMismatch absolute)
               else
                 (case os_EvalSymlinks os w absolute of
                    Inl e \<Rightarrow> Some (ErrCWDMismatch e)
                  | Inr realCWD \<Rightarrow>
                      (case os_EvalSymlinks os w (m_root m) of
                         Inl e \<Rightarrow> Some (ErrCWDMismatch e)
                       | Inr realRoot \<Rightarrow>
                           if escapes (Rel realRoot realCWD) then Some (ErrSymlinkEscapesRoot cwd)
                           else None))))"

section \<open>Hooks\<close>

definition projectBranchEnvVar :: string where
  "projectBranchEnvVar = ''AG_PROJECT_BRANCH''"

definition branchEnv :: "string \<Rightarrow> string list" where
  "branchEnv branch = [projectBranchEnvVar @ ''='' @ branch]"

definition hookOutputMaxBytes :: nat where
  "hookOutputMaxBytes = 2048"

definition truncateOutput :: "string \<Rightarrow> nat \<Rightarrow> string" where
  "truncateOutput b maxb = (if maxb < length b then take maxb b else b)"

text \<open>The time limit is a signed 64-bit product of nanoseconds.\<close>

definition hookTimeout :: "Manager \<Rightarrow> duration" where
  "hookTimeout m = wrap64 (hc_TimeoutMS (m_hooks m) * millisecond)"

definition runHook ::
  "'w Os \<Rightarrow> Manager \<Rightarrow> 'w Ws \<Rightarrow> string \<Rightarrow> string \<Rightarrow> string \<Rightarrow> string list \<Rightarrow> 'w Ws \<times> ws_error option" where
  "runHook os m st name script cwd extraEnv =
     (if script = '''' then (st, None)
      else
        (let (w, r) = os_Run os (ws_world st)
               \<lparr>hk_script = script, hk_Dir = cwd, hk_extraEnv = extraEnv, hk_timeout = hookTimeout m\<rparr>;
             out = truncateOutput (hr_out r) hookOutputMaxBytes;
             logged = (\<lambda>e. \<lparr>ws_world = w, ws_log = ws_log st @ [HookStart name cwd, e]\<rparr>)
         in case hr_err r of
              Some err \<Rightarrow>
                if hr_deadline r then
                  (logged (HookTimeout name (hc_TimeoutMS (m_hooks m)) out),
                   Some (ErrHookFailed name (''timeout after '' @ int_text (hc_TimeoutMS (m_hooks m)) @ ''ms'')))
                else (logged (HookFailed name err out), Some (ErrHookFailed name err))
            | None \<Rightarrow> (logged (HookOutput name out), None)))"

definition BeforeRun :: "'w Os \<Rightarrow> Manager \<Rightarrow> 'w Ws \<Rightarrow> string \<Rightarrow> string \<Rightarrow> 'w Ws \<times> ws_error option" where
  "BeforeRun os m st identifier branch =
     (case Path m identifier of
        Inl e \<Rightarrow> (st, Some e)
      | Inr p \<Rightarrow> runHook os m st ''before_run'' (hc_BeforeRun (m_hooks m)) p (branchEnv branch))"

definition AfterRun :: "'w Os \<Rightarrow> Manager \<Rightarrow> 'w Ws \<Rightarrow> string \<Rightarrow> string \<Rightarrow> 'w Ws" where
  "AfterRun os m st identifier branch =
     (case Path m identifier of
        Inl e \<Rightarrow> st\<lparr>ws_log := ws_log st @ [AfterRunPathError identifier e]\<rparr>
      | Inr p \<Rightarrow> fst (runHook os m st ''after_run'' (hc_AfterRun (m_hooks m)) p (branchEnv branch)))"

section \<open>Creation and removal\<close>

definition ensureDir :: "'w Os \<Rightarrow> 'w \<Rightarrow> string \<Rightarrow> 'w \<times> (ws_error + bool)" where
  "ensureDir os w p =
     (case os_Stat os w p of
        StatDir \<Rightarrow> (w, Inr False)
      | StatFile \<Rightarrow> (w, Inl (ErrNotDirectory p))
      | StatError e \<Rightarrow> (w, Inl (OsError e))
      | StatNotExist \<Rightarrow>
          (case os_MkdirAll os w p of
             (w', Some e) \<Rightarrow> (w', Inl (OsError e))
           | (w', None) \<Rightarrow> (w', Inr True)))"

definition Ensure :: "'w Os \<Rightarrow> Manager \<Rightarrow> 'w Ws \<Rightarrow> string \<Rightarrow> string \<Rightarrow> 'w Ws \<times> (ws_error + string)" where
  "Ensure os m st identifier branch =
     (case Path m identifier of
        Inl e \<Rightarrow> (st, Inl e)
      | Inr p \<Rightarrow>
          (case ensureDir os (ws_world st) p of
             (w, Inl e) \<Rightarrow> (st\<lparr>ws_world := w\<rparr>, Inl e)
           | (w, Inr createdNow) \<Rightarrow>
               if createdNow then
                 (case runHook os m (st\<lparr>ws_world := w\<rparr>) ''after_create'' (hc_AfterCreate (m_hooks m)) p (branchEnv branch) of
                    (st', Some hookErr) \<Rightarrow>
                      (st'\<lparr>ws_world := fst (os_RemoveAll os (ws_world st') p)\<rparr>, Inl (AfterCreateHook hookErr))
                  | (st', None) \<Rightarrow> (st', Inr p))
               else (st\<lparr>ws_world := w\<rparr>, Inr p)))"

definition Remove :: "'w Os \<Rightarrow> Manager \<Rightarrow> 'w Ws \<Rightarrow> string \<Rightarrow> 'w Ws \<times> ws_error option" where
  "Remove os m st identifier =
     (case Path m identifier of
        Inl e \<Rightarrow> (st, Some e)
      | Inr p \<Rightarrow>
          (let st' = fst (runHook os m st ''before_remove'' (hc_BeforeRemove (m_hooks m)) p []);
               (w, err) = os_RemoveAll os (ws_world st') p
           in (st'\<lparr>ws_world := w\<rparr>, map_option OsError err)))"

end
