(* ===== verification/WfResolve.thy ===== *)
theory WfResolve
  imports GoPath WfConfig
begin

text \<open>
  How the orchestrator turns the front matter of a workflow file into its configuration
  (\<open>services/orchestrator/wfconfig\<close>: \<open>coerce.go\<close>, \<open>resolve.go\<close>, \<open>defaults.go\<close>, \<open>expand.go\<close> and
  \<open>validate.go\<close>, with \<open>services/platform/config/path.go\<close>). The process environment is a function
  \<open>getenv\<close>; \<open>int\<close> is the 64-bit integer, and \<open>strings.ToLower\<close> acts on ASCII letters.
\<close>

section \<open>Decoded values\<close>

text \<open>A finite \<open>float64\<close> is a mantissa times a power of two.\<close>

datatype float64 = Finite int int | Infinite bool | NotANumber

text \<open>
  The dynamic types the decoder of the front matter produces; \<open>YOther\<close> names any other one (a boolean, an
  unsigned integer, a time, a map with keys that are not strings).
\<close>

datatype yaml =
    YNil
  | YInt int
  | YInt64 int
  | YFloat float64
  | YStr string
  | YSeq "yaml list"
  | YMap "(string \<times> yaml) list"
  | YOther string

type_synonym front_matter = "(string, yaml) gomap"

datatype config_error =
    ErrConfigCoerce string
  | ErrConfigValidation string int
  | InField string config_error

section \<open>Integers\<close>

definition min_int :: int where "min_int = - (2 ^ 63)"

definition max_int :: int where "max_int = 2 ^ 63 - 1"

text \<open>
  \<open>int(t)\<close> drops the fraction; a value that does not fit becomes the smallest integer, as on amd64.
\<close>

definition truncate_float :: "int \<Rightarrow> int \<Rightarrow> int" where
  "truncate_float m e = (if 0 \<le> e then m * 2 ^ nat e else sgn m * (\<bar>m\<bar> div 2 ^ nat (- e)))"

fun int_of_float :: "float64 \<Rightarrow> int" where
  "int_of_float (Finite m e) =
     (let t = truncate_float m e in if min_int \<le> t \<and> t \<le> max_int then t else min_int)"
| "int_of_float (Infinite _) = min_int"
| "int_of_float NotANumber = min_int"

text \<open>\<open>t == float64(n)\<close>, for an \<open>n\<close> that came out of \<open>int(t)\<close>.\<close>

fun float_equals :: "float64 \<Rightarrow> int \<Rightarrow> bool" where
  "float_equals (Finite m e) n = (if 0 \<le> e then m * 2 ^ nat e = n else m = n * 2 ^ nat (- e))"
| "float_equals (Infinite _) n = False"
| "float_equals NotANumber n = False"

definition digit_value :: "char \<Rightarrow> int option" where
  "digit_value c =
     (let n = of_char c :: nat in if 48 \<le> n \<and> n \<le> 57 then Some (int n - 48) else None)"

fun digits_value :: "int \<Rightarrow> string \<Rightarrow> int option" where
  "digits_value acc [] = Some acc"
| "digits_value acc (c # cs) =
     (case digit_value c of None \<Rightarrow> None | Some d \<Rightarrow> digits_value (10 * acc + d) cs)"

text \<open>\<open>strconv.Atoi\<close>.\<close>

definition Atoi :: "string \<Rightarrow> int option" where
  "Atoi s =
     (let neg = has_prefix s ''-'';
          body = (if has_prefix s ''-'' \<or> has_prefix s ''+'' then tl s else s)
      in if body = '''' then None
         else
           (case digits_value 0 body of
              None \<Rightarrow> None
            | Some n \<Rightarrow>
                (let v = (if neg then - n else n)
                 in if min_int \<le> v \<and> v \<le> max_int then Some v else None)))"

section \<open>Coercions\<close>

fun coerceInt :: "yaml \<Rightarrow> config_error + int" where
  "coerceInt (YInt t) = Inr t"
| "coerceInt (YInt64 t) = Inr t"
| "coerceInt (YFloat t) =
     (if \<not> float_equals t (int_of_float t) then Inl (ErrConfigCoerce ''float is not a whole number'')
      else Inr (int_of_float t))"
| "coerceInt (YStr t) =
     (case Atoi t of
        None \<Rightarrow> Inl (ErrConfigCoerce (''cannot parse '' @ t))
      | Some n \<Rightarrow> Inr n)"
| "coerceInt _ = Inl (ErrConfigCoerce ''unexpected type for int field'')"

fun coerceString :: "yaml \<Rightarrow> config_error + string" where
  "coerceString (YStr s) = Inr s"
| "coerceString _ = Inl (ErrConfigCoerce ''expected string'')"

fun string_elements :: "nat \<Rightarrow> yaml list \<Rightarrow> config_error + string list" where
  "string_elements i [] = Inr []"
| "string_elements i (YStr s # rest) =
     (case string_elements (Suc i) rest of Inl e \<Rightarrow> Inl e | Inr out \<Rightarrow> Inr (s # out))"
| "string_elements i (_ # rest) = Inl (ErrConfigCoerce (''list element '' @ nat_text i @ '' is not string''))"

fun coerceStringSlice :: "yaml \<Rightarrow> config_error + string list" where
  "coerceStringSlice (YSeq raw) = string_elements 0 raw"
| "coerceStringSlice _ = Inl (ErrConfigCoerce ''expected list'')"

text \<open>One entry of the per-state map; the loop visits the entries in the order of the argument.\<close>

definition per_state_entry :: "(string, int) gomap \<Rightarrow> string \<times> yaml \<Rightarrow> (string, int) gomap" where
  "per_state_entry out kv =
     (case coerceInt (snd kv) of
        Inl _ \<Rightarrow> out
      | Inr n \<Rightarrow> if n \<le> 0 then out else AList.update (to_lower (fst kv)) n out)"

fun coercePerStateMap :: "yaml \<Rightarrow> config_error + (string, int) gomap" where
  "coercePerStateMap (YMap raw) = Inr (foldl per_state_entry [] raw)"
| "coercePerStateMap _ = Inl (ErrConfigCoerce ''expected map'')"

section \<open>Sections\<close>

text \<open>
  Every section is decoded the same way: absent it is skipped, a value that is not a map is an error, and
  its fields are read in order up to the first that fails.
\<close>

type_synonym decoder = "Config \<Rightarrow> config_error + Config"

fun run_fields :: "decoder list \<Rightarrow> decoder" where
  "run_fields [] c = Inr c"
| "run_fields (f # fs) c = (case f c of Inl e \<Rightarrow> Inl e | Inr c' \<Rightarrow> run_fields fs c')"

definition field ::
  "(yaml \<Rightarrow> config_error + 'a) \<Rightarrow> ('a \<Rightarrow> Config \<Rightarrow> Config) \<Rightarrow> string \<Rightarrow> front_matter \<Rightarrow> string \<Rightarrow> decoder" where
  "field coerce upd sec m key c =
     (case map_of m key of
        None \<Rightarrow> Inr c
      | Some v \<Rightarrow>
          (case coerce v of
             Inl e \<Rightarrow> Inl (InField (sec @ ''.'' @ key) e)
           | Inr x \<Rightarrow> Inr (upd x c)))"

definition decode_section :: "front_matter \<Rightarrow> string \<Rightarrow> (front_matter \<Rightarrow> decoder list) \<Rightarrow> decoder" where
  "decode_section raw name decs c =
     (case map_of raw name of
        None \<Rightarrow> Inr c
      | Some (YMap m) \<Rightarrow> run_fields (decs m) c
      | Some _ \<Rightarrow> Inl (ErrConfigCoerce (name @ '' must be a map'')))"

abbreviation upd_Tracker where "upd_Tracker f c \<equiv> c\<lparr>cfg_Tracker := f (cfg_Tracker c)\<rparr>"
abbreviation upd_Hooks where "upd_Hooks f c \<equiv> c\<lparr>cfg_Hooks := f (cfg_Hooks c)\<rparr>"
abbreviation upd_Agent where "upd_Agent f c \<equiv> c\<lparr>cfg_Agent := f (cfg_Agent c)\<rparr>"
abbreviation upd_Codex where "upd_Codex f c \<equiv> c\<lparr>cfg_Codex := f (cfg_Codex c)\<rparr>"
abbreviation upd_Server where "upd_Server f c \<equiv> c\<lparr>cfg_Server := f (cfg_Server c)\<rparr>"

definition decodeTracker :: "front_matter \<Rightarrow> decoder" where
  "decodeTracker raw = decode_section raw ''tracker'' (\<lambda>m.
     [field coerceString (\<lambda>x. upd_Tracker (tc_Kind_update (\<lambda>_. x))) ''tracker'' m ''kind'',
      field coerceString (\<lambda>x. upd_Tracker (tc_Endpoint_update (\<lambda>_. x))) ''tracker'' m ''endpoint'',
      field coerceString (\<lambda>x. upd_Tracker (tc_APIKey_update (\<lambda>_. x))) ''tracker'' m ''api_key'',
      field coerceStringSlice (\<lambda>x. upd_Tracker (tc_ProjectSlugs_update (\<lambda>_. x))) ''tracker'' m ''project_slugs'',
      field coerceStringSlice (\<lambda>x. upd_Tracker (tc_ActiveStates_update (\<lambda>_. x))) ''tracker'' m ''active_states'',
      field coerceStringSlice (\<lambda>x. upd_Tracker (tc_TerminalStates_update (\<lambda>_. x))) ''tracker'' m ''terminal_states''])"

definition decodePolling :: "front_matter \<Rightarrow> decoder" where
  "decodePolling raw = decode_section raw ''polling'' (\<lambda>m.
     [field coerceInt (\<lambda>x c. c\<lparr>cfg_Polling := \<lparr>pc_IntervalMS = x\<rparr>\<rparr>) ''polling'' m ''interval_ms''])"

definition decodeWorkspace :: "front_matter \<Rightarrow> decoder" where
  "decodeWorkspace raw = decode_section raw ''workspace'' (\<lambda>m.
     [field coerceString (\<lambda>x c. c\<lparr>cfg_Workspace := \<lparr>wc_Root = x\<rparr>\<rparr>) ''workspace'' m ''root''])"

definition decodeHooks :: "front_matter \<Rightarrow> decoder" where
  "decodeHooks raw = decode_section raw ''hooks'' (\<lambda>m.
     [field coerceInt (\<lambda>x. upd_Hooks (hc_TimeoutMS_update (\<lambda>_. x))) ''hooks'' m ''timeout_ms'',
      field coerceString (\<lambda>x. upd_Hooks (hc_AfterCreate_update (\<lambda>_. x))) ''hooks'' m ''after_create'',
      field coerceString (\<lambda>x. upd_Hooks (hc_BeforeRun_update (\<lambda>_. x))) ''hooks'' m ''before_run'',
      field coerceString (\<lambda>x. upd_Hooks (hc_AfterRun_update (\<lambda>_. x))) ''hooks'' m ''after_run'',
      field coerceString (\<lambda>x. upd_Hooks (hc_BeforeRemove_update (\<lambda>_. x))) ''hooks'' m ''before_remove''])"

definition decodeAgent :: "front_matter \<Rightarrow> decoder" where
  "decodeAgent raw = decode_section raw ''agent'' (\<lambda>m.
     [field coerceInt (\<lambda>x. upd_Agent (ac_MaxConcurrentAgents_update (\<lambda>_. x))) ''agent'' m ''max_concurrent_agents'',
      field coercePerStateMap (\<lambda>x. upd_Agent (ac_MaxConcurrentAgentsByState_update (\<lambda>_. x))) ''agent'' m ''max_concurrent_agents_by_state'',
      field coerceInt (\<lambda>x. upd_Agent (ac_MaxTurns_update (\<lambda>_. x))) ''agent'' m ''max_turns'',
      field coerceInt (\<lambda>x. upd_Agent (ac_MaxRetryBackoffMS_update (\<lambda>_. x))) ''agent'' m ''max_retry_backoff_ms''])"

definition decodeCodex :: "front_matter \<Rightarrow> decoder" where
  "decodeCodex raw = decode_section raw ''codex'' (\<lambda>m.
     [field coerceString (\<lambda>x. upd_Codex (cc_Command_update (\<lambda>_. x))) ''codex'' m ''command'',
      field coerceInt (\<lambda>x. upd_Codex (cc_TurnTimeoutMS_update (\<lambda>_. x))) ''codex'' m ''turn_timeout_ms'',
      field coerceInt (\<lambda>x. upd_Codex (cc_ReadTimeoutMS_update (\<lambda>_. x))) ''codex'' m ''read_timeout_ms'',
      field coerceInt (\<lambda>x. upd_Codex (cc_StallTimeoutMS_update (\<lambda>_. x))) ''codex'' m ''stall_timeout_ms'',
      field coerceString (\<lambda>x. upd_Codex (cc_ApprovalPolicy_update (\<lambda>_. x))) ''codex'' m ''approval_policy'',
      field coerceString (\<lambda>x. upd_Codex (cc_ThreadSandbox_update (\<lambda>_. x))) ''codex'' m ''thread_sandbox'',
      field coerceString (\<lambda>x. upd_Codex (cc_TurnSandboxPolicy_update (\<lambda>_. x))) ''codex'' m ''turn_sandbox_policy''])"

definition decodeServer :: "front_matter \<Rightarrow> decoder" where
  "decodeServer raw = decode_section raw ''server'' (\<lambda>m.
     [field coerceInt (\<lambda>x. upd_Server (sc_Port_update (\<lambda>_. x))) ''server'' m ''port'',
      field coerceString (\<lambda>x. upd_Server (sc_Bind_update (\<lambda>_. x))) ''server'' m ''bind''])"


section \<open>Defaults\<close>

text \<open>\<open>m, _ := raw[name].(map[string]any)\<close>: a missing or mistyped section reads as the empty map.\<close>

definition submap :: "front_matter \<Rightarrow> string \<Rightarrow> front_matter" where
  "submap raw name = (case map_of raw name of Some (YMap m) \<Rightarrow> m | _ \<Rightarrow> [])"

text \<open>A default fills a field that is zero and whose key is absent.\<close>

definition default :: "front_matter \<Rightarrow> string \<Rightarrow> ('c \<Rightarrow> bool) \<Rightarrow> ('c \<Rightarrow> 'c) \<Rightarrow> 'c \<Rightarrow> 'c" where
  "default m key is_zero_field fill c = (if \<not> in_map key m \<and> is_zero_field c then fill c else c)"

definition applyTrackerDefaults :: "front_matter \<Rightarrow> TrackerConfig \<Rightarrow> TrackerConfig" where
  "applyTrackerDefaults m t =
     (let t = default m ''endpoint'' (\<lambda>t. tc_Kind t = ''linear'' \<and> tc_Endpoint t = '''')
                (\<lambda>t. t\<lparr>tc_Endpoint := ''https://api.linear.app/graphql''\<rparr>) t;
          t = default m ''active_states'' (\<lambda>t. tc_ActiveStates t = [])
                (\<lambda>t. t\<lparr>tc_ActiveStates := [''Todo'', ''In Progress'']\<rparr>) t
      in default m ''terminal_states'' (\<lambda>t. tc_TerminalStates t = [])
           (\<lambda>t. t\<lparr>tc_TerminalStates := [''Closed'', ''Cancelled'', ''Canceled'', ''Duplicate'', ''Done'']\<rparr>) t)"

definition applyAgentDefaults :: "front_matter \<Rightarrow> AgentConfig \<Rightarrow> AgentConfig" where
  "applyAgentDefaults m a =
     (let a = default m ''max_concurrent_agents'' (\<lambda>a. ac_MaxConcurrentAgents a = 0)
                (\<lambda>a. a\<lparr>ac_MaxConcurrentAgents := 10\<rparr>) a;
          a = default m ''max_turns'' (\<lambda>a. ac_MaxTurns a = 0) (\<lambda>a. a\<lparr>ac_MaxTurns := 20\<rparr>) a
      in default m ''max_retry_backoff_ms'' (\<lambda>a. ac_MaxRetryBackoffMS a = 0) (\<lambda>a. a\<lparr>ac_MaxRetryBackoffMS := 300000\<rparr>) a)"

definition applyCodexDefaults :: "front_matter \<Rightarrow> CodexConfig \<Rightarrow> CodexConfig" where
  "applyCodexDefaults m x =
     (let x = default m ''command'' (\<lambda>x. cc_Command x = '''') (\<lambda>x. x\<lparr>cc_Command := ''codex app-server''\<rparr>) x;
          x = default m ''turn_timeout_ms'' (\<lambda>x. cc_TurnTimeoutMS x = 0) (\<lambda>x. x\<lparr>cc_TurnTimeoutMS := 3600000\<rparr>) x;
          x = default m ''read_timeout_ms'' (\<lambda>x. cc_ReadTimeoutMS x = 0) (\<lambda>x. x\<lparr>cc_ReadTimeoutMS := 5000\<rparr>) x
      in default m ''stall_timeout_ms'' (\<lambda>x. cc_StallTimeoutMS x = 0) (\<lambda>x. x\<lparr>cc_StallTimeoutMS := 300000\<rparr>) x)"

definition applyServerDefaults :: "front_matter \<Rightarrow> ServerConfig \<Rightarrow> ServerConfig" where
  "applyServerDefaults m = default m ''bind'' (\<lambda>s. sc_Bind s = '''') (\<lambda>s. s\<lparr>sc_Bind := ''127.0.0.1''\<rparr>)"

text \<open>\<open>os.TempDir\<close> and \<open>os.UserHomeDir\<close> on Unix.\<close>

definition TempDir :: "(string \<Rightarrow> string) \<Rightarrow> string" where
  "TempDir getenv = (if getenv ''TMPDIR'' = '''' then ''/tmp'' else getenv ''TMPDIR'')"

definition UserHomeDir :: "(string \<Rightarrow> string) \<Rightarrow> string" where
  "UserHomeDir getenv = getenv ''HOME''"

definition applyDefaults :: "(string \<Rightarrow> string) \<Rightarrow> front_matter \<Rightarrow> Config \<Rightarrow> Config" where
  "applyDefaults getenv raw c = c\<lparr>
     cfg_Tracker := applyTrackerDefaults (submap raw ''tracker'') (cfg_Tracker c),
     cfg_Polling := default (submap raw ''polling'') ''interval_ms'' (\<lambda>p. pc_IntervalMS p = 0)
       (\<lambda>p. p\<lparr>pc_IntervalMS := 30000\<rparr>) (cfg_Polling c),
     cfg_Workspace := default (submap raw ''workspace'') ''root'' (\<lambda>w. wc_Root w = '''')
       (\<lambda>w. w\<lparr>wc_Root := Join2 (TempDir getenv) ''symphony_workspaces''\<rparr>) (cfg_Workspace c),
     cfg_Hooks := default (submap raw ''hooks'') ''timeout_ms'' (\<lambda>h. hc_TimeoutMS h = 0)
       (\<lambda>h. h\<lparr>hc_TimeoutMS := 60000\<rparr>) (cfg_Hooks c),
     cfg_Agent := applyAgentDefaults (submap raw ''agent'') (cfg_Agent c),
     cfg_Codex := applyCodexDefaults (submap raw ''codex'') (cfg_Codex c),
     cfg_Server := applyServerDefaults (submap raw ''server'') (cfg_Server c)\<rparr>"

section \<open>Expansion\<close>

definition upper_or_underscore :: "char \<Rightarrow> bool" where
  "upper_or_underscore c \<longleftrightarrow> (let n = of_char c :: nat in 65 \<le> n \<and> n \<le> 90 \<or> n = 95)"

definition ascii_digit :: "char \<Rightarrow> bool" where
  "ascii_digit c \<longleftrightarrow> (let n = of_char c :: nat in 48 \<le> n \<and> n \<le> 57)"

text \<open>The submatch of \<open>varPattern\<close>.\<close>

fun var_name :: "string \<Rightarrow> string option" where
  "var_name (d # c # rest) =
     (if d = CHR ''$'' \<and> upper_or_underscore c \<and> list_all (\<lambda>x. upper_or_underscore x \<or> ascii_digit x) rest
      then Some (c # rest) else None)"
| "var_name _ = None"

definition expandVar :: "(string \<Rightarrow> string) \<Rightarrow> string \<Rightarrow> string" where
  "expandVar getenv s = (case var_name s of None \<Rightarrow> s | Some n \<Rightarrow> getenv n)"

definition ExpandPath :: "(string \<Rightarrow> string) \<Rightarrow> string \<Rightarrow> string" where
  "ExpandPath getenv p = (if has_prefix p ''~'' then Join2 (UserHomeDir getenv) (tl p) else p)"

definition expandPath :: "(string \<Rightarrow> string) \<Rightarrow> string \<Rightarrow> string" where
  "expandPath getenv s = expandVar getenv (ExpandPath getenv s)"

definition expandAPIKey :: "(string \<Rightarrow> string) \<Rightarrow> string \<Rightarrow> string" where
  "expandAPIKey getenv s = expandVar getenv s"

definition expandFields :: "(string \<Rightarrow> string) \<Rightarrow> Config \<Rightarrow> Config" where
  "expandFields getenv c =
     (let t = cfg_Tracker c;
          key = expandAPIKey getenv (tc_APIKey t);
          key = (if tc_Kind t = ''linear'' \<and> key = '''' then getenv ''LINEAR_API_KEY'' else key)
      in c\<lparr>cfg_Tracker := t\<lparr>tc_APIKey := key\<rparr>,
           cfg_Workspace := \<lparr>wc_Root = expandPath getenv (wc_Root (cfg_Workspace c))\<rparr>\<rparr>)"

definition normalizeWorkspaceRoot :: "string \<Rightarrow> Config \<Rightarrow> Config" where
  "normalizeWorkspaceRoot workflowDir c =
     (let r = wc_Root (cfg_Workspace c)
      in if r = '''' then c
         else c\<lparr>cfg_Workspace := \<lparr>wc_Root = Clean (if IsAbs r then r else Join2 workflowDir r)\<rparr>\<rparr>)"

section \<open>Validation and resolution\<close>

definition validate :: "Config \<Rightarrow> config_error option" where
  "validate c =
     (if hc_TimeoutMS (cfg_Hooks c) \<le> 0 then Some (ErrConfigValidation ''hooks.timeout_ms'' (hc_TimeoutMS (cfg_Hooks c)))
      else if ac_MaxTurns (cfg_Agent c) \<le> 0 then Some (ErrConfigValidation ''agent.max_turns'' (ac_MaxTurns (cfg_Agent c)))
      else if pc_IntervalMS (cfg_Polling c) \<le> 0 then Some (ErrConfigValidation ''polling.interval_ms'' (pc_IntervalMS (cfg_Polling c)))
      else if cc_TurnTimeoutMS (cfg_Codex c) \<le> 0 then Some (ErrConfigValidation ''codex.turn_timeout_ms'' (cc_TurnTimeoutMS (cfg_Codex c)))
      else if cc_ReadTimeoutMS (cfg_Codex c) \<le> 0 then Some (ErrConfigValidation ''codex.read_timeout_ms'' (cc_ReadTimeoutMS (cfg_Codex c)))
      else None)"

text \<open>\<open>Resolve\<close> returns the filled configuration beside a validation error; its callers drop it then, and so does the model.\<close>

definition Resolve :: "(string \<Rightarrow> string) \<Rightarrow> front_matter \<Rightarrow> string \<Rightarrow> config_error + Config" where
  "Resolve getenv raw workflowDir =
     (case run_fields [decodeTracker raw, decodePolling raw, decodeWorkspace raw, decodeHooks raw, decodeAgent raw,
             decodeCodex raw, decodeServer raw] zero_config of
        Inl e \<Rightarrow> Inl e
      | Inr c \<Rightarrow>
          (let c = applyDefaults getenv raw c;
               c = expandFields getenv c;
               c = normalizeWorkspaceRoot workflowDir c
           in case validate c of Some e \<Rightarrow> Inl e | None \<Rightarrow> Inr c))"

end
