(* ===== verification/WorkflowFile.thy ===== *)
theory WorkflowFile
  imports WfResolve
begin

text \<open>
  The loader of \<open>WORKFLOW.md\<close> files (\<open>services/orchestrator/workflowfile/loader.go\<close>): the front matter
  between two \<open>---\<close> lines and the prompt below it. Reading a file and decoding YAML are parameters.
\<close>

datatype workflow_error =
    ErrMissingWorkflowFile string
  | ErrWorkflowParse string
  | ErrFrontMatterNotMap

record Workflow =
  wf_Config :: front_matter
  wf_PromptTemplate :: string

text \<open>\<open>strings.ReplaceAll(s, "\r\n", "\n")\<close>.\<close>

fun replace_crlf :: "string \<Rightarrow> string" where
  "replace_crlf (a # b # cs) =
     (if a = CHR 0x0D \<and> b = CHR 0x0A then CHR 0x0A # replace_crlf cs else a # replace_crlf (b # cs))"
| "replace_crlf s = s"

abbreviation newline :: char where "newline \<equiv> CHR 0x0A"

text \<open>The loop of \<open>splitFrontMatter\<close>, with the lines seen so far.\<close>

fun split_at_fence :: "string list \<Rightarrow> string list \<Rightarrow> (string list \<times> string list) option" where
  "split_at_fence seen [] = None"
| "split_at_fence seen (l # ls) = (if l = ''---'' then Some (seen, ls) else split_at_fence (seen @ [l]) ls)"

definition splitFrontMatter :: "string list \<Rightarrow> workflow_error + string \<times> string" where
  "splitFrontMatter lines =
     (case split_at_fence [] (tl lines) of
        None \<Rightarrow> Inl (ErrWorkflowParse ''missing closing fence'')
      | Some (fm, body) \<Rightarrow> Inr (join_text [newline] fm, join_text [newline] body))"

definition buildWorkflow :: "(string \<Rightarrow> string + yaml) \<Rightarrow> string \<Rightarrow> string \<Rightarrow> workflow_error + Workflow" where
  "buildWorkflow unmarshal fm body =
     (case unmarshal fm of
        Inl e \<Rightarrow> Inl (ErrWorkflowParse e)
      | Inr YNil \<Rightarrow> Inr \<lparr>wf_Config = [], wf_PromptTemplate = trim_space body\<rparr>
      | Inr (YMap cfg) \<Rightarrow> Inr \<lparr>wf_Config = cfg, wf_PromptTemplate = trim_space body\<rparr>
      | Inr _ \<Rightarrow> Inl ErrFrontMatterNotMap)"

definition Parse :: "(string \<Rightarrow> string + yaml) \<Rightarrow> string \<Rightarrow> workflow_error + Workflow" where
  "Parse unmarshal data =
     (let txt = replace_crlf data;
          lines = split_on newline txt
      in if lines = [] \<or> hd lines \<noteq> ''---'' then Inr \<lparr>wf_Config = [], wf_PromptTemplate = trim_space txt\<rparr>
         else
           (case splitFrontMatter lines of
              Inl e \<Rightarrow> Inl e
            | Inr (fm, body) \<Rightarrow> buildWorkflow unmarshal fm body))"

definition Load :: "(string \<Rightarrow> string + string) \<Rightarrow> (string \<Rightarrow> string + yaml) \<Rightarrow> string \<Rightarrow> workflow_error + Workflow" where
  "Load readFile unmarshal path =
     (case readFile path of
        Inl e \<Rightarrow> Inl (ErrMissingWorkflowFile path)
      | Inr data \<Rightarrow> Parse unmarshal data)"

section \<open>What a file means\<close>

text \<open>A text as an editor on Windows writes it.\<close>

fun to_crlf :: "string \<Rightarrow> string" where
  "to_crlf [] = []"
| "to_crlf (c # cs) = (if c = newline then CHR 0x0D # newline # to_crlf cs else c # to_crlf cs)"

lemma replace_crlf_id: "CHR 0x0D \<notin> set s \<Longrightarrow> replace_crlf s = s"
  by (induction s rule: replace_crlf.induct) auto

lemma replace_crlf_Cons: "c \<noteq> CHR 0x0D \<Longrightarrow> replace_crlf (c # s) = c # replace_crlf s"
  by (cases s) auto

lemma replace_to_crlf: "CHR 0x0D \<notin> set s \<Longrightarrow> replace_crlf (to_crlf s) = s"
  by (induction s) (auto simp: replace_crlf_Cons)

lemma split_at_fence_prefix:
  "''---'' \<notin> set fm \<Longrightarrow> split_at_fence seen (fm @ ''---'' # body) = Some (seen @ fm, body)"
  by (induction fm arbitrary: seen) auto

lemma split_at_fence_None: "''---'' \<notin> set ls \<Longrightarrow> split_at_fence seen ls = None"
  by (induction ls arbitrary: seen) auto

definition fence :: string where "fence = ''---''"

lemma fence_lines: "split_on newline fence = [''---'']"
  by code_simp

lemma Parse_no_cr:
  assumes "CHR 0x0D \<notin> set t"
  shows "Parse unmarshal (to_crlf t) = Parse unmarshal t"
  using assms by (simp add: Parse_def replace_to_crlf replace_crlf_id)

lemma fenced_lines:
  "split_on newline (fence @ newline # fm @ newline # fence @ newline # body) =
     ''---'' # split_on newline fm @ ''---'' # split_on newline body"
  by (simp add: split_on_append fence_lines)

lemma Parse_fenced:
  assumes "CHR 0x0D \<notin> set (fm @ body)" and "''---'' \<notin> set (split_on newline fm)"
  shows "Parse unmarshal (fence @ newline # fm @ newline # fence @ newline # body) = buildWorkflow unmarshal fm body"
proof -
  have "CHR 0x0D \<notin> set (fence @ newline # fm @ newline # fence @ newline # body)"
    using assms(1) by (simp add: fence_def)
  then show ?thesis
    using split_at_fence_prefix[OF assms(2), of "[]" "split_on newline body"]
    by (simp add: Parse_def replace_crlf_id fenced_lines splitFrontMatter_def join_split_text)
qed

text \<open>C33: A workflow file means what its layout says. A front matter and a body without carriage returns,
  written between fences, are read back as they were: the front matter goes to the YAML decoder byte for byte, an empty one is an empty
  map and anything but a map is refused, and the body is the prompt without its surrounding white space. A
  text that does not start with a fence is all prompt, a missing closing fence is an error, and Windows
  line ends make no difference.\<close>

theorem workflow_file_read:
  assumes "CHR 0x0D \<notin> set (fm @ body)" and "''---'' \<notin> set (split_on newline fm)"
  shows "Parse unmarshal (fence @ newline # fm @ newline # fence @ newline # body) =
       (case unmarshal fm of
          Inl e \<Rightarrow> Inl (ErrWorkflowParse e)
        | Inr YNil \<Rightarrow> Inr \<lparr>wf_Config = [], wf_PromptTemplate = trim_space body\<rparr>
        | Inr (YMap cfg) \<Rightarrow> Inr \<lparr>wf_Config = cfg, wf_PromptTemplate = trim_space body\<rparr>
        | Inr _ \<Rightarrow> Inl ErrFrontMatterNotMap) \<and>
     Parse unmarshal (to_crlf (fence @ newline # fm @ newline # fence @ newline # body)) =
       Parse unmarshal (fence @ newline # fm @ newline # fence @ newline # body) \<and>
     Parse unmarshal (fence @ newline # fm) = Inl (ErrWorkflowParse ''missing closing fence'') \<and>
     (hd (split_on newline body) \<noteq> ''---'' \<longrightarrow>
        Parse unmarshal body = Inr \<lparr>wf_Config = [], wf_PromptTemplate = trim_space body\<rparr>)"
proof (intro conjI impI)
  have cr: "CHR 0x0D \<notin> set (fence @ newline # fm @ newline # fence @ newline # body)" "CHR 0x0D \<notin> set (fence @ newline # fm)"
    using assms(1) by (simp_all add: fence_def)
  show "Parse unmarshal (fence @ newline # fm @ newline # fence @ newline # body) =
      (case unmarshal fm of
          Inl e \<Rightarrow> Inl (ErrWorkflowParse e)
        | Inr YNil \<Rightarrow> Inr \<lparr>wf_Config = [], wf_PromptTemplate = trim_space body\<rparr>
        | Inr (YMap cfg) \<Rightarrow> Inr \<lparr>wf_Config = cfg, wf_PromptTemplate = trim_space body\<rparr>
        | Inr _ \<Rightarrow> Inl ErrFrontMatterNotMap)"
    using Parse_fenced[OF assms] by (simp add: buildWorkflow_def)
  show "Parse unmarshal (to_crlf (fence @ newline # fm @ newline # fence @ newline # body)) =
      Parse unmarshal (fence @ newline # fm @ newline # fence @ newline # body)"
    by (rule Parse_no_cr[OF cr(1)])
  show "Parse unmarshal (fence @ newline # fm) = Inl (ErrWorkflowParse ''missing closing fence'')"
    using cr(2) split_at_fence_None[OF assms(2)]
    by (simp add: Parse_def replace_crlf_id split_on_append fence_lines splitFrontMatter_def)
  assume "hd (split_on newline body) \<noteq> ''---''"
  then show "Parse unmarshal body = Inr \<lparr>wf_Config = [], wf_PromptTemplate = trim_space body\<rparr>"
    using assms(1) by (simp add: Parse_def replace_crlf_id)
qed


theorem workflow_file_read_witness:
  "Parse (\<lambda>t. if t = ''branch: main'' then Inr (YMap [(''branch'', YStr ''main'')]) else Inl ''unexpected'')
     (fence @ newline # ''branch: main'' @ newline # fence @ newline # ''Do it'') =
     Inr \<lparr>wf_Config = [(''branch'', YStr ''main'')], wf_PromptTemplate = trim_space ''Do it''\<rparr>"
proof -
  have "CHR 0x0D \<notin> set (''branch: main'' @ ''Do it'')" by simp
  moreover have "''---'' \<notin> set (split_on newline ''branch: main'')" by code_simp
  ultimately show ?thesis
    using workflow_file_read[of "''branch: main''" "''Do it''"
      "\<lambda>t. if t = ''branch: main'' then Inr (YMap [(''branch'', YStr ''main'')]) else Inl ''unexpected''"]
    by simp
qed

end
