(* ===== verification/AgentRunner.thy ===== *)
theory AgentRunner
  imports SchedState Workspace WorkflowFile ArgLex
begin

text \<open>
  The worker that drives one agent process for one issue (\<open>services/orchestrator/agent\<close>: \<open>agent.go\<close>,
  \<open>runner.go\<close>, \<open>worker.go\<close>, \<open>projectmeta.go\<close>, with \<open>prompt/prompt.go\<close>). What it does to the outside is
  a list of actions. The outside answers through \<open>AgentEnv\<close>: each blocking \<open>select\<close> of the code is
  answered by the branch that fires, which may differ from turn to turn. The events the handler of the agent's
  messages (\<open>AgentHandler\<close>) emits beside the worker are an answer of the outside too. Time stamps are left out.
\<close>

section \<open>Data\<close>

record sessionIDs =
  si_threadID :: string
  si_turnID :: string

definition sessionID :: "sessionIDs \<Rightarrow> string" where
  "sessionID s = si_threadID s @ ''-'' @ si_turnID s"

datatype agent_error =
    WorkspaceEnsure ws_error
  | VerifyCwd ws_error
  | BeforeRunFailed ws_error
  | RenderPrompt string
  | ParseCommandError lex_error
  | DispatchWrap string
  | SpawnError string
  | InitializeError string
  | StartThreadError string
  | StartTurnError int string
  | StartTimeout int
  | ExitedBeforeStart int
  | CancelledBeforeStart int
  | TurnTimeout int
  | TurnError string
  | KilledBeforeCompletion
  | ProcessExited
  | AgentPanic

record turnResult =
  tr_failed :: bool
  tr_cancelled :: bool
  tr_err :: "agent_error option"

record Event =
  ev_Kind :: string
  ev_SessionID :: string
  ev_ThreadID :: string
  ev_TurnID :: string
  ev_Err :: "agent_error option"

definition EventSessionStarted :: string where "EventSessionStarted = ''session_started''"
definition EventTurnCompleted :: string where "EventTurnCompleted = ''turn_completed''"
definition EventTurnFailed :: string where "EventTurnFailed = ''turn_failed''"
definition EventTurnCancelled :: string where "EventTurnCancelled = ''turn_cancelled''"
definition EventStartupFailed :: string where "EventStartupFailed = ''startup_failed''"
definition EventUnsupportedToolCall :: string where "EventUnsupportedToolCall = ''unsupported_tool_call''"

record LaunchPlan =
  lp_Command :: string
  lp_Argv :: "string list"
  lp_StartDir :: string
  lp_Project :: string

record ThreadOptions =
  to_ApprovalPolicy :: string
  to_SandboxMode :: string
  to_ServiceName :: string

record TurnOptions =
  tu_ApprovalPolicy :: string
  tu_SandboxPolicy :: string

text \<open>The runner: its workspace manager, its configuration, the template it was given and what the template
  loader returns, if it has one, and whether the Linear tool is enabled.\<close>

record Runner =
  rn_Workspace :: Manager
  rn_Cfg :: Config
  rn_PromptTemplate :: string
  rn_PromptLoader :: "string option"
  rn_LinearClient :: bool

definition New :: "Manager \<Rightarrow> Config \<Rightarrow> string \<Rightarrow> Runner" where
  "New ws cfg tmpl = \<lparr>rn_Workspace = ws, rn_Cfg = cfg, rn_PromptTemplate = tmpl, rn_PromptLoader = None,
     rn_LinearClient = (tc_APIKey (cfg_Tracker cfg) \<noteq> '''' \<and> tc_Endpoint (cfg_Tracker cfg) \<noteq> '''')\<rparr>"

section \<open>The outside\<close>

datatype init_choice = InitReady sessionIDs | InitTimer | InitExited

datatype next_choice = NextReady sessionIDs | NextTimer | NextExited | NextCancelled

text \<open>
  The branch of \<open>awaitTurn\<close> that fires. When the process has exited it tells with which reasons the worker
  had been killed, what the result channel holds, and whether the scheduler's own context was cancelled.
\<close>

datatype await_choice =
    AwaitTurnDone turnResult
  | AwaitTimer
  | AwaitExited "string list" "turnResult option" bool

datatype exit_channel = NoChannel | ChannelReady | ChannelFull

text \<open>The variables of a prompt template.\<close>

datatype binding =
    BString string
  | BInt int
  | BBool bool
  | BTime time
  | BStrings "string list"
  | BMap "(string \<times> binding) list"
  | BMaps "(string \<times> binding) list list"

text \<open>
  The handler of the agent's messages runs beside the worker and emits into the same callback. \<open>ae_toolCalls n\<close>
  are the unsupported tool calls it answers after the \<open>n\<close>-th action of the worker and before the next, each with the
  session the handler knows at that moment.
\<close>

record 'w AgentEnv =
  ae_os :: "'w Os"
  ae_unmarshal :: "string \<Rightarrow> string + yaml"
  ae_liquid :: "string \<Rightarrow> (string \<times> binding) list \<Rightarrow> string + string"
  ae_Wrap :: "string \<Rightarrow> LaunchPlan \<Rightarrow> string + string"
  ae_spawn :: "string option"
  ae_Initialize :: "string option"
  ae_StartThread :: "string + string"
  ae_StartTurn :: "int \<Rightarrow> string option"
  ae_initChoice :: init_choice
  ae_nextChoice :: "int \<Rightarrow> next_choice"
  ae_awaitChoice :: "int \<Rightarrow> await_choice"
  ae_RefreshStates :: "(int \<Rightarrow> string + Issue list) option"
  ae_WorkerDone :: exit_channel
  ae_toolCalls :: "nat \<Rightarrow> sessionIDs list"
  ae_Now :: time

datatype action =
    ALaunch string LaunchPlan
  | AStartThread string "string list" ThreadOptions
  | AStartTurn string string string TurnOptions
  | ACancel
  | AAwaitExit
  | AEmit Event
  | AAfterRun string string
  | AExit string int "agent_error option"
  | AExitDropped string int

definition newTurnEvent :: "string \<Rightarrow> sessionIDs \<Rightarrow> agent_error option \<Rightarrow> Event" where
  "newTurnEvent kind ids err = \<lparr>ev_Kind = kind, ev_SessionID = sessionID ids, ev_ThreadID = si_threadID ids,
     ev_TurnID = si_turnID ids, ev_Err = err\<rparr>"

text \<open>
  The run of a worker: its workspace, its own actions, whether a process with its handler is alive, and
  what the \<open>emit\<close> callback has received from the worker and from the handler, in order.
\<close>

record 'w Run =
  ru_ws :: "'w Ws"
  ru_acts :: "action list"
  ru_live :: bool
  ru_emitted :: "Event list"

definition handler_emits :: "'w AgentEnv \<Rightarrow> 'w Run \<Rightarrow> 'w Run" where
  "handler_emits env s =
     (if ru_live s
      then s\<lparr>ru_emitted := ru_emitted s @
             map (\<lambda>ids. newTurnEvent EventUnsupportedToolCall ids None) (ae_toolCalls env (length (ru_acts s)))\<rparr>
      else s)"

definition exited :: "'w Run \<Rightarrow> 'w Run" where
  "exited s = s\<lparr>ru_live := False\<rparr>"

fun emitted_by :: "action \<Rightarrow> Event list" where
  "emitted_by (AEmit e) = [e]"
| "emitted_by _ = []"

text \<open>Actions of the worker, with what the handler emits after each.\<close>

fun act :: "'w AgentEnv \<Rightarrow> action list \<Rightarrow> 'w Run \<Rightarrow> 'w Run" where
  "act env [] s = s"
| "act env (a # as) s =
     act env as (handler_emits env
       (s\<lparr>ru_acts := ru_acts s @ [a], ru_live := (ru_live s \<and> a \<noteq> AAwaitExit), ru_emitted := ru_emitted s @ emitted_by a\<rparr>))"

section \<open>Project metadata and prompt\<close>

record projectMeta =
  pm_Name :: string
  pm_Branch :: string
  pm_Prompt :: string

definition resolveProjectMeta :: "(string \<Rightarrow> string + yaml) \<Rightarrow> Project \<Rightarrow> projectMeta" where
  "resolveProjectMeta unmarshal p =
     (if pr_Content p = '''' then \<lparr>pm_Name = pr_Name p, pm_Branch = '''', pm_Prompt = ''''\<rparr>
      else
        (case Parse unmarshal (pr_Content p) of
           Inl err \<Rightarrow> \<lparr>pm_Name = pr_Name p, pm_Branch = '''', pm_Prompt = trim_space (pr_Content p)\<rparr>
         | Inr w \<Rightarrow>
             \<lparr>pm_Name = pr_Name p,
              pm_Branch = (case map_of (wf_Config w) ''branch'' of Some (YStr s) \<Rightarrow> s | _ \<Rightarrow> ''''),
              pm_Prompt = wf_PromptTemplate w\<rparr>))"

definition defaultPrompt :: string where
  "defaultPrompt = ''You are working on an issue from Linear.''"

definition toBlockerList :: "Blocker list \<Rightarrow> (string \<times> binding) list list" where
  "toBlockerList = map (\<lambda>b. [(''id'', BString (bl_ID b)), (''identifier'', BString (bl_Identifier b)), (''state'', BString (bl_State b))])"

definition toIssueMap :: "Issue \<Rightarrow> (string \<times> binding) list" where
  "toIssueMap iss =
     [(''id'', BString (iss_ID iss)), (''identifier'', BString (iss_Identifier iss)), (''title'', BString (iss_Title iss)),
      (''description'', BString (iss_Description iss)),
      (''priority'', case iss_Priority iss of None \<Rightarrow> BString '''' | Some n \<Rightarrow> BInt n),
      (''state'', BString (iss_State iss)), (''branch_name'', BString (iss_BranchName iss)), (''url'', BString (iss_URL iss)),
      (''labels'', BStrings (iss_Labels iss)), (''blocked_by'', BMaps (toBlockerList (iss_BlockedBy iss))),
      (''created_at'', BTime (iss_CreatedAt iss)), (''updated_at'', BTime (iss_UpdatedAt iss))]"

definition toProjectMap :: "projectMeta \<Rightarrow> (string \<times> binding) list" where
  "toProjectMap p = [(''name'', BString (pm_Name p)), (''branch'', BString (pm_Branch p)), (''prompt'', BString (pm_Prompt p))]"

definition Render :: "(string \<Rightarrow> (string \<times> binding) list \<Rightarrow> string + string) \<Rightarrow> string \<Rightarrow> Issue \<Rightarrow> int \<Rightarrow> projectMeta \<Rightarrow> string + string" where
  "Render liquid tmpl issue attempt meta =
     (if tmpl = '''' then Inr defaultPrompt
      else liquid tmpl
        [(''issue'', BMap (toIssueMap issue)),
         (''attempt'', if 0 < attempt then BInt attempt else BBool False),
         (''project'', BMap (toProjectMap meta))])"

definition currentTemplate :: "Runner \<Rightarrow> string" where
  "currentTemplate r = (case rn_PromptLoader r of Some t \<Rightarrow> t | None \<Rightarrow> rn_PromptTemplate r)"

definition renderPrompt :: "'w AgentEnv \<Rightarrow> Runner \<Rightarrow> Issue \<Rightarrow> int \<Rightarrow> projectMeta \<Rightarrow> agent_error + string" where
  "renderPrompt env r issue attempt meta =
     map_sum RenderPrompt id (Render (ae_liquid env) (currentTemplate r) issue attempt meta)"


section \<open>Killing a worker\<close>

record Worker =
  wk_graceful :: bool
  wk_cancelled :: bool

definition Kill :: "string \<Rightarrow> Worker \<Rightarrow> Worker" where
  "Kill reason w =
     (let w = (if reason = ''terminal'' \<or> reason = ''non-active'' then w\<lparr>wk_graceful := True\<rparr> else w)
      in w\<lparr>wk_cancelled := True\<rparr>)"

definition WasKilledGracefully :: "Worker \<Rightarrow> bool" where
  "WasKilledGracefully w = wk_graceful w"

definition killed_with :: "string list \<Rightarrow> Worker" where
  "killed_with reasons = foldl (\<lambda>w reason. Kill reason w) \<lparr>wk_graceful = False, wk_cancelled = False\<rparr> reasons"

section \<open>Starting a worker\<close>

definition ensureWorkspace :: "'w AgentEnv \<Rightarrow> Runner \<Rightarrow> 'w Run \<Rightarrow> string \<Rightarrow> string \<Rightarrow> 'w Run \<times> (agent_error + string)" where
  "ensureWorkspace env r s ident branch =
     (let (ws, res) = Ensure (ae_os env) (rn_Workspace r) (ru_ws s) ident branch;
          s = s\<lparr>ru_ws := ws\<rparr>
      in case res of
           Inl e \<Rightarrow> (s, Inl (WorkspaceEnsure e))
         | Inr wsPath \<Rightarrow>
             (case VerifyCWD (ae_os env) (ws_world ws) (rn_Workspace r) ident wsPath of
                Some e \<Rightarrow> (s, Inl (VerifyCwd e))
              | None \<Rightarrow> (s, Inr wsPath)))"

definition afterRun :: "'w AgentEnv \<Rightarrow> Runner \<Rightarrow> string \<Rightarrow> string \<Rightarrow> 'w Run \<Rightarrow> 'w Run" where
  "afterRun env r ident branch s =
     act env [AAfterRun ident branch]
       (s\<lparr>ru_ws := AfterRun (ae_os env) (rn_Workspace r) (ru_ws s) ident branch\<rparr>)"

definition launchConn :: "'w AgentEnv \<Rightarrow> Runner \<Rightarrow> 'w Run \<Rightarrow> string \<Rightarrow> string \<Rightarrow> 'w Run \<times> (agent_error + string)" where
  "launchConn env r s frameID wsPath =
     (let command = cc_Command (cfg_Codex (rn_Cfg r))
      in case SplitArgs command of
           None \<Rightarrow> (s, Inl AgentPanic)
         | Some (Inl e) \<Rightarrow> (s, Inl (ParseCommandError e))
         | Some (Inr argv) \<Rightarrow>
             (let plan = \<lparr>lp_Command = command, lp_Argv = argv, lp_StartDir = wsPath, lp_Project = Root (rn_Workspace r)\<rparr>
              in case ae_Wrap env frameID plan of
                   Inl e \<Rightarrow> (s, Inl (DispatchWrap e))
                 | Inr startDir \<Rightarrow>
                     (let s = act env [ALaunch frameID plan] s
                      in case ae_spawn env of
                           Some e \<Rightarrow> (s, Inl (SpawnError e))
                         | None \<Rightarrow> (handler_emits env (s\<lparr>ru_live := True\<rparr>), Inr startDir))))"

definition buildThreadOptions :: "Runner \<Rightarrow> Issue \<Rightarrow> ThreadOptions" where
  "buildThreadOptions r issue = \<lparr>
     to_ApprovalPolicy = cc_ApprovalPolicy (cfg_Codex (rn_Cfg r)),
     to_SandboxMode = cc_ThreadSandbox (cfg_Codex (rn_Cfg r)),
     to_ServiceName =
       (if iss_Identifier issue \<noteq> '''' \<and> iss_Title issue \<noteq> '''' then iss_Identifier issue @ '': '' @ iss_Title issue
        else iss_Identifier issue)\<rparr>"

definition buildTurnOptions :: "Runner \<Rightarrow> TurnOptions" where
  "buildTurnOptions r = \<lparr>
     tu_ApprovalPolicy = cc_ApprovalPolicy (cfg_Codex (rn_Cfg r)),
     tu_SandboxPolicy = cc_TurnSandboxPolicy (cfg_Codex (rn_Cfg r))\<rparr>"

text \<open>The advertised tools, by name.\<close>

definition dynamicToolSpecs :: "Runner \<Rightarrow> string list" where
  "dynamicToolSpecs r = (if rn_LinearClient r then [''linear_graphql''] else [])"

definition initSession ::
  "'w AgentEnv \<Rightarrow> 'w Run \<Rightarrow> string \<Rightarrow> string \<Rightarrow> string list \<Rightarrow> ThreadOptions \<Rightarrow> TurnOptions \<Rightarrow> 'w Run \<times> (agent_error + sessionIDs)" where
  "initSession env s startDir rendered tools threadOpts turnOpts =
     (case ae_Initialize env of
        Some e \<Rightarrow> (s, Inl (InitializeError e))
      | None \<Rightarrow>
          (let s = act env [AStartThread startDir tools threadOpts] s
           in case ae_StartThread env of
                Inl e \<Rightarrow> (s, Inl (StartThreadError e))
              | Inr threadID \<Rightarrow>
                  (let s = act env [AStartTurn threadID startDir rendered turnOpts] s
                   in case ae_StartTurn env 1 of
                        Some e \<Rightarrow> (s, Inl (StartTurnError 1 e))
                      | None \<Rightarrow>
                          (case ae_initChoice env of
                             InitReady ids \<Rightarrow> (s, Inr ids)
                           | InitTimer \<Rightarrow> (s, Inl (StartTimeout 1))
                           | InitExited \<Rightarrow> (exited s, Inl (ExitedBeforeStart 1))))))"

record workerParams =
  wp_issue :: Issue
  wp_attempt :: int
  wp_projectBranch :: string
  wp_startDir :: string
  wp_ids :: sessionIDs

definition startRunLoop :: "'w AgentEnv \<Rightarrow> 'w Run \<Rightarrow> Issue \<Rightarrow> int \<Rightarrow> string \<Rightarrow> string \<Rightarrow> sessionIDs \<Rightarrow> 'w Run \<times> workerParams \<times> LiveSession" where
  "startRunLoop env s issue attempt projectBranch startDir ids =
     (act env [AEmit (newTurnEvent EventSessionStarted ids None)] s,
      \<lparr>wp_issue = issue, wp_attempt = attempt, wp_projectBranch = projectBranch, wp_startDir = startDir, wp_ids = ids\<rparr>,
      \<lparr>ls_SessionID = sessionID ids, ls_ThreadID = si_threadID ids, ls_TurnID = si_turnID ids, ls_StartedAt = ae_Now env\<rparr>)"

definition frameID :: "Issue \<Rightarrow> int \<Rightarrow> string" where
  "frameID issue attempt = iss_Identifier issue @ ''#'' @ int_text attempt"

text \<open>The part of \<open>spawnWith\<close> below its deferred call: from the \<open>before_run\<close> hook on.\<close>

definition spawnGuarded ::
  "'w AgentEnv \<Rightarrow> Runner \<Rightarrow> 'w Run \<Rightarrow> Issue \<Rightarrow> int \<Rightarrow> projectMeta \<Rightarrow> string \<Rightarrow> 'w Run \<times> (agent_error + workerParams \<times> LiveSession)" where
  "spawnGuarded env r s issue attempt meta wsPath =
     (let (ws, err) = BeforeRun (ae_os env) (rn_Workspace r) (ru_ws s) (iss_Identifier issue) (pm_Branch meta);
          s = s\<lparr>ru_ws := ws\<rparr>
      in case err of
           Some e \<Rightarrow> (s, Inl (BeforeRunFailed e))
         | None \<Rightarrow>
             (case renderPrompt env r issue attempt meta of
                Inl e \<Rightarrow> (s, Inl e)
              | Inr rendered \<Rightarrow>
                  (case launchConn env r s (frameID issue attempt) wsPath of
                     (s, Inl e) \<Rightarrow> (act env [ACancel] s, Inl e)
                   | (s, Inr startDir) \<Rightarrow>
                       (case initSession env s startDir rendered (dynamicToolSpecs r) (buildThreadOptions r issue) (buildTurnOptions r) of
                          (s, Inl e) \<Rightarrow>
                            (act env [ACancel, AAwaitExit,
                               AEmit \<lparr>ev_Kind = EventStartupFailed, ev_SessionID = '''', ev_ThreadID = '''', ev_TurnID = '''', ev_Err = Some e\<rparr>] s,
                             Inl e)
                        | (s, Inr ids) \<Rightarrow>
                            (let (s, wp, sess) = startRunLoop env s issue attempt (pm_Branch meta) startDir ids
                             in (s, Inr (wp, sess)))))))"

text \<open>The deferred \<open>AfterRun\<close> runs on every return that did not hand the worker to its loop.\<close>

definition spawnWith :: "'w AgentEnv \<Rightarrow> Runner \<Rightarrow> 'w Run \<Rightarrow> Issue \<Rightarrow> int \<Rightarrow> 'w Run \<times> (agent_error + workerParams \<times> LiveSession)" where
  "spawnWith env r s issue attempt =
     (let meta = resolveProjectMeta (ae_unmarshal env) (iss_Project issue)
      in case ensureWorkspace env r s (iss_Identifier issue) (pm_Branch meta) of
           (s, Inl e) \<Rightarrow> (s, Inl e)
         | (s, Inr wsPath) \<Rightarrow>
             (case spawnGuarded env r s issue attempt meta wsPath of
                (s, Inl e) \<Rightarrow> (afterRun env r (iss_Identifier issue) (pm_Branch meta) s, Inl e)
              | (s, Inr x) \<Rightarrow> (s, Inr x)))"

section \<open>The loop of a worker\<close>

definition awaitTurn :: "'w AgentEnv \<Rightarrow> Runner \<Rightarrow> 'w Run \<Rightarrow> int \<Rightarrow> 'w Run \<times> turnResult" where
  "awaitTurn env r s turn =
     (case ae_awaitChoice env turn of
        AwaitTurnDone res \<Rightarrow> (s, res)
      | AwaitTimer \<Rightarrow>
          (act env [ACancel, AAwaitExit] s,
           \<lparr>tr_failed = True, tr_cancelled = False, tr_err = Some (TurnTimeout (cc_TurnTimeoutMS (cfg_Codex (rn_Cfg r))))\<rparr>)
      | AwaitExited reasons buffered parentCancelled \<Rightarrow>
          let s = exited s in
          if WasKilledGracefully (killed_with reasons) then (s, \<lparr>tr_failed = False, tr_cancelled = True, tr_err = None\<rparr>)
          else
            (case buffered of
               Some res \<Rightarrow> (s, res)
             | None \<Rightarrow>
                 if wk_cancelled (killed_with reasons) \<or> parentCancelled
                 then (s, \<lparr>tr_failed = True, tr_cancelled = False, tr_err = Some KilledBeforeCompletion\<rparr>)
                 else (s, \<lparr>tr_failed = True, tr_cancelled = False, tr_err = Some ProcessExited\<rparr>)))"

definition shouldContinue :: "'w AgentEnv \<Rightarrow> Runner \<Rightarrow> Issue \<Rightarrow> int \<Rightarrow> bool" where
  "shouldContinue env r issue turn =
     (if turn \<ge> ac_MaxTurns (cfg_Agent (rn_Cfg r)) then False
      else
        (case ae_RefreshStates env of
           None \<Rightarrow> False
         | Some refresh \<Rightarrow>
             (case refresh turn of
                Inl _ \<Rightarrow> False
              | Inr [] \<Rightarrow> False
              | Inr (i # _) \<Rightarrow>
                  list_ex (\<lambda>st. to_lower st = to_lower (iss_State i)) (tc_ActiveStates (cfg_Tracker (rn_Cfg r))))))"

definition continuationPrompt :: string where
  "continuationPrompt = ''Continue working on the issue.''"

definition nextTurn :: "'w AgentEnv \<Rightarrow> Runner \<Rightarrow> 'w Run \<Rightarrow> workerParams \<Rightarrow> int \<Rightarrow> 'w Run \<times> (agent_error + workerParams)" where
  "nextTurn env r s wp turn =
     (let s = act env [AStartTurn (si_threadID (wp_ids wp)) (wp_startDir wp) continuationPrompt (buildTurnOptions r)] s
      in case ae_StartTurn env turn of
           Some e \<Rightarrow> (s, Inl (StartTurnError turn e))
         | None \<Rightarrow>
             (case ae_nextChoice env turn of
                NextReady ids \<Rightarrow> (s, Inr (wp\<lparr>wp_ids := ids\<rparr>))
              | NextTimer \<Rightarrow> (s, Inl (StartTimeout turn))
              | NextExited \<Rightarrow> (exited s, Inl (ExitedBeforeStart turn))
              | NextCancelled \<Rightarrow> (s, Inl (CancelledBeforeStart turn))))"

definition teardown :: "'w AgentEnv \<Rightarrow> Runner \<Rightarrow> workerParams \<Rightarrow> 'w Run \<Rightarrow> 'w Run" where
  "teardown env r wp s =
     afterRun env r (iss_Identifier (wp_issue wp)) (wp_projectBranch wp) (act env [ACancel, AAwaitExit] s)"

definition sendWorkerExit :: "'w AgentEnv \<Rightarrow> string \<Rightarrow> int \<Rightarrow> agent_error option \<Rightarrow> 'w Run \<Rightarrow> 'w Run" where
  "sendWorkerExit env issueID attempt exitErr s =
     (case ae_WorkerDone env of
        NoChannel \<Rightarrow> s
      | ChannelReady \<Rightarrow> act env [AExit issueID attempt exitErr] s
      | ChannelFull \<Rightarrow> act env [AExitDropped issueID attempt] s)"

text \<open>The turns of the loop, up to the one that ends it; the result carries the error of the run.\<close>

function turns :: "'w AgentEnv \<Rightarrow> Runner \<Rightarrow> 'w Run \<Rightarrow> workerParams \<Rightarrow> int \<Rightarrow> 'w Run \<times> agent_error option" where
  "turns env r s wp turn =
     (let (s, result) = awaitTurn env r s turn
      in if tr_cancelled result then (act env [AEmit (newTurnEvent EventTurnCancelled (wp_ids wp) None)] s, None)
         else if tr_failed result then (act env [AEmit (newTurnEvent EventTurnFailed (wp_ids wp) (tr_err result))] s, tr_err result)
         else
           (let s = act env [AEmit (newTurnEvent EventTurnCompleted (wp_ids wp) None)] s
            in if \<not> shouldContinue env r (wp_issue wp) turn then (s, None)
               else
                 (case nextTurn env r s wp (turn + 1) of
                    (s, Inl e) \<Rightarrow> (s, Some e)
                  | (s, Inr wp) \<Rightarrow> turns env r s wp (turn + 1))))"
  by auto
termination
  by (relation "measure (\<lambda>(env, r, s, wp, turn). nat (ac_MaxTurns (cfg_Agent (rn_Cfg r)) - turn))")
    (auto simp: shouldContinue_def split: if_splits)

declare turns.simps [simp del]

definition runLoop :: "'w AgentEnv \<Rightarrow> Runner \<Rightarrow> 'w Run \<Rightarrow> workerParams \<Rightarrow> 'w Run" where
  "runLoop env r s wp =
     (let (s, loopErr) = turns env r s wp 1
      in sendWorkerExit env (iss_ID (wp_issue wp)) (wp_attempt wp) loopErr (teardown env r wp s))"

text \<open>The whole life of a worker: the spawn, and the loop it starts.\<close>

definition worker_life :: "'w AgentEnv \<Rightarrow> Runner \<Rightarrow> 'w Run \<Rightarrow> Issue \<Rightarrow> int \<Rightarrow> 'w Run" where
  "worker_life env r s issue attempt =
     (case spawnWith env r s issue attempt of
        (s, Inl e) \<Rightarrow> s
      | (s, Inr (wp, sess)) \<Rightarrow> runLoop env r s wp)"

end
