(* ===== verification/WorkspaceProps.thy ===== *)
theory WorkspaceProps
  imports Workspace
begin

text \<open>
  What the workspace manager promises: where a workspace lies, that an agent only starts inside its own
  workspace, and that a workspace is handed out only after its \<open>after_create\<close> hook has succeeded.
\<close>

section \<open>A sample manager and shell\<close>

definition sample_manager_config :: Config where
  "sample_manager_config = zero_config\<lparr>
     cfg_Workspace := \<lparr>wc_Root = ''/ws''\<rparr>,
     cfg_Hooks := \<lparr>hc_TimeoutMS = 60000, hc_AfterCreate = ''make'', hc_BeforeRun = '''', hc_AfterRun = '''',
       hc_BeforeRemove = ''''\<rparr>\<rparr>"

text \<open>A file system of directories, and a hook that fails the first time it runs.\<close>

definition sample_os :: "(string list \<times> nat) Os" where
  "sample_os = \<lparr>
     os_Stat = (\<lambda>(ds, n) p. if p \<in> set ds then StatDir else StatNotExist),
     os_MkdirAll = (\<lambda>(ds, n) p. ((p # ds, n), None)),
     os_RemoveAll = (\<lambda>(ds, n) p. ((filter (\<lambda>d. d \<noteq> p) ds, n), None)),
     os_Run = (\<lambda>(ds, n) c. ((ds, Suc n),
       \<lparr>hr_out = '''', hr_err = (if n = 0 then Some ''exit status 1'' else None), hr_deadline = False\<rparr>)),
     os_Abs = (\<lambda>w p. Inr p),
     os_EvalSymlinks = (\<lambda>w p. Inr p)\<rparr>"

definition sample_ws :: "(string list \<times> nat) Ws" where
  "sample_ws = \<lparr>ws_world = ([], 0), ws_log = []\<rparr>"

section \<open>Keys\<close>

lemma key_rune_low: "key_rune r < 128 \<and> key_rune r \<noteq> 47"
  by (simp add: key_rune_def)

lemma from_runes_low: "list_all (\<lambda>r. r < 128) rs \<Longrightarrow> from_runes rs = map char_of rs"
  by (induction rs) (auto simp: from_runes_def encode_rune_def)

lemma sanitizeKey_chars: "sanitizeKey s = map char_of (map key_rune (to_runes s))"
  unfolding sanitizeKey_def by (rule from_runes_low) (simp add: list_all_iff key_rune_low)

lemma char_underscore: "char_of (95 :: nat) = CHR ''_''"
  using char_of_char[of "CHR ''_''"] by simp

lemma key_rune_char:
  "char_of (key_rune (of_char c)) = (if key_rune (of_char c) = of_char c then c else CHR ''_'')"
proof -
  have "key_rune (of_char c) = of_char c \<or> key_rune (of_char c) = 95" by (auto simp: key_rune_def)
  then show ?thesis by (cases "key_rune (of_char c) = of_char c") (simp_all add: char_underscore)
qed

text \<open>On ASCII text the key is the identifier with every other character replaced, one for one.\<close>

lemma sanitizeKey_ascii:
  assumes "list_all (\<lambda>c. of_char c < (128 :: nat)) s"
  shows "sanitizeKey s = map (\<lambda>c. if key_rune (of_char c) = of_char c then c else CHR ''_'') s"
  using assms by (simp add: sanitizeKey_chars to_runes_ascii key_rune_char)

lemma sanitizeKey_no_slash: "CHR ''/'' \<notin> set (sanitizeKey s)"
proof
  assume "CHR ''/'' \<in> set (sanitizeKey s)"
  then obtain r where "CHR ''/'' = (char_of (key_rune r) :: char)" by (auto simp: sanitizeKey_chars)
  then have "of_char (CHR ''/'') = (of_char (char_of (key_rune r) :: char) :: nat)" by simp
  moreover have "of_char (CHR ''/'') = (47 :: nat)" by code_simp
  ultimately show False using key_rune_low[of r] by simp
qed

section \<open>Paths\<close>

lemma root_nonempty [simp]: "m_root (New cfg) \<noteq> ''''"
  by (simp add: New_def)

lemma proper_key:
  assumes "sanitizeKey s \<notin> {'''', ''.'', ''..''}"
  shows "elements (Join2 (m_root (New cfg)) (sanitizeKey s)) = elements (m_root (New cfg)) @ [sanitizeKey s]"
  using assms by (intro elements_Join2_plain) (simp_all add: sanitizeKey_no_slash)

lemma proper_inside:
  assumes "sanitizeKey s \<notin> {'''', ''.'', ''..''}"
  shows "inside (m_root (New cfg)) (Join2 (m_root (New cfg)) (sanitizeKey s))"
  using assms proper_key[OF assms, of cfg] by (simp add: inside_def IsAbs_Join2 eq_commute[of "''..''"])

lemma dots_outside:
  assumes "a \<noteq> ''''" and k: "k \<in> {'''', ''.'', ''..''}"
  shows "\<not> inside a (Join2 a k)"
proof -
  have "elements (Join2 a k) = clean_step (IsAbs a) (elements a) k"
    using k assms(1) by (auto simp: elements_Join2)
  then have "length (elements (Join2 a k)) \<le> length (elements a) \<or> elements (Join2 a k) = elements a @ [''..'']"
    using k by (auto simp: clean_step_def)
  then show ?thesis by (auto simp: inside_def)
qed

lemma Path_eq:
  "Path (New cfg) s =
     (if sanitizeKey s \<in> {'''', ''.'', ''..''} then Inl (ErrPathEscapesRoot s)
      else Inr (Join2 (m_root (New cfg)) (sanitizeKey s)))"
proof (cases "sanitizeKey s \<in> {'''', ''.'', ''..''}")
  case True
  then show ?thesis
    using dots_outside[of "m_root (New cfg)" "sanitizeKey s"] by (simp add: Path_def escapes_Rel del: insert_iff)
next
  case False
  then show ?thesis using proper_inside[OF False, of cfg] by (simp add: Path_def escapes_Rel del: insert_iff)
qed

lemma Path_Inr:
  assumes "Path (New cfg) s = Inr p"
  shows "p = Join2 (m_root (New cfg)) (sanitizeKey s) \<and> sanitizeKey s \<notin> {'''', ''.'', ''..''}"
  using assms by (simp add: Path_eq split: if_splits)

lemma sample_paths:
  "Path (New sample_manager_config) ''AG/1'' = Inr ''/ws/AG_1''"
  "Path (New sample_manager_config) ''AG 1'' = Inr ''/ws/AG_1''"
  "Path (New sample_manager_config) ''AG-1'' = Inr ''/ws/AG-1''"
proof -
  have r: "m_root (New sample_manager_config) = ''/ws''" by code_simp
  have j: "Join2 ''/ws'' ''AG_1'' = ''/ws/AG_1''" "Join2 ''/ws'' ''AG-1'' = ''/ws/AG-1''" by code_simp+
  have k: "sanitizeKey ''AG/1'' = ''AG_1''" "sanitizeKey ''AG 1'' = ''AG_1''" "sanitizeKey ''AG-1'' = ''AG-1''"
    by (simp_all add: sanitizeKey_ascii key_rune_def)
  show "Path (New sample_manager_config) ''AG/1'' = Inr ''/ws/AG_1''"
    "Path (New sample_manager_config) ''AG 1'' = Inr ''/ws/AG_1''"
    "Path (New sample_manager_config) ''AG-1'' = Inr ''/ws/AG-1''"
    by (simp_all add: Path_eq r k j)
qed

text \<open>C16: A workspace is the directory named by the sanitized identifier directly below the root, whatever
  the identifier holds: the identifier is refused exactly when its key is empty or one of the two dot
  names, every path handed out lies strictly inside the root, and two identifiers share a workspace
  exactly when their keys are equal.\<close>

theorem workspace_path:
  "(case Path (New cfg) a of
      Inl e \<Rightarrow> e = ErrPathEscapesRoot a \<and> sanitizeKey a \<in> {'''', ''.'', ''..''}
    | Inr p \<Rightarrow> sanitizeKey a \<notin> {'''', ''.'', ''..''} \<and> Clean p = p \<and>
        elements p = elements (Root (New cfg)) @ [sanitizeKey a] \<and> inside (Root (New cfg)) p) \<and>
   (\<forall>p q. Path (New cfg) a = Inr p \<and> Path (New cfg) b = Inr q \<longrightarrow> (p = q \<longleftrightarrow> sanitizeKey a = sanitizeKey b))"
proof (intro conjI allI impI)
  show "case Path (New cfg) a of
      Inl e \<Rightarrow> e = ErrPathEscapesRoot a \<and> sanitizeKey a \<in> {'''', ''.'', ''..''}
    | Inr p \<Rightarrow> sanitizeKey a \<notin> {'''', ''.'', ''..''} \<and> Clean p = p \<and>
        elements p = elements (Root (New cfg)) @ [sanitizeKey a] \<and> inside (Root (New cfg)) p"
    using proper_inside[of a cfg] proper_key[of a cfg] by (simp add: Path_eq Root_def del: insert_iff)
next
  fix p q
  assume "Path (New cfg) a = Inr p \<and> Path (New cfg) b = Inr q"
  then show "p = q \<longleftrightarrow> sanitizeKey a = sanitizeKey b"
    using Path_Inr[of cfg a p] Path_Inr[of cfg b q] proper_key[of a cfg] proper_key[of b cfg]
    by (metis append1_eq_conv)
qed

theorem workspace_path_witness:
  "Path (New sample_manager_config) ''AG/1'' = Inr ''/ws/AG_1'' \<and>
   Path (New sample_manager_config) ''AG 1'' = Inr ''/ws/AG_1'' \<and> sanitizeKey ''AG/1'' = sanitizeKey ''AG 1''"
  using workspace_path[of "''AG/1''" sample_manager_config "''AG 1''"] by (simp add: sample_paths)

text \<open>C17: An agent is let into a directory exactly when that directory is the workspace of its issue, and,
  with the symbolic links of both resolved, still lies strictly inside the workspace root.\<close>

theorem cwd_contained:
  "VerifyCWD os w (New cfg) ident cwd = None \<longleftrightarrow>
     (\<exists>expected absolute realCWD realRoot.
        Path (New cfg) ident = Inr expected \<and> os_Abs os w cwd = Inr absolute \<and>
        Clean absolute = expected \<and> inside (Root (New cfg)) expected \<and>
        os_EvalSymlinks os w absolute = Inr realCWD \<and>
        os_EvalSymlinks os w (Root (New cfg)) = Inr realRoot \<and>
        inside realRoot realCWD)"
proof (cases "Path (New cfg) ident")
  case (Inr p)
  then have "inside (m_root (New cfg)) p" using Path_Inr[OF Inr] proper_inside by simp
  then show ?thesis
    using Inr by (auto simp: VerifyCWD_def Root_def escapes_Rel split: sum.splits if_splits)
qed (simp add: VerifyCWD_def)


section \<open>Hooks and creation\<close>

text \<open>What the file system documents: a removal that reports no error leaves nothing behind, and a directory
  that could not be created is where it was before.\<close>

definition os_ok :: "'w Os \<Rightarrow> bool" where
  "os_ok os \<longleftrightarrow>
     (\<forall>w p. snd (os_RemoveAll os w p) = None \<longrightarrow> os_Stat os (fst (os_RemoveAll os w p)) p = StatNotExist) \<and>
     (\<forall>w p. snd (os_MkdirAll os w p) \<noteq> None \<longrightarrow> os_Stat os (fst (os_MkdirAll os w p)) p = os_Stat os w p)"

text \<open>Successive attempts to prepare the workspace of one identifier.\<close>

fun ensure_all :: "'w Os \<Rightarrow> Manager \<Rightarrow> 'w Ws \<Rightarrow> string \<Rightarrow> string list \<Rightarrow> 'w Ws \<times> (ws_error + string) list" where
  "ensure_all os m st ident [] = (st, [])"
| "ensure_all os m st ident (b # bs) =
     (let (st1, r) = Ensure os m st ident b;
          (st2, rs) = ensure_all os m st1 ident bs
      in (st2, r # rs))"

definition hook_succeeded :: "string \<Rightarrow> 'w Ws \<Rightarrow> bool" where
  "hook_succeeded name st \<longleftrightarrow> (\<exists>out. HookOutput name out \<in> set (ws_log st))"

lemma runHook_log: "\<exists>es. ws_log (fst (runHook os m st name script cwd env)) = ws_log st @ es"
  by (auto simp: runHook_def Let_def split: prod.split option.split)

lemma runHook_None:
  "runHook os m st name script cwd env = (st', None) \<Longrightarrow> script \<noteq> '''' \<Longrightarrow> hook_succeeded name st'"
  by (auto simp: runHook_def Let_def hook_succeeded_def split: prod.splits option.splits if_splits)

lemma hook_succeeded_mono: "hook_succeeded name st \<Longrightarrow> ws_log st' = ws_log st @ es \<Longrightarrow> hook_succeeded name st'"
  by (auto simp: hook_succeeded_def)

lemma hook_succeeded_world [simp]: "hook_succeeded name (st\<lparr>ws_world := w\<rparr>) = hook_succeeded name st"
  by (simp add: hook_succeeded_def)

lemma Ensure_log: "\<exists>es. ws_log (fst (Ensure os m st ident b)) = ws_log st @ es"
proof -
  have "\<exists>es. ws_log (fst (runHook os m (st\<lparr>ws_world := w\<rparr>) name script cwd env)) = ws_log st @ es" for w name script cwd env
    using runHook_log[of os m "st\<lparr>ws_world := w\<rparr>"] by simp
  then show ?thesis
    by (auto simp: Ensure_def split: sum.split prod.split option.split) (metis fst_conv)+
qed

text \<open>A fresh attempt on an absent directory: it fails and the directory is absent again, or the hook has succeeded.\<close>

lemma Ensure_absent:
  assumes ok: "os_ok os" and rm: "\<forall>w. snd (os_RemoveAll os w p) = None"
    and p: "Path m ident = Inr p" and hook: "hc_AfterCreate (m_hooks m) \<noteq> ''''"
    and absent: "os_Stat os (ws_world st) p = StatNotExist"
    and E: "Ensure os m st ident b = (st', r)"
  shows "(\<exists>e. r = Inl e) \<and> os_Stat os (ws_world st') p = StatNotExist \<or> hook_succeeded ''after_create'' st'"
proof -
  obtain w err where mk: "os_MkdirAll os (ws_world st) p = (w, err)" by fastforce
  show ?thesis
  proof (cases err)
    case None
    obtain st1 herr where h: "runHook os m (st\<lparr>ws_world := w\<rparr>) ''after_create'' (hc_AfterCreate (m_hooks m)) p (branchEnv b) = (st1, herr)"
      by fastforce
    show ?thesis
    proof (cases herr)
      case None
      then show ?thesis using E h mk p absent \<open>err = None\<close> runHook_None[OF h[unfolded None] hook]
        by (simp add: Ensure_def ensureDir_def)
    next
      case (Some e)
      then show ?thesis using E h mk p absent \<open>err = None\<close> ok rm
        by (auto simp: Ensure_def ensureDir_def os_ok_def)
    qed
  next
    case (Some e)
    then have "os_Stat os w p = StatNotExist" using ok mk absent unfolding os_ok_def by (metis fst_conv option.discI snd_conv)
    then show ?thesis using E mk p absent Some by (auto simp: Ensure_def ensureDir_def)
  qed
qed

lemma ensure_all_log: "\<exists>es. ws_log (fst (ensure_all os m st ident bs)) = ws_log st @ es"
proof (induction bs arbitrary: st)
  case (Cons b bs)
  obtain st1 r where e: "Ensure os m st ident b = (st1, r)" by fastforce
  then show ?case using Cons[of st1] Ensure_log[of os m st ident b] by (auto split: prod.split)
qed simp

text \<open>C15: No workspace is handed out half prepared. Starting from a directory that does not exist, however
  often preparing it is attempted and however the hook fails or times out in between, an attempt only
  returns the workspace once its \<open>after_create\<close> hook has succeeded, provided that removing the directory
  after a failed hook works.\<close>

theorem workspace_prepared:
  assumes "os_ok os" and "\<forall>w. snd (os_RemoveAll os w p) = None"
    and "Path m ident = Inr p" and "hc_AfterCreate (m_hooks m) \<noteq> ''''"
    and "os_Stat os (ws_world st) p = StatNotExist"
    and "ensure_all os m st ident branches = (st', results)"
    and "\<exists>q. Inr q \<in> set results"
  shows "hook_succeeded ''after_create'' st'"
  using assms(5,6,7)
proof (induction branches arbitrary: st results)
  case (Cons b bs)
  obtain st1 r where e: "Ensure os m st ident b = (st1, r)" by fastforce
  obtain rs where a: "ensure_all os m st1 ident bs = (st', rs)" and res: "results = r # rs"
    using Cons.prems(2) e by (auto split: prod.splits)
  from Ensure_absent[OF assms(1-4) Cons.prems(1) e] show ?case
  proof
    assume "hook_succeeded ''after_create'' st1"
    then show ?thesis using hook_succeeded_mono ensure_all_log[of os m st1 ident bs] a by (metis fst_conv)
  next
    assume "(\<exists>e. r = Inl e) \<and> os_Stat os (ws_world st1) p = StatNotExist"
    then show ?thesis using Cons.IH[OF _ a] Cons.prems(3) res by auto
  qed
qed simp

lemma sample_hooks:
  "m_hooks (New sample_manager_config) =
     \<lparr>hc_TimeoutMS = 60000, hc_AfterCreate = ''make'', hc_BeforeRun = '''', hc_AfterRun = '''', hc_BeforeRemove = ''''\<rparr>"
  by (simp add: New_def sample_manager_config_def)

lemmas sample_defs = sample_paths Ensure_def ensureDir_def runHook_def sample_os_def sample_ws_def sample_hooks
  truncateOutput_def

theorem workspace_prepared_witness:
  "\<exists>st' results. ensure_all sample_os (New sample_manager_config) sample_ws ''AG-1'' [''main'', ''main''] = (st', results) \<and>
     results = [Inl (AfterCreateHook (ErrHookFailed ''after_create'' ''exit status 1'')), Inr ''/ws/AG-1''] \<and>
     hook_succeeded ''after_create'' st'"
proof -
  obtain st' results where e: "ensure_all sample_os (New sample_manager_config) sample_ws ''AG-1'' [''main'', ''main''] = (st', results)"
    by fastforce
  have "snd (ensure_all sample_os (New sample_manager_config) sample_ws ''AG-1'' [''main'', ''main'']) =
      [Inl (AfterCreateHook (ErrHookFailed ''after_create'' ''exit status 1'')), Inr ''/ws/AG-1'']"
    by (simp add: sample_defs)
  then have r: "results = [Inl (AfterCreateHook (ErrHookFailed ''after_create'' ''exit status 1'')), Inr ''/ws/AG-1'']"
    using e by simp
  have "os_ok sample_os" by (auto simp: os_ok_def sample_os_def)
  moreover have "\<forall>w. snd (os_RemoveAll sample_os w ''/ws/AG-1'') = None" by (auto simp: sample_os_def)
  moreover note sample_paths(3)
  moreover have "hc_AfterCreate (m_hooks (New sample_manager_config)) \<noteq> ''''" by code_simp
  moreover have "os_Stat sample_os (ws_world sample_ws) ''/ws/AG-1'' = StatNotExist" by code_simp
  ultimately have "hook_succeeded ''after_create'' st'"
    using workspace_prepared[OF _ _ _ _ _ e] r by simp
  with e r show ?thesis by blast
qed

text \<open>After a failed hook the error of removing the directory is dropped: when the directory is still
  there, the next attempt hands the
  workspace out without running the hook again.\<close>

theorem failed_cleanup_skips_hook:
  assumes "Path m ident = Inr p"
    and "Ensure os m st ident branch = (st1, Inl (AfterCreateHook e))"
    and "os_Stat os (ws_world st1) p = StatDir"
  shows "Ensure os m st1 ident branch' = (st1, Inr p)"
  using assms by (simp add: Ensure_def ensureDir_def)

theorem failed_cleanup_skips_hook_witness:
  "\<exists>st1. Ensure (sample_os\<lparr>os_RemoveAll := (\<lambda>w p. (w, Some ''busy''))\<rparr>) (New sample_manager_config) sample_ws ''AG-1'' ''main'' =
       (st1, Inl (AfterCreateHook (ErrHookFailed ''after_create'' ''exit status 1''))) \<and>
     Ensure (sample_os\<lparr>os_RemoveAll := (\<lambda>w p. (w, Some ''busy''))\<rparr>) (New sample_manager_config) st1 ''AG-1'' ''main'' =
       (st1, Inr ''/ws/AG-1'')"
proof -
  let ?os = "sample_os\<lparr>os_RemoveAll := (\<lambda>w p. (w, Some ''busy''))\<rparr>"
  let ?st1 = "\<lparr>ws_world = ([''/ws/AG-1''], 1),
    ws_log = [HookStart ''after_create'' ''/ws/AG-1'', HookFailed ''after_create'' ''exit status 1'' '''']\<rparr>"
  note sample_paths(3)
  moreover have E: "Ensure ?os (New sample_manager_config) sample_ws ''AG-1'' ''main'' =
      (?st1, Inl (AfterCreateHook (ErrHookFailed ''after_create'' ''exit status 1'')))" by (simp add: sample_defs)
  moreover have "os_Stat ?os (ws_world ?st1) ''/ws/AG-1'' = StatDir" by code_simp
  ultimately have "Ensure ?os (New sample_manager_config) ?st1 ''AG-1'' ''main'' = (?st1, Inr ''/ws/AG-1'')"
    by (rule failed_cleanup_skips_hook)
  with E show ?thesis by blast
qed

end
