(* ===== verification/AgentRunnerProps.thy ===== *)
theory AgentRunnerProps
  imports AgentRunner WorkspaceProps
begin

text \<open>
  What a worker promises the scheduler: the workspace is released exactly once and before the exit is
  reported, the agent gets a bounded number of turns, and the worker's events follow a fixed protocol, into which
  the message handler only mixes its reports of unsupported tool calls.
\<close>

section \<open>Reading a trace\<close>

text \<open>An action that neither releases the workspace nor reports the exit.\<close>

fun calm :: "action \<Rightarrow> bool" where
  "calm (AAfterRun _ _) = False"
| "calm (AExit _ _ _) = False"
| "calm (AExitDropped _ _) = False"
| "calm _ = True"

fun is_launch :: "action \<Rightarrow> bool" where
  "is_launch (ALaunch _ _) = True"
| "is_launch _ = False"

fun starts_turn :: "action \<Rightarrow> bool" where
  "starts_turn (AStartTurn _ _ _ _) = True"
| "starts_turn _ = False"

fun kinds :: "action list \<Rightarrow> string list" where
  "kinds [] = []"
| "kinds (AEmit e # as) = ev_Kind e # kinds as"
| "kinds (_ # as) = kinds as"

definition turn_starts :: "action list \<Rightarrow> nat" where
  "turn_starts as = length (filter starts_turn as)"

lemma kinds_append [simp]: "kinds (as @ bs) = kinds as @ kinds bs"
  by (induction as rule: kinds.induct) auto

lemma turn_starts_simps [simp]:
  "turn_starts [] = 0" "turn_starts (a # as) = (if starts_turn a then Suc (turn_starts as) else turn_starts as)"
  "turn_starts (as @ bs) = turn_starts as + turn_starts bs"
  by (simp_all add: turn_starts_def)

lemma handler_emits_acts [simp]: "ru_acts (handler_emits env s) = ru_acts s"
  by (simp add: handler_emits_def)

lemma exited_acts [simp]: "ru_acts (exited s) = ru_acts s"
  by (simp add: exited_def)

lemma act_acts [simp]: "ru_acts (act env as s) = ru_acts s @ as"
  by (induction as arbitrary: s) auto

abbreviation MaxTurns :: "Runner \<Rightarrow> int" where
  "MaxTurns r \<equiv> ac_MaxTurns (cfg_Agent (rn_Cfg r))"

lemma ev_Kind_newTurnEvent [simp]: "ev_Kind (newTurnEvent kind ids err) = kind"
  by (simp add: newTurnEvent_def)

section \<open>The turns\<close>

lemma awaitTurn_acts:
  "\<exists>as. ru_acts (fst (awaitTurn env r s turn)) = ru_acts s @ as \<and> (as = [] \<or> as = [ACancel, AAwaitExit])"
  by (auto simp: awaitTurn_def Let_def split: await_choice.split option.split)

lemma nextTurn_acts:
  "ru_acts (fst (nextTurn env r s wp turn)) =
     ru_acts s @ [AStartTurn (si_threadID (wp_ids wp)) (wp_startDir wp) continuationPrompt (buildTurnOptions r)]"
  by (simp add: nextTurn_def Let_def split: option.split next_choice.split)

lemma shouldContinue_bound: "shouldContinue env r issue turn \<Longrightarrow> turn < MaxTurns r"
  by (simp add: shouldContinue_def split: if_splits)

definition endings :: "string list list" where
  "endings = [[], [EventTurnFailed], [EventTurnCancelled]]"

text \<open>What one run of the loop adds to the trace, from a given turn on.\<close>

definition turns_shape :: "Runner \<Rightarrow> int \<Rightarrow> action list \<Rightarrow> agent_error option \<Rightarrow> bool" where
  "turns_shape r turn as err \<longleftrightarrow> list_all calm as \<and> \<not> list_ex is_launch as \<and>
     int (turn_starts as) \<le> max 0 (MaxTurns r - turn) \<and>
     (\<exists>k ending. kinds as = replicate k EventTurnCompleted @ ending \<and> ending \<in> set endings \<and>
        int k \<le> max 1 (MaxTurns r - turn + 1) \<and> (ending = [EventTurnCancelled] \<longrightarrow> err = None))"

lemma turns_shape_end:
  assumes "as = [] \<or> as = [ACancel, AAwaitExit]" and "ev_Kind e \<in> {EventTurnCancelled, EventTurnFailed}"
    and "ev_Kind e = EventTurnCancelled \<longrightarrow> err = None"
  shows "turns_shape r turn (as @ [AEmit e]) err"
  unfolding turns_shape_def using assms
  by (intro conjI exI[of _ 0] exI[of _ "[ev_Kind e]"]) (auto simp: endings_def)

lemma turns_shape_stop:
  assumes "as = [] \<or> as = [ACancel, AAwaitExit]" and "ev_Kind e = EventTurnCompleted"
  shows "turns_shape r turn (as @ [AEmit e]) None"
  unfolding turns_shape_def using assms
  by (intro conjI exI[of _ 1] exI[of _ "[]"]) (auto simp: endings_def)

lemma turns_shape_more:
  assumes "as = [] \<or> as = [ACancel, AAwaitExit]" and "ev_Kind e = EventTurnCompleted" and "turn < MaxTurns r"
    and "starts_turn a \<and> calm a \<and> \<not> is_launch a \<and> kinds [a] = []" and "bs = [] \<or> turns_shape r (turn + 1) bs err"
  shows "turns_shape r turn (as @ [AEmit e, a] @ bs) err"
proof -
  have ka: "kinds (a # bs) = kinds bs" using assms(4) by (cases a) auto
  obtain k ending where b: "list_all calm bs" "\<not> list_ex is_launch bs" "int (turn_starts bs) \<le> max 0 (MaxTurns r - (turn + 1))"
    "kinds bs = replicate k EventTurnCompleted @ ending" "ending \<in> set endings" "int k \<le> max 1 (MaxTurns r - turn)"
    "ending = [EventTurnCancelled] \<longrightarrow> err = None" "bs = [] \<longrightarrow> k = 0"
    using assms(5)
  proof
    assume "bs = []"
    then show thesis using that[of 0 "[]"] by (simp add: endings_def)
  next
    assume t: "turns_shape r (turn + 1) bs err"
    then obtain k ending where "kinds bs = replicate k EventTurnCompleted @ ending" "ending \<in> set endings"
      "int k \<le> max 1 (MaxTurns r - turn)" "ending = [EventTurnCancelled] \<longrightarrow> err = None"
      unfolding turns_shape_def by auto
    then show thesis using that[of k ending] t unfolding turns_shape_def by (cases "bs = []") auto
  qed
  have "int (Suc k) \<le> max 1 (MaxTurns r - turn + 1)" using b(6) assms(3) by linarith
  then show ?thesis
    unfolding turns_shape_def using assms(1-4) b ka
    by (intro conjI exI[of _ "Suc k"] exI[of _ ending]) auto
qed

lemma turns_acts:
  "turns env r s wp turn = (s', err) \<Longrightarrow> \<exists>as. ru_acts s' = ru_acts s @ as \<and> turns_shape r turn as err"
proof (induction env r s wp turn rule: turns.induct)
  case (1 env r s wp turn)
  obtain s1 res where a: "awaitTurn env r s turn = (s1, res)" by fastforce
  obtain as where as: "ru_acts s1 = ru_acts s @ as" "as = [] \<or> as = [ACancel, AAwaitExit]"
    using awaitTurn_acts[of env r s turn] a by auto
  let ?done = "act env [AEmit (newTurnEvent EventTurnCompleted (wp_ids wp) None)] s1"
  consider "tr_cancelled res" | "\<not> tr_cancelled res" "tr_failed res"
    | "\<not> tr_cancelled res" "\<not> tr_failed res" "\<not> shouldContinue env r (wp_issue wp) turn"
    | "\<not> tr_cancelled res" "\<not> tr_failed res" "shouldContinue env r (wp_issue wp) turn"
    by blast
  then show ?case
  proof cases
    case 1
    then show ?thesis
      using "1.prems" a as(1) turns_shape_end[OF as(2), of "newTurnEvent EventTurnCancelled (wp_ids wp) None" None r turn]
      by (auto simp: turns.simps[of env r s wp turn])
  next
    case 2
    then show ?thesis
      using "1.prems" a as(1) turns_shape_end[OF as(2), of "newTurnEvent EventTurnFailed (wp_ids wp) (tr_err res)" "tr_err res" r turn]
      by (auto simp: turns.simps[of env r s wp turn] EventTurnFailed_def EventTurnCancelled_def)
  next
    case 3
    then show ?thesis
      using "1.prems" a as(1) turns_shape_stop[OF as(2), of "newTurnEvent EventTurnCompleted (wp_ids wp) None" r turn]
      by (auto simp: turns.simps[of env r s wp turn])
  next
    case 4
    obtain s2 n where n: "nextTurn env r ?done wp (turn + 1) = (s2, n)" by fastforce
    note s2 = nextTurn_acts[of env r ?done wp "turn + 1", unfolded n]
    note more = turns_shape_more[OF as(2), where turn = turn and r = r, OF _ shouldContinue_bound[OF 4(3)]]
    show ?thesis
    proof (cases n)
      case (Inl e)
      then have "s' = s2" "err = Some e" using "1.prems" 4 a n by (simp_all add: turns.simps[of env r s wp turn])
      then show ?thesis using s2 as(1) more[where bs = "[]" and err = err] by auto
    next
      case (Inr wp')
      then have "turns env r s2 wp' (turn + 1) = (s', err)" using "1.prems" 4 a n by (simp add: turns.simps[of env r s wp turn])
      then obtain bs where "ru_acts s' = ru_acts s2 @ bs" "turns_shape r (turn + 1) bs err"
        using "1.IH" a n 4 Inr by (metis (no_types, lifting))
      then show ?thesis using s2 as(1) more[where bs = bs and err = err] by auto
    qed
  qed
qed


section \<open>The spawn\<close>

definition spawn_shape :: "action list \<Rightarrow> string list \<Rightarrow> bool" where
  "spawn_shape as ks \<longleftrightarrow> list_all calm as \<and> kinds as = ks \<and> turn_starts as \<le> 1"

lemma ensureWorkspace_acts: "ru_acts (fst (ensureWorkspace env r s ident branch)) = ru_acts s"
  by (simp add: ensureWorkspace_def Let_def split: prod.split sum.split option.split)

lemma launchConn_acts:
  "launchConn env r s f wsPath = (s', res) \<Longrightarrow> \<exists>as. ru_acts s' = ru_acts s @ as \<and> list_all calm as \<and> kinds as = [] \<and> turn_starts as = 0"
  by (auto simp: launchConn_def Let_def split: option.splits sum.splits)

lemma initSession_acts:
  "initSession env s startDir rendered tools topts uopts = (s', res) \<Longrightarrow> \<exists>as. ru_acts s' = ru_acts s @ as \<and> spawn_shape as []"
  by (auto simp: initSession_def spawn_shape_def Let_def split: option.splits sum.splits init_choice.splits)

lemma spawnGuarded_acts:
  assumes "spawnGuarded env r s issue attempt meta wsPath = (s', res)"
  shows "case res of
      Inl e \<Rightarrow> \<exists>as. ru_acts s' = ru_acts s @ as \<and> (spawn_shape as [] \<or> spawn_shape as [EventStartupFailed])
    | Inr (wp, sess) \<Rightarrow> \<exists>as. ru_acts s' = ru_acts s @ as \<and> spawn_shape as [EventSessionStarted] \<and>
        wp_issue wp = issue \<and> wp_attempt wp = attempt \<and> wp_projectBranch wp = pm_Branch meta"
proof -
  obtain ws err where b: "BeforeRun (ae_os env) (rn_Workspace r) (ru_ws s) (iss_Identifier issue) (pm_Branch meta) = (ws, err)"
    by fastforce
  show ?thesis
  proof (cases "err = None \<and> (\<exists>p. renderPrompt env r issue attempt meta = Inr p)")
    case False
    then show ?thesis
      using assms b by (cases err; cases "renderPrompt env r issue attempt meta") (auto simp: spawnGuarded_def spawn_shape_def)
  next
    case True
    then obtain rendered where p: "err = None" "renderPrompt env r issue attempt meta = Inr rendered" by auto
    obtain s1 l where l: "launchConn env r (s\<lparr>ru_ws := ws\<rparr>) (frameID issue attempt) wsPath = (s1, l)" by fastforce
    obtain as where as: "ru_acts s1 = ru_acts s @ as" "list_all calm as" "kinds as = []" "turn_starts as = 0"
      using launchConn_acts[OF l] by auto
    show ?thesis
    proof (cases l)
      case (Inl e)
      then show ?thesis using assms b p l as by (auto simp: spawnGuarded_def spawn_shape_def)
    next
      case (Inr startDir)
      obtain s2 i where i: "initSession env s1 startDir rendered (dynamicToolSpecs r) (buildThreadOptions r issue) (buildTurnOptions r) = (s2, i)"
        by fastforce
      obtain bs where bs: "ru_acts s2 = ru_acts s1 @ bs" "spawn_shape bs []" using initSession_acts[OF i] by auto
      show ?thesis using assms b p l i Inr as bs
        by (cases i) (auto simp: spawnGuarded_def spawn_shape_def startRunLoop_def)
    qed
  qed
qed

lemma runLoop_acts:
  "\<exists>as err. ru_acts (runLoop env r s wp) = ru_acts s @ as @ [ACancel, AAwaitExit,
       AAfterRun (iss_Identifier (wp_issue wp)) (wp_projectBranch wp)] @
       (case ae_WorkerDone env of
          NoChannel \<Rightarrow> [] | ChannelReady \<Rightarrow> [AExit (iss_ID (wp_issue wp)) (wp_attempt wp) err]
        | ChannelFull \<Rightarrow> [AExitDropped (iss_ID (wp_issue wp)) (wp_attempt wp)]) \<and> turns_shape r 1 as err"
proof -
  obtain s' err where t: "turns env r s wp 1 = (s', err)" by fastforce
  obtain as where "ru_acts s' = ru_acts s @ as" "turns_shape r 1 as err" using turns_acts[OF t] by auto
  then show ?thesis
    using t by (intro exI[of _ as] exI[of _ err])
      (simp add: runLoop_def teardown_def afterRun_def sendWorkerExit_def split: exit_channel.split)
qed

section \<open>Properties\<close>

abbreviation branch_of :: "'w AgentEnv \<Rightarrow> Issue \<Rightarrow> string" where
  "branch_of env issue \<equiv> pm_Branch (resolveProjectMeta (ae_unmarshal env) (iss_Project issue))"

text \<open>What a worker reports on its way out.\<close>

definition exit_report :: "'w AgentEnv \<Rightarrow> Issue \<Rightarrow> int \<Rightarrow> agent_error option \<Rightarrow> action list" where
  "exit_report env issue attempt err =
     (case ae_WorkerDone env of
        NoChannel \<Rightarrow> []
      | ChannelReady \<Rightarrow> [AExit (iss_ID issue) attempt err]
      | ChannelFull \<Rightarrow> [AExitDropped (iss_ID issue) attempt])"

lemma worker_life_cases:
  obtains (unprepared) e where "snd (ensureWorkspace env r s (iss_Identifier issue) (branch_of env issue)) = Inl e"
      "ru_acts (worker_life env r s issue attempt) = ru_acts s"
  | (failed) p e as ks where "snd (ensureWorkspace env r s (iss_Identifier issue) (branch_of env issue)) = Inr p"
      "snd (spawnWith env r s issue attempt) = Inl e" "spawn_shape as ks" "ks \<in> {[], [EventStartupFailed]}"
      "ru_acts (worker_life env r s issue attempt) = ru_acts s @ as @ [AAfterRun (iss_Identifier issue) (branch_of env issue)]"
  | (ran) p x as bs err where "snd (ensureWorkspace env r s (iss_Identifier issue) (branch_of env issue)) = Inr p"
      "snd (spawnWith env r s issue attempt) = Inr x" "spawn_shape as [EventSessionStarted]" "turns_shape r 1 bs err"
      "ru_acts (worker_life env r s issue attempt) = ru_acts s @ as @ bs @ [ACancel, AAwaitExit,
         AAfterRun (iss_Identifier issue) (branch_of env issue)] @ exit_report env issue attempt err"
proof -
  let ?meta = "resolveProjectMeta (ae_unmarshal env) (iss_Project issue)"
  obtain s1 e where e: "ensureWorkspace env r s (iss_Identifier issue) (pm_Branch ?meta) = (s1, e)" by fastforce
  have s1: "ru_acts s1 = ru_acts s" using ensureWorkspace_acts[of env r s] e by (metis fst_conv)
  show thesis
  proof (cases e)
    case (Inl err)
    then show thesis using e s1 by (intro unprepared) (simp_all add: worker_life_def spawnWith_def Let_def)
  next
    case (Inr p)
    obtain s2 g where g: "spawnGuarded env r s1 issue attempt ?meta p = (s2, g)" by fastforce
    note sg = spawnGuarded_acts[OF g]
    show thesis
    proof (cases g)
      case (Inl err)
      then obtain as ks where "ru_acts s2 = ru_acts s @ as" "spawn_shape as ks" "ks \<in> {[], [EventStartupFailed]}"
        using sg s1 by auto
      then show thesis
        using e \<open>e = Inr p\<close> Inl g by (intro failed[of p err as ks]) (simp_all add: worker_life_def spawnWith_def afterRun_def Let_def)
    next
      case g2: (Inr x)
      obtain wp sess where x: "x = (wp, sess)" by fastforce
      then obtain as where as: "ru_acts s2 = ru_acts s @ as" "spawn_shape as [EventSessionStarted]"
        and wp: "wp_issue wp = issue" "wp_attempt wp = attempt" "wp_projectBranch wp = pm_Branch ?meta"
        using sg s1 g2 by auto
      obtain bs er where "ru_acts (runLoop env r s2 wp) = ru_acts s2 @ bs @ [ACancel, AAwaitExit,
          AAfterRun (iss_Identifier issue) (pm_Branch ?meta)] @ exit_report env issue attempt er" "turns_shape r 1 bs er"
        using runLoop_acts[of env r s2 wp] wp by (auto simp: exit_report_def)
      then show thesis
        using e Inr g g2 x as by (intro ran[of p x as bs er]) (simp_all add: worker_life_def spawnWith_def Let_def)
    qed
  qed
qed

text \<open>C6: A worker gives its workspace back exactly once and reports its exit after that. When the workspace
  cannot be prepared, no further action follows. Otherwise, whatever the agent, the tracker and the clock
  do, the \<open>after_run\<close> hook runs once: as the last action of a spawn that failed, and for a worker that
  started, after its process was cancelled and has exited, followed by at most one exit report.\<close>

theorem worker_releases_workspace:
  "case snd (ensureWorkspace env r s (iss_Identifier issue) (branch_of env issue)) of
     Inl e \<Rightarrow> ru_acts (worker_life env r s issue attempt) = ru_acts s
   | Inr p \<Rightarrow> \<exists>pre post.
       ru_acts (worker_life env r s issue attempt) =
         ru_acts s @ pre @ [AAfterRun (iss_Identifier issue) (branch_of env issue)] @ post \<and>
       list_all calm pre \<and>
       (case snd (spawnWith env r s issue attempt) of
          Inl e \<Rightarrow> post = []
        | Inr x \<Rightarrow> (\<exists>pre'. pre = pre' @ [ACancel, AAwaitExit]) \<and> (\<exists>err. post = exit_report env issue attempt err))"
proof (cases rule: worker_life_cases[of env r s issue attempt])
  case (failed p e as ks)
  then show ?thesis by (simp add: spawn_shape_def exI[of _ as])
next
  case (ran p x as bs err)
  then have "ru_acts (worker_life env r s issue attempt) = ru_acts s @ (as @ bs @ [ACancel, AAwaitExit]) @
      [AAfterRun (iss_Identifier issue) (branch_of env issue)] @ exit_report env issue attempt err"
    and "list_all calm (as @ bs @ [ACancel, AAwaitExit])"
    by (simp_all add: spawn_shape_def turns_shape_def)
  moreover have "\<exists>pre'. as @ bs @ [ACancel, AAwaitExit] = pre' @ [ACancel, AAwaitExit]" by simp
  moreover have "\<exists>er. exit_report env issue attempt err = exit_report env issue attempt er" by blast
  ultimately show ?thesis unfolding ran(1,2) sum.case by blast
qed simp

subsection \<open>What the callback receives\<close>

fun emits :: "action list \<Rightarrow> Event list" where
  "emits [] = []"
| "emits (a # as) = emitted_by a @ emits as"

lemma emits_append [simp]: "emits (as @ bs) = emits as @ emits bs"
  by (induction as) auto

lemma kinds_emits: "kinds as = map ev_Kind (emits as)"
  by (induction as rule: kinds.induct) auto

abbreviation own :: "Event \<Rightarrow> bool" where
  "own e \<equiv> ev_Kind e \<noteq> EventUnsupportedToolCall"

text \<open>
  A stretch of a run: without the handler's events the callback has received what the worker's actions emit,
  and the handler has events only when a process was alive at the start or was launched on the way.
\<close>

definition covers :: "'w Run \<Rightarrow> 'w Run \<Rightarrow> bool" where
  "covers s s' \<longleftrightarrow> (\<exists>as es. ru_acts s' = ru_acts s @ as \<and> ru_emitted s' = ru_emitted s @ es \<and>
     filter own es = filter own (emits as) \<and>
     (ru_live s \<or> list_ex is_launch as \<or> \<not> ru_live s' \<and> es = emits as))"

lemma coversI:
  assumes "ru_acts s' = ru_acts s @ as" and "ru_emitted s' = ru_emitted s @ es" and "filter own es = filter own (emits as)"
    and "ru_live s \<or> list_ex is_launch as \<or> \<not> ru_live s' \<and> es = emits as"
  shows "covers s s'"
  unfolding covers_def using assms by blast

lemma covers_refl [simp]: "covers s s"
  by (rule coversI[of s s "[]" "[]"]) auto

lemma covers_trans:
  assumes "covers s s1" and "covers s1 s2"
  shows "covers s s2"
proof -
  obtain as es where a: "ru_acts s1 = ru_acts s @ as" "ru_emitted s1 = ru_emitted s @ es" "filter own es = filter own (emits as)"
    "ru_live s \<or> list_ex is_launch as \<or> \<not> ru_live s1 \<and> es = emits as"
    using assms(1) unfolding covers_def by blast
  obtain bs fs where b: "ru_acts s2 = ru_acts s1 @ bs" "ru_emitted s2 = ru_emitted s1 @ fs" "filter own fs = filter own (emits bs)"
    "ru_live s1 \<or> list_ex is_launch bs \<or> \<not> ru_live s2 \<and> fs = emits bs"
    using assms(2) unfolding covers_def by blast
  show ?thesis by (rule coversI[of s2 s "as @ bs" "es @ fs"]) (use a b in auto)
qed

lemma handler_events: "filter own (map (\<lambda>ids. newTurnEvent EventUnsupportedToolCall ids None) xs) = []"
  by (induction xs) auto

lemma covers_handler: "ru_live s \<Longrightarrow> covers s (handler_emits env s)"
  by (rule coversI[where as = "[]" and es = "map (\<lambda>ids. newTurnEvent EventUnsupportedToolCall ids None) (ae_toolCalls env (length (ru_acts s)))"])
    (simp_all add: handler_emits_def handler_events)

lemma covers_step:
  "covers s (handler_emits env (s\<lparr>ru_acts := ru_acts s @ [a], ru_live := (ru_live s \<and> a \<noteq> AAwaitExit),
     ru_emitted := ru_emitted s @ emitted_by a\<rparr>))" (is "covers s (handler_emits env ?t)")
proof (cases "ru_live ?t")
  case True
  have "covers s ?t" by (rule coversI[where as = "[a]" and es = "emitted_by a"]) (use True in auto)
  then show ?thesis using True by (rule covers_trans[OF _ covers_handler])
next
  case False
  then show ?thesis
    by (intro coversI[where as = "[a]" and es = "emitted_by a"]) (auto simp: handler_emits_def)
qed

lemma covers_act: "covers s0 s \<Longrightarrow> covers s0 (act env as s)"
  by (induction as arbitrary: s) (auto intro: covers_trans[OF _ covers_step])

lemma covers_exited: "covers s0 s \<Longrightarrow> covers s0 (exited s)"
  by (erule covers_trans, rule coversI[where as = "[]" and es = "[]"]) (auto simp: exited_def)

lemma covers_ws: "covers s0 s \<Longrightarrow> covers s0 (s\<lparr>ru_ws := ws\<rparr>)"
  by (erule covers_trans, rule coversI[where as = "[]" and es = "[]"]) auto

lemma covers_launch:
  assumes "covers s0 s"
  shows "covers s0 (handler_emits env ((act env [ALaunch f plan] s)\<lparr>ru_live := True\<rparr>))"
proof -
  let ?t = "(act env [ALaunch f plan] s)\<lparr>ru_live := True\<rparr>"
  obtain as es where a: "ru_acts (act env [ALaunch f plan] s) = ru_acts s0 @ as" "ru_emitted (act env [ALaunch f plan] s) = ru_emitted s0 @ es"
    "filter own es = filter own (emits as)"
    using covers_act[OF assms] unfolding covers_def by blast
  obtain bs where "ru_acts s = ru_acts s0 @ bs" using assms unfolding covers_def by blast
  then have "list_ex is_launch as" using a(1) by auto
  then have "covers s0 ?t" using a by (intro coversI[of ?t s0 as es]) auto
  then show ?thesis by (rule covers_trans[OF _ covers_handler]) simp
qed

lemmas covers_intros = covers_act covers_exited covers_ws covers_launch

lemma covers_ensureWorkspace: "covers s0 s \<Longrightarrow> covers s0 (fst (ensureWorkspace env r s ident branch))"
  by (auto simp: ensureWorkspace_def Let_def intro: covers_intros split: prod.split sum.split option.split)

lemma covers_launchConn: "covers s0 s \<Longrightarrow> covers s0 (fst (launchConn env r s f wsPath))"
  by (auto simp: launchConn_def Let_def simp del: act.simps intro: covers_intros split: option.split sum.split)

lemma covers_initSession: "covers s0 s \<Longrightarrow> covers s0 (fst (initSession env s startDir rendered tools topts uopts))"
  by (auto simp: initSession_def Let_def simp del: act.simps intro: covers_intros split: option.split sum.split init_choice.split)

lemma covers_pairs:
  "launchConn env r s f wsPath = (s', l) \<Longrightarrow> covers s0 s \<Longrightarrow> covers s0 s'"
  "initSession env s startDir rendered tools topts uopts = (s', i) \<Longrightarrow> covers s0 s \<Longrightarrow> covers s0 s'"
  using covers_launchConn[of s0 s env r f wsPath] covers_initSession[of s0 s env startDir rendered tools topts uopts] by auto

lemma covers_spawnGuarded:
  assumes "covers s0 s"
  shows "covers s0 (fst (spawnGuarded env r s issue attempt meta wsPath))"
proof -
  obtain ws err where b: "BeforeRun (ae_os env) (rn_Workspace r) (ru_ws s) (iss_Identifier issue) (pm_Branch meta) = (ws, err)"
    by fastforce
  have g: "covers s0 (s\<lparr>ru_ws := ws\<rparr>)" by (rule covers_ws[OF assms])
  obtain s1 l where l: "launchConn env r (s\<lparr>ru_ws := ws\<rparr>) (frameID issue attempt) wsPath = (s1, l)" by fastforce
  have g1: "covers s0 s1" by (rule covers_pairs(1)[OF l g])
  show ?thesis
  proof (cases "\<exists>p dir. err = None \<and> renderPrompt env r issue attempt meta = Inr p \<and> l = Inr dir")
    case True
    then obtain p dir where c: "err = None" "renderPrompt env r issue attempt meta = Inr p" "l = Inr dir" by blast
    obtain s2 i where i: "initSession env s1 dir p (dynamicToolSpecs r) (buildThreadOptions r issue) (buildTurnOptions r) = (s2, i)"
      by fastforce
    have "covers s0 s2" by (rule covers_pairs(2)[OF i g1])
    then show ?thesis
      using b l c i by (cases i) (simp_all add: spawnGuarded_def startRunLoop_def covers_act del: act.simps)
  next
    case False
    then show ?thesis
      using b l g g1 covers_act[OF g1, of env "[ACancel]"]
      by (cases err; cases "renderPrompt env r issue attempt meta"; cases l) (simp_all add: spawnGuarded_def del: act.simps)
  qed
qed

lemma covers_spawnWith: "covers s0 s \<Longrightarrow> covers s0 (fst (spawnWith env r s issue attempt))"
proof -
  assume g: "covers s0 s"
  let ?meta = "resolveProjectMeta (ae_unmarshal env) (iss_Project issue)"
  obtain s1 e where e: "ensureWorkspace env r s (iss_Identifier issue) (pm_Branch ?meta) = (s1, e)" by fastforce
  have s1: "covers s0 s1" using covers_ensureWorkspace[OF g] e by (metis fst_conv)
  show ?thesis
  proof (cases e)
    case (Inr p)
    obtain s2 x where x: "spawnGuarded env r s1 issue attempt ?meta p = (s2, x)" by fastforce
    have "covers s0 s2" using covers_spawnGuarded[OF s1] x by (metis fst_conv)
    then show ?thesis
      using e Inr x by (cases x) (auto simp: spawnWith_def afterRun_def Let_def simp del: act.simps intro: covers_act covers_ws)
  qed (use e s1 in \<open>simp add: spawnWith_def\<close>)
qed

lemma covers_awaitTurn: "covers s0 s \<Longrightarrow> covers s0 (fst (awaitTurn env r s turn))"
  by (auto simp: awaitTurn_def Let_def simp del: act.simps intro: covers_intros split: await_choice.split option.split)

lemma covers_nextTurn: "covers s0 s \<Longrightarrow> covers s0 (fst (nextTurn env r s wp turn))"
  by (auto simp: nextTurn_def Let_def simp del: act.simps intro: covers_intros split: option.split next_choice.split)

lemma covers_turns: "covers s0 s \<Longrightarrow> covers s0 (fst (turns env r s wp turn))"
proof (induction env r s wp turn rule: turns.induct)
  case (1 env r s wp turn)
  obtain s1 res where a: "awaitTurn env r s turn = (s1, res)" by fastforce
  have g1: "covers s0 s1" using covers_awaitTurn[OF "1.prems"] a by (metis fst_conv)
  let ?done = "act env [AEmit (newTurnEvent EventTurnCompleted (wp_ids wp) None)] s1"
  have g: "covers s0 ?done" by (rule covers_act[OF g1])
  obtain s2 n where n: "nextTurn env r ?done wp (turn + 1) = (s2, n)" by fastforce
  have g2: "covers s0 s2" using covers_nextTurn[OF g] n by (metis fst_conv)
  show ?case
  proof (cases "tr_cancelled res \<or> tr_failed res \<or> \<not> shouldContinue env r (wp_issue wp) turn")
    case True
    then show ?thesis
      using a g1 covers_act by (auto simp: turns.simps[of env r s wp turn] simp del: act.simps)
  next
    case False
    then have t: "fst (turns env r s wp turn) = (case n of Inl e \<Rightarrow> s2 | Inr wp' \<Rightarrow> fst (turns env r s2 wp' (turn + 1)))"
      using a n by (auto simp: turns.simps[of env r s wp turn] simp del: act.simps split: sum.split)
    show ?thesis
    proof (cases n)
      case (Inr wp')
      then show ?thesis using "1.IH"[OF a[symmetric] refl _ _ refl _ n[symmetric]] False g2 t by auto
    qed (use t g2 in simp)
  qed
qed

lemma covers_worker_life: "covers s (worker_life env r s issue attempt)"
proof -
  obtain s1 x where x: "spawnWith env r s issue attempt = (s1, x)" by fastforce
  have g: "covers s s1" using covers_spawnWith[of s s env r issue attempt] x by simp
  show ?thesis
  proof (cases x)
    case (Inr y)
    obtain wp sess where y: "y = (wp, sess)" by fastforce
    obtain s2 err where t: "turns env r s1 wp 1 = (s2, err)" by fastforce
    have "covers s s2" using covers_turns[OF g] t by (metis fst_conv)
    then show ?thesis
      using x Inr y t by (auto simp: worker_life_def runLoop_def teardown_def afterRun_def sendWorkerExit_def
        simp del: act.simps intro: covers_act covers_ws split: exit_channel.split)
  qed (use x g in \<open>simp add: worker_life_def\<close>)
qed

lemma own_kinds:
  "EventStartupFailed \<noteq> EventUnsupportedToolCall" "EventSessionStarted \<noteq> EventUnsupportedToolCall"
  "EventTurnCompleted \<noteq> EventUnsupportedToolCall" "EventTurnFailed \<noteq> EventUnsupportedToolCall"
  "EventTurnCancelled \<noteq> EventUnsupportedToolCall"
  by (simp_all add: EventStartupFailed_def EventSessionStarted_def EventTurnCompleted_def EventTurnFailed_def
      EventTurnCancelled_def EventUnsupportedToolCall_def)

definition protocol :: "Runner \<Rightarrow> string list \<Rightarrow> bool" where
  "protocol r ks \<longleftrightarrow> ks \<in> {[], [EventStartupFailed]} \<or>
     (\<exists>k ending. ks = [EventSessionStarted] @ replicate k EventTurnCompleted @ ending \<and>
        ending \<in> set endings \<and> int k \<le> max 1 (MaxTurns r))"

lemma protocol_own: "protocol r ks \<Longrightarrow> filter (\<lambda>k. k \<noteq> EventUnsupportedToolCall) ks = ks"
  by (auto simp: protocol_def endings_def own_kinds)

lemma worker_protocol:
  "\<exists>as. ru_acts (worker_life env r s issue attempt) = ru_acts s @ as \<and>
     int (turn_starts as) \<le> max 1 (MaxTurns r) \<and> protocol r (kinds as)"
proof (cases rule: worker_life_cases[of env r s issue attempt])
  case (failed p e as ks)
  then show ?thesis
    by (intro exI[of _ "as @ [AAfterRun (iss_Identifier issue) (branch_of env issue)]"]) (auto simp: spawn_shape_def protocol_def)
next
  case (ran p x as bs err)
  have "kinds (exit_report env issue attempt err) = []" "turn_starts (exit_report env issue attempt err) = 0"
    by (simp_all add: exit_report_def split: exit_channel.split)
  moreover obtain k ending where "kinds bs = replicate k EventTurnCompleted @ ending" "ending \<in> set endings"
    "int k \<le> max 1 (MaxTurns r)" "int (turn_starts bs) \<le> max 0 (MaxTurns r - 1)"
    using ran(4) unfolding turns_shape_def by auto
  ultimately show ?thesis
    using ran(3,5) by (intro exI[of _ "as @ bs @ [ACancel, AAwaitExit,
      AAfterRun (iss_Identifier issue) (branch_of env issue)] @ exit_report env issue attempt err"])
      (auto simp: spawn_shape_def protocol_def)
qed (simp add: protocol_def)

text \<open>C18: An agent gets a bounded number of turns and the events of its worker follow a protocol. Over the life of a
  worker at most \<open>max_turns\<close> turns are started, or one when the limit is smaller. Of the events that reach
  the \<open>emit\<close> callback, those other than \<open>unsupported_tool_call\<close>, which the message handler emits beside the
  worker, are those of a spawn that failed (none, or a failed startup), or a started session, one completed
  turn after the other and possibly a failed or cancelled one at the end. Unsupported tool calls are reported
  only by a worker that launched a process, unless a process was alive when it started.\<close>

theorem turn_protocol:
  "\<exists>as es. ru_acts (worker_life env r s issue attempt) = ru_acts s @ as \<and>
     ru_emitted (worker_life env r s issue attempt) = ru_emitted s @ es \<and>
     int (turn_starts as) \<le> max 1 (ac_MaxTurns (cfg_Agent (rn_Cfg r))) \<and>
     (let ks = map ev_Kind (filter (\<lambda>e. ev_Kind e \<noteq> EventUnsupportedToolCall) es)
      in ks \<in> {[], [EventStartupFailed]} \<or>
         (\<exists>k ending. ks = [EventSessionStarted] @ replicate k EventTurnCompleted @ ending \<and>
            ending \<in> set endings \<and> int k \<le> max 1 (ac_MaxTurns (cfg_Agent (rn_Cfg r))))) \<and>
     (list_all (\<lambda>e. ev_Kind e \<noteq> EventUnsupportedToolCall) es \<or> list_ex is_launch as \<or> ru_live s)"
proof -
  obtain as where a: "ru_acts (worker_life env r s issue attempt) = ru_acts s @ as"
    "int (turn_starts as) \<le> max 1 (MaxTurns r)" "protocol r (kinds as)"
    using worker_protocol[of env r s issue attempt] by blast
  obtain es where e: "ru_emitted (worker_life env r s issue attempt) = ru_emitted s @ es" "filter own es = filter own (emits as)"
    "ru_live s \<or> list_ex is_launch as \<or> es = emits as"
    using covers_worker_life[of s env r issue attempt] a(1) unfolding covers_def by auto
  have k: "map ev_Kind (filter own es) = kinds as"
    using protocol_own[OF a(3)] e(2) by (simp add: kinds_emits filter_map comp_def)
  have "es = emits as \<Longrightarrow> list_all own es"
    using k unfolding kinds_emits by (metis filter_id_conv length_filter_less length_map less_irrefl list_all_iff)
  then have l: "list_all own es \<or> list_ex is_launch as \<or> ru_live s" using e(3) by blast
  show ?thesis
    by (intro exI[of _ as] exI[of _ es] conjI) (use a e(1) l in \<open>simp_all only: Let_def k protocol_def\<close>)
qed

section \<open>Where an agent is launched\<close>

definition launch_ok :: "Runner \<Rightarrow> Issue \<Rightarrow> int \<Rightarrow> string \<Rightarrow> string \<Rightarrow> LaunchPlan \<Rightarrow> bool" where
  "launch_ok r issue attempt wsPath f plan \<longleftrightarrow> f = frameID issue attempt \<and> lp_StartDir plan = wsPath \<and>
     lp_Project plan = Root (rn_Workspace r) \<and> lp_Command plan = cc_Command (cfg_Codex (rn_Cfg r)) \<and>
     SplitArgs (lp_Command plan) = Some (Inr (lp_Argv plan))"

lemma launchConn_launch:
  assumes "launchConn env r s (frameID issue attempt) wsPath = (s', res)" and "ALaunch f plan \<in> set (ru_acts s')"
  shows "ALaunch f plan \<in> set (ru_acts s) \<or> launch_ok r issue attempt wsPath f plan"
  using assms by (auto simp: launchConn_def launch_ok_def Let_def split: option.splits sum.splits)

lemma initSession_launch:
  assumes "initSession env s startDir rendered tools topts uopts = (s', res)" and "ALaunch f plan \<in> set (ru_acts s')"
  shows "ALaunch f plan \<in> set (ru_acts s)"
  using assms by (auto simp: initSession_def Let_def split: option.splits sum.splits init_choice.splits)

lemma spawnGuarded_launch:
  assumes "spawnGuarded env r s issue attempt meta wsPath = (s', res)" and "ALaunch f plan \<in> set (ru_acts s')"
  shows "ALaunch f plan \<in> set (ru_acts s) \<or> launch_ok r issue attempt wsPath f plan"
  using assms
  by (auto simp: spawnGuarded_def startRunLoop_def Let_def split: prod.splits option.splits sum.splits
      dest!: initSession_launch launchConn_launch)

lemma runLoop_launch:
  assumes "ALaunch f plan \<in> set (ru_acts (runLoop env r s wp))"
  shows "ALaunch f plan \<in> set (ru_acts s)"
proof -
  obtain as err where a: "ru_acts (runLoop env r s wp) = ru_acts s @ as @ [ACancel, AAwaitExit,
       AAfterRun (iss_Identifier (wp_issue wp)) (wp_projectBranch wp)] @
       (case ae_WorkerDone env of
          NoChannel \<Rightarrow> [] | ChannelReady \<Rightarrow> [AExit (iss_ID (wp_issue wp)) (wp_attempt wp) err]
        | ChannelFull \<Rightarrow> [AExitDropped (iss_ID (wp_issue wp)) (wp_attempt wp)])" and t: "turns_shape r 1 as err"
    using runLoop_acts[of env r s wp] by blast
  have "ALaunch f plan \<notin> set as" using t unfolding turns_shape_def list_ex_iff by (metis is_launch.simps(1))
  then show ?thesis using assms a by (cases "ae_WorkerDone env") auto
qed

lemma Ensure_Inr: "Ensure os m st ident branch = (st', Inr p) \<Longrightarrow> Path m ident = Inr p"
  by (auto simp: Ensure_def split: sum.splits prod.splits option.splits if_splits)

text \<open>C4: An agent is only ever launched in the workspace of its own issue. Whenever a worker launches a process,
  the directory is the workspace path of the issue's identifier, it lies strictly inside the workspace root,
  it was prepared and then passed the check on symbolic links, and the arguments are those of the configured command.\<close>

theorem launched_in_workspace:
  assumes "ALaunch f plan \<in> set (ru_acts (worker_life env r s issue attempt))" and "ALaunch f plan \<notin> set (ru_acts s)"
    and "rn_Workspace r = Workspace.New cfg"
  shows "Path (rn_Workspace r) (iss_Identifier issue) = Inr (lp_StartDir plan) \<and>
     inside (lp_Project plan) (lp_StartDir plan) \<and>
     (let (ws, res) = Ensure (ae_os env) (rn_Workspace r) (ru_ws s) (iss_Identifier issue) (branch_of env issue)
      in res = Inr (lp_StartDir plan) \<and>
        VerifyCWD (ae_os env) (ws_world ws) (rn_Workspace r) (iss_Identifier issue) (lp_StartDir plan) = None) \<and>
     f = frameID issue attempt \<and> SplitArgs (cc_Command (cfg_Codex (rn_Cfg r))) = Some (Inr (lp_Argv plan))"
proof -
  let ?meta = "resolveProjectMeta (ae_unmarshal env) (iss_Project issue)"
  obtain s1 e where e: "ensureWorkspace env r s (iss_Identifier issue) (pm_Branch ?meta) = (s1, e)" by fastforce
  have s1: "ru_acts s1 = ru_acts s" using ensureWorkspace_acts[of env r s] e by (metis fst_conv)
  show ?thesis
  proof (cases e)
    case (Inl err)
    then show ?thesis using e s1 assms(1,2) by (simp add: worker_life_def spawnWith_def Let_def)
  next
    case (Inr p)
    obtain s2 g where g: "spawnGuarded env r s1 issue attempt ?meta p = (s2, g)" by fastforce
    have "ALaunch f plan \<in> set (ru_acts s2)"
      using assms(1) e Inr g
      by (cases g) (auto simp: worker_life_def spawnWith_def afterRun_def Let_def split: prod.splits dest: runLoop_launch)
    then have ok: "launch_ok r issue attempt p f plan" using spawnGuarded_launch[OF g] s1 assms(2) by auto
    obtain ws where en: "Ensure (ae_os env) (rn_Workspace r) (ru_ws s) (iss_Identifier issue) (pm_Branch ?meta) = (ws, Inr p)"
      and v: "VerifyCWD (ae_os env) (ws_world ws) (rn_Workspace r) (iss_Identifier issue) p = None"
      using e Inr by (auto simp: ensureWorkspace_def Let_def split: prod.splits sum.splits option.splits)
    from en have path: "Path (rn_Workspace r) (iss_Identifier issue) = Inr p" by (simp add: Ensure_Inr)
    then have "inside (Root (rn_Workspace r)) p"
      using Path_Inr[of cfg] proper_inside[of "iss_Identifier issue" cfg] assms(3) by (simp add: Root_def)
    then show ?thesis using ok path v en by (auto simp: launch_ok_def)
  qed
qed


definition sample_issue :: Issue where
  "sample_issue = \<lparr>iss_ID = ''id1'', iss_Identifier = ''AG-1'', iss_Title = '''', iss_Description = '''', iss_Priority = None,
     iss_State = ''Todo'', iss_BranchName = '''', iss_URL = '''', iss_Labels = [], iss_BlockedBy = [],
     iss_Project = \<lparr>pr_Name = '''', pr_Content = ''''\<rparr>, iss_CreatedAt = 0, iss_UpdatedAt = 0\<rparr>"

definition sample_runner :: Runner where
  "sample_runner = \<lparr>rn_Workspace = Workspace.New sample_manager_config,
     rn_Cfg = zero_config\<lparr>cfg_Codex := (cfg_Codex zero_config)\<lparr>cc_Command := ''codex app-server''\<rparr>\<rparr>,
     rn_PromptTemplate = '''', rn_PromptLoader = None, rn_LinearClient = False\<rparr>"

text \<open>An environment in which the process cannot be started.\<close>

definition sample_env :: "(string list \<times> nat) AgentEnv" where
  "sample_env = \<lparr>ae_os = sample_os, ae_unmarshal = (\<lambda>_. Inr YNil), ae_liquid = (\<lambda>t _. Inr t),
     ae_Wrap = (\<lambda>_ plan. Inr (lp_StartDir plan)), ae_spawn = Some ''not found'', ae_Initialize = None,
     ae_StartThread = Inr ''t1'', ae_StartTurn = (\<lambda>_. None), ae_initChoice = InitTimer, ae_nextChoice = (\<lambda>_. NextTimer),
     ae_awaitChoice = (\<lambda>_. AwaitTimer), ae_RefreshStates = None, ae_WorkerDone = ChannelReady, ae_toolCalls = (\<lambda>_. []), ae_Now = 0\<rparr>"

definition sample_run :: "(string list \<times> nat) Run" where
  "sample_run = \<lparr>ru_ws = \<lparr>ws_world = ([], 1), ws_log = []\<rparr>, ru_acts = [], ru_live = False, ru_emitted = []\<rparr>"

lemma sample_verify: "VerifyCWD sample_os w (Workspace.New sample_manager_config) ''AG-1'' ''/ws/AG-1'' = None"
proof -
  have "Clean ''/ws/AG-1'' = ''/ws/AG-1''" "\<not> escapes (Rel ''/ws'' ''/ws/AG-1'')"
    "m_root (Workspace.New sample_manager_config) = ''/ws''" by code_simp+
  then show ?thesis by (simp add: VerifyCWD_def sample_paths sample_os_def)
qed

lemma sample_life:
  "ru_acts (worker_life sample_env sample_runner sample_run sample_issue 1) =
     [ALaunch (frameID sample_issue 1)
        \<lparr>lp_Command = ''codex app-server'', lp_Argv = [''codex'', ''app-server''], lp_StartDir = ''/ws/AG-1'', lp_Project = ''/ws''\<rparr>,
      ACancel, AAfterRun ''AG-1'' '''']"
proof -
  have a: "SplitArgs ''codex app-server'' = Some (Inr [''codex'', ''app-server''])" by code_simp
  have r: "Root (Workspace.New sample_manager_config) = ''/ws''" by code_simp
  have m: "resolveProjectMeta u (iss_Project sample_issue) = \<lparr>pm_Name = '''', pm_Branch = '''', pm_Prompt = ''''\<rparr>" for u
    by (simp add: resolveProjectMeta_def sample_issue_def)
  have e: "ensureWorkspace sample_env sample_runner sample_run ''AG-1'' '''' =
      (\<lparr>ru_ws = \<lparr>ws_world = ([''/ws/AG-1''], 2), ws_log = [HookStart ''after_create'' ''/ws/AG-1'', HookOutput ''after_create'' '''']\<rparr>,
        ru_acts = [], ru_live = False, ru_emitted = []\<rparr>, Inr ''/ws/AG-1'')"
    using sample_verify by (simp add: ensureWorkspace_def sample_env_def sample_runner_def sample_run_def sample_defs)
  have i: "iss_Identifier sample_issue = ''AG-1''" by (simp add: sample_issue_def)
  have "BeforeRun sample_os (Workspace.New sample_manager_config) st ''AG-1'' '''' = (st, None)" for st
    by (simp add: BeforeRun_def runHook_def sample_paths sample_hooks)
  then show ?thesis
    using e by (simp add: worker_life_def spawnWith_def m i spawnGuarded_def renderPrompt_def Render_def currentTemplate_def
      launchConn_def sample_runner_def sample_env_def a r afterRun_def)
qed

theorem launched_in_workspace_witness:
  "Path (rn_Workspace sample_runner) (iss_Identifier sample_issue) = Inr ''/ws/AG-1'' \<and> inside ''/ws'' ''/ws/AG-1'' \<and>
   SplitArgs (cc_Command (cfg_Codex (rn_Cfg sample_runner))) = Some (Inr [''codex'', ''app-server''])"
proof -
  let ?plan = "\<lparr>lp_Command = ''codex app-server'', lp_Argv = [''codex'', ''app-server''], lp_StartDir = ''/ws/AG-1'', lp_Project = ''/ws''\<rparr>"
  have "ALaunch (frameID sample_issue 1) ?plan \<in> set (ru_acts (worker_life sample_env sample_runner sample_run sample_issue 1))"
    by (simp add: sample_life)
  moreover have "ALaunch (frameID sample_issue 1) ?plan \<notin> set (ru_acts sample_run)" by (simp add: sample_run_def)
  moreover have "rn_Workspace sample_runner = Workspace.New sample_manager_config" by (simp add: sample_runner_def)
  ultimately show ?thesis
    using launched_in_workspace[of "frameID sample_issue 1" ?plan sample_env sample_runner sample_run sample_issue 1 sample_manager_config]
    by simp
qed

end
