(* ===== verification/AgentHandler.thy ===== *)
theory AgentHandler
  imports AgentRunner
begin

text \<open>
  The handler of the messages an agent sends while it works (\<open>services/orchestrator/agent/handler.go\<close>):
  notifications drive the session, the turn result and the activity reports, and server requests are
  answered. A message is given with the fields the code extracts from its JSON; \<open>None\<close> stands for
  parameters that do not decode. The two result channels hold at most one value, and a send to a full
  channel is dropped.
\<close>

section \<open>Messages\<close>

record RateWindow =
  rw_UsedPercent :: int
  rw_ResetsAt :: "int option"

record RateLimits =
  rl_Primary :: "RateWindow option"
  rl_Secondary :: "RateWindow option"

text \<open>The thread of \<open>turn/started\<close> is the one at the top level; its turn has a current and an older spelling.\<close>

datatype notification =
    MethodThreadStarted string
  | MethodTurnStarted string string string
  | MethodTurnCompleted
  | MethodError string
  | MethodItemAgentMessageDelta string
  | MethodThreadTokenUsageUpdated "Usage option"
  | MethodAccountRateLimitsUpdated "RateLimits option"
  | MethodOther string

fun method_name :: "notification \<Rightarrow> string" where
  "method_name (MethodThreadStarted _) = ''thread/started''"
| "method_name (MethodTurnStarted _ _ _) = ''turn/started''"
| "method_name MethodTurnCompleted = ''turn/completed''"
| "method_name (MethodError _) = ''error''"
| "method_name (MethodItemAgentMessageDelta _) = ''item/agentMessage/delta''"
| "method_name (MethodThreadTokenUsageUpdated _) = ''thread/tokenUsage/updated''"
| "method_name (MethodAccountRateLimitsUpdated _) = ''account/rateLimits/updated''"
| "method_name (MethodOther m) = m"

record linearArgs =
  la_Query :: string
  la_Variables :: string

record toolCallParams =
  tp_Tool :: string
  tp_Arguments :: "linearArgs option"

datatype server_request =
    MethodItemCommandExecutionRequestApproval
  | MethodItemFileChangeRequestApproval
  | MethodItemToolCall "toolCallParams option"
  | MethodItemToolRequestUserInput
  | MethodUnsupported string

datatype reply =
    ReplyDecision string
  | ReplyTool bool string
  | ReplyError string

text \<open>The Linear client: an error, or the success flag and the encoded result, unless encoding fails.\<close>

type_synonym linear_client = "string \<Rightarrow> string \<Rightarrow> string + (bool \<times> string option)"

section \<open>State\<close>

record CodexActivity =
  ca_IssueID :: string
  ca_Event :: string
  ca_Message :: string
  ca_Timestamp :: time
  ca_Usage :: "Usage option"
  ca_RateLimit :: "RateLimitSnapshot option"
  ca_TurnDuration :: "duration option"
  ca_TurnCompleted :: bool

record turnHandler =
  th_threadID :: string
  th_turnID :: string
  th_turnStartedAt :: time
  th_sessionReady :: "sessionIDs option"
  th_turnDone :: "turnResult option"
  th_issueID :: string
  th_reports :: "CodexActivity list"
  th_replies :: "(nat \<times> reply) list"
  th_events :: "Event list"

text \<open>A send that does not block, on a channel of capacity one.\<close>

definition try_send :: "'a option \<Rightarrow> 'a \<Rightarrow> 'a option" where
  "try_send ch v = (case ch of None \<Rightarrow> Some v | Some x \<Rightarrow> Some x)"

definition report :: "CodexActivity \<Rightarrow> turnHandler \<Rightarrow> turnHandler" where
  "report a h = h\<lparr>th_reports := th_reports h @ [a]\<rparr>"

section \<open>Notifications\<close>

definition extractTurnID :: "string \<Rightarrow> string \<Rightarrow> string" where
  "extractTurnID turn legacy = (if turn \<noteq> '''' then turn else legacy)"

definition mapRateLimit :: "RateLimits \<Rightarrow> RateLimitSnapshot" where
  "mapRateLimit rl = \<lparr>
     PrimaryUsedPercent = (case rl_Primary rl of None \<Rightarrow> 0 | Some w \<Rightarrow> rw_UsedPercent w),
     PrimaryResetsAt = (case rl_Primary rl of None \<Rightarrow> 0 | Some w \<Rightarrow> (case rw_ResetsAt w of None \<Rightarrow> 0 | Some t \<Rightarrow> t)),
     SecondaryUsedPercent = (case rl_Secondary rl of None \<Rightarrow> 0 | Some w \<Rightarrow> rw_UsedPercent w),
     SecondaryResetsAt = (case rl_Secondary rl of None \<Rightarrow> 0 | Some w \<Rightarrow> (case rw_ResetsAt w of None \<Rightarrow> 0 | Some t \<Rightarrow> t))\<rparr>"

text \<open>The first switch: sessions and turns. It also fills in the turn of the activity.\<close>

fun manage_session :: "time \<Rightarrow> notification \<Rightarrow> turnHandler \<times> CodexActivity \<Rightarrow> turnHandler \<times> CodexActivity" where
  "manage_session now (MethodThreadStarted tid) (h, activity) = (h\<lparr>th_threadID := tid\<rparr>, activity)"
| "manage_session now (MethodTurnStarted turn legacy tid) (h, activity) =
     (let turnID = extractTurnID turn legacy;
          h = (if tid \<noteq> '''' then h\<lparr>th_threadID := tid\<rparr> else h);
          h = h\<lparr>th_turnID := turnID, th_turnStartedAt := now\<rparr>
      in (h\<lparr>th_sessionReady := try_send (th_sessionReady h) \<lparr>si_threadID = th_threadID h, si_turnID = turnID\<rparr>\<rparr>, activity))"
| "manage_session now MethodTurnCompleted (h, activity) =
     (let started = th_turnStartedAt h;
          h = h\<lparr>th_turnStartedAt := zero_time\<rparr>;
          activity = (if is_zero started then activity else activity\<lparr>ca_TurnDuration := Some (time_sub now started)\<rparr>)
      in (h\<lparr>th_turnDone := try_send (th_turnDone h) \<lparr>tr_failed = False, tr_cancelled = False, tr_err = None\<rparr>\<rparr>,
          activity\<lparr>ca_TurnCompleted := True\<rparr>))"
| "manage_session now (MethodError msg) (h, activity) =
     (h\<lparr>th_turnDone := try_send (th_turnDone h) \<lparr>tr_failed = True, tr_cancelled = False, tr_err = Some (TurnError msg)\<rparr>\<rparr>, activity)"
| "manage_session now _ (h, activity) = (h, activity)"

text \<open>The second switch: metrics.\<close>

fun enrich :: "notification \<Rightarrow> CodexActivity \<Rightarrow> CodexActivity" where
  "enrich (MethodItemAgentMessageDelta delta) activity = activity\<lparr>ca_Message := delta\<rparr>"
| "enrich (MethodThreadTokenUsageUpdated (Some u)) activity = activity\<lparr>ca_Usage := Some u\<rparr>"
| "enrich (MethodAccountRateLimitsUpdated (Some rl)) activity = activity\<lparr>ca_RateLimit := Some (mapRateLimit rl)\<rparr>"
| "enrich _ activity = activity"

definition OnNotification :: "time \<Rightarrow> notification \<Rightarrow> turnHandler \<Rightarrow> turnHandler" where
  "OnNotification now n h =
     (let activity = \<lparr>ca_IssueID = th_issueID h, ca_Event = method_name n, ca_Message = '''', ca_Timestamp = now,
            ca_Usage = None, ca_RateLimit = None, ca_TurnDuration = None, ca_TurnCompleted = False\<rparr>;
          (h, activity) = manage_session now n (h, activity)
      in report (enrich n activity) h)"

section \<open>Server requests\<close>

definition send_reply :: "nat \<Rightarrow> reply \<Rightarrow> turnHandler \<Rightarrow> turnHandler" where
  "send_reply rid r h = h\<lparr>th_replies := th_replies h @ [(rid, r)]\<rparr>"

definition handleUserInputRequired :: "time \<Rightarrow> nat \<Rightarrow> turnHandler \<Rightarrow> turnHandler" where
  "handleUserInputRequired now rid h =
     (let h = send_reply rid (ReplyError ''user input required: automated orchestration cannot provide user input'') h;
          h = report \<lparr>ca_IssueID = th_issueID h, ca_Event = ''turn_input_required'', ca_Message = '''', ca_Timestamp = now,
            ca_Usage = None, ca_RateLimit = None, ca_TurnDuration = None, ca_TurnCompleted = False\<rparr> h
      in h\<lparr>th_turnDone := try_send (th_turnDone h)
            \<lparr>tr_failed = True, tr_cancelled = False, tr_err = Some (TurnError ''user input required'')\<rparr>\<rparr>)"

definition handleToolCall :: "linear_client option \<Rightarrow> nat \<Rightarrow> toolCallParams option \<Rightarrow> turnHandler \<Rightarrow> turnHandler" where
  "handleToolCall linear rid params h =
     (case params of
        None \<Rightarrow> send_reply rid (ReplyError ''invalid tool call params'') h
      | Some p \<Rightarrow>
          (case (if tp_Tool p = ''linear_graphql'' then linear else None) of
             None \<Rightarrow>
               (let ids = \<lparr>si_threadID = th_threadID h, si_turnID = th_turnID h\<rparr>;
                    h = h\<lparr>th_events := th_events h @ [newTurnEvent EventUnsupportedToolCall ids None]\<rparr>
                in send_reply rid (ReplyError (''unknown tool: '' @ tp_Tool p)) h)
           | Some execute \<Rightarrow>
               (case tp_Arguments p of
                  None \<Rightarrow> send_reply rid (ReplyError ''invalid linear_graphql arguments'') h
                | Some args \<Rightarrow>
                    (case execute (la_Query args) (la_Variables args) of
                       Inl _ \<Rightarrow> send_reply rid (ReplyError ''linear_graphql internal error'') h
                     | Inr (success, None) \<Rightarrow> send_reply rid (ReplyError ''linear_graphql result encode error'') h
                     | Inr (success, Some result) \<Rightarrow> send_reply rid (ReplyTool success result) h))))"

definition OnServerRequest :: "linear_client option \<Rightarrow> time \<Rightarrow> nat \<Rightarrow> server_request \<Rightarrow> turnHandler \<Rightarrow> turnHandler" where
  "OnServerRequest linear now rid req h =
     (case req of
        MethodItemCommandExecutionRequestApproval \<Rightarrow> send_reply rid (ReplyDecision ''acceptForSession'') h
      | MethodItemFileChangeRequestApproval \<Rightarrow> send_reply rid (ReplyDecision ''acceptForSession'') h
      | MethodItemToolCall params \<Rightarrow> handleToolCall linear rid params h
      | MethodItemToolRequestUserInput \<Rightarrow> handleUserInputRequired now rid h
      | MethodUnsupported m \<Rightarrow> send_reply rid (ReplyError ''unsupported'') h)"


section \<open>A sequence of messages\<close>

datatype message =
    Notify time notification
  | Ask time nat server_request

fun handle :: "linear_client option \<Rightarrow> turnHandler \<Rightarrow> message \<Rightarrow> turnHandler" where
  "handle linear h (Notify now n) = OnNotification now n h"
| "handle linear h (Ask now rid req) = OnServerRequest linear now rid req h"

text \<open>The result a message gives its turn.\<close>

fun outcome :: "message \<Rightarrow> turnResult option" where
  "outcome (Notify _ MethodTurnCompleted) = Some \<lparr>tr_failed = False, tr_cancelled = False, tr_err = None\<rparr>"
| "outcome (Notify _ (MethodError msg)) = Some \<lparr>tr_failed = True, tr_cancelled = False, tr_err = Some (TurnError msg)\<rparr>"
| "outcome (Ask _ _ MethodItemToolRequestUserInput) =
     Some \<lparr>tr_failed = True, tr_cancelled = False, tr_err = Some (TurnError ''user input required'')\<rparr>"
| "outcome _ = None"

fun first_outcome :: "message list \<Rightarrow> turnResult option" where
  "first_outcome [] = None"
| "first_outcome (m # ms) = (case outcome m of Some r \<Rightarrow> Some r | None \<Rightarrow> first_outcome ms)"

fun asked :: "message list \<Rightarrow> nat list" where
  "asked [] = []"
| "asked (Ask _ rid _ # ms) = rid # asked ms"
| "asked (_ # ms) = asked ms"

fun started_turns :: "message list \<Rightarrow> nat" where
  "started_turns [] = 0"
| "started_turns (Notify _ (MethodTurnStarted _ _ _) # ms) = Suc (started_turns ms)"
| "started_turns (_ # ms) = started_turns ms"

definition timed_turns :: "CodexActivity list \<Rightarrow> nat" where
  "timed_turns as = length (filter (\<lambda>a. ca_TurnDuration a \<noteq> None) as)"

lemma replies_notification [simp]: "th_replies (OnNotification now n h) = th_replies h"
  by (cases n) (auto simp: OnNotification_def report_def Let_def)

lemma replies_request: "\<exists>r. th_replies (OnServerRequest linear now rid req h) = th_replies h @ [(rid, r)]"
  by (cases req) (auto simp: OnServerRequest_def handleToolCall_def handleUserInputRequired_def send_reply_def report_def Let_def
      split: option.split sum.split)

lemma turnDone_notification:
  "th_turnDone (OnNotification now n h) =
     (case th_turnDone h of Some r \<Rightarrow> Some r | None \<Rightarrow> outcome (Notify now n))"
  by (cases n) (auto simp: OnNotification_def report_def try_send_def Let_def split: option.split)

lemma turnDone_request:
  "th_turnDone (OnServerRequest linear now rid req h) =
     (case th_turnDone h of Some r \<Rightarrow> Some r | None \<Rightarrow> outcome (Ask now rid req))"
  by (cases req) (auto simp: OnServerRequest_def handleToolCall_def handleUserInputRequired_def send_reply_def report_def
      try_send_def Let_def split: option.split sum.split)

lemma turnDone_handle:
  "th_turnDone (handle linear h m) = (case th_turnDone h of Some r \<Rightarrow> Some r | None \<Rightarrow> outcome m)"
  by (cases m; cases "th_turnDone h") (simp_all add: turnDone_notification turnDone_request)

lemma duration_enrich [simp]: "ca_TurnDuration (enrich n activity) = ca_TurnDuration activity"
  by (induction n activity rule: enrich.induct) auto

definition pending_turn :: "turnHandler \<Rightarrow> nat" where
  "pending_turn h = (if is_zero (th_turnStartedAt h) then 0 else 1)"

lemma timed_handle:
  "timed_turns (th_reports (handle linear h m)) + pending_turn (handle linear h m)
     \<le> timed_turns (th_reports h) + pending_turn h + started_turns [m]"
proof (cases m)
  case (Notify now n)
  then show ?thesis
    by (cases n) (auto simp: OnNotification_def report_def timed_turns_def pending_turn_def is_zero_def Let_def)
next
  case (Ask now rid req)
  then show ?thesis
    by (cases req) (auto simp: OnServerRequest_def handleToolCall_def handleUserInputRequired_def send_reply_def report_def
      timed_turns_def pending_turn_def Let_def split: option.split sum.split)
qed

text \<open>C24: Whatever an agent sends, the handler answers every server request exactly once and in order, and the
  result of a turn is the first one the messages give it: a completion that follows an error or a
  request for user input cannot turn a failed turn into a success. Turn times are reported at most once per
  started turn.\<close>

theorem handler_exact:
  "map fst (th_replies (foldl (handle linear) h ms)) = map fst (th_replies h) @ asked ms \<and>
   th_turnDone (foldl (handle linear) h ms) =
     (case th_turnDone h of Some r \<Rightarrow> Some r | None \<Rightarrow> first_outcome ms) \<and>
   timed_turns (th_reports (foldl (handle linear) h ms))
     \<le> timed_turns (th_reports h) + pending_turn h + started_turns ms"
proof (intro conjI)
  show "map fst (th_replies (foldl (handle linear) h ms)) = map fst (th_replies h) @ asked ms"
  proof (induction ms arbitrary: h rule: asked.induct)
    case (2 now rid req ms)
    then show ?case using replies_request[of linear now rid req h] by auto
  qed simp_all
  show "th_turnDone (foldl (handle linear) h ms) =
      (case th_turnDone h of Some r \<Rightarrow> Some r | None \<Rightarrow> first_outcome ms)"
    by (induction ms arbitrary: h) (auto simp: turnDone_handle split: option.splits)
  have "timed_turns (th_reports (foldl (handle linear) h ms)) + pending_turn (foldl (handle linear) h ms)
      \<le> timed_turns (th_reports h) + pending_turn h + started_turns ms"
  proof (induction ms arbitrary: h)
    case (Cons m ms)
    have "started_turns (m # ms) = started_turns [m] + started_turns ms"
      by (cases "(m # ms)" rule: started_turns.cases) auto
    then show ?case using Cons[of "handle linear h m"] timed_handle[of linear h m] by simp
  qed simp
  then show "timed_turns (th_reports (foldl (handle linear) h ms))
      \<le> timed_turns (th_reports h) + pending_turn h + started_turns ms" by simp
qed

end
