(* ===== verification/WfResolveProps.thy ===== *)
theory WfResolveProps
  imports WfResolve WorkspaceProps
begin

text \<open>
  What the configuration resolver promises: every field is the value of its key or the documented default,
  limits are positive, the workspace root is normalized, and the order in which the entries of the
  per-state map are visited matters only for keys that differ in case alone.
\<close>

section \<open>A sample front matter\<close>

definition sample_front :: front_matter where
  "sample_front = [(''workspace'', YMap [(''root'', YStr ''$WS'')]), (''agent'', YMap [(''max_turns'', YStr ''7'')])]"

lemma sample_resolves:
  obtains c where "Resolve (\<lambda>n. '''') sample_front ''/repo'' = Inr c"
proof -
  have "case Resolve (\<lambda>n. '''') sample_front ''/repo'' of Inr c \<Rightarrow> True | Inl _ \<Rightarrow> False" by code_simp
  then show thesis using that by (cases "Resolve (\<lambda>n. '''') sample_front ''/repo''") auto
qed

section \<open>Reading one field\<close>

text \<open>The declarative reading of a field: the coerced value of its key, or a default when it is absent.\<close>

definition setting :: "(yaml \<Rightarrow> config_error + 'a) \<Rightarrow> front_matter \<Rightarrow> string \<Rightarrow> 'a \<Rightarrow> config_error + 'a" where
  "setting coerce m key d = (case map_of m key of None \<Rightarrow> Inr d | Some v \<Rightarrow> coerce v)"

lemma run_fieldE:
  assumes "run_fields (field co upd sec m key # fs) c = Inr c'" and "upd (get c) c = c"
  obtains x where "setting co m key (get c) = Inr x" and "run_fields fs (upd x c) = Inr c'"
  using assms by (cases "map_of m key") (auto simp: field_def setting_def split: sum.splits)

lemma setting_default:
  assumes "setting co m key z = Inr x"
  shows "setting co m key d = Inr (if \<not> in_map key m \<and> x = z then d else x)"
  using assms by (auto simp: setting_def in_map_iff split: option.splits)

lemma decode_section_run:
  assumes "decode_section raw name decs c = Inr c'" and "run_fields (decs []) c = Inr c"
  shows "run_fields (decs (submap raw name)) c = Inr c'"
  using assms by (auto simp: decode_section_def submap_def split: option.splits yaml.splits)

section \<open>Reading the sections\<close>

text \<open>A section holds what its keys say, and zero values for the keys that are absent.\<close>

definition tracker_read :: "front_matter \<Rightarrow> TrackerConfig \<Rightarrow> bool" where
  "tracker_read m t \<longleftrightarrow>
     setting coerceString m ''kind'' '''' = Inr (tc_Kind t) \<and>
     setting coerceString m ''endpoint'' '''' = Inr (tc_Endpoint t) \<and>
     setting coerceString m ''api_key'' '''' = Inr (tc_APIKey t) \<and>
     setting coerceStringSlice m ''project_slugs'' [] = Inr (tc_ProjectSlugs t) \<and>
     setting coerceStringSlice m ''active_states'' [] = Inr (tc_ActiveStates t) \<and>
     setting coerceStringSlice m ''terminal_states'' [] = Inr (tc_TerminalStates t)"

definition polling_read :: "front_matter \<Rightarrow> PollingConfig \<Rightarrow> bool" where
  "polling_read m t \<longleftrightarrow>
     setting coerceInt m ''interval_ms'' 0 = Inr (pc_IntervalMS t)"

definition workspace_read :: "front_matter \<Rightarrow> WorkspaceConfig \<Rightarrow> bool" where
  "workspace_read m t \<longleftrightarrow>
     setting coerceString m ''root'' '''' = Inr (wc_Root t)"

definition hooks_read :: "front_matter \<Rightarrow> HooksConfig \<Rightarrow> bool" where
  "hooks_read m t \<longleftrightarrow>
     setting coerceInt m ''timeout_ms'' 0 = Inr (hc_TimeoutMS t) \<and>
     setting coerceString m ''after_create'' '''' = Inr (hc_AfterCreate t) \<and>
     setting coerceString m ''before_run'' '''' = Inr (hc_BeforeRun t) \<and>
     setting coerceString m ''after_run'' '''' = Inr (hc_AfterRun t) \<and>
     setting coerceString m ''before_remove'' '''' = Inr (hc_BeforeRemove t)"

definition agent_read :: "front_matter \<Rightarrow> AgentConfig \<Rightarrow> bool" where
  "agent_read m t \<longleftrightarrow>
     setting coerceInt m ''max_concurrent_agents'' 0 = Inr (ac_MaxConcurrentAgents t) \<and>
     setting coercePerStateMap m ''max_concurrent_agents_by_state'' [] = Inr (ac_MaxConcurrentAgentsByState t) \<and>
     setting coerceInt m ''max_turns'' 0 = Inr (ac_MaxTurns t) \<and>
     setting coerceInt m ''max_retry_backoff_ms'' 0 = Inr (ac_MaxRetryBackoffMS t)"

definition codex_read :: "front_matter \<Rightarrow> CodexConfig \<Rightarrow> bool" where
  "codex_read m t \<longleftrightarrow>
     setting coerceString m ''command'' '''' = Inr (cc_Command t) \<and>
     setting coerceInt m ''turn_timeout_ms'' 0 = Inr (cc_TurnTimeoutMS t) \<and>
     setting coerceInt m ''read_timeout_ms'' 0 = Inr (cc_ReadTimeoutMS t) \<and>
     setting coerceInt m ''stall_timeout_ms'' 0 = Inr (cc_StallTimeoutMS t) \<and>
     setting coerceString m ''approval_policy'' '''' = Inr (cc_ApprovalPolicy t) \<and>
     setting coerceString m ''thread_sandbox'' '''' = Inr (cc_ThreadSandbox t) \<and>
     setting coerceString m ''turn_sandbox_policy'' '''' = Inr (cc_TurnSandboxPolicy t)"

definition server_read :: "front_matter \<Rightarrow> ServerConfig \<Rightarrow> bool" where
  "server_read m t \<longleftrightarrow>
     setting coerceInt m ''port'' 0 = Inr (sc_Port t) \<and>
     setting coerceString m ''bind'' '''' = Inr (sc_Bind t)"

lemma decodeTracker_ok:
  assumes "decodeTracker raw c = Inr c'" and z: "cfg_Tracker c = cfg_Tracker zero_config"
  shows "\<exists>t. c' = c\<lparr>cfg_Tracker := t\<rparr> \<and> tracker_read (submap raw ''tracker'') t"
  apply (insert decode_section_run[OF assms(1)[unfolded decodeTracker_def]])
  apply (drule meta_mp, simp add: field_def)
  apply (erule run_fieldE[where get = "\<lambda>c. tc_Kind (cfg_Tracker c)"], simp)
  apply (erule run_fieldE[where get = "\<lambda>c. tc_Endpoint (cfg_Tracker c)"], simp)
  apply (erule run_fieldE[where get = "\<lambda>c. tc_APIKey (cfg_Tracker c)"], simp)
  apply (erule run_fieldE[where get = "\<lambda>c. tc_ProjectSlugs (cfg_Tracker c)"], simp)
  apply (erule run_fieldE[where get = "\<lambda>c. tc_ActiveStates (cfg_Tracker c)"], simp)
  apply (erule run_fieldE[where get = "\<lambda>c. tc_TerminalStates (cfg_Tracker c)"], simp)
  apply (rule exI[of _ "cfg_Tracker c'"])
  apply (simp only: run_fields.simps sum.inject, hypsubst, simp add: tracker_read_def z zero_config_def)
  done

lemma decodePolling_ok:
  assumes "decodePolling raw c = Inr c'" and z: "cfg_Polling c = cfg_Polling zero_config"
  shows "\<exists>t. c' = c\<lparr>cfg_Polling := t\<rparr> \<and> polling_read (submap raw ''polling'') t"
  apply (insert decode_section_run[OF assms(1)[unfolded decodePolling_def]])
  apply (drule meta_mp, simp add: field_def)
  apply (erule run_fieldE[where get = "\<lambda>c. pc_IntervalMS (cfg_Polling c)"], simp)
  apply (rule exI[of _ "cfg_Polling c'"])
  apply (simp only: run_fields.simps sum.inject, hypsubst, simp add: polling_read_def z zero_config_def)
  done

lemma decodeWorkspace_ok:
  assumes "decodeWorkspace raw c = Inr c'" and z: "cfg_Workspace c = cfg_Workspace zero_config"
  shows "\<exists>t. c' = c\<lparr>cfg_Workspace := t\<rparr> \<and> workspace_read (submap raw ''workspace'') t"
  apply (insert decode_section_run[OF assms(1)[unfolded decodeWorkspace_def]])
  apply (drule meta_mp, simp add: field_def)
  apply (erule run_fieldE[where get = "\<lambda>c. wc_Root (cfg_Workspace c)"], simp)
  apply (rule exI[of _ "cfg_Workspace c'"])
  apply (simp only: run_fields.simps sum.inject, hypsubst, simp add: workspace_read_def z zero_config_def)
  done

lemma decodeHooks_ok:
  assumes "decodeHooks raw c = Inr c'" and z: "cfg_Hooks c = cfg_Hooks zero_config"
  shows "\<exists>t. c' = c\<lparr>cfg_Hooks := t\<rparr> \<and> hooks_read (submap raw ''hooks'') t"
  apply (insert decode_section_run[OF assms(1)[unfolded decodeHooks_def]])
  apply (drule meta_mp, simp add: field_def)
  apply (erule run_fieldE[where get = "\<lambda>c. hc_TimeoutMS (cfg_Hooks c)"], simp)
  apply (erule run_fieldE[where get = "\<lambda>c. hc_AfterCreate (cfg_Hooks c)"], simp)
  apply (erule run_fieldE[where get = "\<lambda>c. hc_BeforeRun (cfg_Hooks c)"], simp)
  apply (erule run_fieldE[where get = "\<lambda>c. hc_AfterRun (cfg_Hooks c)"], simp)
  apply (erule run_fieldE[where get = "\<lambda>c. hc_BeforeRemove (cfg_Hooks c)"], simp)
  apply (rule exI[of _ "cfg_Hooks c'"])
  apply (simp only: run_fields.simps sum.inject, hypsubst, simp add: hooks_read_def z zero_config_def)
  done

lemma decodeAgent_ok:
  assumes "decodeAgent raw c = Inr c'" and z: "cfg_Agent c = cfg_Agent zero_config"
  shows "\<exists>t. c' = c\<lparr>cfg_Agent := t\<rparr> \<and> agent_read (submap raw ''agent'') t"
  apply (insert decode_section_run[OF assms(1)[unfolded decodeAgent_def]])
  apply (drule meta_mp, simp add: field_def)
  apply (erule run_fieldE[where get = "\<lambda>c. ac_MaxConcurrentAgents (cfg_Agent c)"], simp)
  apply (erule run_fieldE[where get = "\<lambda>c. ac_MaxConcurrentAgentsByState (cfg_Agent c)"], simp)
  apply (erule run_fieldE[where get = "\<lambda>c. ac_MaxTurns (cfg_Agent c)"], simp)
  apply (erule run_fieldE[where get = "\<lambda>c. ac_MaxRetryBackoffMS (cfg_Agent c)"], simp)
  apply (rule exI[of _ "cfg_Agent c'"])
  apply (simp only: run_fields.simps sum.inject, hypsubst, simp add: agent_read_def z zero_config_def)
  done

lemma decodeCodex_ok:
  assumes "decodeCodex raw c = Inr c'" and z: "cfg_Codex c = cfg_Codex zero_config"
  shows "\<exists>t. c' = c\<lparr>cfg_Codex := t\<rparr> \<and> codex_read (submap raw ''codex'') t"
  apply (insert decode_section_run[OF assms(1)[unfolded decodeCodex_def]])
  apply (drule meta_mp, simp add: field_def)
  apply (erule run_fieldE[where get = "\<lambda>c. cc_Command (cfg_Codex c)"], simp)
  apply (erule run_fieldE[where get = "\<lambda>c. cc_TurnTimeoutMS (cfg_Codex c)"], simp)
  apply (erule run_fieldE[where get = "\<lambda>c. cc_ReadTimeoutMS (cfg_Codex c)"], simp)
  apply (erule run_fieldE[where get = "\<lambda>c. cc_StallTimeoutMS (cfg_Codex c)"], simp)
  apply (erule run_fieldE[where get = "\<lambda>c. cc_ApprovalPolicy (cfg_Codex c)"], simp)
  apply (erule run_fieldE[where get = "\<lambda>c. cc_ThreadSandbox (cfg_Codex c)"], simp)
  apply (erule run_fieldE[where get = "\<lambda>c. cc_TurnSandboxPolicy (cfg_Codex c)"], simp)
  apply (rule exI[of _ "cfg_Codex c'"])
  apply (simp only: run_fields.simps sum.inject, hypsubst, simp add: codex_read_def z zero_config_def)
  done

lemma decodeServer_ok:
  assumes "decodeServer raw c = Inr c'" and z: "cfg_Server c = cfg_Server zero_config"
  shows "\<exists>t. c' = c\<lparr>cfg_Server := t\<rparr> \<and> server_read (submap raw ''server'') t"
  apply (insert decode_section_run[OF assms(1)[unfolded decodeServer_def]])
  apply (drule meta_mp, simp add: field_def)
  apply (erule run_fieldE[where get = "\<lambda>c. sc_Port (cfg_Server c)"], simp)
  apply (erule run_fieldE[where get = "\<lambda>c. sc_Bind (cfg_Server c)"], simp)
  apply (rule exI[of _ "cfg_Server c'"])
  apply (simp only: run_fields.simps sum.inject, hypsubst, simp add: server_read_def z zero_config_def)
  done

lemma decode_all_ok:
  assumes "run_fields [decodeTracker raw, decodePolling raw, decodeWorkspace raw, decodeHooks raw, decodeAgent raw,
             decodeCodex raw, decodeServer raw] zero_config = Inr c"
  obtains t p w h a x s where
    "c = \<lparr>cfg_Tracker = t, cfg_Polling = p, cfg_Workspace = w, cfg_Hooks = h, cfg_Agent = a, cfg_Codex = x, cfg_Server = s\<rparr>"
    and "tracker_read (submap raw ''tracker'') t" and "polling_read (submap raw ''polling'') p"
    and "workspace_read (submap raw ''workspace'') w" and "hooks_read (submap raw ''hooks'') h"
    and "agent_read (submap raw ''agent'') a" and "codex_read (submap raw ''codex'') x"
    and "server_read (submap raw ''server'') s"
proof -
  obtain c1 c2 c3 c4 c5 c6 where d: "decodeTracker raw zero_config = Inr c1" "decodePolling raw c1 = Inr c2"
    "decodeWorkspace raw c2 = Inr c3" "decodeHooks raw c3 = Inr c4" "decodeAgent raw c4 = Inr c5"
    "decodeCodex raw c5 = Inr c6" "decodeServer raw c6 = Inr c"
    using assms by (simp split: sum.splits)
  obtain t where t: "c1 = zero_config\<lparr>cfg_Tracker := t\<rparr>" "tracker_read (submap raw ''tracker'') t"
    using decodeTracker_ok[OF d(1)] by auto
  obtain p where p: "c2 = c1\<lparr>cfg_Polling := p\<rparr>" "polling_read (submap raw ''polling'') p"
    using decodePolling_ok[OF d(2)] t(1) by auto
  obtain w where w: "c3 = c2\<lparr>cfg_Workspace := w\<rparr>" "workspace_read (submap raw ''workspace'') w"
    using decodeWorkspace_ok[OF d(3)] t(1) p(1) by auto
  obtain h where h: "c4 = c3\<lparr>cfg_Hooks := h\<rparr>" "hooks_read (submap raw ''hooks'') h"
    using decodeHooks_ok[OF d(4)] t(1) p(1) w(1) by auto
  obtain a where a: "c5 = c4\<lparr>cfg_Agent := a\<rparr>" "agent_read (submap raw ''agent'') a"
    using decodeAgent_ok[OF d(5)] t(1) p(1) w(1) h(1) by auto
  obtain x where x: "c6 = c5\<lparr>cfg_Codex := x\<rparr>" "codex_read (submap raw ''codex'') x"
    using decodeCodex_ok[OF d(6)] t(1) p(1) w(1) h(1) a(1) by auto
  obtain s where s: "c = c6\<lparr>cfg_Server := s\<rparr>" "server_read (submap raw ''server'') s"
    using decodeServer_ok[OF d(7)] t(1) p(1) w(1) h(1) a(1) x(1) by auto
  show thesis
    by (rule that[OF _ t(2) p(2) w(2) h(2) a(2) x(2) s(2)])
      (simp add: s(1) x(1) a(1) h(1) w(1) p(1) t(1) zero_config_def)
qed

section \<open>The resolved configuration\<close>

lemma Resolve_sections:
  assumes "Resolve getenv raw dir = Inr c"
  obtains t p w h a x s where
    "c = normalizeWorkspaceRoot dir (expandFields getenv (applyDefaults getenv raw
       \<lparr>cfg_Tracker = t, cfg_Polling = p, cfg_Workspace = w, cfg_Hooks = h, cfg_Agent = a, cfg_Codex = x, cfg_Server = s\<rparr>))"
    and "validate c = None"
    and "tracker_read (submap raw ''tracker'') t" and "polling_read (submap raw ''polling'') p"
    and "workspace_read (submap raw ''workspace'') w" and "hooks_read (submap raw ''hooks'') h"
    and "agent_read (submap raw ''agent'') a" and "codex_read (submap raw ''codex'') x"
    and "server_read (submap raw ''server'') s"
proof -
  obtain c0 where c0: "run_fields [decodeTracker raw, decodePolling raw, decodeWorkspace raw, decodeHooks raw,
      decodeAgent raw, decodeCodex raw, decodeServer raw] zero_config = Inr c0"
    and c: "c = normalizeWorkspaceRoot dir (expandFields getenv (applyDefaults getenv raw c0))" "validate c = None"
    using assms by (auto simp: Resolve_def Let_def simp del: run_fields.simps split: sum.splits option.splits)
  show thesis
    by (rule decode_all_ok[OF c0]) (rule that, use c in simp_all)
qed

lemma normalize_fields [simp]:
  "cfg_Tracker (normalizeWorkspaceRoot dir c) = cfg_Tracker c"
  "cfg_Polling (normalizeWorkspaceRoot dir c) = cfg_Polling c"
  "cfg_Hooks (normalizeWorkspaceRoot dir c) = cfg_Hooks c"
  "cfg_Agent (normalizeWorkspaceRoot dir c) = cfg_Agent c"
  "cfg_Codex (normalizeWorkspaceRoot dir c) = cfg_Codex c"
  "cfg_Server (normalizeWorkspaceRoot dir c) = cfg_Server c"
  by (simp_all add: normalizeWorkspaceRoot_def Let_def)

lemma expand_fields [simp]:
  "tc_Kind (cfg_Tracker (expandFields getenv c)) = tc_Kind (cfg_Tracker c)"
  "tc_Endpoint (cfg_Tracker (expandFields getenv c)) = tc_Endpoint (cfg_Tracker c)"
  "tc_ProjectSlugs (cfg_Tracker (expandFields getenv c)) = tc_ProjectSlugs (cfg_Tracker c)"
  "tc_ActiveStates (cfg_Tracker (expandFields getenv c)) = tc_ActiveStates (cfg_Tracker c)"
  "tc_TerminalStates (cfg_Tracker (expandFields getenv c)) = tc_TerminalStates (cfg_Tracker c)"
  "cfg_Polling (expandFields getenv c) = cfg_Polling c"
  "cfg_Hooks (expandFields getenv c) = cfg_Hooks c"
  "cfg_Agent (expandFields getenv c) = cfg_Agent c"
  "cfg_Codex (expandFields getenv c) = cfg_Codex c"
  "cfg_Server (expandFields getenv c) = cfg_Server c"
  by (simp_all add: expandFields_def Let_def)

text \<open>The sections after defaulting.\<close>

lemma tracker_filled:
  assumes "tracker_read m t"
  shows "setting coerceString m ''kind'' '''' = Inr (tc_Kind (applyTrackerDefaults m t)) \<and>
    setting coerceStringSlice m ''project_slugs'' [] = Inr (tc_ProjectSlugs (applyTrackerDefaults m t)) \<and>
    setting coerceStringSlice m ''active_states'' [''Todo'', ''In Progress''] = Inr (tc_ActiveStates (applyTrackerDefaults m t)) \<and>
    setting coerceStringSlice m ''terminal_states'' [''Closed'', ''Cancelled'', ''Canceled'', ''Duplicate'', ''Done''] = Inr (tc_TerminalStates (applyTrackerDefaults m t))"
proof -
  have a: "setting coerceStringSlice m ''active_states'' [''Todo'', ''In Progress''] = Inr (if \<not> in_map ''active_states'' m \<and> tc_ActiveStates t = [] then [''Todo'', ''In Progress''] else tc_ActiveStates t)"
    using assms by (intro setting_default) (simp add: tracker_read_def)
  have b: "setting coerceStringSlice m ''terminal_states'' [''Closed'', ''Cancelled'', ''Canceled'', ''Duplicate'', ''Done''] = Inr (if \<not> in_map ''terminal_states'' m \<and> tc_TerminalStates t = [] then [''Closed'', ''Cancelled'', ''Canceled'', ''Duplicate'', ''Done''] else tc_TerminalStates t)"
    using assms by (intro setting_default) (simp add: tracker_read_def)
  show ?thesis using assms by (simp add: tracker_read_def applyTrackerDefaults_def default_def Let_def a b)
qed

lemma agent_filled:
  assumes "agent_read m t"
  shows "setting coerceInt m ''max_concurrent_agents'' 10 = Inr (ac_MaxConcurrentAgents (applyAgentDefaults m t)) \<and>
    setting coercePerStateMap m ''max_concurrent_agents_by_state'' [] = Inr (ac_MaxConcurrentAgentsByState (applyAgentDefaults m t)) \<and>
    setting coerceInt m ''max_turns'' 20 = Inr (ac_MaxTurns (applyAgentDefaults m t)) \<and>
    setting coerceInt m ''max_retry_backoff_ms'' 300000 = Inr (ac_MaxRetryBackoffMS (applyAgentDefaults m t))"
proof -
  have a: "setting coerceInt m ''max_concurrent_agents'' 10 = Inr (if \<not> in_map ''max_concurrent_agents'' m \<and> ac_MaxConcurrentAgents t = 0 then 10 else ac_MaxConcurrentAgents t)"
    using assms by (intro setting_default) (simp add: agent_read_def)
  have b: "setting coerceInt m ''max_turns'' 20 = Inr (if \<not> in_map ''max_turns'' m \<and> ac_MaxTurns t = 0 then 20 else ac_MaxTurns t)"
    using assms by (intro setting_default) (simp add: agent_read_def)
  have c: "setting coerceInt m ''max_retry_backoff_ms'' 300000 = Inr (if \<not> in_map ''max_retry_backoff_ms'' m \<and> ac_MaxRetryBackoffMS t = 0 then 300000 else ac_MaxRetryBackoffMS t)"
    using assms by (intro setting_default) (simp add: agent_read_def)
  show ?thesis using assms by (simp add: agent_read_def applyAgentDefaults_def default_def Let_def a b c)
qed

lemma codex_filled:
  assumes "codex_read m t"
  shows "setting coerceString m ''command'' ''codex app-server'' = Inr (cc_Command (applyCodexDefaults m t)) \<and>
    setting coerceInt m ''turn_timeout_ms'' 3600000 = Inr (cc_TurnTimeoutMS (applyCodexDefaults m t)) \<and>
    setting coerceInt m ''read_timeout_ms'' 5000 = Inr (cc_ReadTimeoutMS (applyCodexDefaults m t)) \<and>
    setting coerceInt m ''stall_timeout_ms'' 300000 = Inr (cc_StallTimeoutMS (applyCodexDefaults m t))"
proof -
  have a: "setting coerceString m ''command'' ''codex app-server'' = Inr (if \<not> in_map ''command'' m \<and> cc_Command t = '''' then ''codex app-server'' else cc_Command t)"
    using assms by (intro setting_default) (simp add: codex_read_def)
  have b: "setting coerceInt m ''turn_timeout_ms'' 3600000 = Inr (if \<not> in_map ''turn_timeout_ms'' m \<and> cc_TurnTimeoutMS t = 0 then 3600000 else cc_TurnTimeoutMS t)"
    using assms by (intro setting_default) (simp add: codex_read_def)
  have c: "setting coerceInt m ''read_timeout_ms'' 5000 = Inr (if \<not> in_map ''read_timeout_ms'' m \<and> cc_ReadTimeoutMS t = 0 then 5000 else cc_ReadTimeoutMS t)"
    using assms by (intro setting_default) (simp add: codex_read_def)
  have d: "setting coerceInt m ''stall_timeout_ms'' 300000 = Inr (if \<not> in_map ''stall_timeout_ms'' m \<and> cc_StallTimeoutMS t = 0 then 300000 else cc_StallTimeoutMS t)"
    using assms by (intro setting_default) (simp add: codex_read_def)
  show ?thesis using assms by (simp add: codex_read_def applyCodexDefaults_def default_def Let_def a b c d)
qed

lemma server_filled:
  assumes "server_read m t"
  shows "setting coerceInt m ''port'' 0 = Inr (sc_Port (applyServerDefaults m t)) \<and>
    setting coerceString m ''bind'' ''127.0.0.1'' = Inr (sc_Bind (applyServerDefaults m t))"
proof -
  have a: "setting coerceString m ''bind'' ''127.0.0.1'' = Inr (if \<not> in_map ''bind'' m \<and> sc_Bind t = '''' then ''127.0.0.1'' else sc_Bind t)"
    using assms by (intro setting_default) (simp add: server_read_def)
  show ?thesis using assms by (simp add: server_read_def applyServerDefaults_def default_def Let_def a)
qed

lemma validate_positive:
  "validate c = None \<longleftrightarrow> 0 < hc_TimeoutMS (cfg_Hooks c) \<and> 0 < ac_MaxTurns (cfg_Agent c) \<and>
     0 < pc_IntervalMS (cfg_Polling c) \<and> 0 < cc_TurnTimeoutMS (cfg_Codex c) \<and> 0 < cc_ReadTimeoutMS (cfg_Codex c)"
  by (auto simp: validate_def)

text \<open>C25: A resolved configuration says what the front matter says. Every numeric setting, the agent command,
  the bind address, the hooks and the state lists are the coerced value of their key, or the documented
  default when the key is absent, and never a default for a key that is present. The hook timeout, the
  turn and read timeouts of the agent, the polling interval and the turn limit are positive; the stall timeout may be
  any integer, which turns stall detection off when it is not positive.\<close>

theorem resolve_fields:
  assumes "Resolve getenv raw dir = Inr c"
  shows
    "setting coerceInt (submap raw ''polling'') ''interval_ms'' 30000 = Inr (pc_IntervalMS (cfg_Polling c)) \<and>
     setting coerceInt (submap raw ''hooks'') ''timeout_ms'' 60000 = Inr (hc_TimeoutMS (cfg_Hooks c)) \<and>
     setting coerceInt (submap raw ''agent'') ''max_concurrent_agents'' 10 = Inr (ac_MaxConcurrentAgents (cfg_Agent c)) \<and>
     setting coercePerStateMap (submap raw ''agent'') ''max_concurrent_agents_by_state'' [] =
       Inr (ac_MaxConcurrentAgentsByState (cfg_Agent c)) \<and>
     setting coerceInt (submap raw ''agent'') ''max_turns'' 20 = Inr (ac_MaxTurns (cfg_Agent c)) \<and>
     setting coerceInt (submap raw ''agent'') ''max_retry_backoff_ms'' 300000 = Inr (ac_MaxRetryBackoffMS (cfg_Agent c)) \<and>
     setting coerceString (submap raw ''codex'') ''command'' ''codex app-server'' = Inr (cc_Command (cfg_Codex c)) \<and>
     setting coerceInt (submap raw ''codex'') ''turn_timeout_ms'' 3600000 = Inr (cc_TurnTimeoutMS (cfg_Codex c)) \<and>
     setting coerceInt (submap raw ''codex'') ''read_timeout_ms'' 5000 = Inr (cc_ReadTimeoutMS (cfg_Codex c)) \<and>
     setting coerceInt (submap raw ''codex'') ''stall_timeout_ms'' 300000 = Inr (cc_StallTimeoutMS (cfg_Codex c)) \<and>
     setting coerceInt (submap raw ''server'') ''port'' 0 = Inr (sc_Port (cfg_Server c)) \<and>
     setting coerceString (submap raw ''server'') ''bind'' ''127.0.0.1'' = Inr (sc_Bind (cfg_Server c)) \<and>
     setting coerceString (submap raw ''hooks'') ''after_create'' '''' = Inr (hc_AfterCreate (cfg_Hooks c)) \<and>
     setting coerceString (submap raw ''hooks'') ''before_run'' '''' = Inr (hc_BeforeRun (cfg_Hooks c)) \<and>
     setting coerceString (submap raw ''hooks'') ''after_run'' '''' = Inr (hc_AfterRun (cfg_Hooks c)) \<and>
     setting coerceString (submap raw ''hooks'') ''before_remove'' '''' = Inr (hc_BeforeRemove (cfg_Hooks c)) \<and>
     setting coerceString (submap raw ''tracker'') ''kind'' '''' = Inr (tc_Kind (cfg_Tracker c)) \<and>
     setting coerceStringSlice (submap raw ''tracker'') ''project_slugs'' [] = Inr (tc_ProjectSlugs (cfg_Tracker c)) \<and>
     setting coerceStringSlice (submap raw ''tracker'') ''active_states'' [''Todo'', ''In Progress''] =
       Inr (tc_ActiveStates (cfg_Tracker c)) \<and>
     setting coerceStringSlice (submap raw ''tracker'') ''terminal_states''
       [''Closed'', ''Cancelled'', ''Canceled'', ''Duplicate'', ''Done''] = Inr (tc_TerminalStates (cfg_Tracker c)) \<and>
     0 < hc_TimeoutMS (cfg_Hooks c) \<and> 0 < ac_MaxTurns (cfg_Agent c) \<and> 0 < pc_IntervalMS (cfg_Polling c) \<and>
     0 < cc_TurnTimeoutMS (cfg_Codex c) \<and> 0 < cc_ReadTimeoutMS (cfg_Codex c)"
proof (rule Resolve_sections[OF assms])
  fix t p w h a x s
  assume c: "c = normalizeWorkspaceRoot dir (expandFields getenv (applyDefaults getenv raw
       \<lparr>cfg_Tracker = t, cfg_Polling = p, cfg_Workspace = w, cfg_Hooks = h, cfg_Agent = a, cfg_Codex = x, cfg_Server = s\<rparr>))"
    and v: "validate c = None"
    and r: "tracker_read (submap raw ''tracker'') t" "polling_read (submap raw ''polling'') p"
      "hooks_read (submap raw ''hooks'') h" "agent_read (submap raw ''agent'') a" "codex_read (submap raw ''codex'') x"
      "server_read (submap raw ''server'') s"
  have poll: "setting coerceInt (submap raw ''polling'') ''interval_ms'' 30000 = Inr (pc_IntervalMS (cfg_Polling c))"
    using setting_default[OF r(2)[unfolded polling_read_def], of 30000] by (simp add: c applyDefaults_def default_def)
  have hook: "setting coerceInt (submap raw ''hooks'') ''timeout_ms'' 60000 = Inr (hc_TimeoutMS (cfg_Hooks c))"
    using setting_default[OF conjunct1[OF r(3)[unfolded hooks_read_def]], of 60000] by (simp add: c applyDefaults_def default_def)
  have hooks: "hc_AfterCreate (cfg_Hooks c) = hc_AfterCreate h" "hc_BeforeRun (cfg_Hooks c) = hc_BeforeRun h"
    "hc_AfterRun (cfg_Hooks c) = hc_AfterRun h" "hc_BeforeRemove (cfg_Hooks c) = hc_BeforeRemove h"
    by (simp_all add: c applyDefaults_def default_def)
  have ag: "cfg_Agent c = applyAgentDefaults (submap raw ''agent'') a"
    "cfg_Codex c = applyCodexDefaults (submap raw ''codex'') x" "cfg_Server c = applyServerDefaults (submap raw ''server'') s"
    by (simp_all add: c applyDefaults_def)
  have tr: "tc_Kind (cfg_Tracker c) = tc_Kind (applyTrackerDefaults (submap raw ''tracker'') t)"
    "tc_ProjectSlugs (cfg_Tracker c) = tc_ProjectSlugs (applyTrackerDefaults (submap raw ''tracker'') t)"
    "tc_ActiveStates (cfg_Tracker c) = tc_ActiveStates (applyTrackerDefaults (submap raw ''tracker'') t)"
    "tc_TerminalStates (cfg_Tracker c) = tc_TerminalStates (applyTrackerDefaults (submap raw ''tracker'') t)"
    by (simp_all add: c applyDefaults_def)
  have "setting coerceString (submap raw ''hooks'') ''after_create'' '''' = Inr (hc_AfterCreate (cfg_Hooks c)) \<and>
     setting coerceString (submap raw ''hooks'') ''before_run'' '''' = Inr (hc_BeforeRun (cfg_Hooks c)) \<and>
     setting coerceString (submap raw ''hooks'') ''after_run'' '''' = Inr (hc_AfterRun (cfg_Hooks c)) \<and>
     setting coerceString (submap raw ''hooks'') ''before_remove'' '''' = Inr (hc_BeforeRemove (cfg_Hooks c))"
    using r(3) by (simp add: hooks hooks_read_def)
  then show ?thesis
    using poll hook tracker_filled[OF r(1), folded tr] agent_filled[OF r(4), folded ag(1)] codex_filled[OF r(5), folded ag(2)]
      server_filled[OF r(6), folded ag(3)] v[unfolded validate_positive]
    by presburger
qed

theorem resolve_fields_witness:
  "\<exists>c. Resolve (\<lambda>n. '''') sample_front ''/repo'' = Inr c \<and> ac_MaxTurns (cfg_Agent c) = 7 \<and>
     pc_IntervalMS (cfg_Polling c) = 30000"
proof (rule sample_resolves)
  fix c
  assume c: "Resolve (\<lambda>n. '''') sample_front ''/repo'' = Inr c"
  have "setting coerceInt (submap sample_front ''agent'') ''max_turns'' 20 = Inr 7" by code_simp
  moreover have "setting coerceInt (submap sample_front ''polling'') ''interval_ms'' 30000 = Inr 30000" by code_simp
  ultimately show ?thesis using c resolve_fields[OF c] by simp
qed

section \<open>The workspace root\<close>

text \<open>The root the front matter asks for, before expansion.\<close>

definition configured_root :: "(string \<Rightarrow> string) \<Rightarrow> front_matter \<Rightarrow> string" where
  "configured_root getenv raw =
     (case map_of (submap raw ''workspace'') ''root'' of
        Some (YStr s) \<Rightarrow> s
      | _ \<Rightarrow> Join2 (TempDir getenv) ''symphony_workspaces'')"

lemma workspace_read_root:
  assumes "workspace_read (submap raw ''workspace'') w"
  shows "wc_Root (default (submap raw ''workspace'') ''root'' (\<lambda>w. wc_Root w = '''')
     (\<lambda>w. w\<lparr>wc_Root := Join2 (TempDir getenv) ''symphony_workspaces''\<rparr>) w) = configured_root getenv raw"
  using assms
  by (auto simp: workspace_read_def setting_def default_def configured_root_def in_map_iff
      split: option.splits yaml.splits)

lemma resolved_root:
  assumes "Resolve getenv raw dir = Inr c"
  shows "wc_Root (cfg_Workspace c) =
     (let r = expandPath getenv (configured_root getenv raw)
      in if r = '''' then '''' else Clean (if IsAbs r then r else Join2 dir r))"
  by (rule Resolve_sections[OF assms])
    (simp add: normalizeWorkspaceRoot_def expandFields_def applyDefaults_def workspace_read_root Let_def)

lemma relative_workspace:
  assumes "wc_Root (cfg_Workspace c) = ''''" and "Path (New c) s = Inr p"
  shows "p = sanitizeKey s"
proof -
  have "Clean '''' = ''.''" and e: "elements ''.'' = []" by code_simp+
  then have r: "m_root (New c) = ''.''" using assms(1) by (simp add: New_def)
  have k: "sanitizeKey s \<notin> {'''', ''.'', ''..''}" and p: "p = Join2 ''.'' (sanitizeKey s)"
    using Path_Inr[OF assms(2)] r by auto
  then have "elements p = [sanitizeKey s]" using proper_key[OF k, of c] r e by simp
  moreover have "Clean p = p" and a: "\<not> IsAbs p" using p by (simp_all add: IsAbs_Join2)
  ultimately have "p = render False [sanitizeKey s]" using Clean_def[of p] by simp
  then show ?thesis using k by (simp add: render_def)
qed

text \<open>C26: From workflow file to workspace. For a workflow file in an absolute directory the resolved root is
  exactly the configured one, with its home prefix or its variable expanded, taken relative to that directory
  when it is not absolute, and cleaned; it is absolute, and every workspace is an absolute path inside it, unless the expansion is empty: then
  the root stays empty and every workspace is a path relative to the working directory of the process.\<close>

theorem resolved_workspaces:
  assumes "Resolve getenv raw dir = Inr c" and "IsAbs dir"
    and "Path (New c) ident = Inr p"
  shows "(expandPath getenv (configured_root getenv raw) \<noteq> '''' \<longrightarrow>
       wc_Root (cfg_Workspace c) =
         Clean (if IsAbs (expandPath getenv (configured_root getenv raw)) then expandPath getenv (configured_root getenv raw)
           else Join2 dir (expandPath getenv (configured_root getenv raw))) \<and>
       IsAbs (wc_Root (cfg_Workspace c)) \<and> Clean (wc_Root (cfg_Workspace c)) = wc_Root (cfg_Workspace c) \<and>
       IsAbs p \<and> inside (wc_Root (cfg_Workspace c)) p) \<and>
     (expandPath getenv (configured_root getenv raw) = '''' \<longrightarrow>
       wc_Root (cfg_Workspace c) = '''' \<and> p = sanitizeKey ident \<and> \<not> IsAbs p)"
proof (intro conjI impI)
  have dir: "dir \<noteq> ''''" using assms(2) by auto
  assume e: "expandPath getenv (configured_root getenv raw) \<noteq> ''''"
  show "wc_Root (cfg_Workspace c) =
      Clean (if IsAbs (expandPath getenv (configured_root getenv raw)) then expandPath getenv (configured_root getenv raw)
        else Join2 dir (expandPath getenv (configured_root getenv raw)))"
    using resolved_root[OF assms(1)] e by (simp add: Let_def)
  show clean: "Clean (wc_Root (cfg_Workspace c)) = wc_Root (cfg_Workspace c)"
    using resolved_root[OF assms(1)] e by (simp add: Let_def)
  show a: "IsAbs (wc_Root (cfg_Workspace c))"
    using resolved_root[OF assms(1)] e assms(2) dir by (simp add: Let_def IsAbs_Join2)
  show "inside (wc_Root (cfg_Workspace c)) p"
    using Path_Inr[OF assms(3)] proper_inside[of ident c] clean by (simp add: New_def)
  then show "IsAbs p" using a by (simp add: inside_def)
next
  assume e: "expandPath getenv (configured_root getenv raw) = ''''"
  show r: "wc_Root (cfg_Workspace c) = ''''" using resolved_root[OF assms(1)] e by simp
  show p: "p = sanitizeKey ident" by (rule relative_workspace[OF r assms(3)])
  show "\<not> IsAbs p" using p sanitizeKey_no_slash[of ident] by (cases "sanitizeKey ident") auto
qed

theorem resolved_workspaces_witness:
  "\<exists>c. Resolve (\<lambda>n. '''') sample_front ''/repo'' = Inr c \<and> wc_Root (cfg_Workspace c) = '''' \<and>
     Path (New c) ''AG-1'' = Inr ''AG-1''"
proof (rule sample_resolves)
  fix c
  assume c: "Resolve (\<lambda>n. '''') sample_front ''/repo'' = Inr c"
  have k: "sanitizeKey ''AG-1'' = ''AG-1''" by (simp add: sanitizeKey_ascii key_rune_def)
  obtain p where p: "Path (New c) ''AG-1'' = Inr p" by (simp add: Path_eq k)
  have "expandPath (\<lambda>n. '''') (configured_root (\<lambda>n. '''') sample_front) = ''''" by code_simp
  then show ?thesis using resolved_workspaces[OF c _ p] c p k by simp
qed

section \<open>The per-state caps\<close>

lemma per_state_lookup:
  "map_of (per_state_entry out kv) k =
     (case coerceInt (snd kv) of
        Inr n \<Rightarrow> if 0 < n \<and> to_lower (fst kv) = k then Some n else map_of out k
      | Inl _ \<Rightarrow> map_of out k)"
  by (auto simp: per_state_entry_def split: sum.split)

definition cap_of :: "(string \<times> yaml) list \<Rightarrow> string \<Rightarrow> int \<Rightarrow> bool" where
  "cap_of raw k n \<longleftrightarrow> (\<exists>k' v. (k', v) \<in> set raw \<and> to_lower k' = k \<and> coerceInt v = Inr n \<and> 0 < n)"

lemma per_state_fold:
  assumes "distinct (map (\<lambda>kv. to_lower (fst kv)) raw)" and "\<forall>kv \<in> set raw. map_of out (to_lower (fst kv)) = None"
  shows "map_of (foldl per_state_entry out raw) k = Some n \<longleftrightarrow> map_of out k = Some n \<or> cap_of raw k n"
  using assms
proof (induction raw arbitrary: out)
  case (Cons kv raw)
  have "map_of (per_state_entry out kv) (to_lower (fst kv')) = None" if "kv' \<in> set raw" for kv'
    using Cons.prems that by (auto simp: per_state_lookup split: sum.split)
  then have "map_of (foldl per_state_entry out (kv # raw)) k = Some n \<longleftrightarrow>
      map_of (per_state_entry out kv) k = Some n \<or> cap_of raw k n"
    using Cons by simp
  also have "\<dots> \<longleftrightarrow> map_of out k = Some n \<or> cap_of (kv # raw) k n"
    using Cons.prems(2) by (cases kv; cases "coerceInt (snd kv)") (auto simp: per_state_lookup cap_of_def)
  finally show ?case .
qed (simp add: cap_of_def)

lemma per_state_keys: "distinct (map fst out) \<Longrightarrow> distinct (map fst (foldl per_state_entry out raw))"
  by (induction raw arbitrary: out) (auto simp: per_state_entry_def split: sum.split)

lemma same_lookups: "(\<And>n. u = Some n \<longleftrightarrow> v = Some n) \<Longrightarrow> u = v"
  by (cases u; cases v) auto

text \<open>The caps per state do not depend on the order in which the map of the front matter is visited, as
  long as no two of its keys differ only in case: then a state has a cap exactly when its key, in lower
  case, carries a positive number, and that number is the cap. When two keys collide, the entry visited last
  wins, so the cap depends on the visiting order.\<close>

theorem per_state_caps:
  assumes "distinct (map (\<lambda>kv. to_lower (fst kv)) raw)" and "mset raw' = mset raw"
    and "to_lower a = to_lower b" and "0 < x" and "0 < y"
  shows "(\<exists>m m'. coercePerStateMap (YMap raw) = Inr m \<and> coercePerStateMap (YMap raw') = Inr m' \<and>
       (\<forall>k n. map_of m k = Some n \<longleftrightarrow> cap_of raw k n) \<and> map_of m' = map_of m) \<and>
     coercePerStateMap (YMap [(a, YInt x), (b, YInt y)]) = Inr [(to_lower a, y)] \<and>
     coercePerStateMap (YMap [(b, YInt y), (a, YInt x)]) = Inr [(to_lower a, x)]"
proof -
  have d': "distinct (map (\<lambda>kv. to_lower (fst kv)) raw')"
    using assms(1,2) by (metis mset_eq_imp_distinct_iff mset_map)
  have s: "cap_of raw' k n = cap_of raw k n" for k n
    using mset_eq_setD[OF assms(2)] by (simp add: cap_of_def)
  have m: "map_of (foldl per_state_entry [] raw) k = Some n \<longleftrightarrow> cap_of raw k n" for k n
    using per_state_fold[OF assms(1), of "[]"] by simp
  have m': "map_of (foldl per_state_entry [] raw') k = Some n \<longleftrightarrow> cap_of raw k n" for k n
    using per_state_fold[OF d', of "[]"] s by simp
  have "map_of (foldl per_state_entry [] raw') = map_of (foldl per_state_entry [] raw)"
    using m m' by (intro ext same_lookups) simp
  then show ?thesis using m assms(3-5) by (simp add: per_state_entry_def)
qed

theorem per_state_caps_witness:
  "(\<exists>m m'. coercePerStateMap (YMap [(''Todo'', YInt 3), (''Done'', YStr ''x'')]) = Inr m \<and>
       coercePerStateMap (YMap [(''Done'', YStr ''x''), (''Todo'', YInt 3)]) = Inr m' \<and>
       (\<forall>k n. map_of m k = Some n \<longleftrightarrow> cap_of [(''Todo'', YInt 3), (''Done'', YStr ''x'')] k n) \<and> map_of m' = map_of m) \<and>
   coercePerStateMap (YMap [(''Todo'', YInt 1), (''todo'', YInt 2)]) = Inr [(to_lower ''Todo'', 2)] \<and>
   coercePerStateMap (YMap [(''todo'', YInt 2), (''Todo'', YInt 1)]) = Inr [(to_lower ''Todo'', 1)]"
proof (rule per_state_caps)
  show "distinct (map (\<lambda>kv. to_lower (fst kv)) [(''Todo'', YInt 3), (''Done'', YStr ''x'')])" by code_simp
  show "to_lower ''Todo'' = to_lower ''todo''" by code_simp
qed simp_all

end
