(* ===== verification/Orchestrator.thy ===== *)
theory Orchestrator
  imports SchedShell WorkflowFile WfResolveProps
begin

text \<open>
  The orchestrator process (\<open>services/cmd/orchestrator/main.go\<close>) around the scheduler: how the workflow
  file becomes the configuration at start-up and at every reload (\<open>reloadConfig\<close> of
  \<open>scheduler/scheduler.go\<close>), and that the loop only ever works with a validated configuration.
\<close>

section \<open>Loading\<close>

text \<open>\<open>filepath.Dir\<close>.\<close>

definition Dir :: "string \<Rightarrow> string" where
  "Dir p = Clean (rev (dropWhile (\<lambda>c. c \<noteq> CHR ''/'') (rev p)))"

text \<open>Load and resolve, as \<open>run\<close> and \<open>reloadConfig\<close> do; a file may read differently each time.\<close>

definition load_workflow ::
  "(string \<Rightarrow> string) \<Rightarrow> (string \<Rightarrow> string + yaml) \<Rightarrow> (nat \<Rightarrow> string \<Rightarrow> string + string) \<Rightarrow> string \<Rightarrow> nat \<Rightarrow> sched_error + Config \<times> string" where
  "load_workflow getenv unmarshal readFile path n =
     (case Load (readFile n) unmarshal path of
        Inl e \<Rightarrow> Inl (ErrExternal ''workflow'')
      | Inr w \<Rightarrow>
          (case Resolve getenv (wf_Config w) (Dir path) of
             Inl e \<Rightarrow> Inl (ErrExternal ''config'')
           | Inr cfg \<Rightarrow> Inr (cfg, wf_PromptTemplate w)))"

text \<open>What \<open>run\<close> hands to the scheduler, if it gets that far.\<close>

definition startup ::
  "(string \<Rightarrow> string) \<Rightarrow> (string \<Rightarrow> string + yaml) \<Rightarrow> (nat \<Rightarrow> string \<Rightarrow> string + string) \<Rightarrow> string \<Rightarrow> (Config \<times> string) option" where
  "startup getenv unmarshal readFile absPath =
     (case load_workflow getenv unmarshal readFile absPath 0 of
        Inl e \<Rightarrow> None
      | Inr (cfg, tmpl) \<Rightarrow> if Preflight cfg = None then Some (cfg, tmpl) else None)"

text \<open>The port of the HTTP server; \<open>None\<close> when it is not started.\<close>

definition effectivePort :: "Config \<Rightarrow> bool \<Rightarrow> int \<Rightarrow> int option" where
  "effectivePort cfg portExplicit cliPort =
     (let port = (if portExplicit then cliPort else sc_Port (cfg_Server cfg))
      in if port = 0 then None else Some port)"

section \<open>Validated configurations\<close>

definition caps_ok :: "(string, int) gomap \<Rightarrow> bool" where
  "caps_ok m \<longleftrightarrow> wf_map m \<and> list_all (\<lambda>(k, n). 0 < n \<and> to_lower k = k) m"

definition valid_config :: "Config \<Rightarrow> bool" where
  "valid_config c \<longleftrightarrow> Preflight c = None \<and> 0 < hc_TimeoutMS (cfg_Hooks c) \<and> 0 < ac_MaxTurns (cfg_Agent c) \<and>
     0 < pc_IntervalMS (cfg_Polling c) \<and> 0 < cc_TurnTimeoutMS (cfg_Codex c) \<and> 0 < cc_ReadTimeoutMS (cfg_Codex c) \<and>
     caps_ok (ac_MaxConcurrentAgentsByState (cfg_Agent c)) \<and>
     (wc_Root (cfg_Workspace c) = '''' \<or>
      IsAbs (wc_Root (cfg_Workspace c)) \<and> Clean (wc_Root (cfg_Workspace c)) = wc_Root (cfg_Workspace c))"

lemma caps_ok_update: "caps_ok m \<Longrightarrow> 0 < n \<Longrightarrow> caps_ok (AList.update (to_lower k) n m)"
proof -
  have "list_all (\<lambda>(k, n). 0 < n \<and> to_lower k = k) m \<Longrightarrow> 0 < n \<Longrightarrow>
      list_all (\<lambda>(k, n). 0 < n \<and> to_lower k = k) (AList.update (to_lower k) n m)"
    by (induction m) auto
  then show "caps_ok m \<Longrightarrow> 0 < n \<Longrightarrow> caps_ok (AList.update (to_lower k) n m)" by (simp add: caps_ok_def)
qed

lemma caps_ok_fold: "caps_ok out \<Longrightarrow> caps_ok (foldl per_state_entry out raw)"
  by (induction raw arbitrary: out) (auto simp: per_state_entry_def caps_ok_update split: sum.split)

lemma caps_ok_coerce: "coercePerStateMap v = Inr m \<Longrightarrow> caps_ok m"
  using caps_ok_fold[of "[]"] by (cases v) (auto simp: caps_ok_def)

lemma caps_ok_setting: "setting coercePerStateMap m key [] = Inr x \<Longrightarrow> caps_ok x"
  by (auto simp: setting_def caps_ok_coerce split: option.splits) (simp add: caps_ok_def)

lemma rev_dropWhile_prefix: "\<exists>t. p = rev (dropWhile P (rev p)) @ t"
  by (metis rev_append rev_rev_ident takeWhile_dropWhile_id)

lemma IsAbs_Dir:
  assumes "IsAbs p"
  shows "IsAbs (Dir p)"
proof -
  define q where "q = rev (dropWhile (\<lambda>c. c \<noteq> CHR ''/'') (rev p))"
  obtain t where t: "p = q @ t" unfolding q_def using rev_dropWhile_prefix by blast
  have "\<exists>c \<in> set p. \<not> c \<noteq> CHR ''/''" using assms by (cases p) auto
  then have "q \<noteq> ''''" unfolding q_def by (simp add: dropWhile_eq_Nil_conv)
  then have "IsAbs q" using assms t IsAbs_append[of q t] by simp
  then show ?thesis by (simp add: Dir_def q_def)
qed

lemma resolved_root_clean:
  assumes "Resolve getenv raw dir = Inr c" and "IsAbs dir" and "wc_Root (cfg_Workspace c) \<noteq> ''''"
  shows "IsAbs (wc_Root (cfg_Workspace c)) \<and> Clean (wc_Root (cfg_Workspace c)) = wc_Root (cfg_Workspace c)"
proof -
  have "dir \<noteq> ''''" using assms(2) by auto
  then show ?thesis using resolved_root[OF assms(1)] assms(2,3) by (auto simp: Let_def IsAbs_Join2 split: if_splits)
qed


section \<open>The configurations of the loop\<close>

definition configs :: "'w Scheduler \<Rightarrow> Config \<times> Config" where
  "configs s = (sc_cfg s, sc_lastGood s)"

lemma configs_simps [simp]:
  "configs (bump s) = configs s" "configs (publish s) = configs s" "configs (log_call c s) = configs s"
  "configs (s\<lparr>sc_cur := x\<rparr>) = configs s" "configs (s\<lparr>sc_workers := ws\<rparr>) = configs s"
  "configs (s\<lparr>sc_timers := ts\<rparr>) = configs s" "configs (s\<lparr>sc_interval := i\<rparr>) = configs s"
  "configs (s\<lparr>sc_cfg := cfg\<rparr>) = (cfg, sc_lastGood s)"
  by (simp_all add: configs_def bump_def publish_def log_call_def)

lemma exec_io_configs: "exec_io d s eff = (s', ev) \<Longrightarrow> configs s' = configs s"
  by (cases eff) (auto simp: execFetchCandidates_def execRefreshTracker_def execRevalidate_def execRetryFetch_def
      execSpawn_def execKillWorker_def execRemoveWorkspace_def armTimer_def cancelTimer_def Let_def
      split: option.splits sum.splits if_splits)

lemma step_configs:
  "configs (step d s ev) = configs s" "configs (exec d s eff) = configs s" "configs (exec_all d s effs) = configs s"
proof (induction d s ev and d s eff and d s effs rule: step_exec_exec_all.induct)
  case (1 d s ev)
  then show ?case by (simp add: step.simps split: prod.split)
next
  case (2 d s eff)
  then show ?case using exec_io_configs[of d s eff] by (simp add: exec.simps split: prod.split option.split)
qed simp_all

text \<open>Every configuration that passes the preflight check, and the two the loop holds, satisfy \<open>P\<close>.\<close>

definition deps_configs :: "(Config \<Rightarrow> bool) \<Rightarrow> 'w Deps \<Rightarrow> bool" where
  "deps_configs P d \<longleftrightarrow> (\<forall>n cfg tmpl. dp_Workflow d n = Inr (cfg, tmpl) \<and> Preflight cfg = None \<longrightarrow> P cfg)"

lemma deps_configsD: "deps_configs P d \<Longrightarrow> dp_Workflow d n = Inr (cfg, tmpl) \<Longrightarrow> Preflight cfg = None \<Longrightarrow> P cfg"
  by (auto simp: deps_configs_def)

definition config_inv :: "(Config \<Rightarrow> bool) \<Rightarrow> 'w Deps \<Rightarrow> 'w Scheduler \<Rightarrow> bool" where
  "config_inv P d s \<longleftrightarrow> deps_configs P d \<and> P (fst (configs s)) \<and> P (snd (configs s))"

lemma config_inv_same: "config_inv P d s \<Longrightarrow> configs s' = configs s \<Longrightarrow> config_inv P d s'"
  by (simp add: config_inv_def)

lemma config_inv_step: "config_inv P d s \<Longrightarrow> config_inv P d (step d s ev)"
  by (erule config_inv_same) (rule step_configs)

lemma config_inv_reload:
  assumes "config_inv P d s" and "reloadConfig d s = (s', cfg, valid)"
  shows "config_inv P d (s'\<lparr>sc_cfg := cfg\<rparr>) \<and> config_inv P d s'"
  using assms deps_configsD[of P d "sc_io s" cfg]
  by (auto simp: config_inv_def configs_def reloadConfig_def markDegraded_def bump_def
      split: sum.splits option.splits if_splits)

lemma config_inv_tick: "config_inv P d s \<Longrightarrow> config_inv P d (tick d s)"
  using config_inv_reload[of P d s] by (auto simp: tick_def split: prod.split intro: config_inv_step)

lemma config_inv_turn:
  assumes "config_inv P d s"
  shows "config_inv P d (loop_turn d s ev)"
proof (cases ev)
  case (RetryFire req)
  let ?s = "s\<lparr>sc_timers := AList.delete (rf_IssueID req) (sc_timers s)\<rparr>"
  have "config_inv P d ?s" using assms by (rule config_inv_same) simp
  obtain s' cfg valid where r: "reloadConfig d ?s = (s', cfg, valid)" by (metis prod_cases3)
  have i: "config_inv P d (s'\<lparr>sc_cfg := cfg\<rparr>)" "config_inv P d s'" using config_inv_reload[OF \<open>config_inv P d ?s\<close> r] by auto
  have "configs (armTimer s'' a b c e) = configs s''" for s'' :: "'a Scheduler" and a b c e by (simp add: armTimer_def)
  then show ?thesis
    using RetryFire i by (cases valid) (auto simp: handleRetryFire_def r Let_def split: option.split
      intro: config_inv_step config_inv_same[OF i(2)])
next
  case (WorkerDone i err a)
  let ?s = "s\<lparr>sc_workers := AList.delete i (sc_workers s)\<rparr>"
  have "config_inv P d ?s" using assms by (rule config_inv_same) simp
  moreover obtain s' cfg valid where r: "reloadConfig d ?s = (s', cfg, valid)" by (metis prod_cases3)
  ultimately show ?thesis using WorkerDone config_inv_reload[of P d ?s] by (auto intro: config_inv_step)
next
  case (CodexActivity x1 x2 x3 x4 x5 x6 x7 x8)
  then show ?thesis using assms by (auto intro: config_inv_step)
qed (use config_inv_tick[OF assms] in \<open>auto simp: applyInterval_def Let_def intro: config_inv_same\<close>)

interpretation config_loop: reducer "loop_turn d" "\<lambda>_ _. True" "config_inv P d"
  for d :: "'w Deps" and P :: "Config \<Rightarrow> bool"
  by unfold_locales (rule config_inv_turn)

lemma config_inv_startup: "config_inv P d s \<Longrightarrow> config_inv P d (StartupCleanup d s)"
proof -
  have "configs (fold (\<lambda>iss s. log_call (CallRemove (iss_Identifier iss)) (bump s)) issues s) = configs s"
    for issues :: "Issue list" and s :: "'a Scheduler"
    by (induction issues arbitrary: s) auto
  then show "config_inv P d s \<Longrightarrow> config_inv P d (StartupCleanup d s)"
    by (auto simp: StartupCleanup_def split: sum.split intro: config_inv_same)
qed

lemma Run_configs:
  assumes "config_inv P d (SchedShell.New cfg tmpl)"
  shows "config_inv P d (Run d (SchedShell.New cfg tmpl) evs)"
  unfolding Run_def
  by (rule config_loop.run_inv) (simp_all add: assms config_inv_tick config_inv_startup)

lemma loaded_valid:
  assumes "load_workflow getenv unmarshal readFile path n = Inr (cfg, tmpl)" and "Preflight cfg = None" and "IsAbs path"
  shows "valid_config cfg"
proof -
  obtain raw where r: "Resolve getenv raw (Dir path) = Inr cfg"
    using assms(1) by (auto simp: load_workflow_def split: sum.splits)
  have caps: "caps_ok (ac_MaxConcurrentAgentsByState (cfg_Agent cfg))"
  proof (rule Resolve_sections[OF r])
    fix t p w h a x s
    assume c: "cfg = normalizeWorkspaceRoot (Dir path) (expandFields getenv (applyDefaults getenv raw
        \<lparr>cfg_Tracker = t, cfg_Polling = p, cfg_Workspace = w, cfg_Hooks = h, cfg_Agent = a, cfg_Codex = x, cfg_Server = s\<rparr>))"
      and ar: "agent_read (submap raw ''agent'') a"
    have "cfg_Agent cfg = applyAgentDefaults (submap raw ''agent'') a" by (simp add: c applyDefaults_def)
    then show ?thesis using agent_filled[OF ar] by (metis caps_ok_setting)
  qed
  have "validate cfg = None" by (rule Resolve_sections[OF r])
  then show ?thesis
    using caps assms(2) resolved_root_clean[OF r IsAbs_Dir[OF assms(3)]]
    by (auto simp: valid_config_def validate_positive)
qed


lemma startup_config_inv:
  assumes "startup getenv unmarshal readFile0 path = Some (cfg, tmpl)" and "IsAbs path"
    and "dp_Workflow d = load_workflow getenv unmarshal readFile path"
  shows "config_inv valid_config d (SchedShell.New cfg tmpl)"
proof -
  have "valid_config cfg"
    using assms(1,2) loaded_valid[of getenv unmarshal readFile0 path 0 cfg tmpl]
    by (auto simp: startup_def split: sum.splits if_splits)
  moreover have "deps_configs valid_config d"
    using loaded_valid assms(2,3) by (auto simp: deps_configs_def)
  ultimately show ?thesis by (simp add: config_inv_def configs_def SchedShell.New_def publish_def)
qed

end
