(* ===== verification/Spec2Isabelle.thy ===== *)
theory Spec2Isabelle
  imports SchedProps HostProps HostConnProps HostRepoProps HostCapsuleProps ArgCommandProps
    AgentRunnerProps AgentHandler Orchestrator
begin

text \<open>
  Verification of agent-grid.

  agent-grid runs coding agents. Three of its parts are modelled here. The \<^emph>\<open>orchestrator\<close>
  (\<open>services/orchestrator\<close>) reads a workflow file, polls an issue tracker and keeps a bounded number of
  agents working on the issues, each in a workspace of its own. The \<^emph>\<open>host\<close> (\<open>services/host\<close>) owns
  the sessions a user sees: their frames (one agent process each), the approvals and questions the agents raise, the client connections, the repository
  clones and the resume capsules. The \<^emph>\<open>launch code\<close> (\<open>services/platform/agentlaunch\<close>,
  \<open>services/platform/lib\<close>, \<open>services/host/driver/worktree.go\<close>) turns command lines into argument vectors
  and back. The scheduler and the host are built the same way: a pure reducer folds an event into a
  state and a list of effects, and a loop around it executes the effects. The reducers are modelled
  whole; of the loops, the scheduler's is modelled and the host's is the sequence of events it feeds in.

  \<^bold>\<open>Conventions.\<close> \<open>GoBase\<close>, \<open>GoText\<close>, \<open>GoHash\<close> and \<open>GoPath\<close> model what the sources use of Go: maps as association
  lists (iteration order is list order; where a result depends on it, its theorem says so), strings as byte lists,
  \<open>time.Time\<close> and \<open>time.Duration\<close> as integers in nanoseconds, \<open>uint64\<close> and \<open>uint16\<close> counters
  and \<open>int64\<close> token counts as words, the \<open>int64\<close> sums and products of durations with their wrap-around, pointers as options, errors as sums, panics as
  a constructor of the outcome, \<open>strings.TrimSpace\<close>, UTF-8 decoding, FNV-1a and SHA-256, and the lexical part of
  \<open>path/filepath\<close> on Unix (\<open>Clean\<close>, \<open>Join\<close>, \<open>Rel\<close>). \<open>strings.ToLower\<close> is modelled on ASCII, and the conversion of
  a float to an integer as amd64 does it. The clock, the tracker, the launcher, the file system, the shell,
  the random source, YAML and JSON decoding, the template engine and the agent drivers are parameters.

  \<^bold>\<open>Scheduler\<close> (\<open>services/orchestrator/scheduler\<close>).
  \<^item> \<open>Metrics\<close>: token and runtime accounts (\<open>platform/metrics\<close>). \<open>WfConfig\<close>: the configuration records.
  \<^item> \<open>SchedState\<close>: \<open>State\<close>, its transitions (\<open>transitions.go\<close>), slots, delays and the snapshot.
  \<^item> \<open>SchedReduce\<close>: events, effects, eligibility, candidate order and every handler of \<open>reduce*.go\<close>.
  \<^item> \<open>SchedShell\<close>: the loop of \<open>scheduler.go\<close> and \<open>effects_exec.go\<close> with its retry timers; \<open>step\<close> and
    \<open>exec\<close> recurse through the effects, and the rank of events and effects proves that they end.
  \<^item> \<open>SchedInv\<close>, \<open>SchedDrain\<close>: the invariant of the maps, kept by every handler and by the drain of
    effects. \<open>SchedStarve\<close>, \<open>SchedDecide\<close>: the lost issue of a failed spawn, and single decisions.
  \<^item> \<open>SchedProps\<close>: the concurrency bound, no duplicate launch, backed claims, consistency, the dispatch
    pass, stall detection, reconciliation, delays and their overflow, termination of the feedback.

  \<^bold>\<open>Workflow file and configuration\<close> (\<open>services/orchestrator/workflowfile\<close>, \<open>wfconfig\<close>).
  \<^item> \<open>WorkflowFile\<close>: \<open>Load\<close> and \<open>Parse\<close>; the theorem reads back the front matter and the body between fences.
  \<^item> \<open>WfResolve\<close>: \<open>Resolve\<close> with its coercions, decoders, defaults, expansions and validation.
    \<open>WfResolveProps\<close>: every setting is the coerced value of its key or the default, where the workspaces lie,
    and when the caps per state depend on the iteration order of a map.
  \<^item> \<open>Orchestrator\<close>: the start-up of \<open>cmd/orchestrator\<close> and the reload of the scheduler on top of both. The
    theorem at the end of this theory composes them with the scheduler loop: it never holds a configuration
    that failed a check.

  \<^bold>\<open>Workspaces and agent workers\<close> (\<open>services/orchestrator/workspace\<close>, \<open>agent\<close>, \<open>prompt\<close>).
  \<^item> \<open>Workspace\<close>: paths, containment, creation, removal and hooks over a file system and a shell given as a
    record of functions on a world. \<open>WorkspaceProps\<close>: the path of an identifier, containment with symbolic links
    resolved, and that no workspace is handed out before its hook has succeeded. The file system is assumed to
    honour a removal that reports success and a creation that reports failure (\<open>os_ok\<close>).
  \<^item> \<open>AgentRunner\<close>: \<open>spawnWith\<close> and \<open>runLoop\<close> with everything they call, as a function that returns the actions
    taken and the events emitted. The outcome of every \<open>select\<close>, of every call to the agent, and the events its
    message handler emits beside the worker are answers of the environment, so the theorems hold for every
    interleaving those answers can show. Time stamps of events are left out.
    \<open>AgentRunnerProps\<close>: the workspace is released exactly once and after the agent has ended, the turns
    follow the protocol within the turn limit, and agents are launched in the workspace of their issue only.
  \<^item> \<open>AgentHandler\<close>: \<open>OnNotification\<close> and \<open>OnServerRequest\<close> on decoded messages; one reply per request and one
    result per turn.

  \<^bold>\<open>Host\<close> (\<open>services/host/state\<close>).
  \<^item> \<open>HostTypes\<close>, \<open>HostState\<close>, \<open>HostEvents\<close>: the data, \<open>State\<close>, events, effects, the driver interface.
  \<^item> \<open>HostFrames\<close>, \<open>HostSession\<close>: sessions, frames, most-recently-used lists, eviction and teardown.
    \<open>NestedMap\<close>: the two-level maps of pending requests. \<open>HostApproval\<close>, \<open>HostQuestion\<close>: human input.
    \<open>HostConn\<close>: connections, surfaces, shutdown. \<open>HostRepo\<close>: repository preparations. \<open>HostCapsule\<close>: resume
    capsules. \<open>HostMessages\<close>: session messages. \<open>HostReduce\<close>: \<open>Reduce\<close>, running and quiescing.
  \<^item> \<open>HostCore\<close>, \<open>HostHuman\<close>, \<open>HostSessInv\<close>, \<open>HostStep\<close>, \<open>HostInv\<close>, \<open>HostSide\<close>: what each handler does to the
    sessions, to the requests and to the rest of the state, up to one step lemma for \<open>Reduce\<close>.
  \<^item> \<open>HostRun\<close>: runs of the reducer, invariants along them, and the sample environment of the witnesses.
  \<^item> \<open>HostProps\<close>: the host invariant, complete teardown, the life of an approval, exactly one reply
    per settled request, expiry, panics, quiescing. \<open>HostConnProps\<close>: surface limits and shutdown
    answers. \<open>HostRepoProps\<close>: the refinement of the preparation machine, permanence of available
    preparations and the revision fence. \<open>HostCapsuleProps\<close>: back-off after a failed generation.

  The host theorems assume of the drivers that their effects are of the kinds a driver may return
  (\<open>drivers_ok\<close>), and of a run that a freshly drawn session identifier is not in use (\<open>fresh_draw\<close>,
  12 random bytes). Both are instantiated by the sample environment.

  \<^bold>\<open>Command lines.\<close> \<open>ArgLex\<close> models the tokenizer and the joiner, \<open>ArgCommands\<close> the flag rewriting and the
  Claude, Codex and Grok command parsers and builders. \<open>ArgLexProps\<close> shows that the two passes of the
  tokenizer agree and that it undoes the joiner; \<open>ArgCommandProps\<close> that a rewritten command
  tokenizes to the rewritten arguments and that the parsers read what the builders wrote.

  \<^bold>\<open>Bounds and fuel.\<close> The models are total functions without fuel, but for the splitting of a message
  into SHA-256 blocks, whose fuel is the length of the message. The loop over the turns of an agent ends by the
  turn limit, which is its termination measure.

  \<^bold>\<open>Not modelled.\<close> Goroutines, channels, sockets, processes and files around the reducers
  (\<open>services/host/runtime\<close>, \<open>services/server\<close>, \<open>services/cmd\<close>); JSON codecs and wire structs
  (\<open>services/host/proto\<close>, the generated \<open>codexschema\<close>); the agent drivers beyond their flag rewriting;
  transcript readers and hook installers; deep copies (\<open>clone.go\<close>), which are the identity in a model
  without aliasing; the Linear client, the HTTP dashboard
  and the Codex client of the orchestrator; the clients.
\<close>

section \<open>From the workflow file to the scheduler loop\<close>

text \<open>C9: The orchestrator never works with an unchecked configuration. Started on a workflow file at an absolute
  path, and reloading that file before every decision, whatever it holds by then and in whatever order
  ticks, exits, retries and reloads arrive, the scheduler's configuration and its last good one pass the
  preflight check, have a positive hook timeout, positive turn and read timeouts of the agent (the stall
  timeout may be zero or below, which turns stall detection off), a positive polling interval and turn limit, positive caps
  under lower-case state names, and a root that is absolute and clean or empty.\<close>

theorem configuration_always_valid:
  assumes "startup getenv unmarshal readFile0 path = Some (cfg, tmpl)" and "IsAbs path"
    and "dp_Workflow d = load_workflow getenv unmarshal readFile path"
  shows "valid_config (sc_cfg (Run d (SchedShell.New cfg tmpl) evs)) \<and>
    valid_config (sc_lastGood (Run d (SchedShell.New cfg tmpl) evs))"
  using Run_configs[OF startup_config_inv[OF assms]] by (simp add: config_inv_def configs_def)

definition sample_getenv :: "string \<Rightarrow> string" where
  "sample_getenv n = (if n = ''LINEAR_API_KEY'' then ''key'' else '''')"

definition sample_unmarshal :: "string \<Rightarrow> string + yaml" where
  "sample_unmarshal t = Inr (YMap [(''tracker'', YMap [(''kind'', YStr ''linear''), (''project_slugs'', YSeq [YStr ''ag''])])])"

text \<open>A file that can be read once and is gone afterwards.\<close>

definition sample_file :: "nat \<Rightarrow> string \<Rightarrow> string + string" where
  "sample_file n path = (if n = 0 then Inr (fence @ newline # newline # fence) else Inl ''gone'')"

lemma sample_startup:
  obtains cfg tmpl where "startup sample_getenv sample_unmarshal sample_file ''/repo/WORKFLOW.md'' = Some (cfg, tmpl)"
proof -
  have "startup sample_getenv sample_unmarshal sample_file ''/repo/WORKFLOW.md'' \<noteq> None" by code_simp
  then show thesis using that by auto
qed

theorem configuration_always_valid_witness:
  "\<exists>cfg tmpl. startup sample_getenv sample_unmarshal sample_file ''/repo/WORKFLOW.md'' = Some (cfg, tmpl) \<and>
     valid_config (sc_cfg (Run ((demo_deps True)\<lparr>dp_Workflow := load_workflow sample_getenv sample_unmarshal sample_file
       ''/repo/WORKFLOW.md''\<rparr>) (SchedShell.New cfg tmpl) [TickerC, ReloadCh]))"
proof (rule sample_startup)
  fix cfg tmpl
  assume s: "startup sample_getenv sample_unmarshal sample_file ''/repo/WORKFLOW.md'' = Some (cfg, tmpl)"
  then show ?thesis
    using configuration_always_valid[OF s, of "(demo_deps True)\<lparr>dp_Workflow := load_workflow sample_getenv sample_unmarshal
      sample_file ''/repo/WORKFLOW.md''\<rparr>" sample_file "[TickerC, ReloadCh]"] by simp
qed

end
